(* ===== verification/Prelude.thy ===== *)
theory Prelude
  imports Main "HOL-Library.Sublist" "HOL-Library.Char_ord" "HOL-Library.List_Lexorder"
    "HOL-Library.Product_Lexorder"
begin

text \<open>
  Shared vocabulary of the development: Go strings as byte lists, the functions of the standard
  packages \<open>strings\<close>, \<open>strconv\<close> and \<open>sort\<close> that the relay calls, and results of fallible
  operations as sums.

  A Go string is a sequence of bytes, so a \<^typ>\<open>string\<close> here is one \<^typ>\<open>char\<close> per byte.
  \<open>TrimSpace\<close> and \<open>Fields\<close> recognise every white-space code point of Go's \<open>unicode.IsSpace\<close> in
  its UTF-8 encoding. \<open>ToLower\<close> maps the ASCII letters and leaves every other byte as it is; Go
  also maps non-ASCII letters, so the model coincides with Go on ASCII text (which host names,
  profile names and schemes are). A Go function that returns \<open>(value, error)\<close> returns
  \<open>'e + 'a\<close>, with \<^const>\<open>Inl\<close> for the error branch.
\<close>

named_theorems go_strings
named_theorems relay_defs

section \<open>Results\<close>

text \<open>
  A Go \<open>error\<close> value is the constant part of its message: operands that \<open>fmt.Errorf\<close> formats into
  it are left out, a wrapped error is kept. Control flow never depends on these texts; one classifier
  of verification errors reads them to label a metric. A run-time
  panic (a nil dereference) is neither a value nor an error: \<open>Panics\<close> of \<open>'a exec\<close>.
\<close>

datatype 'a exec = Returns 'a | Panics

type_synonym 'a result = "string + 'a"

abbreviation is_ok :: "'e + 'a \<Rightarrow> bool" where
  "is_ok r \<equiv> \<not> isl r"

fun bind_result :: "'e + 'a \<Rightarrow> ('a \<Rightarrow> 'e + 'b) \<Rightarrow> 'e + 'b" where
  "bind_result (Inl e) f = Inl e"
| "bind_result (Inr x) f = f x"

lemma bind_result_Inr_iff:
  "bind_result r f = Inr y \<longleftrightarrow> (\<exists>x. r = Inr x \<and> f x = Inr y)"
  by (cases r) auto

lemma is_ok_iff: "is_ok r \<longleftrightarrow> (\<exists>x. r = Inr x)"
  by (cases r) auto

section \<open>The package strings\<close>

definition has_prefix :: "string \<Rightarrow> string \<Rightarrow> bool" where
  "has_prefix s p \<longleftrightarrow> take (length p) s = p"

definition has_suffix :: "string \<Rightarrow> string \<Rightarrow> bool" where
  "has_suffix s p \<longleftrightarrow> length p \<le> length s \<and> drop (length s - length p) s = p"

definition trim_prefix :: "string \<Rightarrow> string \<Rightarrow> string" where
  "trim_prefix s p = (if has_prefix s p then drop (length p) s else s)"

definition trim_suffix :: "string \<Rightarrow> string \<Rightarrow> string" where
  "trim_suffix s p = (if has_suffix s p then take (length s - length p) s else s)"

lemma has_prefix_simps [simp]:
  "has_prefix s []" "\<not> has_prefix [] (d # p)"
  "has_prefix (c # s) (d # p) \<longleftrightarrow> c = d \<and> has_prefix s p"
  by (simp_all add: has_prefix_def)

lemma has_prefix_append [simp]: "has_prefix (p @ s) p"
  by (simp add: has_prefix_def)

lemma trim_prefix_append [simp]: "trim_prefix (p @ s) p = s"
  by (simp add: trim_prefix_def)

lemma has_prefix_iff: "has_prefix s p \<longleftrightarrow> (\<exists>r. s = p @ r)"
  by (metis append_eq_conv_conj append_take_drop_id has_prefix_def)

lemma has_prefixD: "has_prefix s p \<Longrightarrow> s = p @ trim_prefix s p"
  by (auto simp: has_prefix_iff)

definition lower_char :: "char \<Rightarrow> char" where
  "lower_char c = (if 65 \<le> (of_char c :: nat) \<and> (of_char c :: nat) \<le> 90
                   then char_of (of_char c + 32 :: nat) else c)"

definition to_lower :: "string \<Rightarrow> string" where
  "to_lower s = map lower_char s"

lemma lower_char_idem [simp]: "lower_char (lower_char c) = lower_char c"
  by (auto simp: lower_char_def)

lemma to_lower_idem [simp]: "to_lower (to_lower s) = to_lower s"
  by (simp add: to_lower_def)

lemma to_lower_append [simp]: "to_lower (s @ t) = to_lower s @ to_lower t"
  by (simp add: to_lower_def)

lemma to_lower_Nil [simp]: "to_lower [] = []"
  by (simp add: to_lower_def)

lemma length_to_lower [simp]: "length (to_lower s) = length s"
  by (simp add: to_lower_def)

text \<open>
  The code points of \<open>unicode.IsSpace\<close>, encoded in UTF-8: the six ASCII spaces, U+0085, U+00A0,
  U+1680, U+2000 to U+200A, U+2028, U+2029, U+202F, U+205F and U+3000.
\<close>

definition space_runes :: "string list" where
  "space_runes =
     map (\<lambda>n. [char_of n]) [9, 10, 11, 12, 13, 32 :: nat]
     @ map (\<lambda>n. [char_of (0xC2 :: nat), char_of n]) [0x85, 0xA0 :: nat]
     @ [[char_of (0xE1 :: nat), char_of (0x9A :: nat), char_of (0x80 :: nat)]]
     @ map (\<lambda>n. [char_of (0xE2 :: nat), char_of (0x80 :: nat), char_of n])
         ([0x80..<0x8B] @ [0xA8, 0xA9, 0xAF])
     @ [[char_of (0xE2 :: nat), char_of (0x81 :: nat), char_of (0x9F :: nat)],
        [char_of (0xE3 :: nat), char_of (0x80 :: nat), char_of (0x80 :: nat)]]"

lemma space_runes_code [code]:
  "space_runes =
    [[CHR 0x09], [CHR 0x0A], [CHR 0x0B], [CHR 0x0C], [CHR 0x0D], [CHR 0x20], [CHR 0xC2, CHR
     0x85], [CHR 0xC2, CHR 0xA0], [CHR 0xE1, CHR 0x9A, CHR 0x80], [CHR 0xE2, CHR 0x80, CHR 0x80],
     [CHR 0xE2, CHR 0x80, CHR 0x81], [CHR 0xE2, CHR 0x80, CHR 0x82], [CHR 0xE2, CHR 0x80, CHR
     0x83], [CHR 0xE2, CHR 0x80, CHR 0x84], [CHR 0xE2, CHR 0x80, CHR 0x85], [CHR 0xE2, CHR 0x80,
     CHR 0x86], [CHR 0xE2, CHR 0x80, CHR 0x87], [CHR 0xE2, CHR 0x80, CHR 0x88], [CHR 0xE2, CHR
     0x80, CHR 0x89], [CHR 0xE2, CHR 0x80, CHR 0x8A], [CHR 0xE2, CHR 0x80, CHR 0xA8], [CHR 0xE2,
     CHR 0x80, CHR 0xA9], [CHR 0xE2, CHR 0x80, CHR 0xAF], [CHR 0xE2, CHR 0x81, CHR 0x9F], [CHR
     0xE3, CHR 0x80, CHR 0x80]]"
  by code_simp

definition leading_rune :: "string list \<Rightarrow> string \<Rightarrow> string option" where
  "leading_rune rs s = find (\<lambda>r. r \<noteq> [] \<and> has_prefix s r) rs"

lemma leading_rune_Some:
  "leading_rune rs s = Some r \<Longrightarrow> r \<in> set rs \<and> r \<noteq> [] \<and> s = r @ drop (length r) s"
  by (auto simp: leading_rune_def find_Some_iff has_prefix_iff)

lemma leading_rune_None_append:
  "leading_rune rs (s @ t) = None \<Longrightarrow> leading_rune rs s = None"
  by (auto simp: leading_rune_def find_None_iff has_prefix_iff)

function trim_runes :: "string list \<Rightarrow> string \<Rightarrow> string" where
  "trim_runes rs s =
     (case leading_rune rs s of None \<Rightarrow> s | Some r \<Rightarrow> trim_runes rs (drop (length r) s))"
  by pat_completeness auto
termination
proof (relation "measure (\<lambda>(rs, s). length s)", simp)
  fix rs :: "string list" and s r :: string
  assume "leading_rune rs s = Some r"
  then have "r \<noteq> []" and "s = r @ drop (length r) s"
    by (auto dest: leading_rune_Some)
  then have "0 < length r" and "length r \<le> length s"
    by (metis length_greater_0_conv) (metis append_eq_conv_conj length_take min.cobounded1 \<open>s = r @ drop (length r) s\<close>)
  then have "length (drop (length r) s) < length s"
    unfolding length_drop by arith
  then show "((rs, drop (length r) s), (rs, s)) \<in> measure (\<lambda>(rs, s). length s)"
    by simp
qed

declare trim_runes.simps [simp del]

lemma trim_runes_None: "leading_rune rs s = None \<Longrightarrow> trim_runes rs s = s"
  by (subst trim_runes.simps) simp

lemma leading_rune_trim_runes: "leading_rune rs (trim_runes rs s) = None"
proof (induction rs s rule: trim_runes.induct)
  case (1 rs s)
  then show ?case
    by (cases "leading_rune rs s") (auto simp: trim_runes.simps [of rs s])
qed

lemma trim_runes_idem [simp]: "trim_runes rs (trim_runes rs s) = trim_runes rs s"
  by (rule trim_runes_None) (rule leading_rune_trim_runes)

lemma suffix_trim_runes: "\<exists>p. s = p @ trim_runes rs s"
proof (induction rs s rule: trim_runes.induct)
  case (1 rs s)
  show ?case
  proof (cases "leading_rune rs s")
    case None
    then show ?thesis by (simp add: trim_runes_None)
  next
    case (Some r)
    with 1 obtain p where "drop (length r) s = p @ trim_runes rs (drop (length r) s)"
      by blast
    moreover from Some have "s = r @ drop (length r) s"
      by (auto dest: leading_rune_Some)
    ultimately have "s = (r @ p) @ trim_runes rs s"
      using Some by (simp add: trim_runes.simps [of rs s])
    then show ?thesis by blast
  qed
qed

definition trim_left :: "string \<Rightarrow> string" where
  "trim_left s = trim_runes space_runes s"

definition trim_right :: "string \<Rightarrow> string" where
  "trim_right s = rev (trim_runes (map rev space_runes) (rev s))"

definition trim_space :: "string \<Rightarrow> string" where
  "trim_space s = trim_right (trim_left s)"

lemma prefix_trim_right: "\<exists>q. s = trim_right s @ q"
proof -
  obtain p where "rev s = p @ trim_runes (map rev space_runes) (rev s)"
    using suffix_trim_runes by blast
  then have "s = rev (trim_runes (map rev space_runes) (rev s)) @ rev p"
    by (metis rev_append rev_rev_ident)
  then show ?thesis by (auto simp: trim_right_def)
qed

lemma trim_space_idem [simp]: "trim_space (trim_space s) = trim_space s"
proof -
  obtain q where "trim_left s = trim_right (trim_left s) @ q"
    using prefix_trim_right by blast
  then have "leading_rune space_runes (trim_right (trim_left s)) = None"
    by (metis leading_rune_None_append leading_rune_trim_runes trim_left_def)
  then have "trim_left (trim_space s) = trim_space s"
    by (simp add: trim_space_def trim_left_def trim_runes_None)
  then show ?thesis
    by (simp add: trim_space_def trim_right_def)
qed

lemma trim_space_Nil [simp]: "trim_space [] = []"
  using prefix_trim_right [of "[]"] suffix_trim_runes [of "[]" space_runes]
  by (simp add: trim_space_def trim_left_def)

text \<open>Text of printable ASCII characters other than the space has nothing to trim.\<close>

definition graphic_char :: "char \<Rightarrow> bool" where
  "graphic_char c \<longleftrightarrow> 33 \<le> (of_char c :: nat) \<and> (of_char c :: nat) \<le> 126"

abbreviation graphic :: "string \<Rightarrow> bool" where
  "graphic s \<equiv> list_all graphic_char s"

lemma space_runes_not_graphic: "list_all (list_all (\<lambda>c. \<not> graphic_char c)) space_runes"
  by code_simp

lemma trim_runes_graphic:
  assumes "list_all (list_all (\<lambda>c. \<not> graphic_char c)) rs" and "graphic s"
  shows "trim_runes rs s = s"
proof (rule trim_runes_None, rule ccontr)
  assume "leading_rune rs s \<noteq> None"
  then obtain r where "r \<in> set rs" "r \<noteq> []" "s = r @ drop (length r) s"
    by (auto dest: leading_rune_Some)
  then have "hd r \<in> set r" "hd r \<in> set s"
    by (simp, metis append_is_Nil_conv hd_append2 hd_in_set)
  with assms \<open>r \<in> set rs\<close> show False
    by (auto simp: list_all_iff)
qed

lemma trim_space_graphic: "graphic s \<Longrightarrow> trim_space s = s"
  using space_runes_not_graphic
  by (simp add: trim_space_def trim_left_def trim_right_def trim_runes_graphic list.pred_map
      list_all_iff comp_def)

lemma length_trim_space: "length (trim_space s) \<le> length s"
proof -
  obtain p where "s = p @ trim_left s"
    using suffix_trim_runes by (auto simp: trim_left_def)
  moreover obtain q where "trim_left s = trim_space s @ q"
    using prefix_trim_right by (auto simp: trim_space_def)
  ultimately have "length s = length p + (length (trim_space s) + length q)"
    by (metis length_append)
  then show ?thesis by simp
qed


text \<open>
  \<open>strings.Cut\<close> at the first occurrence of a one-byte separator, the split at its last occurrence
  (\<open>strings.LastIndex\<close>), \<open>strings.Split\<close>, \<open>strings.Contains\<close>, \<open>strings.Join\<close>.
\<close>

definition cut :: "char \<Rightarrow> string \<Rightarrow> string \<times> string" where
  "cut c s = (takeWhile (\<lambda>x. x \<noteq> c) s, tl (dropWhile (\<lambda>x. x \<noteq> c) s))"

definition last_cut :: "char \<Rightarrow> string \<Rightarrow> (string \<times> string) option" where
  "last_cut c s =
     (if c \<in> set s
      then Some (rev (tl (dropWhile (\<lambda>x. x \<noteq> c) (rev s))), rev (takeWhile (\<lambda>x. x \<noteq> c) (rev s)))
      else None)"

lemma cut_notin [simp]: "c \<notin> set s \<Longrightarrow> cut c s = (s, [])"
  by (induction s) (auto simp: cut_def)

lemma cut_append: "c \<notin> set a \<Longrightarrow> cut c (a @ c # b) = (a, b)"
  by (induction a) (auto simp: cut_def)

lemma last_cut_notin [simp]: "c \<notin> set s \<Longrightarrow> last_cut c s = None"
  by (simp add: last_cut_def)

lemma last_cut_append: "c \<notin> set b \<Longrightarrow> last_cut c (a @ c # b) = Some (a, b)"
proof -
  assume "c \<notin> set b"
  then have "cut c (rev b @ c # rev a) = (rev b, rev a)"
    by (simp add: cut_append)
  then show ?thesis
    by (simp add: last_cut_def cut_def)
qed

lemma last_cut_SomeD: "last_cut c s = Some (a, b) \<Longrightarrow> s = a @ c # b \<and> c \<notin> set b"
proof -
  assume *: "last_cut c s = Some (a, b)"
  then have "c \<in> set s" by (cases "c \<in> set s") simp_all
  then obtain a' b' where "s = a' @ c # b'" and "c \<notin> set b'"
    by (meson split_list_last)
  with * show ?thesis by (simp add: last_cut_append)
qed

fun split_on :: "char \<Rightarrow> string \<Rightarrow> string list" where
  "split_on c [] = [[]]"
| "split_on c (x # xs) =
     (if x = c then [] # split_on c xs
      else (case split_on c xs of [] \<Rightarrow> [[x]] | y # ys \<Rightarrow> (x # y) # ys))"

fun has_sub :: "string \<Rightarrow> string \<Rightarrow> bool" where
  "has_sub [] p = (p = [])"
| "has_sub (c # s) p = (has_prefix (c # s) p \<or> has_sub s p)"

fun join :: "string \<Rightarrow> string list \<Rightarrow> string" where
  "join sep [] = []"
| "join sep [x] = x"
| "join sep (x # y # xs) = x @ sep @ join sep (y # xs)"

lemma split_on_not_Nil [simp]: "split_on c s \<noteq> []"
  by (induction s) (auto split: list.splits)

lemma join_split_on: "join [c] (split_on c s) = s"
proof (induction s)
  case (Cons x xs)
  then show ?case
    by (cases "split_on c xs" rule: list.exhaust; cases "tl (split_on c xs)") auto
qed simp

text \<open>\<open>strings.Fields\<close>: the maximal runs of non-space code points.\<close>

fun span_word :: "string \<Rightarrow> string \<times> string" where
  "span_word [] = ([], [])"
| "span_word (c # cs) =
     (if leading_rune space_runes (c # cs) \<noteq> None then ([], c # cs)
      else (case span_word cs of (w, r) \<Rightarrow> (c # w, r)))"

lemma length_span_word: "span_word s = (w, r) \<Longrightarrow> s = w @ r"
  by (induction s arbitrary: w r) (auto split: if_splits prod.splits)

lemma span_word_less:
  assumes "(w, r) = span_word (trim_left s)" and "w \<noteq> []"
  shows "length r < length s"
proof -
  from assms have "trim_left s = w @ r" and "0 < length w"
    by (auto intro: length_span_word)
  moreover obtain p where "s = p @ trim_left s"
    using suffix_trim_runes by (auto simp: trim_left_def)
  ultimately have "length s = length p + (length w + length r)"
    by (metis length_append)
  with \<open>0 < length w\<close> show ?thesis by simp
qed

function fields :: "string \<Rightarrow> string list" where
  "fields s =
     (case span_word (trim_left s) of (w, r) \<Rightarrow> if w = [] then [] else w # fields r)"
  by pat_completeness auto
termination
  by (relation "measure length") (auto intro: span_word_less)

declare fields.simps [simp del]

text \<open>
  \<open>strings.EqualFold\<close> against an ASCII constant: ASCII letters fold to lower case, and the two
  non-ASCII code points whose simple case folding is an ASCII letter, U+017F (long s) and U+212A
  (Kelvin sign), fold to it.
\<close>

fun fold_key :: "string \<Rightarrow> string" where
  "fold_key [] = []"
| "fold_key (c # s) =
     (if has_prefix (c # s) [char_of (0xC5 :: nat), char_of (0xBF :: nat)]
      then CHR ''s'' # fold_key (drop 1 s)
      else if has_prefix (c # s) [char_of (0xE2 :: nat), char_of (0x84 :: nat), char_of (0xAA :: nat)]
      then CHR ''k'' # fold_key (drop 2 s)
      else lower_char c # fold_key s)"

definition equal_fold :: "string \<Rightarrow> string \<Rightarrow> bool" where
  "equal_fold s t \<longleftrightarrow> fold_key s = fold_key t"

section \<open>The package strconv\<close>

text \<open>
  \<open>ParseInt\<close> and \<open>ParseUint\<close> in base ten. Besides the error they return a value: 0 on a syntax
  error and the nearest bound on a range error.
\<close>

datatype num_result = NumOk int | NumSyntax | NumRange int

definition is_digit :: "char \<Rightarrow> bool" where
  "is_digit c \<longleftrightarrow> 48 \<le> (of_char c :: nat) \<and> (of_char c :: nat) \<le> 57"

definition digit_value :: "char \<Rightarrow> nat" where
  "digit_value c = of_char c - 48"

definition digits_value :: "string \<Rightarrow> nat" where
  "digits_value s = foldl (\<lambda>n c. 10 * n + digit_value c) 0 s"

definition parse_uint :: "nat \<Rightarrow> string \<Rightarrow> num_result" where
  "parse_uint bits s =
     (if s = [] \<or> \<not> list_all is_digit s then NumSyntax
      else if 2 ^ bits \<le> digits_value s then NumRange (2 ^ bits - 1)
      else NumOk (int (digits_value s)))"

definition parse_int64 :: "string \<Rightarrow> num_result" where
  "parse_int64 s =
     (let neg = has_prefix s ''-''; t = (if neg \<or> has_prefix s ''+'' then tl s else s)
      in if t = [] \<or> \<not> list_all is_digit t then NumSyntax
         else let v = (if neg then - int (digits_value t) else int (digits_value t))
              in if v < - (2 ^ 63) then NumRange (- (2 ^ 63))
                 else if 2 ^ 63 \<le> v then NumRange (2 ^ 63 - 1)
                 else NumOk v)"

fun num_value :: "num_result \<Rightarrow> int" where
  "num_value (NumOk v) = v"
| "num_value NumSyntax = 0"
| "num_value (NumRange v) = v"

definition digit_char :: "nat \<Rightarrow> char" where
  "digit_char d = char_of (48 + d)"

fun show_nat :: "nat \<Rightarrow> string" where
  "show_nat n = (if n < 10 then [digit_char n] else show_nat (n div 10) @ [digit_char (n mod 10)])"

declare show_nat.simps [simp del]

text \<open>\<open>strconv.FormatInt\<close> and \<open>Itoa\<close> in base ten.\<close>

definition show_int :: "int \<Rightarrow> string" where
  "show_int i = (if i < 0 then CHR ''-'' # show_nat (nat (- i)) else show_nat (nat i))"

lemma of_char_digit_char [simp]: "d < 10 \<Longrightarrow> (of_char (digit_char d) :: nat) = 48 + d"
  by (simp add: digit_char_def)

lemma is_digit_digit_char [simp]: "d < 10 \<Longrightarrow> is_digit (digit_char d)"
  by (simp add: is_digit_def)

lemma digit_value_digit_char [simp]: "d < 10 \<Longrightarrow> digit_value (digit_char d) = d"
  by (simp add: digit_value_def)

lemma digits_value_snoc [simp]: "digits_value (s @ [c]) = 10 * digits_value s + digit_value c"
  by (simp add: digits_value_def)

lemma show_nat_digits: "list_all is_digit (show_nat n)"
proof (induction n rule: show_nat.induct)
  case (1 n)
  then show ?case by (subst show_nat.simps) auto
qed

lemma show_nat_not_Nil [simp]: "show_nat n \<noteq> []"
  by (subst show_nat.simps) simp

lemma digits_value_show_nat [simp]: "digits_value (show_nat n) = n"
proof (induction n rule: show_nat.induct)
  case (1 n)
  show ?case
  proof (cases "n < 10")
    case True
    then show ?thesis
      by (subst show_nat.simps) (simp add: digits_value_def)
  next
    case False
    with 1 show ?thesis
      by (subst show_nat.simps) simp
  qed
qed

lemma hd_show_nat_digit: "is_digit (hd (show_nat n))"
  using show_nat_digits [of n] by (cases "show_nat n") auto

lemma show_nat_no_sign [simp]:
  "\<not> has_prefix (show_nat n) ''-''" "\<not> has_prefix (show_nat n) ''+''"
  using hd_show_nat_digit [of n] by (auto simp: has_prefix_iff is_digit_def)

lemma parse_int64_show_int:
  "- (2 ^ 63) \<le> i \<Longrightarrow> i < 2 ^ 63 \<Longrightarrow> parse_int64 (show_int i) = NumOk i"
  by (cases "i < 0")
     (simp_all add: parse_int64_def show_int_def show_nat_digits Let_def)

lemma parse_uint_show_nat: "n < 2 ^ bits \<Longrightarrow> parse_uint bits (show_nat n) = NumOk (int n)"
  using show_nat_digits by (auto simp: parse_uint_def)

lemma parse_uint_NumOk: "parse_uint bits s = NumOk v \<Longrightarrow> 0 \<le> v \<and> v < 2 ^ bits"
  by (auto simp: parse_uint_def split: if_splits)

lemma show_int_not_Nil [simp]: "show_int i \<noteq> []"
  by (simp add: show_int_def)

lemma show_nat_inject [simp]: "show_nat m = show_nat n \<longleftrightarrow> m = n"
  by (metis digits_value_show_nat)

lemma show_nat_0 [simp]: "show_nat 0 = ''0''"
  by code_simp

lemma show_nat_1 [simp]: "show_nat (Suc 0) = ''1''"
  by code_simp

section \<open>The package sort\<close>

text \<open>
  \<open>sort.Search\<close>: the binary search for the smallest index in \<open>[i, j)\<close> at which a monotone
  predicate holds, and \<open>j\<close> if there is none.
\<close>

function search_between :: "nat \<Rightarrow> nat \<Rightarrow> (nat \<Rightarrow> bool) \<Rightarrow> nat" where
  "search_between i j f =
     (if i < j then let h = (i + j) div 2 in if f h then search_between i h f else search_between (h + 1) j f
      else i)"
  by pat_completeness auto
termination
  by (relation "measure (\<lambda>(i, j, f). j - i)") auto

declare search_between.simps [simp del]

definition sort_search :: "nat \<Rightarrow> (nat \<Rightarrow> bool) \<Rightarrow> nat" where
  "sort_search n f = search_between 0 n f"

lemma search_between_first:
  assumes "i \<le> j" and "\<And>a b. a \<le> b \<Longrightarrow> b < n \<Longrightarrow> f a \<Longrightarrow> f b" and "j \<le> n"
    and "\<And>a. a < i \<Longrightarrow> \<not> f a" and "\<And>a. j \<le> a \<Longrightarrow> a < n \<Longrightarrow> f a"
  shows "search_between i j f \<le> n \<and> (\<forall>a < search_between i j f. \<not> f a)
    \<and> (\<forall>a. search_between i j f \<le> a \<and> a < n \<longrightarrow> f a)"
  using assms
proof (induction i j f rule: search_between.induct)
  case (1 i j f)
  let ?h = "(i + j) div 2"
  show ?case
  proof (cases "i < j")
    case True
    then have h: "i \<le> ?h" "?h < j" "?h < n" using "1.prems"(3) by auto
    show ?thesis
    proof (cases "f ?h")
      case fh: True
      have "f a" if "?h \<le> a" "a < n" for a
        using "1.prems"(2) [OF that] fh by blast
      with "1.IH"(1) [OF True refl fh h(1) "1.prems"(2)] "1.prems"(3,4) h True fh show ?thesis
        by (subst (1 2 3) search_between.simps) (simp add: Let_def)
    next
      case nfh: False
      have "\<not> f a" if "a < ?h + 1" for a
        using "1.prems"(2) [of a ?h] nfh h(3) that by auto
      with "1.IH"(2) [OF True refl nfh _ "1.prems"(2)] "1.prems"(3,5) h True nfh show ?thesis
        by (subst (1 2 3) search_between.simps) (simp add: Let_def)
    qed
  next
    case False
    with "1.prems" show ?thesis
      by (subst (1 2 3) search_between.simps) auto
  qed
qed

lemma sort_search_first:
  assumes "\<And>a b. a \<le> b \<Longrightarrow> b < n \<Longrightarrow> f a \<Longrightarrow> f b"
  shows "sort_search n f \<le> n" and "a < sort_search n f \<Longrightarrow> \<not> f a"
    and "sort_search n f \<le> a \<Longrightarrow> a < n \<Longrightarrow> f a"
  using search_between_first [of 0 n n f] assms by (auto simp: sort_search_def)

end
