(* ===== verification/Go_URL.thy ===== *)
theory Go_URL
  imports Prelude
begin

text \<open>
  The part of Go's standard package \<open>net/url\<close> that the relay uses: \<open>Parse\<close>, \<open>ParseRequestURI\<close>,
  \<open>URL.Hostname\<close>, \<open>URL.Port\<close>, \<open>URL.EscapedPath\<close> and \<open>URL.String\<close>, with their percent-decoding and
  host validation, and \<open>net.JoinHostPort\<close>. Every domain, origin and actor comparison of the relay
  goes through these functions, so they are definitions of the model and not parameters.
\<close>

datatype enc_mode = EncPath | EncUserPassword | EncHost | EncZone | EncFragment

text \<open>\<open>shouldEscape\<close>: which bytes a component must escape (and a host must not contain).\<close>

definition is_alnum :: "char \<Rightarrow> bool" where
  "is_alnum c \<longleftrightarrow> is_digit c \<or> (let n = (of_char c :: nat) in 65 \<le> n \<and> n \<le> 90 \<or> 97 \<le> n \<and> n \<le> 122)"

definition should_escape :: "char \<Rightarrow> enc_mode \<Rightarrow> bool" where
  "should_escape c m =
     (if is_alnum c then False
      else if m \<in> {EncHost, EncZone} \<and> c \<in> set ''!$&()*+,;=:[]<>'' \<union> {CHR 0x27, CHR 0x22} then False
      else if c \<in> set ''-_.~'' then False
      else if c \<in> set ''$&+,/:;=?@'' \<and> m = EncPath then c = CHR ''?''
      else if c \<in> set ''$&+,/:;=?@'' \<and> m = EncUserPassword then c \<in> set ''@/?:''
      else if c \<in> set ''$&+,/:;=?@'' \<and> m = EncFragment then False
      else if m = EncFragment \<and> c \<in> set ''!()*'' then False
      else True)"

definition unhex :: "char \<Rightarrow> nat option" where
  "unhex c = (let n = (of_char c :: nat) in
     if 48 \<le> n \<and> n \<le> 57 then Some (n - 48)
     else if 97 \<le> n \<and> n \<le> 102 then Some (n - 87)
     else if 65 \<le> n \<and> n \<le> 70 then Some (n - 55) else None)"

text \<open>
  \<open>unescape\<close>: percent-decoding. In a host only non-ASCII bytes and \<^verbatim>\<open>%25\<close> may be
  percent-encoded, and no ASCII byte that should be escaped may appear.
\<close>

fun unescape :: "enc_mode \<Rightarrow> string \<Rightarrow> string option" where
  "unescape m [] = Some []"
| "unescape m (c # s) =
     (if c = CHR ''%'' then
        (case s of h # l # r \<Rightarrow>
           (case (unhex h, unhex l) of (Some a, Some b) \<Rightarrow>
              if m = EncHost \<and> a < 8 \<and> [h, l] \<noteq> ''25'' then None
              else if m = EncZone \<and> [h, l] \<noteq> ''25'' \<and> 16 * a + b \<noteq> 32
                      \<and> should_escape (char_of (16 * a + b)) EncHost then None
              else map_option (\<lambda>t. char_of (16 * a + b) # t) (unescape m r)
            | _ \<Rightarrow> None)
         | _ \<Rightarrow> None)
      else if m \<in> {EncHost, EncZone} \<and> (of_char c :: nat) < 128 \<and> should_escape c m then None
      else map_option (\<lambda>t. c # t) (unescape m s))"

definition upper_hex :: "nat \<Rightarrow> char" where
  "upper_hex d = char_of (if d < 10 then 48 + d else 55 + d)"

definition escape :: "enc_mode \<Rightarrow> string \<Rightarrow> string" where
  "escape m s = concat (map (\<lambda>c. if should_escape c m
     then [CHR ''%'', upper_hex (of_char c div 16), upper_hex (of_char c mod 16)] else [c]) s)"

record url =
  u_scheme :: string
  u_opaque :: string
  u_user :: "(string \<times> string option) option"
  u_host :: string
  u_path :: string
  u_rawpath :: string
  u_omithost :: bool
  u_forcequery :: bool
  u_rawquery :: string
  u_fragment :: string
  u_rawfragment :: string

definition empty_url :: url where
  "empty_url = \<lparr>u_scheme = [], u_opaque = [], u_user = None, u_host = [], u_path = [],
     u_rawpath = [], u_omithost = False, u_forcequery = False, u_rawquery = [],
     u_fragment = [], u_rawfragment = []\<rparr>"

text \<open>\<open>getScheme\<close>: the error is a string that starts with a colon.\<close>

definition scheme_char :: "char \<Rightarrow> bool" where
  "scheme_char c \<longleftrightarrow> is_alnum c \<or> c \<in> set ''+-.''"

definition get_scheme :: "string \<Rightarrow> (string \<times> string) option" where
  "get_scheme raw =
     (let s = takeWhile scheme_char raw; r = dropWhile scheme_char raw
      in if s \<noteq> [] \<and> (is_digit (hd s) \<or> hd s \<in> set ''+-.'') then Some ([], raw)
         else case r of
             c # rest \<Rightarrow> if c = CHR '':'' then (if s = [] then None else Some (s, rest)) else Some ([], raw)
           | [] \<Rightarrow> Some ([], raw))"

definition valid_optional_port :: "string \<Rightarrow> bool" where
  "valid_optional_port p = (case p of [] \<Rightarrow> True | c # r \<Rightarrow> c = CHR '':'' \<and> list_all is_digit r)"

text \<open>The position of the first \<^verbatim>\<open>%25\<close> in a bracketed host, for RFC 6874 zones.\<close>

fun split_zone :: "string \<Rightarrow> (string \<times> string) option" where
  "split_zone [] = None"
| "split_zone (c # s) =
     (if has_prefix (c # s) ''%25'' then Some ([], c # s)
      else map_option (\<lambda>(a, b). (c # a, b)) (split_zone s))"

definition parse_host :: "string \<Rightarrow> string option" where
  "parse_host h =
     (if has_prefix h ''['' then
        (case last_cut (CHR '']'') h of
           None \<Rightarrow> None
         | Some (inner, colon_port) \<Rightarrow>
             if \<not> valid_optional_port colon_port then None
             else case split_zone inner of
                 Some (h1, h2) \<Rightarrow>
                   (case (unescape EncHost h1, unescape EncZone h2, unescape EncHost (CHR '']'' # colon_port)) of
                      (Some a, Some b, Some c) \<Rightarrow> Some (a @ b @ c)
                    | _ \<Rightarrow> None)
               | None \<Rightarrow> unescape EncHost h)
      else (case last_cut (CHR '':'') h of
              Some (_, port) \<Rightarrow> if valid_optional_port (CHR '':'' # port) then unescape EncHost h else None
            | None \<Rightarrow> unescape EncHost h))"

definition valid_userinfo :: "string \<Rightarrow> bool" where
  "valid_userinfo s = list_all (\<lambda>c. is_alnum c \<or> c \<in> set ''-._:~!$&()*+,;=%@'' \<or> c = CHR 0x27) s"

definition parse_authority :: "string \<Rightarrow> ((string \<times> string option) option \<times> string) option" where
  "parse_authority a =
     (case last_cut (CHR ''@'') a of
        None \<Rightarrow> map_option (\<lambda>h. (None, h)) (parse_host a)
      | Some (ui, rest) \<Rightarrow>
          (case parse_host rest of
             None \<Rightarrow> None
           | Some h \<Rightarrow>
               if \<not> valid_userinfo ui then None
               else if CHR '':'' \<notin> set ui
               then map_option (\<lambda>u. (Some (u, None), h)) (unescape EncUserPassword ui)
               else (case cut (CHR '':'') ui of (un, pw) \<Rightarrow>
                 (case (unescape EncUserPassword un, unescape EncUserPassword pw) of
                    (Some u, Some p) \<Rightarrow> Some (Some (u, Some p), h)
                  | _ \<Rightarrow> None))))"

definition set_path :: "url \<Rightarrow> string \<Rightarrow> url option" where
  "set_path u p = map_option (\<lambda>q. u\<lparr>u_path := q, u_rawpath := (if p = escape EncPath q then [] else p)\<rparr>)
     (unescape EncPath p)"

definition set_fragment :: "url \<Rightarrow> string \<Rightarrow> url option" where
  "set_fragment u f = map_option (\<lambda>q. u\<lparr>u_fragment := q,
     u_rawfragment := (if f = escape EncFragment q then [] else f)\<rparr>) (unescape EncFragment f)"

definition is_ctl :: "char \<Rightarrow> bool" where
  "is_ctl c \<longleftrightarrow> (of_char c :: nat) < 32 \<or> (of_char c :: nat) = 127"

definition split_query :: "string \<Rightarrow> string \<times> string \<times> bool" where
  "split_query rest =
     (if has_suffix rest ''?'' \<and> count_list rest (CHR ''?'') = 1 then (butlast rest, [], True)
      else (case cut (CHR ''?'') rest of (a, q) \<Rightarrow> (a, q, False)))"

text \<open>The authority and the path of what is left after scheme and query.\<close>

definition parse_hier :: "bool \<Rightarrow> url \<Rightarrow> string \<Rightarrow> url option" where
  "parse_hier via_request u rest =
     (if (u_scheme u \<noteq> [] \<or> \<not> via_request \<and> \<not> has_prefix rest ''///'') \<and> has_prefix rest ''//'' then
        (let a = drop 2 rest; auth = takeWhile (\<lambda>c. c \<noteq> CHR ''/'') a; p = dropWhile (\<lambda>c. c \<noteq> CHR ''/'') a
         in case parse_authority auth of
              None \<Rightarrow> None
            | Some (ui, h) \<Rightarrow> set_path (u\<lparr>u_user := ui, u_host := h\<rparr>) p)
      else set_path (u\<lparr>u_omithost := (u_scheme u \<noteq> [] \<and> has_prefix rest ''/'')\<rparr>) rest)"

definition parse_raw :: "bool \<Rightarrow> string \<Rightarrow> url option" where
  "parse_raw via_request raw =
     (if list_ex is_ctl raw then None
      else if raw = [] \<and> via_request then None
      else if raw = ''*'' then Some (empty_url\<lparr>u_path := ''*''\<rparr>)
      else case get_scheme raw of
        None \<Rightarrow> None
      | Some (sch, rest0) \<Rightarrow>
          (case split_query rest0 of (rest, q, fq) \<Rightarrow>
             let u = empty_url\<lparr>u_scheme := to_lower sch, u_rawquery := q, u_forcequery := fq\<rparr>
             in if \<not> has_prefix rest ''/'' \<and> u_scheme u \<noteq> [] then Some (u\<lparr>u_opaque := rest\<rparr>)
                else if \<not> has_prefix rest ''/'' \<and> via_request then None
                else if \<not> has_prefix rest ''/'' \<and> CHR '':'' \<in> set (fst (cut (CHR ''/'') rest)) then None
                else parse_hier via_request u rest))"

definition url_parse :: "string \<Rightarrow> url option" where
  "url_parse raw =
     (case cut (CHR ''#'') raw of (u, frag) \<Rightarrow>
        (case parse_raw False u of
           None \<Rightarrow> None
         | Some r \<Rightarrow> if frag = [] then Some r else set_fragment r frag))"

definition url_parse_request_uri :: "string \<Rightarrow> url option" where
  "url_parse_request_uri raw = parse_raw True raw"

text \<open>\<open>splitHostPort\<close>, behind \<open>Hostname\<close> and \<open>Port\<close>.\<close>

definition strip_brackets :: "string \<Rightarrow> string" where
  "strip_brackets h = (if has_prefix h ''['' \<and> has_suffix h '']'' then butlast (tl h) else h)"

definition split_host_port :: "string \<Rightarrow> string \<times> string" where
  "split_host_port hp =
     (case last_cut (CHR '':'') hp of
        Some (h, p) \<Rightarrow> if list_all is_digit p then (strip_brackets h, p) else (strip_brackets hp, [])
      | None \<Rightarrow> (strip_brackets hp, []))"

definition hostname :: "url \<Rightarrow> string" where
  "hostname u = fst (split_host_port (u_host u))"

definition port :: "url \<Rightarrow> string" where
  "port u = snd (split_host_port (u_host u))"

text \<open>\<open>net.JoinHostPort\<close>.\<close>

definition join_host_port :: "string \<Rightarrow> string \<Rightarrow> string" where
  "join_host_port h p = (if CHR '':'' \<in> set h then ''['' @ h @ '']:'' @ p else h @ '':'' @ p)"

definition valid_encoded_path :: "string \<Rightarrow> bool" where
  "valid_encoded_path s =
     list_all (\<lambda>c. c \<in> set ''!$&()*+,;=:@[]%'' \<or> c = CHR 0x27 \<or> \<not> should_escape c EncPath) s"

definition escaped_path :: "url \<Rightarrow> string" where
  "escaped_path u =
     (if u_rawpath u \<noteq> [] \<and> valid_encoded_path (u_rawpath u)
         \<and> unescape EncPath (u_rawpath u) = Some (u_path u) then u_rawpath u
      else if u_path u = ''*'' then ''*''
      else escape EncPath (u_path u))"

definition valid_encoded_fragment :: "string \<Rightarrow> bool" where
  "valid_encoded_fragment s =
     list_all (\<lambda>c. c \<in> set ''!$&()*+,;=:@[]%'' \<or> c = CHR 0x27 \<or> \<not> should_escape c EncFragment) s"

definition escaped_fragment :: "url \<Rightarrow> string" where
  "escaped_fragment u =
     (if u_rawfragment u \<noteq> [] \<and> valid_encoded_fragment (u_rawfragment u)
         \<and> unescape EncFragment (u_rawfragment u) = Some (u_fragment u) then u_rawfragment u
      else escape EncFragment (u_fragment u))"

definition userinfo_string :: "string \<times> string option \<Rightarrow> string" where
  "userinfo_string ui = (case ui of
     (u, None) \<Rightarrow> escape EncUserPassword u
   | (u, Some p) \<Rightarrow> escape EncUserPassword u @ '':'' @ escape EncUserPassword p)"

definition url_string :: "url \<Rightarrow> string" where
  "url_string u =
     (let sch = (if u_scheme u \<noteq> [] then u_scheme u @ '':'' else []);
          auth = (if (u_scheme u \<noteq> [] \<or> u_host u \<noteq> [] \<or> u_user u \<noteq> None)
                     \<and> \<not> (u_omithost u \<and> u_host u = [] \<and> u_user u = None)
                  then (if u_host u \<noteq> [] \<or> u_path u \<noteq> [] \<or> u_user u \<noteq> None then ''//'' else [])
                       @ (case u_user u of None \<Rightarrow> [] | Some ui \<Rightarrow> userinfo_string ui @ ''@'')
                       @ escape EncHost (u_host u)
                  else []);
          p = escaped_path u;
          slash = (if p \<noteq> [] \<and> hd p \<noteq> CHR ''/'' \<and> u_host u \<noteq> [] then ''/'' else []);
          dot = (if sch @ auth @ slash = [] \<and> CHR '':'' \<in> set (fst (cut (CHR ''/'') p)) then ''./'' else []);
          body = (if u_opaque u \<noteq> [] then sch @ u_opaque u else sch @ auth @ slash @ dot @ p);
          q = (if u_forcequery u \<or> u_rawquery u \<noteq> [] then ''?'' @ u_rawquery u else []);
          f = (if u_fragment u \<noteq> [] then ''#'' @ escaped_fragment u else [])
      in body @ q @ f)"

end
