(* ===== verification/Destination_Negotiation.thy ===== *)
theory Destination_Negotiation
  imports Go_URL
begin

text \<open>
  HTTP-signature profiles and the planning of one wire profile per request:
  \<open>internal/httpsignature/profile.go\<close>, the profile parsers of \<open>configured_signer.go\<close>, and
  \<open>destination_negotiation.go\<close>.

  Profiles, scopes and evidence are Go string types with named constants, so they are strings here
  and a value outside the constants is possible wherever the code can meet one. A \<open>time.Time\<close> is
  its distance from the Unix epoch in nanoseconds, and \<open>zero_time\<close> is Go's zero value. The
  capability store is an interface of the package: a record of its two methods over a store
  state. A nil interface or nil pointer is \<^const>\<open>None\<close>.
\<close>

section \<open>Profiles\<close>

type_synonym profile = string

abbreviation ProfileLegacy :: profile where "ProfileLegacy \<equiv> ''legacy''"
abbreviation ProfileDual :: profile where "ProfileDual \<equiv> ''dual''"
abbreviation ProfileRFC9421 :: profile where "ProfileRFC9421 \<equiv> ''rfc9421''"

definition profile_validate :: "profile \<Rightarrow> unit result" where
  "profile_validate p =
     (if p \<in> {ProfileLegacy, ProfileDual, ProfileRFC9421} then Inr ()
      else Inl ''unsupported HTTP signature profile'')"

definition ParseProfile :: "string \<Rightarrow> profile result" where
  "ParseProfile v =
     (let p = to_lower (trim_space v)
      in if p = [] then Inr ProfileLegacy
         else case profile_validate p of Inl e \<Rightarrow> Inl e | Inr _ \<Rightarrow> Inr p)"

definition ParseOutboundProfile :: "string \<Rightarrow> profile result" where
  "ParseOutboundProfile v = (if trim_space v = [] then Inr ProfileDual else ParseProfile v)"

definition ErrDualProfileRequiresDeliveryPolicy :: string where
  "ErrDualProfileRequiresDeliveryPolicy =
     ''dual HTTP signature profile requires destination-aware delivery policy''"

definition ParseWireProfile :: "string \<Rightarrow> profile result" where
  "ParseWireProfile v =
     (case ParseProfile v of
        Inl e \<Rightarrow> Inl e
      | Inr p \<Rightarrow> if p = ProfileDual then Inl ErrDualProfileRequiresDeliveryPolicy else Inr p)"

lemma ParseProfile_Inr:
  "ParseProfile v = Inr p \<Longrightarrow> p \<in> {ProfileLegacy, ProfileDual, ProfileRFC9421}"
  by (auto simp: ParseProfile_def profile_validate_def Let_def split: if_splits)

lemma ParseWireProfile_Inr: "ParseWireProfile v = Inr p \<Longrightarrow> p \<in> {ProfileLegacy, ProfileRFC9421}"
  by (auto simp: ParseWireProfile_def split: sum.splits if_splits dest!: ParseProfile_Inr)

lemma ParseWireProfile_wire [simp]:
  "ParseWireProfile ProfileLegacy = Inr ProfileLegacy"
  "ParseWireProfile ProfileRFC9421 = Inr ProfileRFC9421"
  "ParseWireProfile ProfileDual = Inl ErrDualProfileRequiresDeliveryPolicy"
  by (simp_all add: ParseWireProfile_def ParseProfile_def profile_validate_def Let_def
      trim_space_graphic graphic_char_def to_lower_def lower_char_def)

section \<open>Times\<close>

type_synonym time = int
type_synonym duration = int

definition zero_time :: time where
  "zero_time = - 62135596800 * 1000000000"

abbreviation is_zero :: "time \<Rightarrow> bool" where "is_zero t \<equiv> t = zero_time"

abbreviation second :: duration where "second \<equiv> 1000000000"
abbreviation millisecond :: duration where "millisecond \<equiv> 1000000"
abbreviation minute :: duration where "minute \<equiv> 60000000000"
abbreviation hour :: duration where "hour \<equiv> 3600000000000"

definition unix_milli :: "time \<Rightarrow> int" where
  "unix_milli t = t div millisecond"

definition of_unix_milli :: "int \<Rightarrow> time" where
  "of_unix_milli m = m * millisecond"

definition DefaultRFC9421CapabilityTTL :: duration where
  "DefaultRFC9421CapabilityTTL = 14 * 24 * hour"

definition DefaultLegacyNegativeTTL :: duration where
  "DefaultLegacyNegativeTTL = 24 * hour"

section \<open>Scopes, evidence and capabilities\<close>

abbreviation ScopeFetch :: string where "ScopeFetch \<equiv> ''fetch''"
abbreviation ScopeDelivery :: string where "ScopeDelivery \<equiv> ''delivery''"

definition scope_validate :: "string \<Rightarrow> unit result" where
  "scope_validate s =
     (if s \<in> {ScopeFetch, ScopeDelivery} then Inr ()
      else Inl ''unsupported HTTP signature destination scope'')"

abbreviation EvSuccessfulRFC9421 :: string where "EvSuccessfulRFC9421 \<equiv> ''successful_rfc9421''"
abbreviation EvAcceptSignature :: string where "EvAcceptSignature \<equiv> ''accept_signature''"
abbreviation EvExplicitRejection :: string where "EvExplicitRejection \<equiv> ''explicit_rfc9421_rejection''"
abbreviation EvLegacyFallback :: string where "EvLegacyFallback \<equiv> ''successful_legacy_fallback''"

definition evidence_validate :: "string \<Rightarrow> profile \<Rightarrow> unit result" where
  "evidence_validate e p =
     (if e \<in> {EvSuccessfulRFC9421, EvAcceptSignature} then
        (if p \<noteq> ProfileRFC9421 then Inl ''capability evidence requires profile'' else Inr ())
      else if e \<in> {EvExplicitRejection, EvLegacyFallback} then
        (if p \<noteq> ProfileLegacy then Inl ''capability evidence requires profile'' else Inr ())
      else Inl ''unsupported HTTP signature capability evidence'')"

record capability =
  c_origin :: string
  c_scope :: string
  c_profile :: profile
  c_evidence :: string
  c_observed :: time
  c_expires :: time

text \<open>\<open>NormalizeDestinationOrigin\<close>: scheme and authority, lower case, default port removed.\<close>

definition NormalizeDestinationOrigin :: "string \<Rightarrow> string result" where
  "NormalizeDestinationOrigin address =
     (case url_parse (trim_space address) of
        None \<Rightarrow> Inl ''parse destination URL''
      | Some u \<Rightarrow>
          let scheme = to_lower (u_scheme u)
          in if scheme \<noteq> ''http'' \<and> scheme \<noteq> ''https'' then
               Inl ''unsupported destination URL scheme''
             else if u_user u \<noteq> None then Inl ''destination URL contains user information''
             else let host = to_lower (trim_suffix (hostname u) ''.'')
                  in if host = [] then Inl ''destination URL has no host''
                     else let p = (if scheme = ''http'' \<and> port u = ''80'' \<or> scheme = ''https'' \<and> port u = ''443''
                                   then [] else port u);
                              authority = (if p \<noteq> [] then join_host_port host p
                                           else if CHR '':'' \<in> set host then ''['' @ host @ '']'' else host)
                          in Inr (scheme @ ''://'' @ authority))"

definition capability_validate :: "capability \<Rightarrow> unit result" where
  "capability_validate c =
     (case NormalizeDestinationOrigin (c_origin c) of
        Inl e \<Rightarrow> Inl e
      | Inr o' \<Rightarrow>
          if o' \<noteq> c_origin c then Inl ''destination capability origin is not normalized''
          else case scope_validate (c_scope c) of
            Inl e \<Rightarrow> Inl e
          | Inr _ \<Rightarrow>
              if c_profile c \<notin> {ProfileLegacy, ProfileRFC9421}
              then Inl ''destination capability profile is not a wire profile''
              else case evidence_validate (c_evidence c) (c_profile c) of
                Inl e \<Rightarrow> Inl e
              | Inr _ \<Rightarrow>
                  if is_zero (c_observed c) then Inl ''destination capability observation time is empty''
                  else if \<not> c_observed c < c_expires c
                  then Inl ''destination capability expiration must follow observation''
                  else Inr ())"

text \<open>\<open>Fresh\<close> replaces a zero \<open>now\<close> by the wall clock, here the argument \<open>wall\<close>.\<close>

definition capability_fresh :: "capability \<Rightarrow> time \<Rightarrow> time \<Rightarrow> bool" where
  "capability_fresh c now wall \<longleftrightarrow> (if is_zero now then wall else now) < c_expires c"

lemma capability_validate_ok_iff:
  "capability_validate c = Inr () \<longleftrightarrow>
     NormalizeDestinationOrigin (c_origin c) = Inr (c_origin c)
     \<and> c_scope c \<in> {ScopeFetch, ScopeDelivery}
     \<and> c_profile c \<in> {ProfileLegacy, ProfileRFC9421}
     \<and> evidence_validate (c_evidence c) (c_profile c) = Inr ()
     \<and> \<not> is_zero (c_observed c) \<and> c_observed c < c_expires c"
  by (auto simp: capability_validate_def scope_validate_def split: sum.splits if_splits)

section \<open>The planner\<close>

text \<open>
  An implementation of \<open>SaveDestinationCapability\<close> may read the clock: the time it reads is the
  first argument of \<open>s_save\<close>, and \<open>wall\<close> in the operations that call it.
\<close>

record 's capability_store =
  s_load :: "string \<Rightarrow> string \<Rightarrow> 's \<Rightarrow> capability option result \<times> 's"
  s_save :: "time \<Rightarrow> capability \<Rightarrow> 's \<Rightarrow> (bool \<times> string option) \<times> 's"

record 's negotiator =
  n_store :: "'s capability_store option"
  n_positive_ttl :: duration
  n_negative_ttl :: duration

definition NewDestinationNegotiator ::
  "'s capability_store option \<Rightarrow> duration \<Rightarrow> duration \<Rightarrow> 's negotiator result" where
  "NewDestinationNegotiator store pos0 neg0 =
     (let pos = (if pos0 = 0 then DefaultRFC9421CapabilityTTL else pos0);
          neg = (if neg0 = 0 then DefaultLegacyNegativeTTL else neg0)
      in if pos < hour then Inl ''RFC 9421 positive capability TTL must be at least one hour''
         else if neg < minute then Inl ''legacy negative capability TTL must be at least one minute''
         else if pos < neg then Inl ''legacy negative capability TTL cannot exceed positive TTL''
         else Inr \<lparr>n_store = store, n_positive_ttl = pos, n_negative_ttl = neg\<rparr>)"

datatype reason = ConfiguredLegacy | ConfiguredRFC9421 | CachedCapability | UnknownFetchProbe
  | UnknownDeliveryLegacy

record plan =
  p_origin :: string
  p_scope :: string
  p_primary :: profile
  p_fallback :: profile
  p_reason :: reason

datatype outcome = OutSuccess | OutExplicitRejection | OutAmbiguousRejection | OutTransportFailure
  | OutServerFailure | OutOtherFailure

definition HasFallback :: "plan \<Rightarrow> bool" where
  "HasFallback p \<longleftrightarrow> p_fallback p \<noteq> []"

definition ShouldFallback :: "plan \<Rightarrow> outcome \<Rightarrow> bool" where
  "ShouldFallback p out =
     (if p_scope p \<noteq> ScopeFetch \<or> p_primary p \<noteq> ProfileRFC9421 \<or> p_fallback p \<noteq> ProfileLegacy then False
      else out = OutExplicitRejection \<or> out = OutAmbiguousRejection)"

definition Plan ::
  "'s negotiator option \<Rightarrow> profile \<Rightarrow> string \<Rightarrow> string \<Rightarrow> time \<Rightarrow> time \<Rightarrow> 's \<Rightarrow> plan result \<times> 's" where
  "Plan negotiator configured scope destination now wall s =
     (case negotiator of
        None \<Rightarrow> (Inl ''destination negotiator is nil'', s)
      | Some neg \<Rightarrow>
        (case scope_validate scope of
           Inl e \<Rightarrow> (Inl e, s)
         | Inr _ \<Rightarrow>
           (case NormalizeDestinationOrigin destination of
              Inl e \<Rightarrow> (Inl e, s)
            | Inr origin \<Rightarrow>
                let mk = (\<lambda>prim fb r. \<lparr>p_origin = origin, p_scope = scope, p_primary = prim,
                                        p_fallback = fb, p_reason = r\<rparr>)
                in if configured = ProfileLegacy then (Inr (mk ProfileLegacy [] ConfiguredLegacy), s)
                   else if configured = ProfileRFC9421 then (Inr (mk ProfileRFC9421 [] ConfiguredRFC9421), s)
                   else if configured \<noteq> ProfileDual
                   then (Inl ''unsupported configured HTTP signature profile'', s)
                   else case n_store neg of
                     None \<Rightarrow> (Inl ''dual HTTP signature negotiation requires a capability store'', s)
                   | Some store \<Rightarrow>
                       (case s_load store scope origin s of (loaded, s1) \<Rightarrow>
                          (case loaded of
                             Inl e \<Rightarrow> (Inl e, s1)
                           | Inr found \<Rightarrow>
                               (case found of
                                  Some cap \<Rightarrow>
                                    if capability_fresh cap now wall then
                                      (case capability_validate cap of
                                         Inl e \<Rightarrow> (Inl (''invalid cached destination capability: '' @ e), s1)
                                       | Inr _ \<Rightarrow> (Inr (mk (c_profile cap) [] CachedCapability), s1))
                                    else if scope = ScopeFetch
                                    then (Inr (mk ProfileRFC9421 ProfileLegacy UnknownFetchProbe), s1)
                                    else (Inr (mk ProfileLegacy [] UnknownDeliveryLegacy), s1)
                                | None \<Rightarrow>
                                    if scope = ScopeFetch
                                    then (Inr (mk ProfileRFC9421 ProfileLegacy UnknownFetchProbe), s1)
                                    else (Inr (mk ProfileLegacy [] UnknownDeliveryLegacy), s1)))))))"

text \<open>
  Recording an observation returns the capability, whether the store kept it, and the error. On a
  store error the capability is returned beside it. The \<open>Observe\<close> methods read a lifetime from the
  receiver before they call \<open>saveObservation\<close>, so a nil receiver panics there.
\<close>

type_synonym observation = "capability \<times> bool \<times> string option"

definition empty_capability :: capability where
  "empty_capability = \<lparr>c_origin = [], c_scope = [], c_profile = [], c_evidence = [],
     c_observed = zero_time, c_expires = zero_time\<rparr>"

definition saveObservation ::
  "'s negotiator option \<Rightarrow> string \<Rightarrow> string \<Rightarrow> profile \<Rightarrow> string \<Rightarrow> duration \<Rightarrow> time \<Rightarrow> time \<Rightarrow> 's
    \<Rightarrow> observation \<times> 's" where
  "saveObservation negotiator scope destination prof evidence ttl now wall s =
     (let fail = (\<lambda>e. ((empty_capability, False, Some e), s))
      in case negotiator of
        None \<Rightarrow> fail ''destination negotiator is nil''
      | Some neg \<Rightarrow>
        (case n_store neg of
           None \<Rightarrow> fail ''destination capability store is nil''
         | Some store \<Rightarrow>
           (case scope_validate scope of
              Inl e \<Rightarrow> fail e
            | Inr _ \<Rightarrow>
              (case evidence_validate evidence prof of
                 Inl e \<Rightarrow> fail e
               | Inr _ \<Rightarrow>
                 (case NormalizeDestinationOrigin destination of
                    Inl e \<Rightarrow> fail e
                  | Inr origin \<Rightarrow>
                      let cap = \<lparr>c_origin = origin, c_scope = scope, c_profile = prof,
                                 c_evidence = evidence, c_observed = now, c_expires = now + ttl\<rparr>
                      in case capability_validate cap of
                           Inl e \<Rightarrow> fail e
                         | Inr _ \<Rightarrow>
                             (case s_save store wall cap s of ((saved, err), s1) \<Rightarrow> ((cap, saved, err), s1)))))))"

definition ObserveRFC9421Success ::
  "'s negotiator option \<Rightarrow> string \<Rightarrow> string \<Rightarrow> string \<Rightarrow> time \<Rightarrow> time \<Rightarrow> 's \<Rightarrow> (observation \<times> 's) exec" where
  "ObserveRFC9421Success negotiator scope destination evidence now wall s =
     (if evidence \<noteq> EvSuccessfulRFC9421 \<and> evidence \<noteq> EvAcceptSignature
      then Returns ((empty_capability, False, Some ''evidence is not positive RFC 9421 evidence''), s)
      else case negotiator of
        None \<Rightarrow> Panics
      | Some neg \<Rightarrow> Returns (saveObservation negotiator scope destination ProfileRFC9421 evidence
                              (n_positive_ttl neg) now wall s))"

definition ObserveExplicitRFC9421Rejection ::
  "'s negotiator option \<Rightarrow> string \<Rightarrow> string \<Rightarrow> time \<Rightarrow> time \<Rightarrow> 's \<Rightarrow> (observation \<times> 's) exec" where
  "ObserveExplicitRFC9421Rejection negotiator scope destination now wall s =
     (case negotiator of
        None \<Rightarrow> Panics
      | Some neg \<Rightarrow> Returns (saveObservation negotiator scope destination ProfileLegacy
                              EvExplicitRejection (n_negative_ttl neg) now wall s))"

definition ObserveSuccessfulLegacyFallback ::
  "'s negotiator option \<Rightarrow> string \<Rightarrow> string \<Rightarrow> time \<Rightarrow> time \<Rightarrow> 's \<Rightarrow> (observation \<times> 's) exec" where
  "ObserveSuccessfulLegacyFallback negotiator scope destination now wall s =
     (case negotiator of
        None \<Rightarrow> Panics
      | Some neg \<Rightarrow> Returns (saveObservation negotiator scope destination ProfileLegacy
                              EvLegacyFallback (n_negative_ttl neg) now wall s))"

section \<open>The contract of a capability store\<close>

text \<open>
  What the planner relies on of a store: a loaded capability is valid and is the one asked for; a
  capability that was kept is the one the next lookup finds, its times cut to milliseconds; and a
  kept observation is newer than the one it replaces. \<open>ok\<close> is the store's own invariant and \<open>clock\<close>
  the time (in milliseconds) by which it drops expired entries.
\<close>

definition cut_capability :: "capability \<Rightarrow> capability" where
  "cut_capability c = c\<lparr>c_observed := of_unix_milli (unix_milli (c_observed c)),
                        c_expires := of_unix_milli (unix_milli (c_expires c))\<rparr>"

definition storable :: "capability \<Rightarrow> bool" where
  "storable c \<longleftrightarrow> 0 \<le> unix_milli (c_observed c) \<and> unix_milli (c_observed c) < unix_milli (c_expires c)
     \<and> unix_milli (c_expires c) < 2 ^ 53"

lemma validate_cut_capability:
  "capability_validate c = Inr () \<Longrightarrow> storable c \<Longrightarrow> capability_validate (cut_capability c) = Inr ()"
  by (auto simp: capability_validate_ok_iff cut_capability_def storable_def of_unix_milli_def zero_time_def)

locale capability_contract =
  fixes store :: "'s capability_store"
    and ok :: "'s \<Rightarrow> bool"
    and clock :: "'s \<Rightarrow> int"
  assumes load_ok: "ok s \<Longrightarrow> s_load store sc org s = (res, s') \<Longrightarrow> ok s'"
    and save_ok: "ok s \<Longrightarrow> s_save store w c s = (v, s') \<Longrightarrow> ok s'"
    and load_valid: "s_load store sc org s = (Inr (Some c), s') \<Longrightarrow>
      capability_validate c = Inr () \<and> c_origin c = org \<and> c_scope c = sc"
    and load_saved: "ok s \<Longrightarrow> s_save store w c s = ((True, None), s1) \<Longrightarrow> storable c \<Longrightarrow>
      clock s1 < unix_milli (c_expires c) \<Longrightarrow>
      s_load store (c_scope c) (c_origin c) s1 = (Inr r, s2) \<Longrightarrow> r = Some (cut_capability c)"
    and save_newer: "ok s \<Longrightarrow> s_load store (c_scope c) (c_origin c) s = (Inr (Some c0), s1) \<Longrightarrow>
      s_save store w c s1 = ((True, None), s2) \<Longrightarrow>
      unix_milli (c_observed c0) < unix_milli (c_observed c)"
begin

text \<open>A plan names a wire profile, and only an unknown fetch carries a fallback.\<close>

lemma plan_shape:
  assumes "n_store neg = Some store"
    and "Plan (Some neg) conf sc dest now wall s = (Inr p, s')"
  shows "p_primary p \<in> {ProfileLegacy, ProfileRFC9421}"
    and "HasFallback p \<longleftrightarrow> p_reason p = UnknownFetchProbe"
    and "HasFallback p \<Longrightarrow> conf = ProfileDual \<and> sc = ScopeFetch \<and> p_scope p = ScopeFetch
           \<and> p_primary p = ProfileRFC9421 \<and> p_fallback p = ProfileLegacy"
  using assms
  by (auto simp: Plan_def Let_def HasFallback_def capability_validate_ok_iff
      split: sum.splits if_splits prod.splits option.splits dest!: load_valid)

text \<open>A fresh entry never fails the planner's own validation of it.\<close>

lemma plan_cached:
  assumes "n_store neg = Some store" and "sc \<in> {ScopeFetch, ScopeDelivery}"
    and "NormalizeDestinationOrigin dest = Inr org"
    and load: "s_load store sc org s = (Inr (Some c), s')" and "capability_fresh c now wall"
  shows "Plan (Some neg) ProfileDual sc dest now wall s =
    (Inr \<lparr>p_origin = org, p_scope = sc, p_primary = c_profile c, p_fallback = [],
          p_reason = CachedCapability\<rparr>, s')"
  using assms(1-3,5) load load_valid [OF load]
  by (auto simp: Plan_def scope_validate_def Let_def)

text \<open>What an accepted observation stored.\<close>

lemma saveObservation_saved:
  assumes "n_store neg = Some store"
    and "saveObservation (Some neg) sc dest prof ev ttl now wall s = ((c, True, None), s1)"
  shows "s_save store wall c s = ((True, None), s1)" and "capability_validate c = Inr ()"
    and "NormalizeDestinationOrigin dest = Inr (c_origin c)"
    and "c_scope c = sc" "c_profile c = prof" "c_observed c = now" "c_expires c = now + ttl"
  using assms
  by (auto simp: saveObservation_def Let_def split: sum.splits prod.splits)

text \<open>An observation that was kept decides every later plan until it expires.\<close>

lemma observation_decides_plan:
  assumes neg: "n_store neg = Some store" and "ok s"
    and obs: "saveObservation (Some neg) sc dest prof ev ttl now wall s = ((c, True, None), s1)"
    and "storable c" and "clock s1 < unix_milli (c_expires c)"
    and load: "s_load store sc (c_origin c) s1 = (Inr r, s2)"
    and dest': "NormalizeDestinationOrigin dest' = Inr (c_origin c)"
    and now': "now' \<noteq> zero_time" "now' < of_unix_milli (unix_milli (now + ttl))"
  shows "\<exists>p. Plan (Some neg) ProfileDual sc dest' now' wall' s1 = (Inr p, s2)
    \<and> p_primary p = prof \<and> p_reason p = CachedCapability \<and> \<not> HasFallback p"
proof -
  note saved = saveObservation_saved [OF neg obs]
  have "r = Some (cut_capability c)"
    using load_saved [OF \<open>ok s\<close> saved(1) assms(4,5)] load saved(4) by simp
  moreover have "capability_fresh (cut_capability c) now' wall'"
    using now' saved(7) by (simp add: capability_fresh_def cut_capability_def)
  moreover have "sc \<in> {ScopeFetch, ScopeDelivery}"
    using saved(2,4) by (auto simp: capability_validate_ok_iff)
  ultimately show ?thesis
    using plan_cached [OF neg _ dest'] load saved(5)
    by (fastforce simp: HasFallback_def cut_capability_def)
qed

end

end
