(* ===== verification/Redis_Interface.thy ===== *)
theory Redis_Interface
  imports Prelude "HOL-Library.AList"
begin

text \<open>
  Redis is a service outside the repository: the model takes it as a parameter. A record
  \<open>redis\<close> holds the commands the relay issues, over an arbitrary type \<open>'db\<close> of server states; the
  locale \<open>redis_server\<close> states what the relay relies on of them, which is the documented behaviour
  of each command. Two views, \<open>r_hash\<close> (the hash stored under a key, as a map from fields to values) and
  \<open>r_str\<close> (the string stored under a key), say what the server holds now; a key that expired is
  absent from both. \<open>r_now\<close> is the server's clock in milliseconds.

  A key holds a hash or a string, never both, and a hash command on a string key (or the
  reverse) fails with \<open>WRONGTYPE\<close>: the laws of those commands say nothing of that case. Expiry is
  an event of its own between two calls: no key expires in the middle of one call.

  A client call is one round trip. \<open>r_net\<close> gives its fate: the command is executed and answered, it
  is refused with an error and no effect, or it is executed and its reply is lost, which the
  client cannot tell from a refusal. A Lua script runs as one command, so a script of the relay
  is one function on \<open>'db\<close> passed to \<open>call\<close>.
\<close>

datatype trip = Executed | Refused | ReplyLost

record 'db redis =
  r_now :: "'db \<Rightarrow> int"
  r_net :: "string \<Rightarrow> 'db \<Rightarrow> trip \<times> 'db"
  r_hash :: "'db \<Rightarrow> string \<Rightarrow> string \<Rightarrow> string option"
  r_hkeys :: "'db \<Rightarrow> string \<Rightarrow> string list"
  r_str :: "'db \<Rightarrow> string \<Rightarrow> string option"
  r_exists :: "'db \<Rightarrow> string \<Rightarrow> bool"
  r_scan :: "'db \<Rightarrow> string \<Rightarrow> string list"
  r_llen :: "'db \<Rightarrow> string \<Rightarrow> int"
  r_hset :: "string \<Rightarrow> (string \<times> string) list \<Rightarrow> 'db \<Rightarrow> 'db"
  r_hdel :: "string \<Rightarrow> string \<Rightarrow> 'db \<Rightarrow> 'db"
  r_hincrby :: "string \<Rightarrow> string \<Rightarrow> int \<Rightarrow> 'db \<Rightarrow> int option \<times> 'db"
  r_incrby :: "string \<Rightarrow> int \<Rightarrow> 'db \<Rightarrow> int option \<times> 'db"
  r_set :: "string \<Rightarrow> string \<Rightarrow> 'db \<Rightarrow> 'db"
  r_del :: "string \<Rightarrow> 'db \<Rightarrow> 'db"
  r_pexpire :: "string \<Rightarrow> int \<Rightarrow> 'db \<Rightarrow> 'db"
  r_pexpireat :: "string \<Rightarrow> int \<Rightarrow> 'db \<Rightarrow> 'db"
  r_setnx :: "string \<Rightarrow> string \<Rightarrow> int \<Rightarrow> 'db \<Rightarrow> bool \<times> 'db"
  r_publish :: "string \<Rightarrow> 'db \<Rightarrow> 'db"

definition redis_error :: string where
  "redis_error = ''redis: command failed''"

definition call :: "'db redis \<Rightarrow> string \<Rightarrow> ('db \<Rightarrow> 'a \<times> 'db) \<Rightarrow> 'db \<Rightarrow> 'a result \<times> 'db" where
  "call R cmd f db =
     (case r_net R cmd db of (t, db1) \<Rightarrow>
        (case t of
           Executed \<Rightarrow> (case f db1 of (x, db2) \<Rightarrow> (Inr x, db2))
         | Refused \<Rightarrow> (Inl redis_error, db1)
         | ReplyLost \<Rightarrow> (Inl redis_error, snd (f db1))))"

text \<open>
  A command can also fail on the server (\<open>WRONGTYPE\<close>, a counter that is not a number), which
  \<open>command\<close> joins with the errors of the round trip. \<open>on_hash\<close> is a hash command: it fails without
  effect on a key that holds a string. \<open>then_io\<close> runs one call after another and stops at the first
  error, as the code does with \<open>if err != nil { return err }\<close>.
\<close>

definition command ::
  "'db redis \<Rightarrow> string \<Rightarrow> ('db \<Rightarrow> 'a result \<times> 'db) \<Rightarrow> 'db \<Rightarrow> 'a result \<times> 'db" where
  "command R cmd f db = (case call R cmd f db of (Inl e, db') \<Rightarrow> (Inl e, db') | (Inr r, db') \<Rightarrow> (r, db'))"

definition on_hash :: "'db redis \<Rightarrow> string \<Rightarrow> ('db \<Rightarrow> 'a \<times> 'db) \<Rightarrow> 'db \<Rightarrow> 'a result \<times> 'db" where
  "on_hash R key f db =
     (if r_str R db key \<noteq> None then (Inl redis_error, db) else case f db of (x, db') \<Rightarrow> (Inr x, db'))"

definition then_io ::
  "('db \<Rightarrow> 'a result \<times> 'db) \<Rightarrow> ('a \<Rightarrow> 'db \<Rightarrow> 'b result \<times> 'db) \<Rightarrow> 'db \<Rightarrow> 'b result \<times> 'db" where
  "then_io f g db = (case f db of (Inl e, db') \<Rightarrow> (Inl e, db') | (Inr x, db') \<Rightarrow> g x db')"

lemma then_io_Inr:
  "then_io f g db = (Inr y, db') \<longleftrightarrow> (\<exists>x db1. f db = (Inr x, db1) \<and> g x db1 = (Inr y, db'))"
  by (auto simp: then_io_def split: prod.splits sum.splits)

text \<open>The value a Redis counter holds: an absent key or field counts from 0.\<close>

definition counter_value :: "string option \<Rightarrow> num_result" where
  "counter_value v = (case v of None \<Rightarrow> NumOk 0 | Some s \<Rightarrow> parse_int64 s)"

definition counter_add :: "string option \<Rightarrow> int \<Rightarrow> int option" where
  "counter_add v n =
     (case counter_value v of
        NumOk i \<Rightarrow> if - (2 ^ 63) \<le> i + n \<and> i + n < 2 ^ 63 then Some (i + n) else None
      | _ \<Rightarrow> None)"

locale redis_server =
  fixes R :: "'db redis"
  assumes net_hash [simp]: "r_hash R (snd (r_net R c db)) = r_hash R db"
    and net_str [simp]: "r_str R (snd (r_net R c db)) = r_str R db"
    and net_llen [simp]: "r_llen R (snd (r_net R c db)) = r_llen R db"
    and hkeys_iff: "f \<in> set (r_hkeys R db k) \<longleftrightarrow> r_hash R db k f \<noteq> None"
    and exists_iff: "r_exists R db k \<longleftrightarrow> (\<exists>f. r_hash R db k f \<noteq> None) \<or> r_str R db k \<noteq> None"
    and scan_iff: "k \<in> set (r_scan R db p) \<longleftrightarrow> has_prefix k p \<and> r_exists R db k"
    and hset_hash [simp]: "r_str R db k = None \<Longrightarrow>
      r_hash R (r_hset R k fvs db) = (r_hash R db)(k := r_hash R db k ++ map_of (rev fvs))"
    and hset_str [simp]: "r_str R (r_hset R k fvs db) = r_str R db"
    and hset_now [simp]: "r_now R (r_hset R k fvs db) = r_now R db"
    and hset_llen [simp]: "r_llen R (r_hset R k fvs db) = r_llen R db"
    and hdel_hash [simp]: "r_str R db k = None \<Longrightarrow>
      r_hash R (r_hdel R k f db) = (r_hash R db)(k := (r_hash R db k)(f := None))"
    and hdel_str [simp]: "r_str R (r_hdel R k f db) = r_str R db"
    and hincrby_Some: "r_str R db k = None \<Longrightarrow> counter_add (r_hash R db k f) n = Some i \<Longrightarrow>
      fst (r_hincrby R k f n db) = Some i
      \<and> r_hash R (snd (r_hincrby R k f n db)) = (r_hash R db)(k := (r_hash R db k)(f \<mapsto> show_int i))"
    and hincrby_None: "r_str R db k = None \<Longrightarrow> counter_add (r_hash R db k f) n = None \<Longrightarrow> r_hincrby R k f n db = (None, db)"
    and hincrby_str [simp]: "r_str R (snd (r_hincrby R k f n db)) = r_str R db"
    and incrby_Some: "r_hash R db k = Map.empty \<Longrightarrow> counter_add (r_str R db k) n = Some i \<Longrightarrow>
      fst (r_incrby R k n db) = Some i
      \<and> r_str R (snd (r_incrby R k n db)) = (r_str R db)(k \<mapsto> show_int i)"
    and incrby_None: "r_hash R db k = Map.empty \<Longrightarrow> counter_add (r_str R db k) n = None \<Longrightarrow> r_incrby R k n db = (None, db)"
    and incrby_hash [simp]: "r_hash R (snd (r_incrby R k n db)) = r_hash R db"
    and incrby_llen [simp]: "r_llen R (snd (r_incrby R k n db)) = r_llen R db"
    and set_str [simp]: "r_str R (r_set R k v db) = (r_str R db)(k \<mapsto> v)"
    and set_hash [simp]: "k' \<noteq> k \<Longrightarrow> r_hash R (r_set R k v db) k' = r_hash R db k'"
    and del_str [simp]: "r_str R (r_del R k db) = (r_str R db)(k := None)"
    and del_hash [simp]: "r_hash R (r_del R k db) = (r_hash R db)(k := Map.empty)"
    and pexpire_str [simp]: "0 < t \<Longrightarrow> r_str R (r_pexpire R k t db) = r_str R db"
    and pexpire_hash [simp]: "0 < t \<Longrightarrow> r_hash R (r_pexpire R k t db) = r_hash R db"
    and pexpireat_str [simp]: "r_now R db < t \<Longrightarrow> r_str R (r_pexpireat R k t db) = r_str R db"
    and pexpireat_hash [simp]: "r_now R db < t \<Longrightarrow> r_hash R (r_pexpireat R k t db) = r_hash R db"
    and pexpireat_past: "t \<le> r_now R db \<Longrightarrow>
      r_hash R (r_pexpireat R k t db) = (r_hash R db)(k := Map.empty)
      \<and> r_str R (r_pexpireat R k t db) = (r_str R db)(k := None)"
    and pexpireat_now [simp]: "r_now R (r_pexpireat R k t db) = r_now R db"
    and setnx_absent: "0 < t \<Longrightarrow> \<not> r_exists R db k \<Longrightarrow> fst (r_setnx R k v t db)
      \<and> r_str R (snd (r_setnx R k v t db)) = (r_str R db)(k \<mapsto> v)
      \<and> r_hash R (snd (r_setnx R k v t db)) = r_hash R db"
    and setnx_present: "r_exists R db k \<Longrightarrow> r_setnx R k v t db = (False, db)"
    and publish_str [simp]: "r_str R (r_publish R ch db) = r_str R db"
    and publish_hash [simp]: "r_hash R (r_publish R ch db) = r_hash R db"
    and llen_nonneg: "0 \<le> r_llen R db k"
    and pexpire_llen [simp]: "r_llen R (r_pexpire R k t db) = r_llen R db"
    and del_llen [simp]: "k' \<noteq> k \<Longrightarrow> r_llen R (r_del R k db) k' = r_llen R db k'"
begin

text \<open>Every fact about a call follows from the fact about the function it runs.\<close>

lemma call_cases [consumes 1, case_names executed refused lost]:
  assumes "call R cmd f db = (res, db')"
  obtains x db1 where "res = Inr x" and "f db1 = (x, db')"
      and "r_hash R db1 = r_hash R db" and "r_str R db1 = r_str R db" and "r_llen R db1 = r_llen R db"
    | "res = Inl redis_error" and "r_hash R db' = r_hash R db" and "r_str R db' = r_str R db"
      and "r_llen R db' = r_llen R db"
    | x db1 where "res = Inl redis_error" and "f db1 = (x, db')"
      and "r_hash R db1 = r_hash R db" and "r_str R db1 = r_str R db" and "r_llen R db1 = r_llen R db"
proof -
  obtain t db1 where net: "r_net R cmd db = (t, db1)"
    by (cases "r_net R cmd db")
  then have db1: "db1 = snd (r_net R cmd db)" by simp
  obtain x db2 where f: "f db1 = (x, db2)" by (cases "f db1")
  have frame: "r_hash R db1 = r_hash R db" "r_str R db1 = r_str R db" "r_llen R db1 = r_llen R db"
    unfolding db1 by (rule net_hash net_str net_llen)+
  show thesis
  proof (cases t)
    case Executed
    with assms net f have "res = Inr x" "f db1 = (x, db')" by (auto simp: call_def)
    then show thesis using frame by (rule that(1))
  next
    case Refused
    with assms net have "res = Inl redis_error" "db' = db1" by (auto simp: call_def)
    then show thesis using frame that(2) by simp
  next
    case ReplyLost
    with assms net f have "res = Inl redis_error" "f db1 = (x, db')" by (auto simp: call_def)
    then show thesis using frame by (rule that(3))
  qed
qed

lemma command_Inr:
  assumes "command R cmd f db = (Inr x, db')"
  obtains d where "f d = (Inr x, db')" and "r_hash R d = r_hash R db" and "r_str R d = r_str R db"
proof -
  from assms have "call R cmd f db = (Inr (Inr x), db')"
    by (auto simp: command_def split: prod.splits sum.splits)
  then show thesis by (cases rule: call_cases) (auto intro: that)
qed

text \<open>A command either leaves no trace or ran in a state with the same data.\<close>

lemma command_cases [consumes 1, case_names idle ran]:
  assumes "command R cmd f db = (r, db')"
  obtains e where "r = Inl e" and "r_hash R db' = r_hash R db" and "r_str R db' = r_str R db"
    | x d where "f d = (x, db')" and "r_hash R d = r_hash R db" and "r_str R d = r_str R db"
      and "r = x \<or> r = Inl redis_error"
proof -
  obtain c where run: "call R cmd f db = (c, db')" and r: "r = (case c of Inl e \<Rightarrow> Inl e | Inr y \<Rightarrow> y)"
    using assms by (auto simp: command_def split: prod.splits sum.splits)
  from run show thesis
    by (cases rule: call_cases) (auto simp: r intro: that)
qed

lemma exists_hash: "r_hash R db k f = Some v \<Longrightarrow> r_exists R db k"
  by (auto simp: exists_iff)

end

section \<open>A reference server\<close>

text \<open>
  A server held in memory. It shows that the laws are consistent, and it is the server on which
  concrete runs are evaluated. \<open>m_trips\<close> lists the fates of the next round trips; when it is used
  up every call is executed.
\<close>

record mem =
  m_now :: int
  m_trips :: "trip list"
  m_hashes :: "(string \<times> (string \<times> string) list) list"
  m_strs :: "(string \<times> string) list"
  m_lens :: "(string \<times> nat) list"

definition mem_hash :: "mem \<Rightarrow> string \<Rightarrow> (string \<times> string) list" where
  "mem_hash m k = (case map_of (m_hashes m) k of None \<Rightarrow> [] | Some h \<Rightarrow> h)"

definition mem_put :: "string \<Rightarrow> (string \<times> string) list \<Rightarrow> mem \<Rightarrow> mem" where
  "mem_put k h m = m\<lparr>m_hashes := AList.update k h (m_hashes m)\<rparr>"

definition mem_exists :: "mem \<Rightarrow> string \<Rightarrow> bool" where
  "mem_exists m k \<longleftrightarrow> mem_hash m k \<noteq> [] \<or> map_of (m_strs m) k \<noteq> None"

definition mem_redis :: "mem redis" where
  "mem_redis = \<lparr>
     r_now = m_now,
     r_net = (\<lambda>_ m. case m_trips m of [] \<Rightarrow> (Executed, m) | t # ts \<Rightarrow> (t, m\<lparr>m_trips := ts\<rparr>)),
     r_hash = (\<lambda>m k. map_of (mem_hash m k)),
     r_hkeys = (\<lambda>m k. map fst (mem_hash m k)),
     r_str = (\<lambda>m. map_of (m_strs m)),
     r_exists = mem_exists,
     r_scan = (\<lambda>m p. filter (\<lambda>k. has_prefix k p \<and> mem_exists m k)
                        (remdups (map fst (m_hashes m) @ map fst (m_strs m)))),
     r_llen = (\<lambda>m k. case map_of (m_lens m) k of None \<Rightarrow> 0 | Some n \<Rightarrow> int n),
     r_hset = (\<lambda>k fvs m. mem_put k (fold (\<lambda>(f, v). AList.update f v) fvs (mem_hash m k)) m),
     r_hdel = (\<lambda>k f m. mem_put k (AList.delete f (mem_hash m k)) m),
     r_hincrby = (\<lambda>k f n m. case counter_add (map_of (mem_hash m k) f) n of
        None \<Rightarrow> (None, m)
      | Some i \<Rightarrow> (Some i, mem_put k (AList.update f (show_int i) (mem_hash m k)) m)),
     r_incrby = (\<lambda>k n m. case counter_add (map_of (m_strs m) k) n of
        None \<Rightarrow> (None, m)
      | Some i \<Rightarrow> (Some i, m\<lparr>m_strs := AList.update k (show_int i) (m_strs m)\<rparr>)),
     r_set = (\<lambda>k v m. m\<lparr>m_strs := AList.update k v (m_strs m)\<rparr>),
     r_del = (\<lambda>k m. m\<lparr>m_hashes := AList.delete k (m_hashes m), m_strs := AList.delete k (m_strs m)\<rparr>),
     r_pexpire = (\<lambda>_ _ m. m),
     r_pexpireat = (\<lambda>k t m. if m_now m < t then m else
        m\<lparr>m_hashes := AList.delete k (m_hashes m), m_strs := AList.delete k (m_strs m)\<rparr>),
     r_setnx = (\<lambda>k v _ m. if mem_exists m k then (False, m)
        else (True, m\<lparr>m_strs := AList.update k v (m_strs m)\<rparr>)),
     r_publish = (\<lambda>_ m. m)\<rparr>"

lemma mem_redis_simps [simp]:
  "r_hash mem_redis m k = map_of (mem_hash m k)"
  "r_hkeys mem_redis m k = map fst (mem_hash m k)"
  "r_str mem_redis m = map_of (m_strs m)"
  "r_exists mem_redis = mem_exists"
  by (simp_all add: mem_redis_def)

lemma mem_hash_simps [simp]:
  "mem_hash (mem_put k h m) k' = (if k' = k then h else mem_hash m k')"
  "mem_hash (m\<lparr>m_trips := ts\<rparr>) = mem_hash m" "mem_hash (m\<lparr>m_strs := ss\<rparr>) = mem_hash m"
  "m_strs (mem_put k h m) = m_strs m" "m_lens (mem_put k h m) = m_lens m"
  "m_now (mem_put k h m) = m_now m"
  by (auto simp: mem_hash_def mem_put_def update_conv' fun_eq_iff split: option.splits)

lemma map_of_fold_update:
  "map_of (fold (\<lambda>(f, v). AList.update f v) fvs h) = map_of h ++ map_of (rev fvs)"
  by (induction fvs arbitrary: h) (auto simp: update_conv' map_add_def fun_eq_iff split: option.splits)

lemma mem_hash_delete:
  "mem_hash (m\<lparr>m_hashes := AList.delete k (m_hashes m)\<rparr>) k' = (if k' = k then [] else mem_hash m k')"
  by (simp add: mem_hash_def delete_conv')

interpretation mem: redis_server mem_redis
proof (unfold_locales, goal_cases)
  case (1 c db) then show ?case by (auto simp: mem_redis_def fun_eq_iff split: list.splits)
next
  case (2 c db) then show ?case by (auto simp: mem_redis_def split: list.splits)
next
  case (3 c db) then show ?case by (auto simp: mem_redis_def split: list.splits)
next
  case (4 f db k) then show ?case by (auto simp: map_of_eq_None_iff)
next
  case (5 db k) then show ?case
    by (cases "mem_hash db k") (auto simp: mem_exists_def fun_eq_iff)
next
  case (6 k db p) then show ?case
    by (auto simp: mem_redis_def mem_exists_def mem_hash_def map_of_eq_None_iff split: option.splits)
       (force dest: map_of_SomeD)+
qed (auto simp: mem_redis_def fun_eq_iff map_of_fold_update update_conv' delete_conv' mem_hash_delete
      split: option.splits)

end
