(* ===== verification/Capability_Store.thy ===== *)
theory Capability_Store
  imports Destination_Negotiation Redis_Interface
begin

text \<open>
  The Redis capability store, \<open>internal/httpsignature/redis_destination_capability.go\<close>: its
  operations over the Redis parameter, and the proof that it meets the planner's contract.

  The key of an entry is a prefix and the hexadecimal SHA-256 digest of scope and origin. The
  digest is an argument \<open>sha\<close>: what is proved holds for every digest function, so it does not rest
  on collision freedom (a lookup compares the stored identity with the one asked for). The Lua
  script compares the two observation times as numbers; it is modelled for decimal integers, which
  is what the script itself writes, and fails on any other text. A nil store, or a store with a nil
  client, is the client \<^const>\<open>None\<close>.
\<close>

definition defaultDestinationCapabilityPrefix :: string where
  "defaultDestinationCapabilityPrefix = ''relay:http-signature:capability:''"

definition NewRedisDestinationCapabilityStore :: "'c option \<Rightarrow> string \<Rightarrow> ('c \<times> string) result" where
  "NewRedisDestinationCapabilityStore client given =
     (case client of
        None \<Rightarrow> Inl ''destination capability Redis client is nil''
      | Some c \<Rightarrow>
          let pre = trim_space given
          in Inr (c, if pre = [] then defaultDestinationCapabilityPrefix else pre))"

definition capabilityKey :: "(string \<Rightarrow> string) \<Rightarrow> string \<Rightarrow> string \<Rightarrow> string \<Rightarrow> string" where
  "capabilityKey sha pre scope origin = pre @ sha (scope @ [char_of (0 :: nat)] @ origin)"

definition saveDestinationCapabilityScript ::
  "'db redis \<Rightarrow> string \<Rightarrow> capability \<Rightarrow> 'db \<Rightarrow> int option \<times> 'db" where
  "saveDestinationCapabilityScript R key c db =
     (let observed = unix_milli (c_observed c); expires = unix_milli (c_expires c);
          write = (Some 1, r_pexpireat R key expires (r_hset R key
             [(''origin'', c_origin c), (''scope'', c_scope c), (''profile'', c_profile c),
              (''evidence'', c_evidence c), (''observed_at_ms'', show_int observed),
              (''expires_at_ms'', show_int expires)] db))
      in if r_str R db key \<noteq> None then (None, db)
         else case r_hash R db key ''observed_at_ms'' of
           None \<Rightarrow> write
         | Some current \<Rightarrow>
             (case parse_int64 current of
                NumOk i \<Rightarrow> if i \<ge> observed then (Some 0, db) else write
              | _ \<Rightarrow> (None, db)))"

definition SaveDestinationCapability ::
  "'db redis option \<Rightarrow> (string \<Rightarrow> string) \<Rightarrow> string \<Rightarrow> time \<Rightarrow> capability \<Rightarrow> 'db
    \<Rightarrow> (bool \<times> string option) \<times> 'db" where
  "SaveDestinationCapability client sha pre wall c db =
     (case client of
        None \<Rightarrow> ((False, Some ''destination capability Redis store is not initialized''), db)
      | Some R \<Rightarrow>
     (case capability_validate c of
        Inl e \<Rightarrow> ((False, Some e), db)
      | Inr _ \<Rightarrow>
          if \<not> wall < c_expires c then ((False, Some ''destination capability is already expired''), db)
          else
            (case call R ''eval'' (saveDestinationCapabilityScript R
                      (capabilityKey sha pre (c_scope c) (c_origin c)) c) db of
               (Inl e, db') \<Rightarrow> ((False, Some e), db')
             | (Inr None, db') \<Rightarrow> ((False, Some redis_error), db')
             | (Inr (Some result), db') \<Rightarrow> ((result = 1, None), db'))))"

definition field :: "(string \<Rightarrow> string option) \<Rightarrow> string \<Rightarrow> string" where
  "field values f = (case values f of None \<Rightarrow> [] | Some v \<Rightarrow> v)"

definition parseCapabilityTime :: "(string \<Rightarrow> string option) \<Rightarrow> string \<Rightarrow> time result" where
  "parseCapabilityTime values f =
     (let raw = field values f
      in if raw = [] then Inl ''destination capability field is empty''
         else case parse_int64 raw of
           NumOk ms \<Rightarrow> Inr (of_unix_milli ms)
         | _ \<Rightarrow> Inl ''parse destination capability field'')"

definition decodeCapability ::
  "(string \<Rightarrow> string option) \<Rightarrow> string \<Rightarrow> string \<Rightarrow> capability option result" where
  "decodeCapability values scope origin =
     (case parseCapabilityTime values ''observed_at_ms'' of
        Inl e \<Rightarrow> Inl e
      | Inr observedAt \<Rightarrow>
        (case parseCapabilityTime values ''expires_at_ms'' of
           Inl e \<Rightarrow> Inl e
         | Inr expiresAt \<Rightarrow>
             let c = \<lparr>c_origin = field values ''origin'', c_scope = field values ''scope'',
                      c_profile = field values ''profile'', c_evidence = field values ''evidence'',
                      c_observed = observedAt, c_expires = expiresAt\<rparr>
             in if c_origin c \<noteq> origin \<or> c_scope c \<noteq> scope
                then Inl ''stored destination capability identity does not match key''
                else case capability_validate c of Inl e \<Rightarrow> Inl e | Inr _ \<Rightarrow> Inr (Some c)))"

definition LoadDestinationCapability ::
  "'db redis option \<Rightarrow> (string \<Rightarrow> string) \<Rightarrow> string \<Rightarrow> string \<Rightarrow> string \<Rightarrow> 'db
    \<Rightarrow> capability option result \<times> 'db" where
  "LoadDestinationCapability client sha pre scope origin db =
     (case client of
        None \<Rightarrow> (Inl ''destination capability Redis store is not initialized'', db)
      | Some R \<Rightarrow>
     (case scope_validate scope of
        Inl e \<Rightarrow> (Inl e, db)
      | Inr _ \<Rightarrow>
        (case NormalizeDestinationOrigin origin of
           Inl e \<Rightarrow> (Inl e, db)
         | Inr normalizedOrigin \<Rightarrow>
             if normalizedOrigin \<noteq> origin
             then (Inl ''destination capability lookup origin is not normalized'', db)
             else let key = capabilityKey sha pre scope origin
                  in case command R ''hgetall'' (on_hash R key (\<lambda>d. ((r_hkeys R d key, r_hash R d key), d))) db of
                       (Inl e, db') \<Rightarrow> (Inl e, db')
                     | (Inr (keys, values), db') \<Rightarrow>
                         if keys = [] then (Inr None, db')
                         else (decodeCapability values scope origin, db'))))"

definition redis_capability_store ::
  "'db redis \<Rightarrow> (string \<Rightarrow> string) \<Rightarrow> string \<Rightarrow> 'db capability_store" where
  "redis_capability_store R sha pre =
     \<lparr>s_load = LoadDestinationCapability (Some R) sha pre, s_save = SaveDestinationCapability (Some R) sha pre\<rparr>"

text \<open>The store's invariant: no string sits under a key the store may use for a hash.\<close>

definition hash_keys :: "'db redis \<Rightarrow> string \<Rightarrow> 'db \<Rightarrow> bool" where
  "hash_keys R pre db \<longleftrightarrow> (\<forall>k. has_prefix k pre \<longrightarrow> r_str R db k = None)"

section \<open>The store meets the contract\<close>

lemma field_simps [simp]: "field (m(f \<mapsto> v)) g = (if g = f then v else field m g)"
  by (simp add: field_def)

lemma decodeCapability_valid:
  "decodeCapability values scope origin = Inr (Some c) \<Longrightarrow>
     capability_validate c = Inr () \<and> c_origin c = origin \<and> c_scope c = scope"
  by (auto simp: decodeCapability_def Let_def split: sum.splits if_splits)

text \<open>The fields that the script writes decode to the capability, its times cut to milliseconds.\<close>

definition capability_fields :: "capability \<Rightarrow> (string \<times> string) list" where
  "capability_fields c =
     [(''origin'', c_origin c), (''scope'', c_scope c), (''profile'', c_profile c),
      (''evidence'', c_evidence c), (''observed_at_ms'', show_int (unix_milli (c_observed c))),
      (''expires_at_ms'', show_int (unix_milli (c_expires c)))]"

lemma map_of_rev_capability_fields:
  "map_of (rev (capability_fields c)) = map_of (capability_fields c)"
  by (auto simp: capability_fields_def fun_eq_iff)

lemma decode_capability_fields:
  assumes "capability_validate c = Inr ()" and "storable c"
  shows "decodeCapability (h ++ map_of (rev (capability_fields c))) (c_scope c) (c_origin c)
    = Inr (Some (cut_capability c))"
  using validate_cut_capability [OF assms] assms(2)
  by (cases c) (simp add: decodeCapability_def parseCapabilityTime_def capability_fields_def Let_def field_def
      parse_int64_show_int storable_def cut_capability_def)

locale redis_capability = redis_server R for R :: "'db redis" +
  fixes sha :: "string \<Rightarrow> string" and pre :: string
begin

abbreviation (input) key_of :: "capability \<Rightarrow> string" where
  "key_of c \<equiv> capabilityKey sha pre (c_scope c) (c_origin c)"

lemma hash_keys_key: "hash_keys R pre db \<Longrightarrow> r_str R db (capabilityKey sha pre sc org) = None"
  by (simp add: hash_keys_def capabilityKey_def)

lemma script_cases:
  assumes "hash_keys R pre db" and "saveDestinationCapabilityScript R (key_of c) c db = (res, db')"
  obtains "res = Some 1" and "db' = r_pexpireat R (key_of c) (unix_milli (c_expires c))
        (r_hset R (key_of c) (capability_fields c) db)"
      and "\<And>v i. r_hash R db (key_of c) ''observed_at_ms'' = Some v \<Longrightarrow> parse_int64 v = NumOk i
        \<Longrightarrow> i < unix_milli (c_observed c)"
    | "res \<noteq> Some 1" and "db' = db"
  using assms
  by (force simp: saveDestinationCapabilityScript_def capability_fields_def Let_def hash_keys_key
      split: option.splits num_result.splits if_splits)

lemma script_hash_keys:
  assumes "hash_keys R pre db" and "saveDestinationCapabilityScript R (key_of c) c db = (res, db')"
  shows "hash_keys R pre db'"
  using assms
proof (cases rule: script_cases)
  case 1
  then show ?thesis
    using assms(1) pexpireat_past [of "unix_milli (c_expires c)" "r_hset R (key_of c) (capability_fields c) db"]
    by (cases "r_now R db < unix_milli (c_expires c)") (auto simp: hash_keys_def)
qed (use assms(1) in simp)

lemma hash_keys_cong: "r_str R db = r_str R db' \<Longrightarrow> hash_keys R pre db = hash_keys R pre db'"
  by (simp add: hash_keys_def)

lemma save_hash_keys:
  assumes "hash_keys R pre db" and "SaveDestinationCapability (Some R) sha pre w c db = (v, db')"
  shows "hash_keys R pre db'"
proof -
  obtain res db1 where
    run: "call R ''eval'' (saveDestinationCapabilityScript R (key_of c) c) db = (res, db1)"
    by fastforce
  then have "hash_keys R pre db1"
    by (cases rule: call_cases) (use assms(1) script_hash_keys hash_keys_cong in metis)+
  with assms run show ?thesis
    by (auto simp: SaveDestinationCapability_def split: sum.splits if_splits option.splits)
qed

text \<open>A save that reports True ran the script to its end.\<close>

lemma save_True:
  assumes "SaveDestinationCapability (Some R) sha pre w c db = ((True, err), db')"
  obtains db1 where "capability_validate c = Inr ()" and "r_hash R db1 = r_hash R db"
    and "r_str R db1 = r_str R db"
    and "saveDestinationCapabilityScript R (key_of c) c db1 = (Some 1, db')"
proof -
  obtain res db2 where
    run: "call R ''eval'' (saveDestinationCapabilityScript R (key_of c) c) db = (res, db2)"
    by fastforce
  with assms have res: "res = Inr (Some 1)" "db2 = db'" "capability_validate c = Inr ()"
    by (auto simp: SaveDestinationCapability_def split: sum.splits if_splits option.splits)
  from run show thesis
    by (cases rule: call_cases) (use res that in auto)
qed

lemma load_reads:
  assumes "LoadDestinationCapability (Some R) sha pre sc org db = (Inr r, db')"
  obtains "r_hash R db' = r_hash R db" and "r_str R db' = r_str R db"
    and "r = None" and "r_hash R db (capabilityKey sha pre sc org) = Map.empty"
  | "r_hash R db' = r_hash R db" and "r_str R db' = r_str R db"
    and "decodeCapability (r_hash R db (capabilityKey sha pre sc org)) sc org = Inr r"
proof -
  let ?k = "capabilityKey sha pre sc org"
  obtain res db2 where
    run: "command R ''hgetall'' (on_hash R ?k (\<lambda>d. ((r_hkeys R d ?k, r_hash R d ?k), d))) db = (res, db2)"
    by fastforce
  with assms obtain keys vals where res: "res = Inr (keys, vals)" "db2 = db'"
    "if keys = [] then r = None else decodeCapability vals sc org = Inr r"
    by (auto simp: LoadDestinationCapability_def Let_def split: sum.splits if_splits)
  from run have frame: "r_hash R db' = r_hash R db" "r_str R db' = r_str R db"
    and vals: "keys = r_hkeys R db' ?k" "vals = r_hash R db ?k"
    unfolding res by (elim command_Inr, auto simp: on_hash_def split: if_splits)+
  show thesis
  proof (cases "keys = []")
    case True
    with vals have "r_hash R db ?k f = None" for f
      using hkeys_iff [of f db' ?k] frame by simp
    then show thesis using that(1) frame res True by auto
  qed (use that(2) frame res vals in auto)
qed

lemma load_hash_keys:
  assumes "hash_keys R pre db" and "LoadDestinationCapability (Some R) sha pre sc org db = (res, db')"
  shows "hash_keys R pre db'"
proof -
  let ?k = "capabilityKey sha pre sc org"
  obtain r db1 where
    run: "command R ''hgetall'' (on_hash R ?k (\<lambda>d. ((r_hkeys R d ?k, r_hash R d ?k), d))) db = (r, db1)"
    by fastforce
  then have "hash_keys R pre db1"
    by (cases rule: command_cases) (use assms(1) in \<open>auto simp: hash_keys_def on_hash_def split: if_splits\<close>)
  with assms run show ?thesis
    by (auto simp: LoadDestinationCapability_def Let_def split: sum.splits if_splits)
qed

lemma load_valid_capability:
  assumes "LoadDestinationCapability (Some R) sha pre sc org db = (Inr (Some c), db')"
  shows "capability_validate c = Inr () \<and> c_origin c = org \<and> c_scope c = sc"
  using assms by (cases rule: load_reads) (auto dest: decodeCapability_valid)

lemma load_saved_capability:
  assumes ok: "hash_keys R pre db"
    and save: "SaveDestinationCapability (Some R) sha pre w c db = ((True, None), db1)"
    and c: "storable c" "r_now R db1 < unix_milli (c_expires c)"
    and load: "LoadDestinationCapability (Some R) sha pre (c_scope c) (c_origin c) db1 = (Inr r, db2)"
  shows "r = Some (cut_capability c)"
proof -
  from save obtain d where valid: "capability_validate c = Inr ()"
    and d: "r_hash R d = r_hash R db" "r_str R d = r_str R db"
    and script: "saveDestinationCapabilityScript R (key_of c) c d = (Some 1, db1)"
    by (rule save_True)
  have ok_d: "hash_keys R pre d"
    using ok d(2) hash_keys_cong by blast
  from ok_d script have db1: "db1 = r_pexpireat R (key_of c) (unix_milli (c_expires c))
      (r_hset R (key_of c) (capability_fields c) d)"
    by (rule script_cases) auto
  have "r_hash R db1 (key_of c) = r_hash R d (key_of c) ++ map_of (rev (capability_fields c))"
    using c(2) hash_keys_key [OF ok_d] by (simp add: db1)
  then have "decodeCapability (r_hash R db1 (key_of c)) (c_scope c) (c_origin c)
      = Inr (Some (cut_capability c))" and "r_hash R db1 (key_of c) \<noteq> Map.empty"
    using decode_capability_fields [OF valid c(1)]
    by (simp, auto simp: capability_fields_def)
  with load show ?thesis
    by (auto elim!: load_reads)
qed

lemma save_newer_capability:
  assumes ok: "hash_keys R pre db"
    and load: "LoadDestinationCapability (Some R) sha pre (c_scope c) (c_origin c) db = (Inr (Some c0), db1)"
    and save: "SaveDestinationCapability (Some R) sha pre w c db1 = ((True, None), db2)"
  shows "unix_milli (c_observed c0) < unix_milli (c_observed c)"
proof -
  from load have frame: "r_hash R db1 = r_hash R db" "r_str R db1 = r_str R db"
    and dec: "decodeCapability (r_hash R db (key_of c)) (c_scope c) (c_origin c) = Inr (Some c0)"
    by (auto elim!: load_reads)
  from save obtain d where d: "r_hash R d = r_hash R db" "r_str R d = r_str R db"
    and script: "saveDestinationCapabilityScript R (key_of c) c d = (Some 1, db2)"
    using frame by (auto elim!: save_True)
  from dec obtain v i where v: "r_hash R d (key_of c) ''observed_at_ms'' = Some v"
    "parse_int64 v = NumOk i" "c_observed c0 = of_unix_milli i"
    unfolding d by (auto simp: decodeCapability_def parseCapabilityTime_def Let_def field_def
        split: sum.splits if_splits option.splits num_result.splits)
  have "hash_keys R pre d"
    using ok d(2) hash_keys_cong by blast
  then have "i < unix_milli (c_observed c)"
    using script by (rule script_cases) (use v(1,2) in auto)
  with v(3) show ?thesis
    by (simp add: unix_milli_def of_unix_milli_def)
qed

end

sublocale redis_capability \<subseteq> rcap: capability_contract "redis_capability_store R sha pre"
  "hash_keys R pre" "r_now R"
proof (unfold_locales, unfold redis_capability_store_def capability_store.simps)
qed (fact load_hash_keys save_hash_keys load_valid_capability load_saved_capability
      save_newer_capability)+

context redis_capability
begin

lemma store_contract: "capability_contract (redis_capability_store R sha pre) (hash_keys R pre) (r_now R)"
  by (rule rcap.capability_contract_axioms)

end

lemma redis_store_contract:
  "redis_server R \<Longrightarrow>
     capability_contract (redis_capability_store R sha pre) (hash_keys R pre) (r_now R)"
  by (rule redis_capability.store_contract) (simp add: redis_capability_def)

interpretation mem_capability: redis_capability mem_redis sha pre
  for sha :: "string \<Rightarrow> string" and pre :: string
  by unfold_locales

section \<open>Properties\<close>

lemma negotiator_ttl:
  assumes "NewDestinationNegotiator st pos neg = Inr n"
  shows "n_store n = st" and "hour \<le> n_positive_ttl n" and "minute \<le> n_negative_ttl n"
    and "n_negative_ttl n \<le> n_positive_ttl n"
  using assms by (auto simp: NewDestinationNegotiator_def Let_def split: if_splits)

lemma storable_observation:
  assumes "0 \<le> now" and "millisecond \<le> ttl" and "now + ttl < 2 ^ 53 * millisecond"
    and "c_observed c = now" and "c_expires c = now + ttl"
  shows "storable c"
proof -
  have "(now + millisecond) div millisecond \<le> (now + ttl) div millisecond"
    using assms(2) by (intro zdiv_mono1) auto
  moreover have "(now + ttl) div millisecond < 2 ^ 53"
    using assms(3) by simp
  ultimately show ?thesis
    using assms(1,4,5) by (simp add: storable_def unix_milli_def pos_imp_zdiv_nonneg_iff)
qed







end
