(* ===== verification/Observability.thy ===== *)
theory Observability
  imports Redis_Interface
begin

text \<open>
  The operational counters, \<open>internal/observability/operational.go\<close>: bounded label values, the ledger
  of counters in Redis, the classification of delivery errors, and the reading of the ledger when
  the counters are collected. An operation of the relay emits values of type \<open>metric\<close>;
  \<open>record_metric\<close> is what the recorder does with one of them. The write time-out of a call and the
  Prometheus descriptors are not modelled.
\<close>

definition OperationalMetricsKey :: string where
  "OperationalMetricsKey = ''relay:metrics:operational''"

abbreviation metricFieldSeparator :: char where "metricFieldSeparator \<equiv> CHR ''|''"

section \<open>Bounded labels\<close>

definition boundedValue :: "string \<Rightarrow> string \<Rightarrow> string list \<Rightarrow> string" where
  "boundedValue v fallback allowed =
     (let w = to_lower (trim_space v) in if w \<in> set allowed then w else fallback)"

definition normalizeActivityResult :: "string \<Rightarrow> string" where
  "normalizeActivityResult v = boundedValue v ''other'' [''accepted'', ''rejected'', ''ignored'']"

definition activity_types :: "(string \<times> string) list" where
  "activity_types = [(''create'', ''Create''), (''update'', ''Update''), (''delete'', ''Delete''),
     (''move'', ''Move''), (''announce'', ''Announce''), (''follow'', ''Follow''), (''undo'', ''Undo''),
     (''accept'', ''Accept''), (''reject'', ''Reject'')]"

definition normalizeActivityType :: "string \<Rightarrow> string" where
  "normalizeActivityType v =
     (case map_of activity_types (to_lower (trim_space v)) of None \<Rightarrow> ''other'' | Some t \<Rightarrow> t)"

definition normalizeActivityReason :: "string \<Rightarrow> string" where
  "normalizeActivityReason v = boundedValue v ''other''
     [''accepted'', ''invalid'', ''policy'', ''method'', ''internal'', ''unsupported'']"

definition normalizeHTTPSignatureProfile :: "string \<Rightarrow> string" where
  "normalizeHTTPSignatureProfile v = boundedValue v ''other'' [''legacy'', ''rfc9421'']"

definition normalizeHTTPSignatureResult :: "string \<Rightarrow> string" where
  "normalizeHTTPSignatureResult v = boundedValue v ''other'' [''success'', ''failure'']"

definition normalizeHTTPSignatureReason :: "string \<Rightarrow> string" where
  "normalizeHTTPSignatureReason v = boundedValue v ''other''
     [''accepted'', ''parse'', ''key'', ''crypto'', ''digest'', ''replay'', ''time'', ''actor'',
      ''authority'', ''policy'', ''redis'', ''activity'']"

definition normalizeQueueKind :: "string \<Rightarrow> string" where
  "normalizeQueueKind v = boundedValue v ''other'' [''register'', ''relay'']"

definition normalizeQueueResult :: "string \<Rightarrow> string" where
  "normalizeQueueResult v = boundedValue v ''other'' [''accepted'', ''rejected'', ''error'', ''skipped'']"

definition normalizeQueueReason :: "string \<Rightarrow> string" where
  "normalizeQueueReason v = boundedValue v ''other''
     [''accepted'', ''capacity'', ''fanout_limit'', ''redis'', ''store'', ''group'', ''broker'', ''no_targets'']"

definition normalizeFanoutResult :: "string \<Rightarrow> string" where
  "normalizeFanoutResult v = boundedValue v ''other'' [''queued'', ''rejected'', ''error'']"

definition normalizeDeliveryResult :: "string \<Rightarrow> string" where
  "normalizeDeliveryResult v = boundedValue v ''other'' [''success'', ''failure'', ''skipped'']"

definition normalizeDeliveryErrorClass :: "string \<Rightarrow> string" where
  "normalizeDeliveryErrorClass v = boundedValue v ''other''
     [''none'', ''timeout'', ''dns'', ''tls'', ''http_4xx'', ''http_5xx'', ''invalid_url'', ''activity_expired'']"

definition normalizeDirectoryResult :: "string \<Rightarrow> string" where
  "normalizeDirectoryResult v = boundedValue v ''other'' [''success'', ''failure'', ''skipped'']"

definition normalizeDirectoryDiagnostic :: "string \<Rightarrow> string" where
  "normalizeDirectoryDiagnostic v = boundedValue v ''other''
     [''none'', ''transport'', ''internal'', ''rate_limited'', ''authentication'', ''enrollment'',
      ''suspended'', ''lifecycle'', ''malformed'', ''lease_lost'', ''disabled'']"

definition normalizeRedisComponent :: "string \<Rightarrow> string" where
  "normalizeRedisComponent v = boundedValue v ''other'' [''api'', ''worker'', ''collector'']"

definition normalizeRedisOperation :: "string \<Rightarrow> string" where
  "normalizeRedisOperation v = boundedValue v ''other''
     [''queue_reserve'', ''queue_release'', ''activity_store'', ''activity_load'', ''receiver_health'',
      ''statistics'', ''activity_cleanup'', ''ledger'', ''queue_snapshot'', ''state_snapshot'']"

section \<open>Recording\<close>

datatype metric = QueueAdmission string string string | FanoutTargets string int
  | RedisFailure string string | ActivityMetric string string string
  | SignatureVerification string string string | DeliveryMetric string string
  | DirectoryMetric string string

definition increment ::
  "'db redis option \<Rightarrow> string \<Rightarrow> int \<Rightarrow> string list \<Rightarrow> 'db \<Rightarrow> unit result \<times> 'db" where
  "increment recorder metric delta labels db =
     (case recorder of
        None \<Rightarrow> (Inr (), db)
      | Some R \<Rightarrow>
          if delta < 1 then (Inr (), db)
          else command R ''hincrby'' (\<lambda>d.
                 if r_str R d OperationalMetricsKey \<noteq> None then (Inl redis_error, d)
                 else case r_hincrby R OperationalMetricsKey (join [metricFieldSeparator] (metric # labels)) delta d of
                   (None, d') \<Rightarrow> (Inl redis_error, d') | (Some _, d') \<Rightarrow> (Inr (), d')) db)"

definition RecordActivity :: "'db redis option \<Rightarrow> string \<Rightarrow> string \<Rightarrow> string \<Rightarrow> 'db \<Rightarrow> unit result \<times> 'db" where
  "RecordActivity rec result typ reason = increment rec ''activities_total'' 1
     [normalizeActivityResult result, normalizeActivityType typ, normalizeActivityReason reason]"

definition RecordHTTPSignatureVerification ::
  "'db redis option \<Rightarrow> string \<Rightarrow> string \<Rightarrow> string \<Rightarrow> 'db \<Rightarrow> unit result \<times> 'db" where
  "RecordHTTPSignatureVerification rec prof result reason =
     increment rec ''http_signature_verifications_total'' 1
       [normalizeHTTPSignatureProfile prof, normalizeHTTPSignatureResult result, normalizeHTTPSignatureReason reason]"

definition RecordQueueAdmission ::
  "'db redis option \<Rightarrow> string \<Rightarrow> string \<Rightarrow> string \<Rightarrow> 'db \<Rightarrow> unit result \<times> 'db" where
  "RecordQueueAdmission rec kind result reason = increment rec ''queue_admissions_total'' 1
     [normalizeQueueKind kind, normalizeQueueResult result, normalizeQueueReason reason]"

definition RecordFanoutTargets :: "'db redis option \<Rightarrow> string \<Rightarrow> int \<Rightarrow> 'db \<Rightarrow> unit result \<times> 'db" where
  "RecordFanoutTargets rec result count db =
     (if count < 1 then (Inr (), db)
      else increment rec ''fanout_targets_total'' count [normalizeFanoutResult result] db)"

definition RecordDelivery :: "'db redis option \<Rightarrow> string \<Rightarrow> string \<Rightarrow> 'db \<Rightarrow> unit result \<times> 'db" where
  "RecordDelivery rec result cls = increment rec ''delivery_attempts_total'' 1
     [normalizeDeliveryResult result, normalizeDeliveryErrorClass cls]"

definition RecordDirectory :: "'db redis option \<Rightarrow> string \<Rightarrow> string \<Rightarrow> 'db \<Rightarrow> unit result \<times> 'db" where
  "RecordDirectory rec result diagnostic = increment rec ''directory_scheduler_attempts_total'' 1
     [normalizeDirectoryResult result, normalizeDirectoryDiagnostic diagnostic]"

definition RecordRedisFailure :: "'db redis option \<Rightarrow> string \<Rightarrow> string \<Rightarrow> 'db \<Rightarrow> unit result \<times> 'db" where
  "RecordRedisFailure rec component operation = increment rec ''redis_operation_failures_total'' 1
     [normalizeRedisComponent component, normalizeRedisOperation operation]"

fun record_metric :: "'db redis option \<Rightarrow> metric \<Rightarrow> 'db \<Rightarrow> unit result \<times> 'db" where
  "record_metric rec (QueueAdmission k r w) = RecordQueueAdmission rec k r w"
| "record_metric rec (FanoutTargets r n) = RecordFanoutTargets rec r n"
| "record_metric rec (RedisFailure c w) = RecordRedisFailure rec c w"
| "record_metric rec (ActivityMetric r t w) = RecordActivity rec r t w"
| "record_metric rec (SignatureVerification p r w) = RecordHTTPSignatureVerification rec p r w"
| "record_metric rec (DeliveryMetric r c) = RecordDelivery rec r c"
| "record_metric rec (DirectoryMetric r d) = RecordDirectory rec r d"

section \<open>Collecting\<close>

text \<open>
  The series a ledger field contributes to: the metric's name and the labels after normalisation;
  a field of another shape contributes nothing.
\<close>

definition ledger_series :: "string \<Rightarrow> (string \<times> string list) option" where
  "ledger_series fld =
     (case split_on metricFieldSeparator fld of
        [m, a, b, c] \<Rightarrow>
          if m = ''activities_total''
          then Some (m, [normalizeActivityResult a, normalizeActivityType b, normalizeActivityReason c])
          else if m = ''http_signature_verifications_total''
          then Some (m, [normalizeHTTPSignatureProfile a, normalizeHTTPSignatureResult b, normalizeHTTPSignatureReason c])
          else if m = ''queue_admissions_total''
          then Some (m, [normalizeQueueKind a, normalizeQueueResult b, normalizeQueueReason c])
          else None
      | [m, a] \<Rightarrow> if m = ''fanout_targets_total'' then Some (m, [normalizeFanoutResult a]) else None
      | [m, a, b] \<Rightarrow>
          if m = ''delivery_attempts_total''
          then Some (m, [normalizeDeliveryResult a, normalizeDeliveryErrorClass b])
          else if m = ''directory_scheduler_attempts_total''
          then Some (m, [normalizeDirectoryResult a, normalizeDirectoryDiagnostic b])
          else if m = ''redis_operation_failures_total''
          then Some (m, [normalizeRedisComponent a, normalizeRedisOperation b])
          else None
      | _ \<Rightarrow> None)"

section \<open>Classification of delivery errors\<close>

text \<open>
  A Go error as the classifier sees it: its text, whether its chain has a deadline error, a network
  time-out or a DNS error, and the inner error of a \<open>url.Error\<close> in the chain.
\<close>

datatype go_error = GoError (err_text: string) (err_deadline: bool) (err_net_timeout: bool)
  (err_dns: bool) (err_url: "go_error option")

text \<open>The leftmost match of \<open>(?:^|[: ])([45][0-9]{2})(?: |$)\<close>: the first digit of the status.\<close>

fun find_status :: "bool \<Rightarrow> string \<Rightarrow> char option" where
  "find_status boundary (a # b # c # s) =
     (if boundary \<and> (a = CHR ''4'' \<or> a = CHR ''5'') \<and> is_digit b \<and> is_digit c
         \<and> (s = [] \<or> hd s = CHR '' '') then Some a
      else find_status (a = CHR '':'' \<or> a = CHR '' '') (b # c # s))"
| "find_status boundary _ = None"

fun ClassifyDeliveryError :: "go_error option \<Rightarrow> string" where
  "ClassifyDeliveryError None = ''none''"
| "ClassifyDeliveryError (Some (GoError txt deadline net_timeout dns inner)) =
     (if deadline then ''timeout''
      else if net_timeout then ''timeout''
      else if dns then ''dns''
      else case inner of
        Some e \<Rightarrow> ClassifyDeliveryError (Some e)
      | None \<Rightarrow>
          let t = to_lower txt
          in if has_sub t ''timeout'' \<or> has_sub t ''deadline exceeded'' then ''timeout''
             else if has_sub t ''no such host'' \<or> has_sub t ''dns'' then ''dns''
             else if has_sub t ''tls'' \<or> has_sub t ''x509'' \<or> has_sub t ''certificate'' then ''tls''
             else if has_sub t ''unsupported protocol scheme'' \<or> has_sub t ''missing protocol scheme''
                     \<or> has_sub t ''invalid url'' \<or> has_sub t ''create delivery request''
             then ''invalid_url''
             else case find_status True t of
               Some d \<Rightarrow> if d = CHR ''4'' then ''http_4xx'' else ''http_5xx''
             | None \<Rightarrow> ''other'')"

section \<open>Properties\<close>

text \<open>The series that a metric is recorded in, with the amount added.\<close>

fun metric_series :: "metric \<Rightarrow> string \<times> string list" where
  "metric_series (QueueAdmission k r w) =
     (''queue_admissions_total'', [normalizeQueueKind k, normalizeQueueResult r, normalizeQueueReason w])"
| "metric_series (FanoutTargets r n) = (''fanout_targets_total'', [normalizeFanoutResult r])"
| "metric_series (RedisFailure c w) =
     (''redis_operation_failures_total'', [normalizeRedisComponent c, normalizeRedisOperation w])"
| "metric_series (ActivityMetric r t w) =
     (''activities_total'', [normalizeActivityResult r, normalizeActivityType t, normalizeActivityReason w])"
| "metric_series (SignatureVerification p r w) =
     (''http_signature_verifications_total'',
      [normalizeHTTPSignatureProfile p, normalizeHTTPSignatureResult r, normalizeHTTPSignatureReason w])"
| "metric_series (DeliveryMetric r c) =
     (''delivery_attempts_total'', [normalizeDeliveryResult r, normalizeDeliveryErrorClass c])"
| "metric_series (DirectoryMetric r d) =
     (''directory_scheduler_attempts_total'', [normalizeDirectoryResult r, normalizeDirectoryDiagnostic d])"

fun metric_delta :: "metric \<Rightarrow> int" where
  "metric_delta (FanoutTargets r n) = n"
| "metric_delta _ = 1"

definition ledger_field :: "metric \<Rightarrow> string" where
  "ledger_field m = join [metricFieldSeparator] (fst (metric_series m) # snd (metric_series m))"

lemma record_metric_increment:
  "record_metric rec m db = increment rec (fst (metric_series m)) (metric_delta m) (snd (metric_series m)) db"
  by (cases m) (auto simp: RecordQueueAdmission_def RecordFanoutTargets_def RecordRedisFailure_def
      RecordActivity_def RecordHTTPSignatureVerification_def RecordDelivery_def RecordDirectory_def increment_def
      split: option.splits)

text \<open>A label list is clean when its members are lower case, printable and free of the separator.\<close>

definition clean :: "string \<Rightarrow> bool" where
  "clean s \<longleftrightarrow> graphic s \<and> to_lower s = s \<and> metricFieldSeparator \<notin> set s"

lemma boundedValue_range: "boundedValue v f allowed \<in> insert f (set allowed)"
  by (simp add: boundedValue_def Let_def)

lemma boundedValue_idem:
  "list_all clean (f # allowed) \<Longrightarrow> boundedValue (boundedValue v f allowed) f allowed = boundedValue v f allowed"
  by (auto simp: boundedValue_def Let_def clean_def list_all_iff trim_space_graphic)

lemma boundedValue_sep:
  "list_all clean (f # allowed) \<Longrightarrow> metricFieldSeparator \<notin> set (boundedValue v f allowed)"
  using boundedValue_range [of v f allowed] by (auto simp: list_all_iff clean_def)

lemmas normalizer_defs = normalizeActivityResult_def normalizeActivityReason_def
  normalizeHTTPSignatureProfile_def normalizeHTTPSignatureResult_def normalizeHTTPSignatureReason_def
  normalizeQueueKind_def normalizeQueueResult_def normalizeQueueReason_def normalizeFanoutResult_def
  normalizeDeliveryResult_def normalizeDeliveryErrorClass_def normalizeDirectoryResult_def
  normalizeDirectoryDiagnostic_def normalizeRedisComponent_def normalizeRedisOperation_def

lemmas clean_eval = clean_def graphic_char_def to_lower_def lower_char_def

lemma normalizers_idem [simp]:
  "normalizeActivityResult (normalizeActivityResult v) = normalizeActivityResult v"
  "normalizeActivityReason (normalizeActivityReason v) = normalizeActivityReason v"
  "normalizeHTTPSignatureProfile (normalizeHTTPSignatureProfile v) = normalizeHTTPSignatureProfile v"
  "normalizeHTTPSignatureResult (normalizeHTTPSignatureResult v) = normalizeHTTPSignatureResult v"
  "normalizeHTTPSignatureReason (normalizeHTTPSignatureReason v) = normalizeHTTPSignatureReason v"
  "normalizeQueueKind (normalizeQueueKind v) = normalizeQueueKind v"
  "normalizeQueueResult (normalizeQueueResult v) = normalizeQueueResult v"
  "normalizeQueueReason (normalizeQueueReason v) = normalizeQueueReason v"
  "normalizeFanoutResult (normalizeFanoutResult v) = normalizeFanoutResult v"
  "normalizeDeliveryResult (normalizeDeliveryResult v) = normalizeDeliveryResult v"
  "normalizeDeliveryErrorClass (normalizeDeliveryErrorClass v) = normalizeDeliveryErrorClass v"
  "normalizeDirectoryResult (normalizeDirectoryResult v) = normalizeDirectoryResult v"
  "normalizeDirectoryDiagnostic (normalizeDirectoryDiagnostic v) = normalizeDirectoryDiagnostic v"
  "normalizeRedisComponent (normalizeRedisComponent v) = normalizeRedisComponent v"
  "normalizeRedisOperation (normalizeRedisOperation v) = normalizeRedisOperation v"
  unfolding normalizer_defs by (rule boundedValue_idem, simp add: clean_eval)+

lemma normalizeActivityType_range: "normalizeActivityType v \<in> insert ''other'' (snd ` set activity_types)"
  by (auto simp: normalizeActivityType_def split: option.splits dest!: map_of_SomeD intro: rev_image_eqI)

lemma normalizeActivityType_idem [simp]: "normalizeActivityType (normalizeActivityType v) = normalizeActivityType v"
proof -
  have "list_all (\<lambda>t. normalizeActivityType t = t) (''other'' # map snd activity_types)"
    by code_simp
  then show ?thesis using normalizeActivityType_range [of v] by (auto simp: list_all_iff)
qed

lemma normalizers_sep [simp]:
  "metricFieldSeparator \<notin> set (normalizeActivityResult v)" "metricFieldSeparator \<notin> set (normalizeActivityReason v)"
  "metricFieldSeparator \<notin> set (normalizeHTTPSignatureProfile v)"
  "metricFieldSeparator \<notin> set (normalizeHTTPSignatureResult v)"
  "metricFieldSeparator \<notin> set (normalizeHTTPSignatureReason v)"
  "metricFieldSeparator \<notin> set (normalizeQueueKind v)" "metricFieldSeparator \<notin> set (normalizeQueueResult v)"
  "metricFieldSeparator \<notin> set (normalizeQueueReason v)" "metricFieldSeparator \<notin> set (normalizeFanoutResult v)"
  "metricFieldSeparator \<notin> set (normalizeDeliveryResult v)"
  "metricFieldSeparator \<notin> set (normalizeDeliveryErrorClass v)"
  "metricFieldSeparator \<notin> set (normalizeDirectoryResult v)"
  "metricFieldSeparator \<notin> set (normalizeDirectoryDiagnostic v)"
  "metricFieldSeparator \<notin> set (normalizeRedisComponent v)"
  "metricFieldSeparator \<notin> set (normalizeRedisOperation v)"
  unfolding normalizer_defs by (rule boundedValue_sep, simp add: clean_eval)+

lemma normalizeActivityType_sep [simp]: "metricFieldSeparator \<notin> set (normalizeActivityType v)"
  using normalizeActivityType_range [of v] by (auto simp: activity_types_def)

lemma split_on_notin: "c \<notin> set s \<Longrightarrow> split_on c s = [s]"
  by (induction s) auto

lemma split_on_append: "c \<notin> set s \<Longrightarrow> split_on c (s @ c # t) = s # split_on c t"
  by (induction s) auto

lemma split_on_join: "xs \<noteq> [] \<Longrightarrow> list_all (\<lambda>s. c \<notin> set s) xs \<Longrightarrow> split_on c (join [c] xs) = xs"
  by (induction "[c]" xs rule: join.induct) (auto simp: split_on_notin split_on_append)

lemma split_ledger_field:
  "split_on metricFieldSeparator (ledger_field m) = fst (metric_series m) # snd (metric_series m)"
  unfolding ledger_field_def by (rule split_on_join) (cases m; simp)+

lemma ledger_series_field: "ledger_series (ledger_field m) = Some (metric_series m)"
  unfolding ledger_series_def split_ledger_field by (cases m) simp_all

text \<open>All series: a name and the values each of its labels can have.\<close>

definition label_values :: "(string \<times> string list list) list" where
  "label_values =
     [(''queue_admissions_total'',
       [[''other'', ''register'', ''relay''], [''other'', ''accepted'', ''rejected'', ''error'', ''skipped''],
        [''other'', ''accepted'', ''capacity'', ''fanout_limit'', ''redis'', ''store'', ''group'', ''broker'', ''no_targets'']]),
      (''fanout_targets_total'', [[''other'', ''queued'', ''rejected'', ''error'']]),
      (''redis_operation_failures_total'',
       [[''other'', ''api'', ''worker'', ''collector''],
        [''other'', ''queue_reserve'', ''queue_release'', ''activity_store'', ''activity_load'', ''receiver_health'',
         ''statistics'', ''activity_cleanup'', ''ledger'', ''queue_snapshot'', ''state_snapshot'']]),
      (''activities_total'',
       [[''other'', ''accepted'', ''rejected'', ''ignored''], ''other'' # map snd activity_types,
        [''other'', ''accepted'', ''invalid'', ''policy'', ''method'', ''internal'', ''unsupported'']]),
      (''http_signature_verifications_total'',
       [[''other'', ''legacy'', ''rfc9421''], [''other'', ''success'', ''failure''],
        [''other'', ''accepted'', ''parse'', ''key'', ''crypto'', ''digest'', ''replay'', ''time'', ''actor'',
         ''authority'', ''policy'', ''redis'', ''activity'']]),
      (''delivery_attempts_total'',
       [[''other'', ''success'', ''failure'', ''skipped''],
        [''other'', ''none'', ''timeout'', ''dns'', ''tls'', ''http_4xx'', ''http_5xx'', ''invalid_url'', ''activity_expired'']]),
      (''directory_scheduler_attempts_total'',
       [[''other'', ''success'', ''failure'', ''skipped''],
        [''other'', ''none'', ''transport'', ''internal'', ''rate_limited'', ''authentication'', ''enrollment'',
         ''suspended'', ''lifecycle'', ''malformed'', ''lease_lost'', ''disabled'']])]"

definition all_series :: "(string \<times> string list) list" where
  "all_series = concat (map (\<lambda>(n, ls). map (Pair n) (product_lists ls)) label_values)"

lemma boundedValue_listed: "boundedValue v f allowed \<in> set (f # allowed)"
  using boundedValue_range by simp

lemma normalizeActivityType_listed: "normalizeActivityType v \<in> set (''other'' # map snd activity_types)"
  using normalizeActivityType_range by simp

lemma metric_series_listed:
  "\<exists>ls. map_of label_values (fst (metric_series m)) = Some ls
     \<and> list_all2 (\<lambda>x l. x \<in> set l) (snd (metric_series m)) ls"
  by (cases m)
     (simp_all add: label_values_def normalizer_defs boundedValue_listed normalizeActivityType_listed
       del: list.set(2))

lemma metric_series_in: "metric_series m \<in> set all_series"
proof -
  obtain ls where "map_of label_values (fst (metric_series m)) = Some ls"
    and "list_all2 (\<lambda>x l. x \<in> set l) (snd (metric_series m)) ls"
    using metric_series_listed [of m] by blast
  then have "(fst (metric_series m), ls) \<in> set label_values" "snd (metric_series m) \<in> set (product_lists ls)"
    by (auto simp: product_lists_set dest: map_of_SomeD)
  then show ?thesis
    unfolding all_series_def set_concat set_map
    by (intro UN_I [of "map (Pair (fst (metric_series m))) (product_lists ls)"])
       (auto intro!: rev_image_eqI [of "snd (metric_series m)"] rev_image_eqI [of "(fst (metric_series m), ls)"])
qed

lemma length_all_series: "length all_series = 664"
  by (simp add: all_series_def label_values_def length_concat length_product_lists activity_types_def
      del: product_lists.simps)



text \<open>
  two reasons that the relay records for a refused or skipped fan-out, and the two operations
  of the loop guard that it records as failed, are not among the allowed label values: all of them are
  counted as \<open>other\<close>.
\<close>
theorem recorded_labels_collapse_to_other:
  "map normalizeQueueReason [''signature_plan'', ''canonical_duplicate''] = [''other'', ''other'']
   \<and> map normalizeRedisOperation [''canonical_reserve'', ''canonical_release''] = [''other'', ''other'']"
  by (simp add: normalizer_defs boundedValue_def trim_space_graphic graphic_char_def to_lower_def lower_char_def)

end
