(* ===== verification/Configured_Signer.thy ===== *)
theory Configured_Signer
  imports Destination_Negotiation
begin

text \<open>
  The runtime signer of outbound requests: \<open>internal/httpsignature/signer.go\<close> (its construction) and
  \<open>configured_signer.go\<close> (construction and planning). The private key has an arbitrary type \<open>'k\<close>; a nil
  pointer is \<^const>\<open>None\<close>.
\<close>

record 'k signer =
  sg_key_id :: string
  sg_private_key :: "'k option"

record ('k, 's) configured_signer =
  cs_signer :: "'k signer option"
  cs_profile :: profile
  cs_negotiator :: "'s negotiator option"

definition NewSigner :: "string \<Rightarrow> 'k option \<Rightarrow> 'k signer result" where
  "NewSigner keyID privateKey =
     (if trim_space keyID = [] then Inl ''HTTP signature signer has no key ID''
      else if privateKey = None then Inl ''HTTP signature signer has no private key''
      else Inr \<lparr>sg_key_id = keyID, sg_private_key = privateKey\<rparr>)"

definition newConfiguredSigner ::
  "string \<Rightarrow> 'k option \<Rightarrow> profile \<Rightarrow> 's negotiator option \<Rightarrow> ('k, 's) configured_signer result" where
  "newConfiguredSigner keyID privateKey prof neg =
     (case NewSigner keyID privateKey of
        Inl e \<Rightarrow> Inl e
      | Inr sg \<Rightarrow> Inr \<lparr>cs_signer = Some sg, cs_profile = prof, cs_negotiator = neg\<rparr>)"

definition NewConfiguredSigner ::
  "string \<Rightarrow> 'k option \<Rightarrow> profile \<Rightarrow> ('k, 's) configured_signer result" where
  "NewConfiguredSigner keyID privateKey prof =
     (case ParseProfile prof of
        Inl e \<Rightarrow> Inl (''outbound HTTP signature profile: '' @ e)
      | Inr normalized \<Rightarrow>
          if normalized = ProfileDual then Inl ErrDualProfileRequiresDeliveryPolicy
          else newConfiguredSigner keyID privateKey normalized None)"

definition NewNegotiatingSigner ::
  "string \<Rightarrow> 'k option \<Rightarrow> profile \<Rightarrow> 's negotiator option \<Rightarrow> ('k, 's) configured_signer result" where
  "NewNegotiatingSigner keyID privateKey prof neg =
     (case ParseOutboundProfile prof of
        Inl e \<Rightarrow> Inl (''outbound HTTP signature profile: '' @ e)
      | Inr normalized \<Rightarrow>
          if normalized = ProfileDual \<and> neg = None then Inl ErrDualProfileRequiresDeliveryPolicy
          else newConfiguredSigner keyID privateKey normalized neg)"

definition signer_profile :: "('k, 's) configured_signer option \<Rightarrow> profile" where
  "signer_profile sg = (case sg of None \<Rightarrow> [] | Some s \<Rightarrow> cs_profile s)"

definition signer_plan ::
  "('k, 's) configured_signer option \<Rightarrow> string \<Rightarrow> string \<Rightarrow> time \<Rightarrow> time \<Rightarrow> 's \<Rightarrow> plan result \<times> 's" where
  "signer_plan sg scope destination now wall s =
     (case sg of
        None \<Rightarrow> (Inl ''configured outbound HTTP signer is not initialized'', s)
      | Some c \<Rightarrow>
          if cs_signer c = None then (Inl ''configured outbound HTTP signer is not initialized'', s)
          else if cs_negotiator c \<noteq> None
          then Plan (cs_negotiator c) (cs_profile c) scope destination now wall s
          else if cs_profile c = ProfileDual then (Inl ErrDualProfileRequiresDeliveryPolicy, s)
          else case NormalizeDestinationOrigin destination of
            Inl e \<Rightarrow> (Inl e, s)
          | Inr origin \<Rightarrow>
              (Inr \<lparr>p_origin = origin, p_scope = scope, p_primary = cs_profile c, p_fallback = [],
                    p_reason = (if cs_profile c = ProfileRFC9421 then ConfiguredRFC9421 else ConfiguredLegacy)\<rparr>, s))"

text \<open>A signer that a constructor returned plans wire profiles, whatever the mode.\<close>

definition built_signer :: "'s capability_store \<Rightarrow> ('k, 's) configured_signer \<Rightarrow> bool" where
  "built_signer store c \<longleftrightarrow> cs_signer c \<noteq> None
     \<and> (case cs_negotiator c of
          None \<Rightarrow> cs_profile c \<in> {ProfileLegacy, ProfileRFC9421}
        | Some neg \<Rightarrow> cs_profile c \<in> {ProfileLegacy, ProfileDual, ProfileRFC9421} \<and> n_store neg = Some store)"

lemma NewConfiguredSigner_built: "NewConfiguredSigner keyID k prof = Inr c \<Longrightarrow> built_signer store c"
  by (auto simp: NewConfiguredSigner_def newConfiguredSigner_def built_signer_def
      split: sum.splits if_splits dest!: ParseProfile_Inr)

lemma NewNegotiatingSigner_built:
  assumes "NewNegotiatingSigner keyID k prof neg = Inr c" and "\<And>n. neg = Some n \<Longrightarrow> n_store n = Some store"
  shows "built_signer store c"
  using assms
  by (auto simp: NewNegotiatingSigner_def newConfiguredSigner_def built_signer_def ParseOutboundProfile_def
      split: sum.splits if_splits option.splits dest!: ParseProfile_Inr)

context capability_contract
begin

lemma signer_plan_wire:
  assumes "built_signer store c" and "signer_plan (Some c) sc dest now wall s = (Inr p, s')"
  shows "p_primary p \<in> {ProfileLegacy, ProfileRFC9421}"
proof (cases "cs_negotiator c")
  case None
  with assms show ?thesis
    by (auto simp: signer_plan_def built_signer_def split: if_splits sum.splits)
next
  case (Some neg)
  with assms have "n_store neg = Some store" "Plan (Some neg) (cs_profile c) sc dest now wall s = (Inr p, s')"
    by (auto simp: signer_plan_def built_signer_def split: if_splits)
  then show ?thesis by (rule plan_shape(1))
qed

end

end
