(* ===== verification/Relay_State.thy ===== *)
theory Relay_State
  imports Go_URL Redis_Interface
begin

text \<open>
  The relay's state, \<open>models/state.go\<close>: subscribers, followers, publishers, the limited and blocked
  domains and the two switches. Redis holds it; every process keeps a copy with look-up tables
  that \<open>Load\<close> replaces as a whole.

  The operations take the Redis parameter, the copy and the server state and return the new copy
  and server state; the mutex of the Go struct makes each replacement of the copy one step. A nil
  Go map is the empty map. A \<open>SCAN\<close> iteration is one call, and so is a pipeline; an empty pipeline
  sends nothing. Operations whose Go version ignores the reply of a command ignore it here.
\<close>

section \<open>Data\<close>

record subscriber =
  sub_domain :: string
  sub_inbox :: string
  sub_activity :: string
  sub_actor :: string

record follower =
  fol_domain :: string
  fol_inbox :: string
  fol_activity :: string
  fol_actor :: string
  fol_mutual :: bool

record publisher =
  pub_domain :: string
  pub_actor :: string
  pub_inbox :: string
  pub_first_seen :: string
  pub_last_seen :: string
  pub_last_id :: string
  pub_last_type :: string
  pub_count :: int

record relay_config =
  person_only :: bool
  manually_accept :: bool

datatype config_key = PersonOnlyKey | ManuallyAcceptKey

record relay_state =
  notifiable :: bool
  RelayConfig :: relay_config
  LimitedDomains :: "string list"
  BlockedDomains :: "string list"
  Subscribers :: "subscriber list"
  Followers :: "follower list"
  Publishers :: "publisher list"
  SubscribersAndFollowers :: "subscriber list"
  limitedDomains :: "string set"
  blockedDomains :: "string set"
  subscribersByDomain :: "string \<Rightarrow> subscriber option"
  followersByDomain :: "string \<Rightarrow> follower option"
  publishersByDomain :: "string \<Rightarrow> publisher option"

abbreviation subscription_prefix :: string where "subscription_prefix \<equiv> ''relay:subscription:''"
abbreviation follower_prefix :: string where "follower_prefix \<equiv> ''relay:follower:''"
abbreviation publisher_prefix :: string where "publisher_prefix \<equiv> ''relay:publisher:''"
abbreviation pending_prefix :: string where "pending_prefix \<equiv> ''relay:pending:''"
abbreviation config_hash :: string where "config_hash \<equiv> ''relay:config''"
abbreviation limited_hash :: string where "limited_hash \<equiv> ''relay:config:limitedDomain''"
abbreviation blocked_hash :: string where "blocked_hash \<equiv> ''relay:config:blockedDomain''"

section \<open>Validation of followers\<close>

definition normalizeStateDomain :: "string \<Rightarrow> string" where
  "normalizeStateDomain domain = to_lower (trim_suffix (trim_space domain) ''.'')"

definition validateFollowerURL :: "string \<Rightarrow> string \<Rightarrow> unit result" where
  "validateFollowerURL fld v =
     (case url_parse (trim_space v) of
        None \<Rightarrow> Inl (fld @ '' is invalid'')
      | Some u \<Rightarrow>
          if u_scheme u \<noteq> ''http'' \<and> u_scheme u \<noteq> ''https'' then Inl (fld @ '' must use http or https'')
          else if hostname u = [] then Inl (fld @ '' has no host'')
          else if u_user u \<noteq> None then Inl (fld @ '' contains user information'')
          else Inr ())"

text \<open>The second parse of the actor URL succeeds where the first did; its host includes the port.\<close>

definition actor_host :: "string \<Rightarrow> string" where
  "actor_host v = (case url_parse (trim_space v) of None \<Rightarrow> [] | Some u \<Rightarrow> u_host u)"

definition validateFollower :: "follower \<Rightarrow> unit result" where
  "validateFollower f =
     (let domain = normalizeStateDomain (fol_domain f)
      in if domain = [] then Inl ''follower domain is empty''
         else case validateFollowerURL ''follower actor_id'' (fol_actor f) of
           Inl e \<Rightarrow> Inl e
         | Inr _ \<Rightarrow>
             if normalizeStateDomain (actor_host (fol_actor f)) \<noteq> domain
             then Inl ''follower actor domain does not match stored domain''
             else case validateFollowerURL ''follower inbox_url'' (fol_inbox f) of
               Inl e \<Rightarrow> Inl e
             | Inr _ \<Rightarrow>
                 if trim_space (fol_activity f) = [] then Inl ''follower activity_id is empty'' else Inr ())"

section \<open>Loading\<close>

definition ScanKeys :: "'db redis \<Rightarrow> string \<Rightarrow> 'db \<Rightarrow> string list result \<times> 'db" where
  "ScanKeys R pre db = (case call R ''scan'' (\<lambda>d. (r_scan R d pre, d)) db of
      (Inl e, db') \<Rightarrow> (Inl e, db') | (Inr keys, db') \<Rightarrow> (Inr (sort keys), db'))"

definition loadHashes :: "'db redis \<Rightarrow> string list \<Rightarrow> string list \<Rightarrow> 'db
    \<Rightarrow> string option list list result \<times> 'db" where
  "loadHashes R keys names db =
     (if keys = [] then (Inr [], db)
      else command R ''hmget'' (\<lambda>d.
             (if list_ex (\<lambda>k. r_str R d k \<noteq> None) keys then Inl redis_error
              else Inr (map (\<lambda>k. map (r_hash R d k) names) keys), d)) db)"

definition stringValue :: "string option list \<Rightarrow> nat \<Rightarrow> string" where
  "stringValue vals i =
     (if i \<ge> length vals then [] else case vals ! i of None \<Rightarrow> [] | Some v \<Rightarrow> v)"

definition loadRelayConfig :: "'db redis \<Rightarrow> 'db \<Rightarrow> relay_config result \<times> 'db" where
  "loadRelayConfig R db =
     (case command R ''hmget'' (on_hash R config_hash
               (\<lambda>d. (map (r_hash R d config_hash) [''block_service'', ''manually_accept''], d))) db of
        (Inl e, db') \<Rightarrow> (Inl e, db')
      | (Inr vals, db') \<Rightarrow>
          (Inr \<lparr>person_only = (stringValue vals 0 = ''1''), manually_accept = (stringValue vals 1 = ''1'')\<rparr>, db'))"

definition loadDomainSet :: "'db redis \<Rightarrow> string \<Rightarrow> 'db \<Rightarrow> string list result \<times> 'db" where
  "loadDomainSet R key db = command R ''hkeys'' (on_hash R key (\<lambda>d. (r_hkeys R d key, d))) db"

definition decode_subscriber :: "string \<Rightarrow> string option list \<Rightarrow> subscriber" where
  "decode_subscriber key vals =
     \<lparr>sub_domain = trim_prefix key subscription_prefix, sub_inbox = stringValue vals 0,
      sub_activity = stringValue vals 1, sub_actor = stringValue vals 2\<rparr>"

definition decode_follower :: "string \<Rightarrow> string option list \<Rightarrow> follower option" where
  "decode_follower key vals =
     (let mutual = stringValue vals 3;
          f = \<lparr>fol_domain = trim_prefix key follower_prefix, fol_inbox = stringValue vals 0,
               fol_activity = stringValue vals 1, fol_actor = stringValue vals 2, fol_mutual = (mutual = ''1'')\<rparr>
      in if isl (validateFollower f) \<or> mutual \<noteq> ''0'' \<and> mutual \<noteq> ''1'' then None else Some f)"

definition as_subscriber :: "follower \<Rightarrow> subscriber" where
  "as_subscriber f = \<lparr>sub_domain = fol_domain f, sub_inbox = fol_inbox f,
     sub_activity = fol_activity f, sub_actor = fol_actor f\<rparr>"

definition decode_publisher :: "string \<Rightarrow> string option list \<Rightarrow> publisher" where
  "decode_publisher key vals =
     \<lparr>pub_domain = trim_prefix key publisher_prefix, pub_actor = stringValue vals 0,
      pub_inbox = stringValue vals 1, pub_first_seen = stringValue vals 2,
      pub_last_seen = stringValue vals 3, pub_last_id = stringValue vals 4,
      pub_last_type = stringValue vals 5, pub_count = num_value (parse_int64 (stringValue vals 6))\<rparr>"

definition loadSubscribers :: "'db redis \<Rightarrow> 'db \<Rightarrow> subscriber list result \<times> 'db" where
  "loadSubscribers R = then_io (ScanKeys R subscription_prefix) (\<lambda>keys.
     then_io (loadHashes R keys [''inbox_url'', ''activity_id'', ''actor_id'']) (\<lambda>vals db.
       (Inr (map2 decode_subscriber keys vals), db)))"

definition loadFollowers :: "'db redis \<Rightarrow> 'db \<Rightarrow> follower list result \<times> 'db" where
  "loadFollowers R = then_io (ScanKeys R follower_prefix) (\<lambda>keys.
     then_io (loadHashes R keys [''inbox_url'', ''activity_id'', ''actor_id'', ''mutually_follow'']) (\<lambda>vals db.
       (Inr (List.map_filter (\<lambda>(k, v). decode_follower k v) (zip keys vals)), db)))"

definition loadPublishers :: "'db redis \<Rightarrow> 'db \<Rightarrow> publisher list result \<times> 'db" where
  "loadPublishers R = then_io (ScanKeys R publisher_prefix) (\<lambda>keys.
     then_io (loadHashes R keys [''actor_id'', ''inbox_url'', ''first_seen'', ''last_seen'',
         ''last_activity_id'', ''last_activity_type'', ''activity_count'']) (\<lambda>vals db.
       (Inr (map2 decode_publisher keys vals), db)))"

text \<open>A table built by inserting the elements in order: the last one with a domain stays.\<close>

definition table :: "('a \<Rightarrow> string) \<Rightarrow> 'a list \<Rightarrow> string \<Rightarrow> 'a option" where
  "table key xs = map_of (rev (map (\<lambda>x. (key x, x)) xs))"

definition publish_snapshot ::
  "relay_config \<Rightarrow> string list \<Rightarrow> string list \<Rightarrow> subscriber list \<Rightarrow> follower list \<Rightarrow> publisher list
    \<Rightarrow> relay_state \<Rightarrow> relay_state" where
  "publish_snapshot conf limited blocked subs fols pubs st =
     st\<lparr>RelayConfig := conf, LimitedDomains := limited, BlockedDomains := blocked, Subscribers := subs,
        Followers := fols, Publishers := pubs,
        SubscribersAndFollowers := subs @ map as_subscriber fols,
        limitedDomains := set limited, blockedDomains := set blocked,
        subscribersByDomain := table sub_domain subs, followersByDomain := table fol_domain fols,
        publishersByDomain := table pub_domain pubs\<rparr>"

definition load_state :: "'db redis \<Rightarrow> relay_state \<Rightarrow> 'db \<Rightarrow> relay_state result \<times> 'db" where
  "load_state R st =
     then_io (loadRelayConfig R) (\<lambda>conf.
     then_io (loadDomainSet R limited_hash) (\<lambda>limited.
     then_io (loadDomainSet R blocked_hash) (\<lambda>blocked.
     then_io (loadSubscribers R) (\<lambda>subs.
     then_io (loadFollowers R) (\<lambda>fols.
     then_io (loadPublishers R) (\<lambda>pubs db.
       (Inr (publish_snapshot conf (sort limited) (sort blocked) subs fols pubs st), db)))))))"

definition Load :: "'db redis \<Rightarrow> relay_state \<Rightarrow> 'db \<Rightarrow> unit result \<times> relay_state \<times> 'db" where
  "Load R st db = (case load_state R st db of
      (Inl e, db') \<Rightarrow> (Inl e, st, db') | (Inr st', db') \<Rightarrow> (Inr (), st', db'))"

definition empty_state :: "bool \<Rightarrow> relay_state" where
  "empty_state notif = \<lparr>notifiable = notif, RelayConfig = \<lparr>person_only = False, manually_accept = False\<rparr>,
     LimitedDomains = [], BlockedDomains = [], Subscribers = [], Followers = [], Publishers = [],
     SubscribersAndFollowers = [], limitedDomains = {}, blockedDomains = {},
     subscribersByDomain = Map.empty, followersByDomain = Map.empty, publishersByDomain = Map.empty\<rparr>"

definition NewState :: "'db redis \<Rightarrow> bool \<Rightarrow> 'db \<Rightarrow> relay_state \<times> 'db" where
  "NewState R notif db = snd (Load R (empty_state notif) db)"

section \<open>Queries\<close>

record snapshot =
  sn_config :: relay_config
  sn_limited :: "string list"
  sn_blocked :: "string list"
  sn_subscribers :: "subscriber list"
  sn_followers :: "follower list"
  sn_publishers :: "publisher list"
  sn_both :: "subscriber list"

definition Snapshot :: "relay_state \<Rightarrow> snapshot" where
  "Snapshot st = \<lparr>sn_config = RelayConfig st, sn_limited = LimitedDomains st,
     sn_blocked = BlockedDomains st, sn_subscribers = Subscribers st, sn_followers = Followers st,
     sn_publishers = Publishers st, sn_both = SubscribersAndFollowers st\<rparr>"

definition IsLimited :: "relay_state \<Rightarrow> string \<Rightarrow> bool" where
  "IsLimited st d \<longleftrightarrow> d \<in> limitedDomains st"

definition IsBlocked :: "relay_state \<Rightarrow> string \<Rightarrow> bool" where
  "IsBlocked st d \<longleftrightarrow> d \<in> blockedDomains st"

definition IsSubscriber :: "relay_state \<Rightarrow> string \<Rightarrow> bool" where
  "IsSubscriber st d \<longleftrightarrow> subscribersByDomain st d \<noteq> None"

definition IsFollower :: "relay_state \<Rightarrow> string \<Rightarrow> bool" where
  "IsFollower st d \<longleftrightarrow> followersByDomain st d \<noteq> None"

definition IsSubscriberOrFollower :: "relay_state \<Rightarrow> string \<Rightarrow> bool" where
  "IsSubscriberOrFollower st d \<longleftrightarrow> subscribersByDomain st d \<noteq> None \<or> followersByDomain st d \<noteq> None"

definition IsPublisher :: "relay_state \<Rightarrow> string \<Rightarrow> bool" where
  "IsPublisher st d \<longleftrightarrow> publishersByDomain st (normalizeStateDomain d) \<noteq> None"

definition PersonOnly :: "relay_state \<Rightarrow> bool" where
  "PersonOnly st = person_only (RelayConfig st)"

definition ManualApprovalRequired :: "relay_state \<Rightarrow> bool" where
  "ManualApprovalRequired st = manually_accept (RelayConfig st)"

definition SelectSubscriber :: "relay_state \<Rightarrow> string \<Rightarrow> subscriber option" where
  "SelectSubscriber st d = subscribersByDomain st d"

definition SelectFollower :: "relay_state \<Rightarrow> string \<Rightarrow> follower option" where
  "SelectFollower st d = followersByDomain st d"

definition SelectPublisher :: "relay_state \<Rightarrow> string \<Rightarrow> publisher option" where
  "SelectPublisher st d = publishersByDomain st (normalizeStateDomain d)"

section \<open>Updates\<close>

definition refresh :: "'db redis \<Rightarrow> relay_state \<Rightarrow> 'db \<Rightarrow> relay_state \<times> 'db" where
  "refresh R st db =
     (if notifiable st then (st, snd (call R ''publish'' (\<lambda>d. ((), r_publish R ''relay_refresh'' d)) db))
      else snd (Load R st db))"

text \<open>One message on the channel, as the goroutine of \<open>ListenNotify\<close> handles it.\<close>

definition on_notify :: "'db redis \<Rightarrow> relay_state \<Rightarrow> 'db \<Rightarrow> bool \<times> relay_state \<times> 'db" where
  "on_notify R st db = (case Load R st db of (r, st', db') \<Rightarrow> (\<not> isl r, st', db'))"

definition hset_command ::
  "'db redis \<Rightarrow> string \<Rightarrow> (string \<times> string) list \<Rightarrow> 'db \<Rightarrow> unit result \<times> 'db" where
  "hset_command R key fvs = command R ''hset'' (on_hash R key (\<lambda>d. ((), r_hset R key fvs d)))"

definition hdel_command :: "'db redis \<Rightarrow> string \<Rightarrow> string \<Rightarrow> 'db \<Rightarrow> unit result \<times> 'db" where
  "hdel_command R key f = command R ''hdel'' (on_hash R key (\<lambda>d. ((), r_hdel R key f d)))"

definition del_command :: "'db redis \<Rightarrow> string \<Rightarrow> 'db \<Rightarrow> unit result \<times> 'db" where
  "del_command R key = call R ''del'' (\<lambda>d. ((), r_del R key d))"

definition SetConfig ::
  "'db redis \<Rightarrow> config_key \<Rightarrow> bool \<Rightarrow> relay_state \<Rightarrow> 'db \<Rightarrow> relay_state \<times> 'db" where
  "SetConfig R key v st db =
     (let s = (if v then ''1'' else ''0'');
          f = (case key of PersonOnlyKey \<Rightarrow> ''block_service'' | ManuallyAcceptKey \<Rightarrow> ''manually_accept'')
      in refresh R st (snd (hset_command R config_hash [(f, s)] db)))"

definition AddSubscriber :: "'db redis \<Rightarrow> subscriber \<Rightarrow> relay_state \<Rightarrow> 'db \<Rightarrow> relay_state \<times> 'db" where
  "AddSubscriber R s st db =
     refresh R st (snd (hset_command R (subscription_prefix @ sub_domain s)
       [(''inbox_url'', sub_inbox s), (''activity_id'', sub_activity s), (''actor_id'', sub_actor s)] db))"

definition DelSubscriber :: "'db redis \<Rightarrow> string \<Rightarrow> relay_state \<Rightarrow> 'db \<Rightarrow> relay_state \<times> 'db" where
  "DelSubscriber R domain st db =
     refresh R st (snd (del_command R (pending_prefix @ domain)
       (snd (del_command R (subscription_prefix @ domain) db))))"

definition follower_fields :: "follower \<Rightarrow> (string \<times> string) list" where
  "follower_fields f = [(''inbox_url'', fol_inbox f), (''activity_id'', fol_activity f),
     (''actor_id'', fol_actor f), (''mutually_follow'', if fol_mutual f then ''1'' else ''0'')]"

definition AddFollowerChecked ::
  "'db redis \<Rightarrow> follower \<Rightarrow> relay_state \<Rightarrow> 'db \<Rightarrow> unit result \<times> relay_state \<times> 'db" where
  "AddFollowerChecked R f st db =
     (case validateFollower f of
        Inl e \<Rightarrow> (Inl e, st, db)
      | Inr _ \<Rightarrow>
          (case hset_command R (follower_prefix @ normalizeStateDomain (fol_domain f)) (follower_fields f) db of
             (Inl e, db') \<Rightarrow> (Inl e, st, db')
           | (Inr _, db') \<Rightarrow> (Inr (), refresh R st db')))"

definition AddFollower :: "'db redis \<Rightarrow> follower \<Rightarrow> relay_state \<Rightarrow> 'db \<Rightarrow> relay_state \<times> 'db" where
  "AddFollower R f st db = snd (AddFollowerChecked R f st db)"

definition updateFollowerStatusScript ::
  "'db redis \<Rightarrow> string \<Rightarrow> string \<Rightarrow> 'db \<Rightarrow> int result \<times> 'db" where
  "updateFollowerStatusScript R key status db =
     (if \<not> r_exists R db key then (Inr 0, db)
      else if r_str R db key \<noteq> None then (Inl redis_error, db)
      else if list_ex (\<lambda>f. case r_hash R db key f of None \<Rightarrow> True | Some v \<Rightarrow> v = [])
                [''inbox_url'', ''activity_id'', ''actor_id'', ''mutually_follow'']
      then (Inr (- 1), r_del R key db)
      else (Inr 1, r_hset R key [(''mutually_follow'', status)] db))"

definition UpdateFollowerStatusChecked ::
  "'db redis \<Rightarrow> string \<Rightarrow> bool \<Rightarrow> relay_state \<Rightarrow> 'db \<Rightarrow> unit result \<times> relay_state \<times> 'db" where
  "UpdateFollowerStatusChecked R domain0 mutual st db =
     (let domain = normalizeStateDomain domain0
      in if domain = [] then (Inl ''follower domain is empty'', st, db)
         else case command R ''eval'' (updateFollowerStatusScript R (follower_prefix @ domain)
                       (if mutual then ''1'' else ''0'')) db of
           (Inl e, db') \<Rightarrow> (Inl e, st, db')
         | (Inr result, db') \<Rightarrow>
             if result = 1 then (Inr (), refresh R st db')
             else if result = 0 then (Inl ''follower does not exist'', st, db')
             else if result = - 1
             then (Inl ''follower record was incomplete and has been removed'', refresh R st db')
             else (Inl ''unexpected follower status update result'', st, db'))"

definition UpdateFollowerStatus ::
  "'db redis \<Rightarrow> string \<Rightarrow> bool \<Rightarrow> relay_state \<Rightarrow> 'db \<Rightarrow> relay_state \<times> 'db" where
  "UpdateFollowerStatus R domain mutual st db = snd (UpdateFollowerStatusChecked R domain mutual st db)"

definition DelFollower :: "'db redis \<Rightarrow> string \<Rightarrow> relay_state \<Rightarrow> 'db \<Rightarrow> relay_state \<times> 'db" where
  "DelFollower R domain st db =
     refresh R st (snd (del_command R (pending_prefix @ domain)
       (snd (del_command R (follower_prefix @ domain) db))))"

definition SetBlockedDomain :: "'db redis \<Rightarrow> string \<Rightarrow> bool \<Rightarrow> relay_state \<Rightarrow> 'db \<Rightarrow> relay_state \<times> 'db" where
  "SetBlockedDomain R domain v st db =
     refresh R st (snd (if v then hset_command R blocked_hash [(domain, ''1'')] db
                        else hdel_command R blocked_hash domain db))"

definition SetLimitedDomain :: "'db redis \<Rightarrow> string \<Rightarrow> bool \<Rightarrow> relay_state \<Rightarrow> 'db \<Rightarrow> relay_state \<times> 'db" where
  "SetLimitedDomain R domain v st db =
     refresh R st (snd (if v then hset_command R limited_hash [(domain, ''1'')] db
                        else hdel_command R limited_hash domain db))"

text \<open>
  \<open>RecordPublisherActivity\<close>. The transaction runs its three commands in order; Redis does not undo
  the first two when the increment fails. The argument \<open>clock\<close> is the current time as RFC 3339 text.
\<close>

definition publisher_transaction ::
  "'db redis \<Rightarrow> string \<Rightarrow> string \<Rightarrow> publisher \<Rightarrow> 'db \<Rightarrow> int result \<times> 'db" where
  "publisher_transaction R key seen p db =
     (if r_str R db key \<noteq> None then (Inl redis_error, db)
      else let db1 = (if r_hash R db key ''first_seen'' = None
                      then r_hset R key [(''first_seen'', seen)] db else db);
               db2 = r_hset R key [(''actor_id'', pub_actor p), (''inbox_url'', pub_inbox p),
                       (''last_seen'', seen), (''last_activity_id'', pub_last_id p),
                       (''last_activity_type'', pub_last_type p)] db1
           in case r_hincrby R key ''activity_count'' 1 db2 of
                (None, db3) \<Rightarrow> (Inl redis_error, db3) | (Some n, db3) \<Rightarrow> (Inr n, db3))"

definition insert_publisher :: "publisher \<Rightarrow> publisher list \<Rightarrow> publisher list" where
  "insert_publisher p ps =
     (let i = sort_search (length ps) (\<lambda>i. pub_domain (ps ! i) \<ge> pub_domain p)
      in if i < length ps \<and> pub_domain (ps ! i) = pub_domain p then ps[i := p]
         else take i ps @ p # drop i ps)"

definition store_publisher :: "publisher \<Rightarrow> relay_state \<Rightarrow> relay_state" where
  "store_publisher p st =
     (case publishersByDomain st (pub_domain p) of
        Some current \<Rightarrow>
          if pub_count current > pub_count p then st
          else st\<lparr>publishersByDomain := (publishersByDomain st)(pub_domain p \<mapsto> p),
                  Publishers := insert_publisher p (Publishers st)\<rparr>
      | None \<Rightarrow> st\<lparr>publishersByDomain := (publishersByDomain st)(pub_domain p \<mapsto> p),
                    Publishers := insert_publisher p (Publishers st)\<rparr>)"

definition RecordPublisherActivity ::
  "'db redis \<Rightarrow> string \<Rightarrow> publisher \<Rightarrow> relay_state \<Rightarrow> 'db \<Rightarrow> unit result \<times> relay_state \<times> 'db" where
  "RecordPublisherActivity R clock p st db =
     (let domain = normalizeStateDomain (pub_domain p)
      in if domain = [] then (Inl ''publisher domain is empty'', st, db)
         else let seen = (if pub_last_seen p = [] then clock else pub_last_seen p);
                  key = publisher_prefix @ domain
              in case then_io (command R ''exec'' (publisher_transaction R key seen p)) (\<lambda>n.
                        then_io (command R ''hget'' (on_hash R key (\<lambda>d. (r_hash R d key ''first_seen'', d)))) (\<lambda>first db1.
                          (case first of None \<Rightarrow> (Inl ''redis: nil'', db1) | Some v \<Rightarrow> (Inr (n, v), db1)))) db of
                   (Inl e, db') \<Rightarrow> (Inl e, st, db')
                 | (Inr (n, first), db') \<Rightarrow>
                     (Inr (), store_publisher (p\<lparr>pub_domain := domain, pub_first_seen := first,
                        pub_last_seen := seen, pub_count := n\<rparr>) st, db'))"

end
