(* ===== verification/Fanout.thy ===== *)
theory Fanout
  imports Configured_Signer Relay_State Observability
begin

text \<open>
  Queue admission and fan-out, the first half of \<open>api/resolver.go\<close>, with the constants of
  \<open>internal/deliverypolicy/policy.go\<close>.

  The task queue is the machinery library in front of Redis: a record \<open>broker\<close> of the three calls the
  code makes, over the same server state. Metrics are values of type \<open>metric\<close> that an operation
  returns in the order it emits them; recording one writes only the ledger of the operational counters. \<open>MaxQueueJobs\<close> and \<open>MaxFanoutTargets\<close> are arguments, and so is
  the fresh identifier. The \<open>i\<close>-th planned target reads the clocks \<open>clock i\<close>.
\<close>

section \<open>Delivery policy\<close>

definition RetryCount :: int where "RetryCount = 5"
definition InitialRetryTimeoutSeconds :: int where "InitialRetryTimeoutSeconds = 5"
definition ActivityRetentionSeconds :: int where "ActivityRetentionSeconds = 15 * 60"
definition MaxAttempts :: int where "MaxAttempts = RetryCount + 1"
definition ActivityRetention :: duration where "ActivityRetention = ActivityRetentionSeconds * second"

section \<open>Tasks, broker, metrics\<close>

record task_arg =
  arg_name :: string
  arg_type :: string
  arg_value :: string

record task =
  t_name :: string
  t_retry_count :: int
  t_retry_timeout :: int
  t_args :: "task_arg list"

record 'db broker =
  b_send_task :: "task \<Rightarrow> 'db \<Rightarrow> unit result \<times> 'db"
  b_new_group :: "task list \<Rightarrow> unit result"
  b_send_group :: "task list \<Rightarrow> int \<Rightarrow> 'db \<Rightarrow> unit result \<times> 'db"

definition string_arg :: "string \<Rightarrow> string \<Rightarrow> task_arg" where
  "string_arg n v = \<lparr>arg_name = n, arg_type = ''string'', arg_value = v\<rparr>"

section \<open>Queue capacity\<close>

abbreviation queue_name :: string where "queue_name \<equiv> ''relay''"
abbreviation queueReservationKey :: string where "queueReservationKey \<equiv> ''relay:queue:reservations''"

text \<open>
  The reservation script. Lua's \<open>tonumber\<close> is modelled for decimal integers, the only text the
  counter ever holds; on any other value, and on a key of another type, the script fails.
\<close>

definition reserveScript :: "'db redis \<Rightarrow> int \<Rightarrow> int \<Rightarrow> 'db \<Rightarrow> int result \<times> 'db" where
  "reserveScript R additional maximum db =
     (let queued = r_llen R db queue_name
      in case counter_value (r_str R db queueReservationKey) of
           NumOk reserved \<Rightarrow>
             if queued + reserved + additional > maximum then (Inr 0, db)
             else (case r_incrby R queueReservationKey additional db of
                     (None, db') \<Rightarrow> (Inl redis_error, db')
                   | (Some _, db') \<Rightarrow> (Inr 1, r_pexpire R queueReservationKey (60 * 1000) db'))
         | _ \<Rightarrow> (Inl redis_error, db))"

definition reserveQueueCapacityWithReason ::
  "'db redis \<Rightarrow> int \<Rightarrow> int \<Rightarrow> 'db \<Rightarrow> (bool \<times> string) \<times> metric list \<times> 'db" where
  "reserveQueueCapacityWithReason R maximum additional db =
     (if additional < 1 then ((True, ''accepted''), [], db)
      else case command R ''eval'' (reserveScript R additional maximum) db of
        (Inl e, db') \<Rightarrow> ((False, ''redis''), [RedisFailure ''api'' ''queue_reserve''], db')
      | (Inr reserved, db') \<Rightarrow>
          if reserved \<noteq> 1 then ((False, ''capacity''), [], db') else ((True, ''accepted''), [], db'))"

definition reserveQueueCapacity :: "'db redis \<Rightarrow> int \<Rightarrow> int \<Rightarrow> 'db \<Rightarrow> bool \<times> metric list \<times> 'db" where
  "reserveQueueCapacity R maximum additional db =
     (case reserveQueueCapacityWithReason R maximum additional db of ((ok, _), ms, db') \<Rightarrow> (ok, ms, db'))"

definition releaseScript :: "'db redis \<Rightarrow> int \<Rightarrow> 'db \<Rightarrow> int result \<times> 'db" where
  "releaseScript R n db =
     (case r_incrby R queueReservationKey (- n) db of
        (None, db') \<Rightarrow> (Inl redis_error, db')
      | (Some remaining, db') \<Rightarrow>
          (Inr remaining, if remaining \<le> 0 then r_del R queueReservationKey db' else db'))"

definition releaseQueueCapacity :: "'db redis \<Rightarrow> int \<Rightarrow> 'db \<Rightarrow> metric list \<times> 'db" where
  "releaseQueueCapacity R n db =
     (if n < 1 then ([], db)
      else case command R ''eval'' (releaseScript R n) db of
        (Inl e, db') \<Rightarrow> ([RedisFailure ''api'' ''queue_release''], db')
      | (Inr _, db') \<Rightarrow> ([], db'))"

section \<open>Planned tasks\<close>

definition plannedDeliveryProfile ::
  "('k, 'db) configured_signer option \<Rightarrow> string \<Rightarrow> time \<times> time \<Rightarrow> 'db \<Rightarrow> profile result \<times> 'db" where
  "plannedDeliveryProfile sg inboxURL clk db =
     (if sg = None then (Inr ProfileLegacy, db)
      else case signer_plan sg ScopeDelivery inboxURL (fst clk) (snd clk) db of
        (Inl e, db') \<Rightarrow> (Inl e, db') | (Inr p, db') \<Rightarrow> (Inr (p_primary p), db'))"

definition register_task :: "string \<Rightarrow> string \<Rightarrow> profile \<Rightarrow> task" where
  "register_task inboxURL body prof =
     \<lparr>t_name = ''register'', t_retry_count = 2, t_retry_timeout = 0,
      t_args = [string_arg ''inboxURL'' inboxURL, string_arg ''body'' body,
                string_arg ''signatureProfile'' prof]\<rparr>"

definition enqueueRegisterActivity ::
  "'db redis \<Rightarrow> 'db broker \<Rightarrow> ('k, 'db) configured_signer option \<Rightarrow> int \<Rightarrow> time \<times> time
    \<Rightarrow> string \<Rightarrow> string \<Rightarrow> 'db \<Rightarrow> metric list \<times> 'db" where
  "enqueueRegisterActivity R B sg maximum clk inboxURL body db =
     (case plannedDeliveryProfile sg inboxURL clk db of
        (Inl e, db1) \<Rightarrow> ([QueueAdmission ''register'' ''error'' ''signature_plan''], db1)
      | (Inr prof, db1) \<Rightarrow>
          (case reserveQueueCapacityWithReason R maximum 1 db1 of ((accepted, why), ms, db2) \<Rightarrow>
             if \<not> accepted then (ms @ [QueueAdmission ''register'' ''rejected'' why], db2)
             else (case b_send_task B (register_task inboxURL body prof) db2 of (sent, db3) \<Rightarrow>
                    (case releaseQueueCapacity R 1 db3 of (ms', db4) \<Rightarrow>
                       (ms @ [if isl sent then QueueAdmission ''register'' ''error'' ''broker''
                              else QueueAdmission ''register'' ''accepted'' ''accepted''] @ ms', db4)))))"

definition relayTaskWithProfile :: "string \<Rightarrow> string \<Rightarrow> profile \<Rightarrow> task" where
  "relayTaskWithProfile inboxURL activityID prof =
     \<lparr>t_name = ''relay-v2'', t_retry_count = RetryCount, t_retry_timeout = InitialRetryTimeoutSeconds,
      t_args = [string_arg ''inboxURL'' inboxURL, string_arg ''activityID'' activityID,
                string_arg ''signatureProfile'' prof]\<rparr>"

definition relayTask :: "string \<Rightarrow> string \<Rightarrow> task" where
  "relayTask inboxURL activityID = relayTaskWithProfile inboxURL activityID ProfileLegacy"

definition negotiatedRelayTask ::
  "('k, 'db) configured_signer option \<Rightarrow> string \<Rightarrow> string \<Rightarrow> time \<times> time \<Rightarrow> 'db \<Rightarrow> task result \<times> 'db" where
  "negotiatedRelayTask sg inboxURL activityID clk db =
     (case plannedDeliveryProfile sg inboxURL clk db of
        (Inl e, db') \<Rightarrow> (Inl e, db')
      | (Inr prof, db') \<Rightarrow> (Inr (relayTaskWithProfile inboxURL activityID prof), db'))"

section \<open>The shared payload\<close>

definition activity_key :: "string \<Rightarrow> string" where
  "activity_key activityID = ''relay:activity:'' @ activityID"

definition storeRelayActivityScript ::
  "'db redis \<Rightarrow> string \<Rightarrow> string \<Rightarrow> int \<Rightarrow> 'db \<Rightarrow> int result \<times> 'db" where
  "storeRelayActivityScript R key body count db =
     (if r_str R db key \<noteq> None then (Inl redis_error, db)
      else (Inr 1, r_pexpire R key (ActivityRetentionSeconds * 1000)
                     (r_hset R key [(''body'', body), (''remain_count'', show_int count)] db)))"

definition storeRelayActivity ::
  "'db redis \<Rightarrow> string \<Rightarrow> string \<Rightarrow> int \<Rightarrow> 'db \<Rightarrow> unit result \<times> metric list \<times> 'db" where
  "storeRelayActivity R activityID body targetCount db =
     (case command R ''eval'' (storeRelayActivityScript R (activity_key activityID) body targetCount) db of
        (Inl e, db') \<Rightarrow> (Inl e, [RedisFailure ''api'' ''activity_store''], db')
      | (Inr stored, db') \<Rightarrow>
          if stored \<noteq> 1 then (Inl ''unexpected relay activity storage result'', [], db') else (Inr (), [], db'))"

section \<open>Fan-out\<close>

definition normalizedStoredDomain :: "string \<Rightarrow> string" where
  "normalizedStoredDomain domain0 =
     (let domain = trim_space domain0
      in if domain = [] then []
         else case url_parse (''//'' @ domain) of
           Some u \<Rightarrow> if hostname u \<noteq> [] then to_lower (trim_suffix (hostname u) ''.'')
                     else to_lower (trim_suffix domain ''.'')
         | None \<Rightarrow> to_lower (trim_suffix domain ''.''))"

definition excluded_domains :: "string list \<Rightarrow> string list" where
  "excluded_domains ds = filter (\<lambda>d. d \<noteq> []) (map normalizedStoredDomain ds)"

definition dedupe_key :: "subscriber \<Rightarrow> string" where
  "dedupe_key s =
     (let domain = normalizedStoredDomain (sub_domain s)
      in if domain = [] then to_lower (trim_space (sub_inbox s)) else domain)"

text \<open>The loop over the subscriptions; \<open>seen\<close> holds the keys of the targets chosen so far.\<close>

fun select_targets :: "string list \<Rightarrow> string list \<Rightarrow> subscriber list \<Rightarrow> subscriber list" where
  "select_targets excluded seen [] = []"
| "select_targets excluded seen (s # ss) =
     (if normalizedStoredDomain (sub_domain s) \<in> set excluded then select_targets excluded seen ss
      else if isl (NormalizeDestinationOrigin (sub_inbox s)) then select_targets excluded seen ss
      else let key = dedupe_key s
           in if key \<noteq> [] then
                (if key \<in> set seen then select_targets excluded seen ss
                 else s # select_targets excluded (key # seen) ss)
              else s # select_targets excluded seen ss)"

fun plan_targets ::
  "('k, 'db) configured_signer option \<Rightarrow> string \<Rightarrow> (nat \<Rightarrow> time \<times> time) \<Rightarrow> nat \<Rightarrow> subscriber list \<Rightarrow> 'db
    \<Rightarrow> task list \<times> 'db" where
  "plan_targets sg activityID clock i [] db = ([], db)"
| "plan_targets sg activityID clock i (t # ts) db =
     (case negotiatedRelayTask sg (sub_inbox t) activityID (clock i) db of
        (Inl e, db1) \<Rightarrow> plan_targets sg activityID clock (i + 1) ts db1
      | (Inr job, db1) \<Rightarrow>
          (case plan_targets sg activityID clock (i + 1) ts db1 of (jobs, db2) \<Rightarrow> (job # jobs, db2)))"

text \<open>From the stored payload to the broker; the reservation is released after it in any case.\<close>

definition send_tasks ::
  "'db redis \<Rightarrow> 'db broker \<Rightarrow> string \<Rightarrow> string \<Rightarrow> task list \<Rightarrow> 'db \<Rightarrow> bool \<times> metric list \<times> 'db" where
  "send_tasks R B activityID body jobs db =
     (let n = int (length jobs);
          failed = (\<lambda>why ms d. (False, ms @ [QueueAdmission ''relay'' ''error'' why, FanoutTargets ''error'' n], d))
      in case storeRelayActivity R activityID body n db of
           (Inl e, ms, db1) \<Rightarrow> failed ''store'' ms db1
         | (Inr _, ms, db1) \<Rightarrow>
             if isl (b_new_group B jobs) then failed ''group'' ms db1
             else (case b_send_group B jobs (min n 16) db1 of
                     (Inl e, db2) \<Rightarrow> failed ''broker'' ms db2
                   | (Inr _, db2) \<Rightarrow>
                       (True, ms @ [QueueAdmission ''relay'' ''accepted'' ''accepted'', FanoutTargets ''queued'' n], db2)))"

definition enqueueActivityExcept ::
  "'db redis \<Rightarrow> 'db broker \<Rightarrow> ('k, 'db) configured_signer option \<Rightarrow> int \<Rightarrow> int \<Rightarrow> (nat \<Rightarrow> time \<times> time)
    \<Rightarrow> string \<Rightarrow> subscriber list \<Rightarrow> string \<Rightarrow> string list \<Rightarrow> 'db \<Rightarrow> bool \<times> metric list \<times> 'db" where
  "enqueueActivityExcept R B sg max_jobs max_targets clock uuid subs body excludedDomains db =
     (let targets = select_targets (excluded_domains excludedDomains) [] subs
      in if int (length targets) > max_targets
         then (False, [QueueAdmission ''relay'' ''rejected'' ''fanout_limit'',
                       FanoutTargets ''rejected'' (int (length targets))], db)
         else if targets = [] then (True, [QueueAdmission ''relay'' ''skipped'' ''no_targets''], db)
         else (case plan_targets sg uuid clock 0 targets db of (jobs, db1) \<Rightarrow>
           if jobs = [] then (False, [QueueAdmission ''relay'' ''error'' ''signature_plan'',
                                      FanoutTargets ''error'' (int (length targets))], db1)
           else (case reserveQueueCapacityWithReason R max_jobs (int (length jobs)) db1 of
             ((accepted, why), ms, db2) \<Rightarrow>
               if \<not> accepted
               then (False, ms @ [QueueAdmission ''relay'' ''rejected'' why,
                                  FanoutTargets ''rejected'' (int (length jobs))], db2)
               else (case send_tasks R B uuid body jobs db2 of (ok, ms1, db3) \<Rightarrow>
                      (case releaseQueueCapacity R (int (length jobs)) db3 of (ms2, db4) \<Rightarrow>
                         (ok, ms @ ms1 @ ms2, db4))))))"

definition enqueueActivity ::
  "'db redis \<Rightarrow> 'db broker \<Rightarrow> ('k, 'db) configured_signer option \<Rightarrow> int \<Rightarrow> int \<Rightarrow> (nat \<Rightarrow> time \<times> time)
    \<Rightarrow> string \<Rightarrow> subscriber list \<Rightarrow> string \<Rightarrow> string \<Rightarrow> 'db \<Rightarrow> metric list \<times> 'db" where
  "enqueueActivity R B sg max_jobs max_targets clock uuid subs sourceDomain body db =
     snd (enqueueActivityExcept R B sg max_jobs max_targets clock uuid subs body [sourceDomain] db)"

definition enqueueActivityForAll ::
  "'db redis \<Rightarrow> 'db broker \<Rightarrow> ('k, 'db) configured_signer option \<Rightarrow> int \<Rightarrow> int \<Rightarrow> (nat \<Rightarrow> time \<times> time)
    \<Rightarrow> string \<Rightarrow> relay_state \<Rightarrow> string \<Rightarrow> string \<Rightarrow> 'db \<Rightarrow> metric list \<times> 'db" where
  "enqueueActivityForAll R B sg max_jobs max_targets clock uuid st sourceDomain body db =
     enqueueActivity R B sg max_jobs max_targets clock uuid (sn_both (Snapshot st)) sourceDomain body db"

definition enqueueActivityForAllExcept ::
  "'db redis \<Rightarrow> 'db broker \<Rightarrow> ('k, 'db) configured_signer option \<Rightarrow> int \<Rightarrow> int \<Rightarrow> (nat \<Rightarrow> time \<times> time)
    \<Rightarrow> string \<Rightarrow> relay_state \<Rightarrow> string \<Rightarrow> string list \<Rightarrow> 'db \<Rightarrow> bool \<times> metric list \<times> 'db" where
  "enqueueActivityForAllExcept R B sg max_jobs max_targets clock uuid st body excludedDomains db =
     enqueueActivityExcept R B sg max_jobs max_targets clock uuid (sn_both (Snapshot st)) body excludedDomains db"

definition enqueueActivityForSubscriber ::
  "'db redis \<Rightarrow> 'db broker \<Rightarrow> ('k, 'db) configured_signer option \<Rightarrow> int \<Rightarrow> int \<Rightarrow> (nat \<Rightarrow> time \<times> time)
    \<Rightarrow> string \<Rightarrow> relay_state \<Rightarrow> string \<Rightarrow> string \<Rightarrow> 'db \<Rightarrow> metric list \<times> 'db" where
  "enqueueActivityForSubscriber R B sg max_jobs max_targets clock uuid st sourceDomain body db =
     enqueueActivity R B sg max_jobs max_targets clock uuid (sn_subscribers (Snapshot st)) sourceDomain body db"

definition enqueueActivityForFollower ::
  "'db redis \<Rightarrow> 'db broker \<Rightarrow> ('k, 'db) configured_signer option \<Rightarrow> int \<Rightarrow> int \<Rightarrow> (nat \<Rightarrow> time \<times> time)
    \<Rightarrow> string \<Rightarrow> relay_state \<Rightarrow> string \<Rightarrow> string \<Rightarrow> 'db \<Rightarrow> metric list \<times> 'db" where
  "enqueueActivityForFollower R B sg max_jobs max_targets clock uuid st sourceDomain body db =
     enqueueActivity R B sg max_jobs max_targets clock uuid
       (map as_subscriber (sn_followers (Snapshot st))) sourceDomain body db"

section \<open>The loop guard\<close>

text \<open>\<open>api/relay_loop_guard.go\<close>: one relay of an announced activity within the retention time.\<close>

record reservation =
  res_key :: string
  res_token :: string

definition canonicalRelayKey :: "(string \<Rightarrow> string) \<Rightarrow> string \<Rightarrow> string" where
  "canonicalRelayKey sha canonicalID = ''relay:canonical:'' @ sha (trim_space canonicalID)"

definition reserveCanonicalRelayActivity ::
  "'db redis \<Rightarrow> (string \<Rightarrow> string) \<Rightarrow> string \<Rightarrow> string \<Rightarrow> 'db
    \<Rightarrow> (reservation \<times> bool) result \<times> metric list \<times> 'db" where
  "reserveCanonicalRelayActivity R sha token canonicalID0 db =
     (let canonicalID = trim_space canonicalID0
      in if canonicalID = [] then (Inl ''canonical relay activity ID is empty'', [], db)
         else let res = \<lparr>res_key = canonicalRelayKey sha canonicalID, res_token = token\<rparr>
              in case call R ''setnx'' (r_setnx R (res_key res) token (ActivityRetentionSeconds * 1000)) db of
                   (Inl e, db') \<Rightarrow> (Inl e, [RedisFailure ''api'' ''canonical_reserve''], db')
                 | (Inr accepted, db') \<Rightarrow> (Inr (res, accepted), [], db'))"

definition releaseCanonicalRelayScript :: "'db redis \<Rightarrow> string \<Rightarrow> string \<Rightarrow> 'db \<Rightarrow> int result \<times> 'db" where
  "releaseCanonicalRelayScript R key token db =
     (if r_hkeys R db key \<noteq> [] then (Inl redis_error, db)
      else if r_str R db key = Some token then (Inr 1, r_del R key db) else (Inr 0, db))"

definition releaseCanonicalRelayActivity ::
  "'db redis \<Rightarrow> reservation \<Rightarrow> 'db \<Rightarrow> metric list \<times> 'db" where
  "releaseCanonicalRelayActivity R res db =
     (if res_key res = [] \<or> res_token res = [] then ([], db)
      else case command R ''eval'' (releaseCanonicalRelayScript R (res_key res) (res_token res)) db of
        (Inl e, db') \<Rightarrow> ([RedisFailure ''api'' ''canonical_release''], db')
      | (Inr _, db') \<Rightarrow> ([], db'))"

end
