(* ===== verification/Accept_Signature.thy ===== *)
theory Accept_Signature
  imports Configured_Signer
begin

text \<open>
  Evidence in responses, \<open>internal/httpsignature/accept_signature.go\<close>, and what the configured signer
  does with it and with a signed GET: the rest of \<open>configured_signer.go\<close>.

  The structured-field parser (httpsfv) is a parameter \<open>sfv\<close>: the lines of a field to a dictionary, or
  an error. A dictionary, and the parameters of an item, are lists of named values in the order in
  which the library returns the names; every listed name has a value. \<open>sfv_value\<close> has the Go types
  that the code distinguishes: a string, a Boolean, a byte sequence, an integer, and any other
  type (a token, a decimal). An HTTP header maps a canonical name to its lines.
\<close>

section \<open>Structured fields\<close>

datatype sfv_value = VString string | VBool bool | VBytes string | VInt int | VOther

record sfv_item =
  it_value :: sfv_value
  it_params :: "(string \<times> sfv_value) list"

datatype sfv_member = Item sfv_item | InnerList (inner_items: "sfv_item list") (inner_params: "(string \<times> sfv_value) list")

type_synonym sfv_dictionary = "(string \<times> sfv_member) list"
type_synonym sfv_parser = "string list \<Rightarrow> sfv_dictionary result"
type_synonym header = "string \<Rightarrow> string list"

abbreviation rfc9421SignatureLabel :: string where "rfc9421SignatureLabel \<equiv> ''activitypub''"
abbreviation rfc9421SignatureTag :: string where "rfc9421SignatureTag \<equiv> ''activitypub''"
abbreviation rfc9421RSAAlgorithm :: string where "rfc9421RSAAlgorithm \<equiv> ''rsa-v1_5-sha256''"

definition rfc9421GETComponents :: "string list" where
  "rfc9421GETComponents = [''@method'', ''@authority'', ''@target-uri'', ''date'']"

definition rfc9421POSTComponents :: "string list" where
  "rfc9421POSTComponents =
     [''@method'', ''@authority'', ''@target-uri'', ''content-digest'', ''content-type'', ''date'']"

section \<open>Evidence\<close>

definition expectedAcceptSignatureComponents :: "string \<Rightarrow> string list option" where
  "expectedAcceptSignatureComponents scope =
     (if scope = ScopeFetch then Some rfc9421GETComponents
      else if scope = ScopeDelivery then Some rfc9421POSTComponents
      else None)"

definition acceptable_parameter :: "string \<Rightarrow> string \<times> sfv_value \<Rightarrow> bool" where
  "acceptable_parameter keyID nv =
     (case nv of (n, v) \<Rightarrow>
        if n = ''created'' then v = VBool True
        else if n = ''alg'' then v = VString rfc9421RSAAlgorithm
        else if n = ''keyid'' then v = VString keyID
        else if n = ''tag'' then v = VString rfc9421SignatureTag
        else False)"

definition CompatibleAcceptSignature :: "sfv_parser \<Rightarrow> string list \<Rightarrow> string \<Rightarrow> string \<Rightarrow> bool" where
  "CompatibleAcceptSignature sfv vals scope keyID =
     (if vals = [] \<or> trim_space keyID = [] then False
      else case expectedAcceptSignatureComponents scope of
        None \<Rightarrow> False
      | Some expected \<Rightarrow>
          (case sfv vals of
             Inl e \<Rightarrow> False
           | Inr [(label, InnerList items params)] \<Rightarrow>
               label = rfc9421SignatureLabel \<and> length items = length expected
               \<and> list_all2 (\<lambda>it c. it_value it = VString c \<and> it_params it = []) items expected
               \<and> list_all (acceptable_parameter keyID) params
           | Inr _ \<Rightarrow> False))"

text \<open>
  Commas outside quoted strings separate challenges. The Go loop walks code points; the three special
  characters are ASCII and occur in no multi-byte code point, so a walk over bytes is the same.
\<close>

fun split_challenges :: "bool \<Rightarrow> bool \<Rightarrow> string \<Rightarrow> string \<Rightarrow> string list" where
  "split_challenges quoted escaped cur [] = [rev cur]"
| "split_challenges quoted escaped cur (c # s) =
     (if escaped then split_challenges quoted False (c # cur) s
      else if quoted \<and> c = CHR 0x5C then split_challenges quoted True (c # cur) s
      else if c = CHR 0x22 then split_challenges (\<not> quoted) False (c # cur) s
      else if c = CHR '','' \<and> \<not> quoted then rev cur # split_challenges quoted False [] s
      else split_challenges quoted False (c # cur) s)"

definition splitAuthenticationChallenges :: "string \<Rightarrow> string list" where
  "splitAuthenticationChallenges v = split_challenges False False [] v"

definition ExplicitLegacySignatureRejection :: "int \<Rightarrow> header \<Rightarrow> bool" where
  "ExplicitLegacySignatureRejection status hdr =
     (if status \<noteq> 401 \<and> status \<noteq> 403 then False
      else list_ex (\<lambda>v. list_ex (\<lambda>challenge.
             (case Prelude.fields (trim_space challenge) of [] \<Rightarrow> False | f # _ \<Rightarrow> equal_fold f ''Signature''))
             (splitAuthenticationChallenges v)) (hdr ''Www-Authenticate''))"

section \<open>Observing responses\<close>

definition ObserveResponse ::
  "sfv_parser \<Rightarrow> ('k, 's) configured_signer option \<Rightarrow> string \<Rightarrow> string \<Rightarrow> profile \<Rightarrow> int \<Rightarrow> header
    \<Rightarrow> time \<Rightarrow> time \<Rightarrow> 's \<Rightarrow> (string option \<times> 's) exec" where
  "ObserveResponse sfv sg scope destination prof status hdr now wall s =
     (let error_of = (\<lambda>r. case r of Panics \<Rightarrow> Panics | Returns ((_, _, e), s') \<Rightarrow> Returns (e, s'))
      in case sg of
        None \<Rightarrow> Returns (None, s)
      | Some c \<Rightarrow>
          if cs_negotiator c = None then Returns (None, s)
          else if status div 100 = 2 then
            (if prof = ProfileRFC9421
             then error_of (ObserveRFC9421Success (cs_negotiator c) scope destination EvSuccessfulRFC9421 now wall s)
             else case cs_signer c of
               None \<Rightarrow> Panics
             | Some k \<Rightarrow>
                 if \<not> CompatibleAcceptSignature sfv (hdr ''Accept-Signature'') scope (sg_key_id k) then Returns (None, s)
                 else error_of (ObserveRFC9421Success (cs_negotiator c) scope destination EvAcceptSignature now wall s))
          else if prof = ProfileRFC9421 \<and> ExplicitLegacySignatureRejection status hdr
          then error_of (ObserveExplicitRFC9421Rejection (cs_negotiator c) scope destination now wall s)
          else Returns (None, s))"

definition classifyNegotiationOutcome :: "(int \<times> header) option \<Rightarrow> outcome" where
  "classifyNegotiationOutcome resp =
     (case resp of
        None \<Rightarrow> OutTransportFailure
      | Some (status, hdr) \<Rightarrow>
          if status div 100 = 2 then OutSuccess
          else if ExplicitLegacySignatureRejection status hdr then OutExplicitRejection
          else if status = 400 then OutAmbiguousRejection
          else if status div 100 = 5 then OutServerFailure
          else OutOtherFailure)"

section \<open>A signed GET\<close>

text \<open>
  The library call that puts a signature on a request is a parameter \<open>sign\<close> (it may fail). A signed
  request is its URL, the wire profile of its signature and the attached plan: signing again first
  clears the signature fields, so a request carries one profile. \<open>http.Client.Do\<close> is a parameter
  \<open>client_do\<close> that receives the redirect check as an argument; its response names the request that was
  answered last and the bytes that its body yields before its end or a read error.
  \<open>now\<close> and \<open>wall\<close> are the clocks of the whole exchange.
\<close>

record signed_get =
  g_url :: string
  g_profile :: profile
  g_plan :: "plan option"

record get_response =
  gr_request :: signed_get
  gr_status :: int
  gr_header :: header
  gr_status_line :: string
  gr_body :: string
  gr_read_error :: "string option"

type_synonym 's redirect_check = "signed_get \<Rightarrow> nat \<Rightarrow> 's \<Rightarrow> signed_get result \<times> 's"
type_synonym 's client_do = "'s redirect_check \<Rightarrow> signed_get \<Rightarrow> 's \<Rightarrow> get_response result \<times> 's"

definition SignGETWithProfile ::
  "('k signer \<Rightarrow> string \<Rightarrow> profile \<Rightarrow> unit result) \<Rightarrow> ('k, 's) configured_signer option \<Rightarrow> string \<Rightarrow> profile
    \<Rightarrow> profile result" where
  "SignGETWithProfile sign sg url prof =
     (case sg of
        None \<Rightarrow> Inl ''configured outbound HTTP signer is not initialized''
      | Some c \<Rightarrow>
        (case cs_signer c of
           None \<Rightarrow> Inl ''configured outbound HTTP signer is not initialized''
         | Some k \<Rightarrow>
           (case ParseWireProfile prof of
              Inl e \<Rightarrow> Inl e
            | Inr wire \<Rightarrow> (case sign k url wire of Inl e \<Rightarrow> Inl e | Inr _ \<Rightarrow> Inr wire))))"

definition signPlannedGET ::
  "('k signer \<Rightarrow> string \<Rightarrow> profile \<Rightarrow> unit result) \<Rightarrow> ('k, 's) configured_signer option \<Rightarrow> time \<Rightarrow> time
    \<Rightarrow> string \<Rightarrow> 's \<Rightarrow> (plan \<times> signed_get) result \<times> 's" where
  "signPlannedGET sign sg now wall url s =
     (case signer_plan sg ScopeFetch url now wall s of
        (Inl e, s1) \<Rightarrow> (Inl e, s1)
      | (Inr p, s1) \<Rightarrow>
          (case SignGETWithProfile sign sg url (p_primary p) of
             Inl e \<Rightarrow> (Inl e, s1)
           | Inr wire \<Rightarrow> (Inr (p, \<lparr>g_url = url, g_profile = wire, g_plan = Some p\<rparr>), s1)))"

definition redirect_check ::
  "('k signer \<Rightarrow> string \<Rightarrow> profile \<Rightarrow> unit result) \<Rightarrow> ('k, 's) configured_signer option \<Rightarrow> time \<Rightarrow> time
    \<Rightarrow> (string \<Rightarrow> nat \<Rightarrow> unit result) option \<Rightarrow> 's redirect_check" where
  "redirect_check sign sg now wall previous redirect via s =
     (if via \<ge> 10 then (Inl ''stopped after 10 redirects'', s)
      else case (case previous of None \<Rightarrow> Inr () | Some f \<Rightarrow> f (g_url redirect) via) of
        Inl e \<Rightarrow> (Inl e, s)
      | Inr _ \<Rightarrow>
          (case signPlannedGET sign sg now wall (g_url redirect) s of
             (Inl e, s1) \<Rightarrow> (Inl (''sign redirected remote request: '' @ e), s1)
           | (Inr (p, req), s1) \<Rightarrow> (Inr req, s1)))"

definition observeBestEffort ::
  "sfv_parser \<Rightarrow> ('k, 's) configured_signer option \<Rightarrow> time \<Rightarrow> time \<Rightarrow> string \<Rightarrow> string \<Rightarrow> profile \<Rightarrow> int \<Rightarrow> header
    \<Rightarrow> 's \<Rightarrow> 's exec" where
  "observeBestEffort sfv sg now wall scope destination prof status hdr s =
     (case ObserveResponse sfv sg scope destination prof status hdr now wall s of
        Panics \<Rightarrow> Panics | Returns (_, s') \<Rightarrow> Returns s')"

definition observeLegacyFallbackBestEffort ::
  "('k, 's) configured_signer option \<Rightarrow> time \<Rightarrow> time \<Rightarrow> string \<Rightarrow> 's \<Rightarrow> 's exec" where
  "observeLegacyFallbackBestEffort sg now wall destination s =
     (case sg of
        None \<Rightarrow> Returns s
      | Some c \<Rightarrow>
          if cs_negotiator c = None then Returns s
          else case ObserveSuccessfulLegacyFallback (cs_negotiator c) ScopeFetch destination now wall s of
            Panics \<Rightarrow> Panics | Returns (_, s') \<Rightarrow> Returns s')"

definition final_plan :: "plan \<Rightarrow> get_response \<Rightarrow> plan" where
  "final_plan p resp = (case g_plan (gr_request resp) of None \<Rightarrow> p | Some q \<Rightarrow> q)"

text \<open>The one permitted second attempt.\<close>

definition fallback_attempt ::
  "sfv_parser \<Rightarrow> ('k signer \<Rightarrow> string \<Rightarrow> profile \<Rightarrow> unit result) \<Rightarrow> ('k, 's) configured_signer option
    \<Rightarrow> time \<Rightarrow> time \<Rightarrow> 's redirect_check \<Rightarrow> 's client_do \<Rightarrow> plan \<Rightarrow> outcome \<Rightarrow> get_response \<Rightarrow> 's
    \<Rightarrow> (get_response result \<times> 's) exec" where
  "fallback_attempt sfv sign sg now wall check client_do fp out resp s =
     (let fbp = \<lparr>p_origin = p_origin fp, p_scope = ScopeFetch, p_primary = p_fallback fp, p_fallback = [],
                 p_reason = CachedCapability\<rparr>
      in case SignGETWithProfile sign sg (g_url (gr_request resp)) (p_primary fbp) of
           Inl e \<Rightarrow> Returns (Inl (''sign legacy fallback remote request: '' @ e), s)
         | Inr wire \<Rightarrow>
             (case client_do check \<lparr>g_url = g_url (gr_request resp), g_profile = wire, g_plan = Some fbp\<rparr> s of
                (Inl e, s1) \<Rightarrow> Returns (Inl e, s1)
              | (Inr resp2, s1) \<Rightarrow>
                  let applied = final_plan fbp resp2
                  in case observeBestEffort sfv sg now wall ScopeFetch (g_url (gr_request resp2)) (p_primary applied)
                            (gr_status resp2) (gr_header resp2) s1 of
                       Panics \<Rightarrow> Panics
                     | Returns s2 \<Rightarrow>
                         if out = OutAmbiguousRejection \<and> p_primary applied = ProfileLegacy \<and> gr_status resp2 div 100 = 2
                         then (case observeLegacyFallbackBestEffort sg now wall (g_url (gr_request resp2)) s2 of
                                 Panics \<Rightarrow> Panics | Returns s3 \<Rightarrow> Returns (Inr resp2, s3))
                         else Returns (Inr resp2, s2)))"

definition DoGET ::
  "sfv_parser \<Rightarrow> ('k signer \<Rightarrow> string \<Rightarrow> profile \<Rightarrow> unit result) \<Rightarrow> ('k, 's) configured_signer option
    \<Rightarrow> time \<Rightarrow> time \<Rightarrow> (string \<Rightarrow> nat \<Rightarrow> unit result) option \<Rightarrow> 's client_do option \<Rightarrow> string option \<Rightarrow> 's
    \<Rightarrow> (get_response result \<times> 's) exec" where
  "DoGET sfv sign sg now wall previous client url s =
     (case client of
        None \<Rightarrow> Returns (Inl ''remote HTTP client is nil'', s)
      | Some client_do \<Rightarrow>
        (case url of
           None \<Rightarrow> Returns (Inl ''remote GET request has no URL'', s)
         | Some u \<Rightarrow>
           (case signPlannedGET sign sg now wall u s of
              (Inl e, s1) \<Rightarrow> Returns (Inl (''sign remote request: '' @ e), s1)
            | (Inr (initial, req), s1) \<Rightarrow>
                let check = redirect_check sign sg now wall previous
                in case client_do check req s1 of
                     (Inl e, s2) \<Rightarrow> Returns (Inl e, s2)
                   | (Inr resp, s2) \<Rightarrow>
                       let fp = final_plan initial resp
                       in case observeBestEffort sfv sg now wall ScopeFetch (g_url (gr_request resp)) (p_primary fp)
                                 (gr_status resp) (gr_header resp) s2 of
                            Panics \<Rightarrow> Panics
                          | Returns s3 \<Rightarrow>
                              let out = classifyNegotiationOutcome (Some (gr_status resp, gr_header resp))
                              in if \<not> ShouldFallback fp out then Returns (Inr resp, s3)
                                 else fallback_attempt sfv sign sg now wall check client_do fp out resp s3)))"

section \<open>Properties\<close>

lemma split_challenges_not_Nil [simp]: "split_challenges q e cur v \<noteq> []"
  by (induction q e cur v rule: split_challenges.induct) auto

lemma join_Cons: "xs \<noteq> [] \<Longrightarrow> join sep (x # xs) = x @ sep @ join sep xs"
  by (cases xs) auto

lemma join_split_challenges: "join '','' (split_challenges q e cur v) = rev cur @ v"
  by (induction q e cur v rule: split_challenges.induct) (auto simp: join_Cons)

lemma split_challenges_unquoted:
  "CHR 0x22 \<notin> set v \<Longrightarrow> split_challenges False False cur v = (rev cur @ hd (split_on (CHR '','') v)) # tl (split_on (CHR '','') v)"
proof (induction v arbitrary: cur)
  case (Cons c v)
  then show ?case by (cases "split_on (CHR '','') v") auto
qed simp

text \<open>
  splitting a \<open>WWW-Authenticate\<close> line into challenges loses nothing: joining the pieces with commas
  gives the line back, and on a line without quotation marks the result is the plain split at commas,
  so quoting only ever suppresses separators.
\<close>
theorem challenge_split_agrees_with_plain_split:
  "join '','' (splitAuthenticationChallenges v) = v
   \<and> (CHR 0x22 \<notin> set v \<longrightarrow> splitAuthenticationChallenges v = split_on (CHR '','') v)"
  unfolding splitAuthenticationChallenges_def
  by (simp add: join_split_challenges split_challenges_unquoted)

theorem challenge_split_agrees_with_plain_split_witness:
  "splitAuthenticationChallenges ''Basic realm=x, Signature'' = [''Basic realm=x'', '' Signature'']"
proof -
  have "splitAuthenticationChallenges ''Basic realm=x, Signature'' = split_on (CHR '','') ''Basic realm=x, Signature''"
    using challenge_split_agrees_with_plain_split [of "''Basic realm=x, Signature''"] by simp
  then show ?thesis by simp
qed

text \<open>A signer with its key in place never panics while observing.\<close>

lemma ObserveResponse_returns: "cs_signer c \<noteq> None \<Longrightarrow> ObserveResponse sfv (Some c) sc d p st h now wall s \<noteq> Panics"
  by (auto simp: ObserveResponse_def ObserveRFC9421Success_def ObserveExplicitRFC9421Rejection_def Let_def
      split: option.splits exec.splits prod.splits)

lemma observeBestEffort_returns:
  "cs_signer c \<noteq> None \<Longrightarrow> \<exists>s'. observeBestEffort sfv (Some c) now wall sc d p st h s = Returns s'"
  using ObserveResponse_returns [of c sfv sc d p st h now wall s]
  by (auto simp: observeBestEffort_def split: exec.splits)

lemma observeLegacyFallback_returns: "\<exists>s'. observeLegacyFallbackBestEffort (Some c) now wall d s = Returns s'"
  by (auto simp: observeLegacyFallbackBestEffort_def ObserveSuccessfulLegacyFallback_def
      split: option.splits prod.splits)

lemma fallback_attempt_returns:
  assumes "cs_signer c \<noteq> None"
  shows "\<exists>r s'. fallback_attempt sfv sign (Some c) now wall chk cl fp out resp s = Returns (r, s')"
proof -
  obtain f where f: "\<And>sc d p st h s. observeBestEffort sfv (Some c) now wall sc d p st h s = Returns (f sc d p st h s)"
    using observeBestEffort_returns [OF assms] by metis
  obtain g where g: "\<And>d s. observeLegacyFallbackBestEffort (Some c) now wall d s = Returns (g d s)"
    using observeLegacyFallback_returns [of c now wall] by metis
  show ?thesis
    by (simp add: fallback_attempt_def Let_def f g split: sum.split prod.split)
qed

lemma DoGET_returns:
  assumes "cs_signer c \<noteq> None"
  shows "\<exists>r s'. DoGET sfv sign (Some c) now wall prev client url s = Returns (r, s')"
proof -
  obtain f where f: "\<And>sc d p st h s. observeBestEffort sfv (Some c) now wall sc d p st h s = Returns (f sc d p st h s)"
    using observeBestEffort_returns [OF assms] by metis
  show ?thesis
    by (simp add: DoGET_def Let_def f fallback_attempt_returns [OF assms] split: sum.split prod.split option.split)
qed

lemma ShouldFallback_classified:
  assumes "ShouldFallback p (classifyNegotiationOutcome (Some (st, h)))"
  shows "p_fallback p = ProfileLegacy" and "p_primary p = ProfileRFC9421" and "st \<in> {400, 401, 403}"
  using assms
  by (auto simp: ShouldFallback_def classifyNegotiationOutcome_def ExplicitLegacySignatureRejection_def split: if_splits)

lemma SignGETWithProfile_legacy: "SignGETWithProfile sign sg u ProfileLegacy = Inr w \<Longrightarrow> w = ProfileLegacy"
  by (auto simp: SignGETWithProfile_def split: option.splits sum.splits)

lemma fallback_attempt_Inr:
  assumes "fallback_attempt sfv sign sg now wall chk cl fp out r1 s = Returns (Inr resp, s')"
    and "p_fallback fp = ProfileLegacy"
  obtains req s1 where "cl chk req s = (Inr resp, s1)" and "g_profile req = ProfileLegacy"
    and "g_url req = g_url (gr_request r1)"
proof -
  from assms obtain w s1 where w: "SignGETWithProfile sign sg (g_url (gr_request r1)) ProfileLegacy = Inr w"
    and do: "cl chk \<lparr>g_url = g_url (gr_request r1), g_profile = w, g_plan = Some \<lparr>p_origin = p_origin fp,
      p_scope = ScopeFetch, p_primary = ProfileLegacy, p_fallback = [], p_reason = CachedCapability\<rparr>\<rparr> s = (Inr resp, s1)"
    by (auto simp: fallback_attempt_def Let_def split: sum.splits prod.splits exec.splits if_splits)
  show thesis
    by (rule that [OF do]) (use SignGETWithProfile_legacy [OF w] in simp_all)
qed


text \<open>An instance: a store that knows nothing, and a server that answers 400 to RFC 9421 and 200 to legacy.\<close>

definition probing_signer :: "(unit, profile list) configured_signer" where
  "probing_signer = \<lparr>cs_signer = Some \<lparr>sg_key_id = ''k'', sg_private_key = Some ()\<rparr>, cs_profile = ProfileDual,
     cs_negotiator = Some \<lparr>n_store = Some \<lparr>s_load = (\<lambda>_ _ s. (Inr None, s)), s_save = (\<lambda>_ _ s. ((True, None), s))\<rparr>,
       n_positive_ttl = hour, n_negative_ttl = minute\<rparr>\<rparr>"

definition legacy_only_client :: "profile list client_do" where
  "legacy_only_client chk req s =
     (Inr \<lparr>gr_request = req, gr_status = (if g_profile req = ProfileLegacy then 200 else 400), gr_header = (\<lambda>_. []),
       gr_status_line = [], gr_body = [], gr_read_error = None\<rparr>, s @ [g_profile req])"


end
