(* ===== verification/Relay_State_Facts.thy ===== *)
theory Relay_State_Facts
  imports Relay_State
begin

text \<open>
  What holds of the relay's state: the invariant of the in-memory copy under every operation and
  every reload, what a reload reads, and the effect of the updates on what the next reload shows.
\<close>

section \<open>Look-up tables\<close>

lemma table_SomeD: "table key xs d = Some x \<Longrightarrow> x \<in> set xs \<and> key x = d"
  by (auto simp: table_def dest: map_of_SomeD)

lemma table_None_iff: "table key xs d = None \<longleftrightarrow> d \<notin> key ` set xs"
  by (auto simp: table_def map_of_eq_None_iff image_image)

lemma dom_table: "dom (table key xs) = key ` set xs"
  by (rule set_eqI) (metis domIff table_None_iff)

lemma table_unique:
  assumes "x \<in> set xs" and "key x = d" and "\<And>y. y \<in> set xs \<Longrightarrow> key y = d \<Longrightarrow> y = x"
  shows "table key xs d = Some x"
proof (cases "table key xs d")
  case None
  with assms(1,2) show ?thesis by (auto simp: table_None_iff)
next
  case (Some y)
  with assms(3) show ?thesis by (auto dest: table_SomeD)
qed

section \<open>The invariant of the copy\<close>

definition state_wf :: "relay_state \<Rightarrow> bool" where
  "state_wf st \<longleftrightarrow>
     list_all (\<lambda>f. validateFollower f = Inr ()) (Followers st)
     \<and> SubscribersAndFollowers st = Subscribers st @ map as_subscriber (Followers st)
     \<and> limitedDomains st = set (LimitedDomains st) \<and> blockedDomains st = set (BlockedDomains st)
     \<and> subscribersByDomain st = table sub_domain (Subscribers st)
     \<and> followersByDomain st = table fol_domain (Followers st)
     \<and> sorted (map pub_domain (Publishers st))
     \<and> dom (publishersByDomain st) = pub_domain ` set (Publishers st)
     \<and> (\<forall>d p. publishersByDomain st d = Some p \<longrightarrow> p \<in> set (Publishers st) \<and> pub_domain p = d)"

lemma decode_follower_valid: "decode_follower k v = Some f \<Longrightarrow> validateFollower f = Inr ()"
  by (auto simp: decode_follower_def Let_def is_ok_iff split: if_splits)

lemma less_append_left: "(p @ a < p @ b) \<longleftrightarrow> (a :: string) < b"
  by (induction p) auto

lemma le_append_left: "(p @ a \<le> p @ b) \<longleftrightarrow> (a :: string) \<le> b"
  by (auto simp: le_less less_append_left)

lemma sorted_trim_prefix:
  "sorted keys \<Longrightarrow> \<forall>k \<in> set keys. has_prefix k p \<Longrightarrow> sorted (map (\<lambda>k. trim_prefix k p) keys)"
proof (induction keys)
  case (Cons k keys)
  have "trim_prefix k p \<le> trim_prefix k' p" if "k' \<in> set keys" for k'
  proof -
    from Cons.prems that have "k \<le> k'" "k = p @ trim_prefix k p" "k' = p @ trim_prefix k' p"
      by (auto intro: has_prefixD)
    then show ?thesis by (metis le_append_left)
  qed
  with Cons show ?case by auto
qed simp

section \<open>Reading\<close>

text \<open>Every command of a reload leaves the stored data as it is.\<close>

definition reads :: "'db redis \<Rightarrow> ('db \<Rightarrow> 'a result \<times> 'db) \<Rightarrow> bool" where
  "reads R io \<longleftrightarrow> (\<forall>db r db'. io db = (r, db') \<longrightarrow> r_hash R db' = r_hash R db \<and> r_str R db' = r_str R db)"

lemma readsD: "reads R io \<Longrightarrow> io db = (r, db') \<Longrightarrow> r_hash R db' = r_hash R db \<and> r_str R db' = r_str R db"
  by (simp add: reads_def)

lemma reads_then_io: "reads R f \<Longrightarrow> (\<And>x. reads R (g x)) \<Longrightarrow> reads R (then_io f g)"
  by (fastforce simp: reads_def then_io_def split: prod.splits sum.splits)

lemma reads_return: "reads R (\<lambda>db. (h db, db))"
  by (simp add: reads_def)

context redis_server
begin

lemma reads_call: "reads R (call R c (\<lambda>d. (h d, d)))"
  unfolding reads_def
proof (intro allI impI)
  fix db r db'
  assume "call R c (\<lambda>d. (h d, d)) db = (r, db')"
  then show "r_hash R db' = r_hash R db \<and> r_str R db' = r_str R db"
    by (cases rule: call_cases) auto
qed

lemma call_reads: "call R c (\<lambda>d. (h d, d)) db = (Inr x, db') \<Longrightarrow> x = h db'"
  by (auto simp: call_def split: prod.splits trip.splits)

lemma reads_command: "reads R (command R c (\<lambda>d. (h d, d)))"
  using reads_call [of c h]
  by (fastforce simp: reads_def command_def split: prod.splits sum.splits)

lemma command_reads: "command R c (\<lambda>d. (h d, d)) db = (Inr x, db') \<Longrightarrow> Inr x = h db'"
  by (auto simp: command_def dest: call_reads split: prod.splits sum.splits)

lemma on_hash_reads: "on_hash R key (\<lambda>d. (h d, d))
    = (\<lambda>d. (if r_str R d key \<noteq> None then Inl redis_error else Inr (h d), d))"
  by (auto simp: on_hash_def fun_eq_iff)

lemma reads_ScanKeys: "reads R (ScanKeys R pre)"
  using reads_call [of "''scan''" "\<lambda>d. r_scan R d pre"]
  by (fastforce simp: reads_def ScanKeys_def split: prod.splits sum.splits)

lemma ScanKeys_Inr:
  assumes "ScanKeys R pre db = (Inr keys, db')"
  shows "sorted keys" and "set keys = {k. has_prefix k pre \<and> r_exists R db' k}"
  using assms by (auto simp: ScanKeys_def scan_iff dest!: call_reads split: prod.splits sum.splits)

lemma reads_loadHashes: "reads R (loadHashes R keys names)"
proof (cases "keys = []")
  case False
  then have "loadHashes R keys names = command R ''hmget'' (\<lambda>d.
      (if list_ex (\<lambda>k. r_str R d k \<noteq> None) keys then Inl redis_error
       else Inr (map (\<lambda>k. map (r_hash R d k) names) keys), d))"
    by (simp add: loadHashes_def fun_eq_iff)
  then show ?thesis using reads_command by simp
qed (simp add: loadHashes_def reads_def)

lemma loadHashes_Inr:
  assumes "loadHashes R keys names db = (Inr vals, db')"
  shows "vals = map (\<lambda>k. map (r_hash R db k) names) keys"
proof (cases "keys = []")
  case False
  with assms have "command R ''hmget'' (\<lambda>d. (if list_ex (\<lambda>k. r_str R d k \<noteq> None) keys then Inl redis_error
      else Inr (map (\<lambda>k. map (r_hash R d k) names) keys), d)) db = (Inr vals, db')"
    by (simp add: loadHashes_def)
  from command_reads [OF this] readsD [OF reads_loadHashes assms] show ?thesis
    by (simp split: if_splits)
qed (use assms in \<open>simp add: loadHashes_def\<close>)

lemma reads_loadRelayConfig: "reads R (loadRelayConfig R)"
  using reads_command [of "''hmget''"]
  by (fastforce simp: reads_def loadRelayConfig_def on_hash_reads split: prod.splits sum.splits)

lemma reads_loadDomainSet: "reads R (loadDomainSet R key)"
  unfolding loadDomainSet_def on_hash_reads by (rule reads_command)

lemma loadDomainSet_Inr:
  assumes "loadDomainSet R key db = (Inr ds, db')"
  shows "set ds = dom (r_hash R db key)"
proof -
  have "ds = r_hkeys R db' key"
    using assms unfolding loadDomainSet_def on_hash_reads
    by (auto dest!: command_reads split: if_splits)
  then show ?thesis
    using readsD [OF reads_loadDomainSet assms] by (auto simp: hkeys_iff)
qed

lemmas reads_loaders = reads_loadRelayConfig reads_loadDomainSet reads_ScanKeys reads_loadHashes

lemma reads_loadSubscribers: "reads R (loadSubscribers R)"
  unfolding loadSubscribers_def by (intro reads_then_io reads_loaders reads_return)

lemma reads_loadFollowers: "reads R (loadFollowers R)"
  unfolding loadFollowers_def by (intro reads_then_io reads_loaders reads_return)

lemma reads_loadPublishers: "reads R (loadPublishers R)"
  unfolding loadPublishers_def by (intro reads_then_io reads_loaders reads_return)

lemma reads_load_state: "reads R (load_state R st)"
  unfolding load_state_def
  by (intro reads_then_io reads_loaders reads_loadSubscribers reads_loadFollowers reads_loadPublishers
      reads_return)

text \<open>What a reload finds, as a function of the stored hashes.\<close>

lemma loadFollowers_Inr:
  assumes "loadFollowers R db = (Inr fols, db')"
  obtains keys where "sorted keys" and "set keys = {k. has_prefix k follower_prefix \<and> r_exists R db k}"
    and "fols = List.map_filter (\<lambda>k. decode_follower k (map (r_hash R db k)
      [''inbox_url'', ''activity_id'', ''actor_id'', ''mutually_follow''])) keys"
proof -
  from assms obtain keys vals db1 where scan: "ScanKeys R follower_prefix db = (Inr keys, db1)"
    and hashes: "loadHashes R keys [''inbox_url'', ''activity_id'', ''actor_id'', ''mutually_follow''] db1
      = (Inr vals, db')"
    and fols: "fols = List.map_filter (\<lambda>(k, v). decode_follower k v) (zip keys vals)"
    by (auto simp: loadFollowers_def then_io_Inr)
  have frame: "r_hash R db1 = r_hash R db" "r_str R db1 = r_str R db"
    using readsD [OF reads_ScanKeys scan] by auto
  have "set keys = {k. has_prefix k follower_prefix \<and> r_exists R db k}"
    using ScanKeys_Inr(2) [OF scan] frame by (simp add: exists_iff)
  moreover have "fols = List.map_filter (\<lambda>k. decode_follower k (map (r_hash R db k)
      [''inbox_url'', ''activity_id'', ''actor_id'', ''mutually_follow''])) keys"
    unfolding fols loadHashes_Inr [OF hashes] frame
    by (simp add: zip_map2 zip_same_conv_map List.map_filter_def filter_map comp_def)
  ultimately show thesis
    using ScanKeys_Inr(1) [OF scan] that by blast
qed

lemma loadPublishers_sorted:
  assumes "loadPublishers R db = (Inr pubs, db')"
  shows "sorted (map pub_domain pubs)"
proof -
  from assms obtain keys vals db1 where scan: "ScanKeys R publisher_prefix db = (Inr keys, db1)"
    and hashes: "loadHashes R keys [''actor_id'', ''inbox_url'', ''first_seen'', ''last_seen'',
         ''last_activity_id'', ''last_activity_type'', ''activity_count''] db1 = (Inr vals, db')"
    and pubs: "pubs = map2 decode_publisher keys vals"
    by (auto simp: loadPublishers_def then_io_Inr)
  have "length vals = length keys"
    using loadHashes_Inr [OF hashes] by simp
  then have "map pub_domain pubs = map (\<lambda>k. trim_prefix k publisher_prefix) keys"
    unfolding pubs by (induction keys vals rule: list_induct2') (auto simp: decode_publisher_def)
  then show ?thesis
    using sorted_trim_prefix [OF ScanKeys_Inr(1) [OF scan]] ScanKeys_Inr(2) [OF scan] by simp
qed

lemma load_state_wf:
  assumes "load_state R st db = (Inr st', db')"
  shows "state_wf st'"
proof -
  from assms obtain conf limited blocked subs fols pubs db1 db2 db3 db4 where
    fols: "loadFollowers R db1 = (Inr fols, db2)" and pubs: "loadPublishers R db3 = (Inr pubs, db4)"
    and st': "st' = publish_snapshot conf (sort limited) (sort blocked) subs fols pubs st"
    by (auto simp: load_state_def then_io_Inr)
  from fols have "list_all (\<lambda>f. validateFollower f = Inr ()) fols"
    by (rule loadFollowers_Inr)
       (auto simp: list_all_iff List.map_filter_def image_iff split: option.splits intro: decode_follower_valid)
  then show ?thesis
    unfolding st' state_wf_def publish_snapshot_def
    using loadPublishers_sorted [OF pubs] table_SomeD [of pub_domain pubs]
    by (simp add: dom_table)
qed

lemma Load_wf: "state_wf st \<Longrightarrow> state_wf (fst (snd (Load R st db)))"
  by (auto simp: Load_def intro: load_state_wf split: prod.splits sum.splits)

lemma refresh_wf: "state_wf st \<Longrightarrow> state_wf (fst (refresh R st db))"
  by (simp add: refresh_def Load_wf)

end

text \<open>The insertion into the sorted list of publishers.\<close>

lemma insert_publisher_spec:
  assumes "sorted (map pub_domain ps)"
  shows "sorted (map pub_domain (insert_publisher p ps))"
    and "set (insert_publisher p ps) \<subseteq> insert p (set ps)" and "p \<in> set (insert_publisher p ps)"
    and "q \<in> set ps \<Longrightarrow> pub_domain q \<noteq> pub_domain p \<Longrightarrow> q \<in> set (insert_publisher p ps)"
proof -
  let ?f = "\<lambda>i. pub_domain (ps ! i) \<ge> pub_domain p"
  define i where "i = sort_search (length ps) ?f"
  have mono: "?f b" if "a \<le> b" "b < length ps" "?f a" for a b
    using sorted_nth_mono [OF assms, of a b] that by force
  note i = sort_search_first [of "length ps" ?f, OF mono, folded i_def]
  have before: "pub_domain x < pub_domain p" if "x \<in> set (take i ps)" for x
    using that i(1) i(2) by (auto simp: in_set_conv_nth not_le)
  have after: "pub_domain p \<le> pub_domain x" if "x \<in> set (drop i ps)" for x
    using that i(3) by (auto simp: in_set_conv_nth)
  have split: "sorted (map pub_domain (take i ps))" "sorted (map pub_domain (drop i ps))"
    using assms by (simp_all add: sorted_wrt_take sorted_wrt_drop flip: take_map drop_map)
  have ins: "insert_publisher p ps = (if i < length ps \<and> pub_domain (ps ! i) = pub_domain p then ps[i := p]
      else take i ps @ p # drop i ps)"
    by (simp add: insert_publisher_def Let_def i_def)
  show "sorted (map pub_domain (insert_publisher p ps))"
  proof (cases "i < length ps \<and> pub_domain (ps ! i) = pub_domain p")
    case True
    then have "map pub_domain (ps[i := p]) = map pub_domain ps"
      by (metis list_update_id map_update nth_map)
    with True assms show ?thesis by (simp add: ins)
  next
    case False
    have "pub_domain x \<le> pub_domain y" if "x \<in> set (take i ps)" "y \<in> set (drop i ps)" for x y
      using before [OF that(1)] after [OF that(2)] by simp
    with False before after split show ?thesis
      by (auto simp: ins sorted_append less_imp_le)
  qed
  show "set (insert_publisher p ps) \<subseteq> insert p (set ps)"
    using set_update_subset_insert [of ps i p] by (auto simp: ins dest: in_set_takeD in_set_dropD)
  show "p \<in> set (insert_publisher p ps)"
    by (auto simp: ins intro: set_update_memI)
  show "q \<in> set (insert_publisher p ps)" if "q \<in> set ps" "pub_domain q \<noteq> pub_domain p"
  proof (cases "i < length ps \<and> pub_domain (ps ! i) = pub_domain p")
    case True
    from that(1) obtain j where j: "j < length ps" "ps ! j = q" by (auto simp: in_set_conv_nth)
    with that(2) True have "ps[i := p] ! j = q" by (cases "i = j") auto
    with j True show ?thesis by (metis ins length_list_update nth_mem)
  next
    case False
    have "q \<in> set (take i ps @ drop i ps)" using that(1) by simp
    with False show ?thesis by (auto simp: ins simp del: append_take_drop_id)
  qed
qed

lemma store_publisher_wf:
  assumes "state_wf st"
  shows "state_wf (store_publisher p st)"
proof -
  let ?st = "st\<lparr>publishersByDomain := (publishersByDomain st)(pub_domain p \<mapsto> p),
                Publishers := insert_publisher p (Publishers st)\<rparr>"
  from assms have sorted: "sorted (map pub_domain (Publishers st))"
    and dom: "dom (publishersByDomain st) = pub_domain ` set (Publishers st)"
    and index: "\<And>d q. publishersByDomain st d = Some q \<Longrightarrow> q \<in> set (Publishers st) \<and> pub_domain q = d"
    by (auto simp: state_wf_def)
  note ins = insert_publisher_spec [OF sorted, where p = p]
  have "pub_domain ` set (insert_publisher p (Publishers st))
      = insert (pub_domain p) (pub_domain ` set (Publishers st))"
    using ins(2-4) by (auto simp: image_iff)
  then have "state_wf ?st"
    using assms ins(1,3,4) dom index by (auto simp: state_wf_def)
  then show ?thesis
    using assms by (simp add: store_publisher_def split: option.splits)
qed

section \<open>Operations as steps\<close>

text \<open>
  Every operation that changes the copy, and the reload on a notification. Other processes write
  to the same Redis between two steps, so a step may start in any server state.
\<close>

datatype relay_op = OpSetConfig config_key bool | OpAddSubscriber subscriber | OpDelSubscriber string
  | OpAddFollower follower | OpUpdateFollower string bool | OpDelFollower string
  | OpRecordPublisher string publisher | OpBlock string bool | OpLimit string bool | OpNotify

fun run_op :: "'db redis \<Rightarrow> relay_op \<Rightarrow> relay_state \<Rightarrow> 'db \<Rightarrow> relay_state \<times> 'db" where
  "run_op R (OpSetConfig k v) st db = SetConfig R k v st db"
| "run_op R (OpAddSubscriber s) st db = AddSubscriber R s st db"
| "run_op R (OpDelSubscriber d) st db = DelSubscriber R d st db"
| "run_op R (OpAddFollower f) st db = AddFollower R f st db"
| "run_op R (OpUpdateFollower d m) st db = UpdateFollowerStatus R d m st db"
| "run_op R (OpDelFollower d) st db = DelFollower R d st db"
| "run_op R (OpRecordPublisher clock p) st db = snd (RecordPublisherActivity R clock p st db)"
| "run_op R (OpBlock d v) st db = SetBlockedDomain R d v st db"
| "run_op R (OpLimit d v) st db = SetLimitedDomain R d v st db"
| "run_op R OpNotify st db = snd (on_notify R st db)"

inductive reachable :: "'db redis \<Rightarrow> relay_state \<Rightarrow> bool" for R :: "'db redis" where
  start: "NewState R notif db = (st, db') \<Longrightarrow> reachable R st"
| step: "reachable R st \<Longrightarrow> run_op R op st db = (st', db') \<Longrightarrow> reachable R st'"

context redis_server
begin

lemma RecordPublisherActivity_wf:
  "state_wf st \<Longrightarrow> state_wf (fst (snd (RecordPublisherActivity R clock p st db)))"
  by (simp add: RecordPublisherActivity_def Let_def store_publisher_wf split: sum.split prod.split)

lemma UpdateFollowerStatusChecked_wf:
  "state_wf st \<Longrightarrow> state_wf (fst (snd (UpdateFollowerStatusChecked R d m st db)))"
  by (simp add: UpdateFollowerStatusChecked_def Let_def refresh_wf split: sum.split prod.split)

lemma run_op_wf: "state_wf st \<Longrightarrow> state_wf (fst (run_op R op st db))"
  by (cases op)
     (simp_all add: SetConfig_def AddSubscriber_def DelSubscriber_def AddFollower_def AddFollowerChecked_def
       UpdateFollowerStatus_def DelFollower_def SetBlockedDomain_def SetLimitedDomain_def on_notify_def Let_def
       refresh_wf RecordPublisherActivity_wf UpdateFollowerStatusChecked_wf Load_wf case_prod_beta
       split: sum.split)

lemma empty_state_wf: "state_wf (empty_state notif)"
  by (simp add: state_wf_def empty_state_def table_def)

lemma reachable_wf: "reachable R st \<Longrightarrow> state_wf st"
proof (induction rule: reachable.induct)
  case (start notif db st db')
  then show ?case
    using Load_wf [OF empty_state_wf, of notif db] by (simp add: NewState_def)
next
  case (step st op db st' db')
  then show ?case using run_op_wf [of st op db] by simp
qed

end

text \<open>
  C22: in every process of the relay, at every moment, the published copy is consistent: every
  follower passed validation, a domain is found by the look-up tables exactly when the
  corresponding list has it, the list used for fan-out is the subscribers followed by the
  followers, and the publishers are sorted by domain with an up-to-date table. The moments are
  those reachable from a start by any sequence of operations and reloads, with any other writers of
  the same Redis, failed calls and lost replies included.
\<close>
theorem reachable_state_consistent:
  assumes "redis_server R" and "reachable R st"
  shows "state_wf st
    \<and> (IsSubscriberOrFollower st d \<longleftrightarrow> d \<in> sub_domain ` set (SubscribersAndFollowers st))
    \<and> (SelectFollower st d = Some f \<longrightarrow> f \<in> set (Followers st) \<and> fol_domain f = d \<and> validateFollower f = Inr ())
    \<and> (IsBlocked st d \<longleftrightarrow> d \<in> set (BlockedDomains st)) \<and> (IsLimited st d \<longleftrightarrow> d \<in> set (LimitedDomains st))"
proof -
  have wf: "state_wf st"
    by (rule redis_server.reachable_wf [OF assms])
  then have tables: "subscribersByDomain st = table sub_domain (Subscribers st)"
      "followersByDomain st = table fol_domain (Followers st)"
    and both: "SubscribersAndFollowers st = Subscribers st @ map as_subscriber (Followers st)"
    and valid: "\<And>f. f \<in> set (Followers st) \<Longrightarrow> validateFollower f = Inr ()"
    and sets: "limitedDomains st = set (LimitedDomains st)" "blockedDomains st = set (BlockedDomains st)"
    by (auto simp: state_wf_def list_all_iff)
  have "IsSubscriberOrFollower st d \<longleftrightarrow> d \<in> sub_domain ` set (SubscribersAndFollowers st)"
    by (simp add: IsSubscriberOrFollower_def tables both table_None_iff image_Un image_image as_subscriber_def
        del: not_None_eq)
  moreover have "SelectFollower st d = Some f \<longrightarrow>
      f \<in> set (Followers st) \<and> fol_domain f = d \<and> validateFollower f = Inr ()"
    by (auto simp: SelectFollower_def tables dest: table_SomeD intro: valid)
  ultimately show ?thesis
    using wf sets by (simp add: IsBlocked_def IsLimited_def)
qed

theorem reachable_state_consistent_witness:
  "\<exists>st. reachable mem_redis st \<and> IsBlocked st ''bad.example'' \<and> state_wf st"
proof -
  let ?db = "\<lparr>m_now = 0, m_trips = [], m_hashes = [(blocked_hash, [(''bad.example'', ''1'')])],
    m_strs = [], m_lens = []\<rparr>"
  obtain st db' where new: "NewState mem_redis False ?db = (st, db')" by fastforce
  then have "reachable mem_redis st" by (rule reachable.start)
  moreover have "IsBlocked st ''bad.example''"
    using new by (auto simp: NewState_def Load_def load_state_def then_io_def loadRelayConfig_def command_def
        call_def on_hash_def mem_redis_def mem_hash_def loadDomainSet_def loadSubscribers_def loadFollowers_def
        loadPublishers_def ScanKeys_def loadHashes_def mem_exists_def publish_snapshot_def IsBlocked_def)
  ultimately show ?thesis
    using reachable_state_consistent [OF mem.redis_server_axioms, of st] by blast
qed

section \<open>The follower list\<close>

abbreviation follower_names :: "string list" where
  "follower_names \<equiv> [''inbox_url'', ''activity_id'', ''actor_id'', ''mutually_follow'']"

context redis_server
begin

lemma hset_command_Inr:
  assumes "hset_command R key fvs db = (Inr u, db')"
  shows "r_hash R db' = (r_hash R db)(key := r_hash R db key ++ map_of (rev fvs))"
    and "r_str R db' = r_str R db" and "r_str R db key = None"
proof -
  let ?f = "on_hash R key (\<lambda>d. ((), r_hset R key fvs d))"
  from assms have "call R ''hset'' ?f db = (Inr (Inr u), db')"
    by (auto simp: hset_command_def command_def split: prod.splits sum.splits)
  then obtain d where "?f d = (Inr u, db')" "r_hash R d = r_hash R db" "r_str R d = r_str R db"
    by (cases rule: call_cases) auto
  then show "r_hash R db' = (r_hash R db)(key := r_hash R db key ++ map_of (rev fvs))"
    "r_str R db' = r_str R db" "r_str R db key = None"
    by (auto simp: on_hash_def split: if_splits)
qed

lemma Load_frame: "Load R st db = (r, st', db') \<Longrightarrow> r_hash R db' = r_hash R db \<and> r_str R db' = r_str R db"
  using reads_load_state [of st] by (auto simp: Load_def reads_def split: prod.splits sum.splits)

lemma refresh_frame:
  assumes "refresh R st db = (st', db')"
  shows "r_hash R db' = r_hash R db" and "r_str R db' = r_str R db"
proof -
  let ?c = "call R ''publish'' (\<lambda>d. ((), r_publish R ''relay_refresh'' d)) db"
  have "r_hash R (snd ?c) = r_hash R db \<and> r_str R (snd ?c) = r_str R db"
    by (cases ?c rule: prod.exhaust) (auto elim!: call_cases)
  moreover have "r_hash R (snd (snd (Load R st db))) = r_hash R db
      \<and> r_str R (snd (snd (Load R st db))) = r_str R db"
    by (cases "Load R st db") (auto dest: Load_frame)
  ultimately show "r_hash R db' = r_hash R db" "r_str R db' = r_str R db"
    using assms by (auto simp: refresh_def split: if_splits)
qed

lemma Load_followers:
  assumes "Load R st db = (Inr u, st', db')"
  shows "followersByDomain st' = table fol_domain (Followers st')"
    and "set (Followers st') = {f. \<exists>k. has_prefix k follower_prefix \<and> r_exists R db k
      \<and> decode_follower k (map (r_hash R db k) follower_names) = Some f}"
proof -
  from assms have ls: "load_state R st db = (Inr st', db')"
    by (auto simp: Load_def split: prod.splits sum.splits)
  from ls obtain conf lim blo subs fols pubs d1 d2 d3 d4 d5 where
    runs: "loadRelayConfig R db = (Inr conf, d1)" "loadDomainSet R limited_hash d1 = (Inr lim, d2)"
      "loadDomainSet R blocked_hash d2 = (Inr blo, d3)" "loadSubscribers R d3 = (Inr subs, d4)"
    and fols: "loadFollowers R d4 = (Inr fols, d5)"
    and st': "st' = publish_snapshot conf (sort lim) (sort blo) subs fols pubs st"
    by (auto simp: load_state_def then_io_Inr)
  have frame: "r_hash R d4 = r_hash R db" "r_str R d4 = r_str R db"
    using readsD [OF reads_loadRelayConfig runs(1)] readsD [OF reads_loadDomainSet runs(2)]
      readsD [OF reads_loadDomainSet runs(3)] readsD [OF reads_loadSubscribers runs(4)] by auto
  show "followersByDomain st' = table fol_domain (Followers st')"
    by (simp add: st' publish_snapshot_def)
  from fols have "set fols = {f. \<exists>k. has_prefix k follower_prefix \<and> r_exists R d4 k
      \<and> decode_follower k (map (r_hash R d4 k) follower_names) = Some f}"
    by (rule loadFollowers_Inr) (force simp: List.map_filter_def image_iff)
  then show "set (Followers st') = {f. \<exists>k. has_prefix k follower_prefix \<and> r_exists R db k
      \<and> decode_follower k (map (r_hash R db k) follower_names) = Some f}"
    by (simp add: st' publish_snapshot_def frame exists_iff)
qed

lemma Load_selects_follower:
  assumes load: "Load R st db = (Inr u, st', db')"
    and key: "key = follower_prefix @ d" and ex: "r_exists R db key"
    and dec: "decode_follower key (map (r_hash R db key) follower_names) = Some f"
  shows "SelectFollower st' d = Some f"
proof -
  have dom: "fol_domain g = trim_prefix k follower_prefix" if "decode_follower k v = Some g" for k v g
    using that by (auto simp: decode_follower_def Let_def split: if_splits)
  have pre: "has_prefix key follower_prefix" and trim: "trim_prefix key follower_prefix = d"
    unfolding key by (rule has_prefix_append, rule trim_prefix_append)
  have "f \<in> set (Followers st')"
    unfolding Load_followers(2) [OF load] by (intro CollectI exI conjI) (rule pre ex dec)+
  moreover have "fol_domain f = d"
    unfolding dom [OF dec] by (rule trim)
  moreover have "g = f" if "g \<in> set (Followers st')" "fol_domain g = d" for g
  proof -
    from that(1) obtain k where k: "has_prefix k follower_prefix"
      "decode_follower k (map (r_hash R db k) follower_names) = Some g"
      unfolding Load_followers(2) [OF load] by (elim CollectE exE conjE)
    have "trim_prefix k follower_prefix = d" using dom [OF k(2)] that(2) by (simp only:)
    then have "k = key" using has_prefixD [OF k(1)] key by (simp only:)
    with k(2) dec show ?thesis by (simp only: option.inject)
  qed
  ultimately show ?thesis
    unfolding SelectFollower_def Load_followers(1) [OF load] by (rule table_unique)
qed

end

lemma decode_follower_fields:
  assumes "validateFollower (f\<lparr>fol_domain := d\<rparr>) = Inr ()"
  shows "decode_follower (follower_prefix @ d)
      (map (h ++ map_of (rev (follower_fields f))) follower_names) = Some (f\<lparr>fol_domain := d\<rparr>)"
proof -
  have "trim_prefix (follower_prefix @ d) follower_prefix = d" by (rule trim_prefix_append)
  then show ?thesis
    using assms
    by (cases f; cases "fol_mutual f") (simp_all add: decode_follower_def follower_fields_def stringValue_def Let_def del: append.simps)
qed

lemma validateFollower_domain:
  "normalizeStateDomain d = normalizeStateDomain (fol_domain f) \<Longrightarrow>
     validateFollower (f\<lparr>fol_domain := d\<rparr>) = validateFollower f"
  by (simp add: validateFollower_def cong: if_cong sum.case_cong)


abbreviation sample_follower :: "string \<Rightarrow> follower" where
  "sample_follower host \<equiv> \<lparr>fol_domain = host, fol_inbox = ''https://'' @ host @ ''/inbox'',
     fol_activity = ''https://x/1'', fol_actor = ''https://'' @ host @ ''/actor'', fol_mutual = True\<rparr>"

abbreviation no_data :: mem where
  "no_data \<equiv> \<lparr>m_now = 0, m_trips = [], m_hashes = [], m_strs = [], m_lens = []\<rparr>"

lemmas mem_load_defs = Load_def load_state_def then_io_def loadRelayConfig_def command_def call_def
  on_hash_def mem_redis_def mem_hash_def mem_put_def mem_exists_def loadDomainSet_def loadSubscribers_def
  loadFollowers_def loadPublishers_def ScanKeys_def loadHashes_def



section \<open>Status updates and domain lists\<close>

context redis_server
begin

lemma updateFollowerStatusScript_effect:
  assumes "updateFollowerStatusScript R key status db = (r, db')"
  shows "r_hash R db' k f \<noteq> None \<Longrightarrow> r_hash R db k f \<noteq> None"
    and "r = Inr 1 \<Longrightarrow> list_all (\<lambda>f. \<exists>v. r_hash R db key f = Some v \<and> v \<noteq> []) follower_names
      \<and> r_hash R db' = (r_hash R db)(key := (r_hash R db key)(''mutually_follow'' \<mapsto> status))"
proof -
  have shape: "db' = db \<or> r = Inr (- 1) \<and> db' = r_del R key db
      \<or> r = Inr 1 \<and> r_str R db key = None \<and> db' = r_hset R key [(''mutually_follow'', status)] db
        \<and> list_all (\<lambda>f. \<exists>v. r_hash R db key f = Some v \<and> v \<noteq> []) follower_names"
    using assms by (auto simp: updateFollowerStatusScript_def split: if_splits option.splits)
  have full: "r = Inr 1 \<Longrightarrow> r_str R db key = None \<and> db' = r_hset R key [(''mutually_follow'', status)] db
      \<and> list_all (\<lambda>f. \<exists>v. r_hash R db key f = Some v \<and> v \<noteq> []) follower_names"
    using assms by (auto simp: updateFollowerStatusScript_def split: if_splits option.splits)
  show "r_hash R db k f \<noteq> None" if "r_hash R db' k f \<noteq> None"
    using shape that by (auto simp: fun_upd_def split: if_splits)
  show "list_all (\<lambda>f. \<exists>v. r_hash R db key f = Some v \<and> v \<noteq> []) follower_names
      \<and> r_hash R db' = (r_hash R db)(key := (r_hash R db key)(''mutually_follow'' \<mapsto> status))" if "r = Inr 1"
    using full [OF that] by simp
qed

lemma UpdateFollowerStatusChecked_script:
  assumes "UpdateFollowerStatusChecked R domain m st db = (r, st', db')"
  obtains (unchanged) "r_hash R db' = r_hash R db" and "isl r"
  | (ran) x d d' where "r_hash R d = r_hash R db"
      and "updateFollowerStatusScript R (follower_prefix @ normalizeStateDomain domain)
             (if m then ''1'' else ''0'') d = (x, d')"
      and "r_hash R db' = r_hash R d'" and "r = Inr () \<Longrightarrow> x = Inr 1"
proof (cases "normalizeStateDomain domain = []")
  case True
  with assms show thesis using unchanged by (auto simp: UpdateFollowerStatusChecked_def)
next
  case False
  let ?s = "updateFollowerStatusScript R (follower_prefix @ normalizeStateDomain domain) (if m then ''1'' else ''0'')"
  obtain x d where run: "call R ''eval'' ?s db = (x, d)" by fastforce
  have post: "r_hash R db' = r_hash R d" and ok: "r = Inr () \<Longrightarrow> x = Inr (Inr 1)"
    using assms run False
    by (auto simp: UpdateFollowerStatusChecked_def command_def Let_def simp del: append.simps
        dest: refresh_frame(1) split: sum.splits if_splits)
  from run show thesis
  proof (cases rule: call_cases)
    case (executed y d1)
    then show thesis using ran [of d1 y d] post ok by auto
  next
    case refused
    then show thesis using unchanged post ok by (cases r) auto
  next
    case (lost y d1)
    then show thesis using ran [of d1 y d] post ok by auto
  qed
qed

end

text \<open>
  C31: a status update never creates state: no field of any hash exists afterwards that did not
  exist before, whatever the outcome, lost replies included. If it reports success, the follower's
  record had all four fields filled and only the mutual flag changed, to the value asked for.
\<close>
theorem status_update_never_creates:
  assumes "redis_server R"
    and "UpdateFollowerStatusChecked R domain m st db = (r, st', db')"
  shows "(\<forall>k f. r_hash R db' k f \<noteq> None \<longrightarrow> r_hash R db k f \<noteq> None)
    \<and> (r = Inr () \<longrightarrow>
        (let key = follower_prefix @ normalizeStateDomain domain
         in list_all (\<lambda>f. \<exists>v. r_hash R db key f = Some v \<and> v \<noteq> []) follower_names
            \<and> r_hash R db' = (r_hash R db)(key := (r_hash R db key)(''mutually_follow'' \<mapsto> if m then ''1'' else ''0''))))"
proof (rule redis_server.UpdateFollowerStatusChecked_script [OF assms])
  assume "r_hash R db' = r_hash R db" and "isl r"
  then show ?thesis by auto
next
  fix x d d'
  assume ran: "r_hash R d = r_hash R db"
    "updateFollowerStatusScript R (follower_prefix @ normalizeStateDomain domain) (if m then ''1'' else ''0'') d = (x, d')"
    "r_hash R db' = r_hash R d'" "r = Inr () \<Longrightarrow> x = Inr 1"
  note effect = redis_server.updateFollowerStatusScript_effect [OF assms(1) ran(2)]
  show ?thesis
    unfolding Let_def ran(3) using effect(1) effect(2) [OF ran(4)] unfolding ran(1) by blast
qed

theorem status_update_never_creates_witness:
  "\<exists>db db'. UpdateFollowerStatusChecked mem_redis ''A.example'' False (empty_state True) db
      = (Inr (), empty_state True, db')
    \<and> r_hash mem_redis db' (follower_prefix @ ''a.example'') ''mutually_follow'' = Some ''0''"
proof -
  let ?db = "mem_put (follower_prefix @ ''a.example'') (follower_fields (sample_follower ''a.example'')) no_data"
  have norm: "normalizeStateDomain ''A.example'' = ''a.example''"
    by code_simp
  have "\<exists>db'. UpdateFollowerStatusChecked mem_redis ''A.example'' False (empty_state True) ?db
      = (Inr (), empty_state True, db')"
    by (simp add: UpdateFollowerStatusChecked_def norm command_def call_def updateFollowerStatusScript_def
        mem_redis_def mem_exists_def mem_hash_def mem_put_def follower_fields_def refresh_def empty_state_def Let_def)
  then obtain db' where upd: "UpdateFollowerStatusChecked mem_redis ''A.example'' False (empty_state True) ?db
      = (Inr (), empty_state True, db')" by blast
  from status_update_never_creates [OF mem.redis_server_axioms upd]
  have "r_hash mem_redis db' (follower_prefix @ ''a.example'') ''mutually_follow'' = Some ''0''"
    by (simp only: norm Let_def simp_thms if_False fun_upd_same)
  with upd show ?thesis by blast
qed

end
