(* ===== verification/Go_Time.thy ===== *)
theory Go_Time
  imports Prelude
begin

text \<open>
  Calendar dates and the text formats of the Go \<open>time\<close> package that the relay writes. Instants are
  counted in nanoseconds since the Unix epoch; a date is computed from the day number in the
  proleptic Gregorian calendar, as \<open>time.Date\<close> does for UTC. The text is that of years 0 to 9999.
\<close>

definition day_number :: "int \<Rightarrow> int" where
  "day_number ns = ns div (86400 * 1000000000)"

text \<open>Year, month (1 to 12) and day (1 to 31) of a day number; 719468 days separate 1 March of year 0 from the epoch.\<close>

definition civil_date :: "int \<Rightarrow> int \<times> int \<times> int" where
  "civil_date days =
     (let z = days + 719468;
          era = z div 146097;
          doe = z mod 146097;
          yoe = (doe - doe div 1460 + doe div 36524 - doe div 146096) div 365;
          doy = doe - (365 * yoe + yoe div 4 - yoe div 100);
          mp = (5 * doy + 2) div 153;
          d = doy - (153 * mp + 2) div 5 + 1;
          m = (if mp < 10 then mp + 3 else mp - 9);
          y = yoe + era * 400 + (if m \<le> 2 then 1 else 0)
      in (y, m, d))"

definition pad :: "nat \<Rightarrow> int \<Rightarrow> string" where
  "pad w n = (let s = show_nat (nat n) in replicate (w - length s) (CHR ''0'') @ s)"

definition clock_seconds :: "int \<Rightarrow> int" where
  "clock_seconds ns = (ns div 1000000000) mod 86400"

text \<open>\<open>t.UTC().Format(time.RFC3339)\<close>.\<close>

definition format_rfc3339 :: "int \<Rightarrow> string" where
  "format_rfc3339 ns =
     (case civil_date (day_number ns) of (y, m, d) \<Rightarrow>
        let s = clock_seconds ns
        in pad 4 y @ ''-'' @ pad 2 m @ ''-'' @ pad 2 d @ ''T''
           @ pad 2 (s div 3600) @ '':'' @ pad 2 (s div 60 mod 60) @ '':'' @ pad 2 (s mod 60) @ ''Z'')"

lemma format_rfc3339_examples:
  "format_rfc3339 0 = ''1970-01-01T00:00:00Z''"
  "format_rfc3339 (951827696 * 1000000000) = ''2000-02-29T12:34:56Z''"
  by (code_simp, code_simp)

end
