(* ===== verification/Receiver_Health.thy ===== *)
theory Receiver_Health
  imports Relay_State_Facts Destination_Negotiation Go_Time
begin

text \<open>
  Delivery health of the receivers, \<open>models/receiver_health.go\<close>: one hash per receiver domain with
  the time of the last success and failure and three counters, written by a Lua script.
\<close>

abbreviation receiverHealthKeyPrefix :: string where "receiverHealthKeyPrefix \<equiv> ''relay:receiver-health:''"

definition ReceiverDomainFromInboxURL :: "string \<Rightarrow> string result" where
  "ReceiverDomainFromInboxURL address =
     (case url_parse address of
        None \<Rightarrow> Inl ''parse receiver inbox URL: ''
      | Some u \<Rightarrow>
          if u_scheme u \<noteq> ''http'' \<and> u_scheme u \<noteq> ''https'' then Inl ''unsupported receiver inbox URL scheme''
          else let host = normalizeStateDomain (hostname u)
               in if host = [] then Inl ''receiver inbox URL has no host''
                  else if port u \<noteq> [] then Inr (join_host_port host (port u))
                  else Inr host)"

text \<open>
  The script. Redis does not undo the commands of a script that fails half-way: an increment that
  fails leaves the fields written before it.
\<close>

definition script_incr :: "'db redis \<Rightarrow> string \<Rightarrow> string \<Rightarrow> 'db \<Rightarrow> unit result \<times> 'db" where
  "script_incr R key fld db =
     (case r_hincrby R key fld 1 db of (None, db') \<Rightarrow> (Inl redis_error, db') | (Some _, db') \<Rightarrow> (Inr (), db'))"

definition recordReceiverDeliveryScript ::
  "'db redis \<Rightarrow> string \<Rightarrow> string \<Rightarrow> string \<Rightarrow> 'db \<Rightarrow> int result \<times> 'db" where
  "recordReceiverDeliveryScript R key at succeeded db =
     (if r_str R db key \<noteq> None then (Inl redis_error, db)
      else if succeeded = ''1'' then
        then_io (\<lambda>d. (Inr (), r_hset R key [(''last_success_at'', at), (''consecutive_failures'', show_int 0)] d))
          (\<lambda>_. then_io (script_incr R key ''total_successes'') (\<lambda>_ d. (Inr 1, d))) db
      else
        then_io (\<lambda>d. (Inr (), r_hset R key [(''last_failure_at'', at)] d))
          (\<lambda>_. then_io (script_incr R key ''consecutive_failures'')
            (\<lambda>_. then_io (script_incr R key ''total_failures'') (\<lambda>_ d. (Inr 1, d)))) db)"

definition RecordReceiverDelivery ::
  "'db redis option \<Rightarrow> string \<Rightarrow> bool \<Rightarrow> time \<Rightarrow> time \<Rightarrow> 'db \<Rightarrow> unit result \<times> 'db" where
  "RecordReceiverDelivery client domain0 succeeded occurredAt wall db =
     (case client of
        None \<Rightarrow> (Inl ''receiver health Redis client is nil'', db)
      | Some R \<Rightarrow>
          let domain = normalizeStateDomain domain0
          in if domain = [] then (Inl ''receiver domain is empty'', db)
             else let at = (if is_zero occurredAt then wall else occurredAt)
                  in case command R ''eval'' (recordReceiverDeliveryScript R (receiverHealthKeyPrefix @ domain)
                            (format_rfc3339 at) (if succeeded then ''1'' else ''0'')) db of
                       (Inl e, db') \<Rightarrow> (Inl e, db') | (Inr _, db') \<Rightarrow> (Inr (), db'))"

record receiver_health =
  rh_domain :: string
  rh_last_success :: string
  rh_last_failure :: string
  rh_consecutive :: int
  rh_successes :: int
  rh_failures :: int

definition receiverHealthCounter :: "string option list \<Rightarrow> nat \<Rightarrow> int result" where
  "receiverHealthCounter vals i =
     (let v = stringValue vals i
      in if v = [] then Inr 0
         else case parse_int64 v of
           NumOk n \<Rightarrow> if n < 0 then Inl ''counter is negative'' else Inr n
         | _ \<Rightarrow> Inl ''strconv.ParseInt'')"

definition decode_health :: "string \<Rightarrow> string option list \<Rightarrow> receiver_health result" where
  "decode_health domain vals =
     (case receiverHealthCounter vals 2 of
        Inl e \<Rightarrow> Inl (''load receiver consecutive failures: '' @ e)
      | Inr c \<Rightarrow>
          (case receiverHealthCounter vals 3 of
             Inl e \<Rightarrow> Inl (''load receiver total successes: '' @ e)
           | Inr s \<Rightarrow>
               (case receiverHealthCounter vals 4 of
                  Inl e \<Rightarrow> Inl (''load receiver total failures: '' @ e)
                | Inr f \<Rightarrow>
                    Inr \<lparr>rh_domain = domain, rh_last_success = stringValue vals 0,
                         rh_last_failure = stringValue vals 1, rh_consecutive = c,
                         rh_successes = s, rh_failures = f\<rparr>)))"

fun decode_all :: "(string \<times> string option list) list \<Rightarrow> (string \<times> receiver_health) list result" where
  "decode_all [] = Inr []"
| "decode_all ((d, vals) # rest) =
     (case decode_health d vals of
        Inl e \<Rightarrow> Inl e
      | Inr h \<Rightarrow> (case decode_all rest of Inl e \<Rightarrow> Inl e | Inr hs \<Rightarrow> Inr ((d, h) # hs)))"

definition requested_domains :: "string list \<Rightarrow> string list" where
  "requested_domains domains = sort (remdups (filter (\<lambda>d. d \<noteq> []) (map normalizeStateDomain domains)))"

definition LoadReceiverDeliveryHealth ::
  "'db redis option \<Rightarrow> string list \<Rightarrow> 'db \<Rightarrow> (string \<rightharpoonup> receiver_health) result \<times> 'db" where
  "LoadReceiverDeliveryHealth client domains db =
     (case client of
        None \<Rightarrow> (Inl ''receiver health Redis client is nil'', db)
      | Some R \<Rightarrow>
          let normalized = requested_domains domains
          in if normalized = [] then (Inr Map.empty, db)
             else case loadHashes R (map (\<lambda>d. receiverHealthKeyPrefix @ d) normalized)
                         [''last_success_at'', ''last_failure_at'', ''consecutive_failures'',
                          ''total_successes'', ''total_failures''] db of
               (Inl e, db') \<Rightarrow> (Inl e, db')
             | (Inr vals, db') \<Rightarrow>
                 (case decode_all (zip normalized vals) of
                    Inl e \<Rightarrow> (Inl e, db') | Inr hs \<Rightarrow> (Inr (map_of hs), db')))"

section \<open>Recording refines counting\<close>

text \<open>What one delivery does to the health of a receiver.\<close>

definition observe_delivery :: "bool \<Rightarrow> string \<Rightarrow> receiver_health \<Rightarrow> receiver_health" where
  "observe_delivery succeeded at h =
     (if succeeded then h\<lparr>rh_last_success := at, rh_consecutive := 0, rh_successes := rh_successes h + 1\<rparr>
      else h\<lparr>rh_last_failure := at, rh_consecutive := rh_consecutive h + 1, rh_failures := rh_failures h + 1\<rparr>)"

abbreviation health_names :: "string list" where
  "health_names \<equiv> [''last_success_at'', ''last_failure_at'', ''consecutive_failures'', ''total_successes'', ''total_failures'']"

definition stored_health :: "'db redis \<Rightarrow> 'db \<Rightarrow> string \<Rightarrow> receiver_health result" where
  "stored_health R db d = decode_health d (map (r_hash R db (receiverHealthKeyPrefix @ d)) health_names)"

lemma decode_all_map_of:
  assumes "decode_all (map (\<lambda>d. (d, g d)) ds) = Inr hs"
  shows "d \<in> set ds \<Longrightarrow> decode_health d (g d) = Inr h \<longleftrightarrow> map_of hs d = Some h"
    and "d \<in> set ds \<longleftrightarrow> map_of hs d \<noteq> None"
proof -
  have "(d \<in> set ds \<longrightarrow> (decode_health d (g d) = Inr h \<longleftrightarrow> map_of hs d = Some h)) \<and> (d \<in> set ds \<longleftrightarrow> map_of hs d \<noteq> None)"
    using assms by (induction ds arbitrary: hs) (auto split: sum.splits if_splits)
  then show "d \<in> set ds \<Longrightarrow> decode_health d (g d) = Inr h \<longleftrightarrow> map_of hs d = Some h"
    and "d \<in> set ds \<longleftrightarrow> map_of hs d \<noteq> None" by blast+
qed

lemma zip_map_map: "zip xs (map f (map g xs)) = map (\<lambda>x. (x, f (g x))) xs"
  by (induction xs) auto

definition field_counter :: "string option \<Rightarrow> int result" where
  "field_counter v = receiverHealthCounter [v] 0"

lemma decode_health_names:
  "decode_health d (map h health_names) = Inr r \<longleftrightarrow>
     field_counter (h ''consecutive_failures'') = Inr (rh_consecutive r)
     \<and> field_counter (h ''total_successes'') = Inr (rh_successes r)
     \<and> field_counter (h ''total_failures'') = Inr (rh_failures r)
     \<and> rh_domain r = d \<and> rh_last_success r = stringValue [h ''last_success_at''] 0
     \<and> rh_last_failure r = stringValue [h ''last_failure_at''] 0"
  by (cases r) (auto simp: decode_health_def field_counter_def receiverHealthCounter_def stringValue_def Let_def
      split: sum.splits)

lemma parse_int64_Nil: "parse_int64 [] = NumSyntax"
  by code_simp

lemma counter_add_field:
  assumes "counter_add v 1 = Some i" and "field_counter v = Inr n"
  shows "i = n + 1" and "field_counter (Some (show_int i)) = Inr (n + 1)"
proof -
  from assms show i: "i = n + 1"
    by (auto simp: counter_add_def counter_value_def field_counter_def receiverHealthCounter_def stringValue_def
        Let_def parse_int64_Nil split: option.splits num_result.splits if_splits)
  have "0 \<le> n" using assms(2)
    by (auto simp: field_counter_def receiverHealthCounter_def Let_def split: num_result.splits if_splits)
  moreover have "i < 2 ^ 63" using assms(1) by (auto simp: counter_add_def split: num_result.splits if_splits)
  ultimately show "field_counter (Some (show_int i)) = Inr (n + 1)"
    using parse_int64_show_int [of i] i
    by (simp add: field_counter_def receiverHealthCounter_def stringValue_def Let_def)
qed

lemma field_counter_zero: "field_counter (Some (show_int 0)) = Inr 0"
  using parse_int64_show_int [of 0] by (simp add: field_counter_def receiverHealthCounter_def stringValue_def Let_def)

context redis_server
begin

lemma LoadReceiverDeliveryHealth_Inr:
  assumes "LoadReceiverDeliveryHealth (Some R) ds db = (Inr m, db')"
  shows "d \<in> set (requested_domains ds) \<longleftrightarrow> m d \<noteq> None"
    and "m d = Some h \<Longrightarrow> stored_health R db d = Inr h"
    and "d \<in> set (requested_domains ds) \<Longrightarrow> stored_health R db d = Inr h \<Longrightarrow> m d = Some h"
    and "r_hash R db' = r_hash R db"
proof -
  let ?ks = "map (\<lambda>d. receiverHealthKeyPrefix @ d) (requested_domains ds)"
  have "\<exists>hs. decode_all (map (\<lambda>d. (d, map (r_hash R db (receiverHealthKeyPrefix @ d)) health_names)) (requested_domains ds)) = Inr hs
      \<and> m = map_of hs"
  proof (cases "requested_domains ds = []")
    case False
    with assms obtain vals hs where vals: "loadHashes R ?ks health_names db = (Inr vals, db')"
      and dec: "decode_all (zip (requested_domains ds) vals) = Inr hs" and m: "m = map_of hs"
      by (auto simp: LoadReceiverDeliveryHealth_def Let_def simp del: append.simps split: prod.splits sum.splits)
    show ?thesis
      using dec unfolding m loadHashes_Inr [OF vals] zip_map_map by blast
  qed (use assms in \<open>auto simp: LoadReceiverDeliveryHealth_def\<close>)
  then obtain hs where dec: "decode_all (map (\<lambda>d. (d, map (r_hash R db (receiverHealthKeyPrefix @ d)) health_names))
      (requested_domains ds)) = Inr hs" and m: "m = map_of hs" by blast
  note all = decode_all_map_of [OF dec, of d, folded m stored_health_def]
  show "d \<in> set (requested_domains ds) \<longleftrightarrow> m d \<noteq> None" by (rule all(2))
  then show "m d = Some h \<Longrightarrow> stored_health R db d = Inr h"
    and "d \<in> set (requested_domains ds) \<Longrightarrow> stored_health R db d = Inr h \<Longrightarrow> m d = Some h"
    using all(1) by simp_all
  show "r_hash R db' = r_hash R db"
    using assms readsD [OF reads_loadHashes]
    by (auto simp: LoadReceiverDeliveryHealth_def Let_def simp del: append.simps split: prod.splits sum.splits if_splits)
qed

lemma script_incr_Inr:
  assumes "script_incr R key fld d = (Inr u, d')" and "r_str R d key = None"
  obtains i where "counter_add (r_hash R d key fld) 1 = Some i"
    and "r_hash R d' = (r_hash R d)(key := (r_hash R d key)(fld \<mapsto> show_int i))" and "r_str R d' = r_str R d"
proof (cases "counter_add (r_hash R d key fld) 1")
  case None
  with hincrby_None [OF assms(2) None] assms(1) show ?thesis by (simp add: script_incr_def)
next
  case (Some i)
  have "r_str R (snd (r_hincrby R key fld 1 d)) = r_str R d" by (rule hincrby_str)
  with hincrby_Some [OF assms(2) Some] assms(1) Some show ?thesis
    by (cases "r_hincrby R key fld 1 d") (auto simp: script_incr_def intro!: that)
qed

lemma recordReceiverDeliveryScript_Inr:
  assumes "recordReceiverDeliveryScript R key at ok d = (Inr n, d')"
  obtains (success) s where "ok = ''1''" and "counter_add (r_hash R d key ''total_successes'') 1 = Some s"
      and "r_hash R d' = (r_hash R d)(key := (r_hash R d key)(''last_success_at'' \<mapsto> at,
             ''consecutive_failures'' \<mapsto> show_int 0, ''total_successes'' \<mapsto> show_int s))"
  | (failure) c f where "ok \<noteq> ''1''" and "counter_add (r_hash R d key ''consecutive_failures'') 1 = Some c"
      and "counter_add (r_hash R d key ''total_failures'') 1 = Some f"
      and "r_hash R d' = (r_hash R d)(key := (r_hash R d key)(''last_failure_at'' \<mapsto> at,
             ''consecutive_failures'' \<mapsto> show_int c, ''total_failures'' \<mapsto> show_int f))"
proof (cases "ok = ''1''")
  case True
  let ?d = "r_hset R key [(''last_success_at'', at), (''consecutive_failures'', show_int 0)] d"
  from assms True have nostr: "r_str R d key = None" and run: "script_incr R key ''total_successes'' ?d = (Inr (), d')"
    by (auto simp: recordReceiverDeliveryScript_def then_io_def split: prod.splits sum.splits if_splits)
  have "r_str R ?d key = None" using nostr by simp
  from run this obtain i where "counter_add (r_hash R ?d key ''total_successes'') 1 = Some i"
    "r_hash R d' = (r_hash R ?d)(key := (r_hash R ?d key)(''total_successes'' \<mapsto> show_int i))"
    by (rule script_incr_Inr)
  then show ?thesis using True nostr by (intro success [of i]) simp_all
next
  case False
  let ?d = "r_hset R key [(''last_failure_at'', at)] d"
  from assms False obtain d1 where nostr: "r_str R d key = None"
    and run1: "script_incr R key ''consecutive_failures'' ?d = (Inr (), d1)"
    and run2: "script_incr R key ''total_failures'' d1 = (Inr (), d')"
    by (auto simp: recordReceiverDeliveryScript_def then_io_def split: prod.splits sum.splits if_splits)
  have str: "r_str R ?d key = None" using nostr by simp
  from run1 str obtain c where c: "counter_add (r_hash R ?d key ''consecutive_failures'') 1 = Some c"
    "r_hash R d1 = (r_hash R ?d)(key := (r_hash R ?d key)(''consecutive_failures'' \<mapsto> show_int c))"
    "r_str R d1 = r_str R ?d" by (rule script_incr_Inr)
  from run2 have "r_str R d1 key = None \<Longrightarrow> \<exists>f. counter_add (r_hash R d1 key ''total_failures'') 1 = Some f
      \<and> r_hash R d' = (r_hash R d1)(key := (r_hash R d1 key)(''total_failures'' \<mapsto> show_int f))"
    by (auto elim: script_incr_Inr)
  with c str obtain f where "counter_add (r_hash R d1 key ''total_failures'') 1 = Some f"
    "r_hash R d' = (r_hash R d1)(key := (r_hash R d1 key)(''total_failures'' \<mapsto> show_int f))" by auto
  then show ?thesis using False c nostr by (intro failure [of c f]) simp_all
qed

text \<open>The decoded record after the script, from the one before.\<close>

lemma record_script_decode:
  assumes "recordReceiverDeliveryScript R key at (if succeeded then ''1'' else ''0'') d = (Inr n, d')"
    and "decode_health e (map (r_hash R d key) health_names) = Inr h"
  shows "decode_health e (map (r_hash R d' key) health_names) = Inr (observe_delivery succeeded at h)"
  using assms(1)
proof (cases rule: recordReceiverDeliveryScript_Inr)
  case (success s)
  then have succeeded by (simp split: if_splits)
  with success assms(2) show ?thesis
    by (simp only: decode_health_names) (simp add: observe_delivery_def field_counter_zero counter_add_field stringValue_def)
next
  case (failure c f)
  then have "\<not> succeeded" by (simp split: if_splits)
  with failure assms(2) show ?thesis
    by (simp only: decode_health_names) (simp add: observe_delivery_def counter_add_field stringValue_def)
qed

lemma record_script_frame:
  assumes "recordReceiverDeliveryScript R key at ok d = (Inr n, d')" and "k \<noteq> key"
  shows "r_hash R d' k = r_hash R d k"
  using assms(1) by (cases rule: recordReceiverDeliveryScript_Inr) (use assms(2) in simp_all)

lemma RecordReceiverDelivery_Inr:
  assumes "RecordReceiverDelivery (Some R) domain succeeded at wall db = (Inr (), db')"
  obtains d n where "recordReceiverDeliveryScript R (receiverHealthKeyPrefix @ normalizeStateDomain domain)
      (format_rfc3339 (if is_zero at then wall else at)) (if succeeded then ''1'' else ''0'') d = (Inr n, db')"
    and "r_hash R d = r_hash R db"
proof -
  from assms obtain n where "command R ''eval'' (recordReceiverDeliveryScript R (receiverHealthKeyPrefix @ normalizeStateDomain domain)
      (format_rfc3339 (if is_zero at then wall else at)) (if succeeded then ''1'' else ''0'')) db = (Inr n, db')"
    by (auto simp: RecordReceiverDelivery_def Let_def simp del: append.simps split: prod.splits sum.splits if_splits)
  then show thesis by (rule command_Inr) (rule that)
qed

lemma loaded_health_advances:
  assumes first: "LoadReceiverDeliveryHealth (Some R) ds db = (Inr m, db1)"
    and "RecordReceiverDelivery (Some R) domain succeeded at wall db1 = (Inr (), db2)"
    and second: "LoadReceiverDeliveryHealth (Some R) ds db2 = (Inr m', db3)"
  shows "m' = m(normalizeStateDomain domain := map_option
      (observe_delivery succeeded (format_rfc3339 (if is_zero at then wall else at))) (m (normalizeStateDomain domain)))"
proof (rule ext)
  fix e
  let ?n = "normalizeStateDomain domain"
  from assms(2) obtain d n where run: "recordReceiverDeliveryScript R (receiverHealthKeyPrefix @ ?n)
      (format_rfc3339 (if is_zero at then wall else at)) (if succeeded then ''1'' else ''0'') d = (Inr n, db2)"
    and d1: "r_hash R d = r_hash R db1" by (rule RecordReceiverDelivery_Inr)
  have d: "r_hash R d = r_hash R db" unfolding d1 by (rule LoadReceiverDeliveryHealth_Inr(4) [OF first])
  note load = LoadReceiverDeliveryHealth_Inr(1-3) [OF first, of e]
    LoadReceiverDeliveryHealth_Inr(1-3) [OF second, of e]
  show "m' e = (m(?n := map_option (observe_delivery succeeded
      (format_rfc3339 (if is_zero at then wall else at))) (m ?n))) e"
  proof (cases "m e")
    case None
    with load(1,4) show ?thesis by auto
  next
    case (Some h)
    then have now: "stored_health R d e = Inr h" and req: "e \<in> set (requested_domains ds)"
      using load(1,2) by (simp_all add: stored_health_def d)
    show ?thesis
    proof (cases "e = ?n")
      case False
      then have "receiverHealthKeyPrefix @ e \<noteq> receiverHealthKeyPrefix @ ?n" by simp
      from record_script_frame [OF run this] now have "stored_health R db2 e = Inr h"
        unfolding stored_health_def by metis
      with load(6) req False Some show ?thesis by simp
    next
      case True
      have "stored_health R db2 e = Inr (observe_delivery succeeded (format_rfc3339 (if is_zero at then wall else at)) h)"
        using record_script_decode [OF run, of e h] now unfolding True stored_health_def by blast
      with load(6) req True Some show ?thesis by simp
    qed
  qed
qed

end

text \<open>
  C12: recording a delivery refines counting. If the health of some receivers can be read, a delivery
  to one domain is recorded and the health is read again, the second reading is the first with exactly
  that domain's record advanced by one observation: a success sets its time, clears the run of
  failures and counts one success, a failure sets its time, prolongs the run and counts one failure.
  Every other receiver reads as before.
\<close>
theorem recorded_delivery_refines_counting:
  assumes "redis_server R"
    and "LoadReceiverDeliveryHealth (Some R) ds db = (Inr m, db1)"
    and "RecordReceiverDelivery (Some R) domain succeeded at wall db1 = (Inr (), db2)"
    and "LoadReceiverDeliveryHealth (Some R) ds db2 = (Inr m', db3)"
  shows "m' = m(normalizeStateDomain domain := map_option
      (observe_delivery succeeded (format_rfc3339 (if is_zero at then wall else at))) (m (normalizeStateDomain domain)))"
  by (rule redis_server.loaded_health_advances [OF assms])

theorem recorded_delivery_refines_counting_witness:
  "\<exists>m db2. LoadReceiverDeliveryHealth (Some mem_redis) [''a.example''] db2 = (Inr m, db2)
    \<and> m ''a.example'' = Some \<lparr>rh_domain = ''a.example'', rh_last_success = [],
        rh_last_failure = ''1970-01-01T00:00:00Z'', rh_consecutive = 1, rh_successes = 0, rh_failures = 1\<rparr>"
proof -
  let ?key = "receiverHealthKeyPrefix @ ''a.example''"
  let ?db2 = "mem_put ?key [(''last_failure_at'', ''1970-01-01T00:00:00Z''), (''consecutive_failures'', ''1''),
    (''total_failures'', ''1'')] no_data"
  have norm: "normalizeStateDomain ''a.example'' = ''a.example''" by code_simp
  have one: "parse_int64 ''1'' = NumOk 1" by code_simp
  have req: "requested_domains [''a.example''] = [''a.example'']" by (simp add: requested_domains_def norm)
  note load = LoadReceiverDeliveryHealth_def req loadHashes_def command_def call_def mem_redis_def mem_hash_def
    mem_put_def decode_health_def receiverHealthCounter_def stringValue_def one
  have l1: "LoadReceiverDeliveryHealth (Some mem_redis) [''a.example''] no_data
      = (Inr [''a.example'' \<mapsto> \<lparr>rh_domain = ''a.example'', rh_last_success = [], rh_last_failure = [],
          rh_consecutive = 0, rh_successes = 0, rh_failures = 0\<rparr>], no_data)"
    by (simp add: load)
  have rec: "RecordReceiverDelivery (Some mem_redis) ''a.example'' False 0 0 no_data = (Inr (), ?db2)"
    by (simp add: RecordReceiverDelivery_def norm zero_time_def format_rfc3339_examples(1) command_def call_def
        recordReceiverDeliveryScript_def then_io_def script_incr_def mem_redis_def mem_hash_def mem_put_def
        counter_add_def counter_value_def show_int_def)
  obtain m where l2: "LoadReceiverDeliveryHealth (Some mem_redis) [''a.example''] ?db2 = (Inr m, ?db2)"
    by (simp add: load)
  show ?thesis
    using recorded_delivery_refines_counting [OF mem.redis_server_axioms l1 rec l2] l2
    by (auto simp: norm observe_delivery_def zero_time_def format_rfc3339_examples(1))
qed

end
