(* ===== verification/Delivery.thy ===== *)
theory Delivery
  imports Fanout Accept_Signature Receiver_Health
begin

text \<open>
  The delivery worker: \<open>deliver/deliver.go\<close> and \<open>deliver/sender.go\<close>. The globals of the package are the
  fields of a record \<open>worker\<close>; a nil pointer is \<^const>\<open>None\<close>, and a call on a nil configuration panics.

  Parameters are the signature library (\<open>w_sign\<close>), the structured-field parser, the HTTP client
  (\<open>w_post\<close>), the error \<open>url.Parse\<close> returns, and machinery's \<open>retry.FibonacciNext\<close>. The reply
  of the client carries the bytes of the body and the error that ended the reading of it, if any.
  A task runs with the signature machinery puts in its context (\<^const>\<open>None\<close> when it is called
  directly); its error goes back to machinery, which schedules the retry. Logging is not modelled:
  the metrics are returned in the order in which they are recorded.
\<close>

section \<open>The worker\<close>

record delivery_request =
  dr_url :: string
  dr_body :: string
  dr_content_type :: string
  dr_user_agent :: string
  dr_profile :: profile

record http_reply =
  hr_status_code :: int
  hr_status :: string
  hr_header :: header
  hr_body :: string
  hr_read_error :: "go_error option"

record delivery_response =
  StatusCode :: int
  Status :: string
  Header :: header
  Body :: string
  BodyTruncated :: bool

record 'k worker_config =
  wc_service_name :: string
  wc_host :: string
  wc_profile :: profile
  wc_actor_key :: "'k option"

record ('k, 'db) worker =
  w_redis :: "'db redis"
  w_config :: "'k worker_config option"
  w_signer :: "('k, 'db) configured_signer option"
  w_version :: string
  w_key_id :: string
  w_sfv :: sfv_parser
  w_sign :: "'k signer \<Rightarrow> delivery_request \<Rightarrow> unit result"
  w_post :: "delivery_request \<Rightarrow> 'db \<Rightarrow> (go_error + http_reply) \<times> 'db"
  w_parse_error :: "string \<Rightarrow> go_error"
  w_fib :: "int \<Rightarrow> int"

record task_signature =
  ts_uuid :: string
  ts_retry_count :: int
  ts_retry_timeout :: int

definition plain_error :: "string \<Rightarrow> go_error" where
  "plain_error t = GoError t False False False None"

text \<open>\<open>fmt.Errorf("...: %w", err)\<close>: the text grows, the chain stays.\<close>

definition wrap_error :: "string \<Rightarrow> go_error \<Rightarrow> go_error" where
  "wrap_error pre e = GoError (pre @ err_text e) (err_deadline e) (err_net_timeout e) (err_dns e) (err_url e)"

section \<open>Sending\<close>

definition maxDeliveryResponseBodyBytes :: nat where "maxDeliveryResponseBodyBytes = 4096"

definition OutboundSignatureProfile :: "'k worker_config option \<Rightarrow> profile" where
  "OutboundSignatureProfile cfg =
     (case cfg of None \<Rightarrow> ProfileLegacy | Some c \<Rightarrow> if wc_profile c = [] then ProfileLegacy else wc_profile c)"

definition directDeliveryProfile :: "('k, 'db) worker \<Rightarrow> profile" where
  "directDeliveryProfile W =
     (if w_signer W \<noteq> None \<and> signer_profile (w_signer W) \<noteq> ProfileDual \<and> signer_profile (w_signer W) \<noteq> []
      then signer_profile (w_signer W)
      else if w_config W \<noteq> None \<and> OutboundSignatureProfile (w_config W) \<noteq> ProfileDual
              \<and> OutboundSignatureProfile (w_config W) \<noteq> []
      then OutboundSignatureProfile (w_config W)
      else ProfileLegacy)"

definition SignPOSTWithProfile ::
  "('k signer \<Rightarrow> delivery_request \<Rightarrow> unit result) \<Rightarrow> ('k, 'db) configured_signer option
    \<Rightarrow> delivery_request \<Rightarrow> profile \<Rightarrow> delivery_request result" where
  "SignPOSTWithProfile sign sg req prof =
     (case sg of
        None \<Rightarrow> Inl ''configured outbound HTTP signer is not initialized''
      | Some c \<Rightarrow>
        (case cs_signer c of
           None \<Rightarrow> Inl ''configured outbound HTTP signer is not initialized''
         | Some k \<Rightarrow>
           (case ParseWireProfile prof of
              Inl e \<Rightarrow> Inl e
            | Inr wire \<Rightarrow>
                let signed = req\<lparr>dr_profile := wire\<rparr>
                in case sign k signed of Inl e \<Rightarrow> Inl e | Inr _ \<Rightarrow> Inr signed)))"

definition appendSignatureWithProfile ::
  "('k, 'db) worker \<Rightarrow> delivery_request \<Rightarrow> string \<Rightarrow> 'k option \<Rightarrow> profile \<Rightarrow> delivery_request result" where
  "appendSignatureWithProfile W req keyID privateKey prof =
     (if w_signer W \<noteq> None then SignPOSTWithProfile (w_sign W) (w_signer W) req prof
      else case NewConfiguredSigner keyID privateKey prof of
        Inl e \<Rightarrow> Inl e
      | Inr c \<Rightarrow> SignPOSTWithProfile (w_sign W) (Some (c :: ('k, 'db) configured_signer)) req prof)"

definition appendSignature ::
  "('k, 'db) worker \<Rightarrow> delivery_request \<Rightarrow> string \<Rightarrow> 'k option \<Rightarrow> delivery_request result" where
  "appendSignature W req keyID privateKey =
     appendSignatureWithProfile W req keyID privateKey (directDeliveryProfile W)"

definition no_response :: delivery_response where
  "no_response = \<lparr>StatusCode = 0, Status = [], Header = (\<lambda>_. []), Body = [], BodyTruncated = False\<rparr>"

definition user_agent :: "('k, 'db) worker \<Rightarrow> 'k worker_config \<Rightarrow> string" where
  "user_agent W cfg = wc_service_name cfg @ '' (golang net/http; Activity-Relay '' @ w_version W @ ''; '' @ wc_host cfg @ '')''"

text \<open>What the client's error is turned into; \<open>http.Client.Do\<close> returns a \<open>url.Error\<close>.\<close>

definition transport_error :: "string \<Rightarrow> go_error \<Rightarrow> go_error" where
  "transport_error inboxURL e =
     plain_error (inboxURL @ '': '' @
       (case err_url e of
          Some inner \<Rightarrow> if err_net_timeout e then ''Client.Timeout exceeded while awaiting headers'' else err_text inner
        | None \<Rightarrow> err_text e))"

definition read_reply :: "string \<Rightarrow> http_reply \<Rightarrow> delivery_response \<times> go_error option" where
  "read_reply inboxURL reply =
     (let truncated = maxDeliveryResponseBodyBytes < length (hr_body reply);
          read_error = (if truncated then None else hr_read_error reply);
          text = join '' '' (Prelude.fields (take maxDeliveryResponseBodyBytes (hr_body reply)));
          result = \<lparr>StatusCode = hr_status_code reply, Status = hr_status reply, Header = hr_header reply,
                    Body = text, BodyTruncated = truncated\<rparr>;
          prefix = inboxURL @ '': '' @ hr_status reply
      in if hr_status_code reply div 100 = 2 then (result, None)
         else case read_error of
           Some e \<Rightarrow> (result, Some (wrap_error (prefix @ '': unable to read response body: '') e))
         | None \<Rightarrow>
             let result' = (if truncated \<and> text \<noteq> [] then result\<lparr>Body := text @ '' [truncated]''\<rparr> else result)
             in if Body result' \<noteq> [] then (result', Some (plain_error (prefix @ '': '' @ Body result')))
                else (result', Some (plain_error prefix)))"

definition sendActivityWithResponseProfile ::
  "('k, 'db) worker \<Rightarrow> string \<Rightarrow> string \<Rightarrow> string \<Rightarrow> 'k option \<Rightarrow> profile \<Rightarrow> 'db
    \<Rightarrow> ((delivery_response \<times> go_error option) \<times> 'db) exec" where
  "sendActivityWithResponseProfile W inboxURL keyID body privateKey prof db =
     (if url_parse inboxURL = None
      then Returns ((no_response, Some (wrap_error ''create delivery request: '' (w_parse_error W inboxURL))), db)
      else case w_config W of
        None \<Rightarrow> Panics
      | Some cfg \<Rightarrow>
          (case appendSignatureWithProfile W
                  \<lparr>dr_url = inboxURL, dr_body = body, dr_content_type = ''application/activity+json'',
                   dr_user_agent = user_agent W cfg, dr_profile = []\<rparr> keyID privateKey prof of
             Inl e \<Rightarrow> Returns ((no_response, Some (plain_error (''sign delivery request: '' @ e))), db)
           | Inr req \<Rightarrow>
               (case w_post W req db of
                  (Inl e, db') \<Rightarrow> Returns ((no_response, Some (transport_error inboxURL e)), db')
                | (Inr reply, db') \<Rightarrow> Returns (read_reply inboxURL reply, db'))))"

definition sendActivityWithResponse ::
  "('k, 'db) worker \<Rightarrow> string \<Rightarrow> string \<Rightarrow> string \<Rightarrow> 'k option \<Rightarrow> 'db
    \<Rightarrow> ((delivery_response \<times> go_error option) \<times> 'db) exec" where
  "sendActivityWithResponse W inboxURL keyID body privateKey db =
     sendActivityWithResponseProfile W inboxURL keyID body privateKey (directDeliveryProfile W) db"

definition sendActivity ::
  "('k, 'db) worker \<Rightarrow> string \<Rightarrow> string \<Rightarrow> string \<Rightarrow> 'k option \<Rightarrow> 'db \<Rightarrow> (go_error option \<times> 'db) exec" where
  "sendActivity W inboxURL keyID body privateKey db =
     (case sendActivityWithResponse W inboxURL keyID body privateKey db of
        Panics \<Rightarrow> Panics | Returns ((_, e), db') \<Rightarrow> Returns (e, db'))"

section \<open>One attempt\<close>

record delivery_attempt =
  at_uuid :: string
  at_attempt :: int
  at_max :: int
  at_remaining :: int
  at_next_retry :: int
  at_terminal :: bool

definition currentDeliveryAttempt :: "(int \<Rightarrow> int) \<Rightarrow> task_signature option \<Rightarrow> delivery_attempt" where
  "currentDeliveryAttempt fib sig =
     (case sig of
        None \<Rightarrow> \<lparr>at_uuid = ''direct'', at_attempt = 1, at_max = 1, at_remaining = 0, at_next_retry = 0, at_terminal = True\<rparr>
      | Some s \<Rightarrow>
          let remaining = ts_retry_count s;
              attempt = MaxAttempts - remaining;
              attempt = (if attempt < 1 then 1 else attempt);
              attempt = (if attempt > MaxAttempts then MaxAttempts else attempt)
          in \<lparr>at_uuid = ts_uuid s, at_attempt = attempt, at_max = MaxAttempts, at_remaining = remaining,
              at_next_retry = (if remaining > 0 then fib (ts_retry_timeout s) else 0),
              at_terminal = (remaining \<le> 0)\<rparr>)"

definition boundedDeliveryLogValue :: "string \<Rightarrow> nat \<Rightarrow> string" where
  "boundedDeliveryLogValue v maximum = (if length v \<le> maximum then v else take maximum v)"

definition finishScript :: "'db redis \<Rightarrow> string \<Rightarrow> 'db \<Rightarrow> int result \<times> 'db" where
  "finishScript R key db =
     (if \<not> r_exists R db key then (Inr (- 1), db)
      else if r_str R db key \<noteq> None then (Inl redis_error, db)
      else case r_hincrby R key ''remain_count'' (- 1) db of
        (None, db') \<Rightarrow> (Inl redis_error, db')
      | (Some remaining, db') \<Rightarrow> (Inr remaining, if remaining < 1 then r_del R key db' else db'))"

definition finishRelayTarget :: "'db redis \<Rightarrow> string \<Rightarrow> 'db \<Rightarrow> int result \<times> metric list \<times> 'db" where
  "finishRelayTarget R activityID db =
     (case command R ''eval'' (finishScript R (activity_key activityID)) db of
        (Inl e, db') \<Rightarrow> (Inl e, [RedisFailure ''worker'' ''activity_cleanup''], db')
      | (Inr n, db') \<Rightarrow> (Inr n, [], db'))"

definition recordReceiverAttempt :: "'db redis \<Rightarrow> string \<Rightarrow> bool \<Rightarrow> time \<Rightarrow> time \<Rightarrow> 'db \<Rightarrow> metric list \<times> 'db" where
  "recordReceiverAttempt R receiverDomain succeeded at wall db =
     (if receiverDomain = [] then ([], db)
      else case RecordReceiverDelivery (Some R) receiverDomain succeeded at wall db of
        (Inl e, db') \<Rightarrow> ([RedisFailure ''worker'' ''receiver_health''], db')
      | (Inr _, db') \<Rightarrow> ([], db'))"

definition pushErrorLogScript :: "'db redis \<Rightarrow> string \<Rightarrow> string \<Rightarrow> int \<Rightarrow> 'db \<Rightarrow> int result \<times> 'db" where
  "pushErrorLogScript R key text seconds db =
     (if r_str R db key \<noteq> None then (Inl redis_error, db)
      else if r_hash R db key ''last_error'' = None
      then (Inr 1, r_pexpire R key (seconds * 1000) (r_hset R key [(''last_error'', text)] db))
      else (Inr 0, db))"

definition statistics_key :: "string \<Rightarrow> string" where
  "statistics_key receiverDomain = ''relay:statistics:'' @ receiverDomain"

definition storeTransientDeliveryError ::
  "'db redis \<Rightarrow> string \<Rightarrow> go_error option \<Rightarrow> 'db \<Rightarrow> metric list \<times> 'db" where
  "storeTransientDeliveryError R receiverDomain err db =
     (case err of
        None \<Rightarrow> ([], db)
      | Some e \<Rightarrow>
          if receiverDomain = [] then ([], db)
          else case command R ''eval'' (pushErrorLogScript R (statistics_key receiverDomain)
                      (boundedDeliveryLogValue (err_text e) 4096) 60) db of
            (Inl _, db') \<Rightarrow> ([RedisFailure ''worker'' ''statistics''], db')
          | (Inr _, db') \<Rightarrow> ([], db'))"

definition deliveryProfileFromArgs :: "'k worker_config option \<Rightarrow> string list \<Rightarrow> profile result" where
  "deliveryProfileFromArgs cfg args =
     (if length args \<ge> 3 then ParseWireProfile (args ! 2)
      else if cfg \<noteq> None \<and> OutboundSignatureProfile cfg \<noteq> ProfileDual \<and> OutboundSignatureProfile cfg \<noteq> []
      then ParseWireProfile (OutboundSignatureProfile cfg)
      else Inr ProfileLegacy)"

section \<open>Tasks\<close>

text \<open>Loading the payload, the delivery with its evidence, and the bookkeeping after it.\<close>

definition load_body :: "'db redis \<Rightarrow> string \<Rightarrow> 'db \<Rightarrow> string option result \<times> 'db" where
  "load_body R activityID = command R ''hget'' (on_hash R (activity_key activityID)
     (\<lambda>d. (r_hash R d (activity_key activityID) ''body'', d)))"

definition settle :: "'db redis \<Rightarrow> bool \<Rightarrow> string \<Rightarrow> 'db \<Rightarrow> metric list \<times> 'db" where
  "settle R finished activityID db = (if finished then snd (finishRelayTarget R activityID db) else ([], db))"

definition observed_send ::
  "('k, 'db) worker \<Rightarrow> string \<Rightarrow> string \<Rightarrow> profile \<Rightarrow> time \<Rightarrow> time \<Rightarrow> 'db
    \<Rightarrow> (go_error option \<times> 'db) exec" where
  "observed_send W inboxURL body prof now wall db =
     (case w_config W of
        None \<Rightarrow> Panics
      | Some cfg \<Rightarrow>
          (case sendActivityWithResponseProfile W inboxURL (w_key_id W) body (wc_actor_key cfg) prof db of
             Panics \<Rightarrow> Panics
           | Returns ((resp, err), db1) \<Rightarrow>
               if w_signer W = None then Returns (err, db1)
               else (case ObserveResponse (w_sfv W) (w_signer W) ScopeDelivery inboxURL prof
                            (StatusCode resp) (Header resp) now wall db1 of
                       Panics \<Rightarrow> Panics | Returns (_, db2) \<Rightarrow> Returns (err, db2))))"

definition relayActivityV2 ::
  "('k, 'db) worker \<Rightarrow> task_signature option \<Rightarrow> string list \<Rightarrow> time \<Rightarrow> time \<Rightarrow> 'db
    \<Rightarrow> (go_error option \<times> metric list \<times> 'db) exec" where
  "relayActivityV2 W sig args now wall db =
     (if length args < 2
      then Returns (Some (plain_error ''relay-v2 requires inbox URL and activity storage ID''), [], db)
      else let inboxURL = args ! 0; activityID = args ! 1; R = w_redis W
      in case deliveryProfileFromArgs (w_config W) args of
        Inl e \<Rightarrow> Returns (Some (plain_error (''relay-v2 signature profile: '' @ e)), [], db)
      | Inr prof \<Rightarrow>
          let attempt = currentDeliveryAttempt (w_fib W) sig;
              receiverDomain = (case ReceiverDomainFromInboxURL inboxURL of Inl _ \<Rightarrow> [] | Inr d \<Rightarrow> d);
              unavailable = (\<lambda>e ms cls db1.
                case settle R (at_terminal attempt) activityID db1 of (ms', db2) \<Rightarrow>
                  Returns (Some (plain_error (''load relay activity body: '' @ e)),
                           ms @ [DeliveryMetric ''skipped'' cls] @ ms', db2))
          in case load_body R activityID db of
               (Inl e, db1) \<Rightarrow> unavailable e [RedisFailure ''worker'' ''activity_load''] ''other'' db1
             | (Inr None, db1) \<Rightarrow> unavailable ''redis: nil'' [] ''activity_expired'' db1
             | (Inr (Some body), db1) \<Rightarrow>
                 (case observed_send W inboxURL body prof now wall db1 of
                    Panics \<Rightarrow> Panics
                  | Returns (None, db2) \<Rightarrow>
                      (case recordReceiverAttempt R receiverDomain True wall wall db2 of (ms1, db3) \<Rightarrow>
                       (case settle R True activityID db3 of (ms2, db4) \<Rightarrow>
                          Returns (None, [DeliveryMetric ''success'' ''none''] @ ms1 @ ms2, db4)))
                  | Returns (Some e, db2) \<Rightarrow>
                      (case recordReceiverAttempt R receiverDomain False wall wall db2 of (ms1, db3) \<Rightarrow>
                       (case storeTransientDeliveryError R receiverDomain (Some e) db3 of (ms2, db4) \<Rightarrow>
                       (case settle R (at_terminal attempt) activityID db4 of (ms3, db5) \<Rightarrow>
                          Returns (Some e, [DeliveryMetric ''failure'' (ClassifyDeliveryError (Some e))]
                            @ ms1 @ ms2 @ ms3, db5))))))"

definition registerActivity ::
  "('k, 'db) worker \<Rightarrow> string list \<Rightarrow> time \<Rightarrow> time \<Rightarrow> 'db \<Rightarrow> (go_error option \<times> 'db) exec" where
  "registerActivity W args now wall db =
     (if length args < 2 then Returns (Some (plain_error ''register requires inbox URL and activity body''), db)
      else case deliveryProfileFromArgs (w_config W) args of
        Inl e \<Rightarrow> Returns (Some (plain_error (''register signature profile: '' @ e)), db)
      | Inr prof \<Rightarrow> observed_send W (args ! 0) (args ! 1) prof now wall db)"

end
