(* ===== verification/Fanout_Facts.thy ===== *)
theory Fanout_Facts
  imports Fanout Capability_Store Relay_State_Facts
begin

text \<open>
  What holds of queue admission, fan-out and the loop guard: the choice of targets, the tasks that
  an accepted fan-out hands to the broker, the bound on the queue under every interleaving of
  admissions, and the exclusiveness of a canonical reservation.
\<close>

section \<open>The choice of targets\<close>

definition eligible :: "string list \<Rightarrow> subscriber \<Rightarrow> bool" where
  "eligible excluded s \<longleftrightarrow> normalizedStoredDomain (sub_domain s) \<notin> set excluded
     \<and> \<not> isl (NormalizeDestinationOrigin (sub_inbox s))"

lemma NormalizeDestinationOrigin_blank: "trim_space a = [] \<Longrightarrow> isl (NormalizeDestinationOrigin a)"
proof -
  assume "trim_space a = []"
  then have "NormalizeDestinationOrigin a = NormalizeDestinationOrigin []"
    by (simp add: NormalizeDestinationOrigin_def)
  moreover have "isl (NormalizeDestinationOrigin [])" by code_simp
  ultimately show ?thesis by simp
qed

lemma eligible_key: "eligible excluded s \<Longrightarrow> dedupe_key s \<noteq> []"
  by (auto simp: eligible_def dedupe_key_def Let_def to_lower_def dest: NormalizeDestinationOrigin_blank)

lemma select_targets_Cons:
  "select_targets excluded seen (s # ss) =
     (if eligible excluded s \<and> dedupe_key s \<notin> set seen
      then s # select_targets excluded (dedupe_key s # seen) ss else select_targets excluded seen ss)"
  using eligible_key [of excluded s] by (auto simp: eligible_def Let_def)

lemmas select_targets_simps = select_targets.simps(1) select_targets_Cons
declare select_targets.simps [simp del]

text \<open>A target is the first eligible subscription with its key that was not seen before.\<close>

lemma in_select_targets:
  "t \<in> set (select_targets excluded seen ss) \<longleftrightarrow>
     dedupe_key t \<notin> set seen \<and> find (\<lambda>s. eligible excluded s \<and> dedupe_key s = dedupe_key t) ss = Some t"
  by (induction ss arbitrary: seen) (auto simp: select_targets_simps)

lemma distinct_select_targets: "distinct (map dedupe_key (select_targets excluded seen ss))"
  by (induction ss arbitrary: seen) (auto simp: select_targets_simps in_select_targets)

lemma find_first: "x \<in> set xs \<Longrightarrow> P x \<Longrightarrow> \<exists>y. find P xs = Some y \<and> P y"
  by (induction xs) auto

lemma select_targets_complete:
  assumes "s \<in> set ss" and "eligible excluded s" and "dedupe_key s \<notin> set seen"
  shows "\<exists>t \<in> set (select_targets excluded seen ss). dedupe_key t = dedupe_key s"
proof -
  obtain t where "find (\<lambda>x. eligible excluded x \<and> dedupe_key x = dedupe_key s) ss = Some t"
    and "dedupe_key t = dedupe_key s"
    using find_first [OF assms(1), of "\<lambda>x. eligible excluded x \<and> dedupe_key x = dedupe_key s"] assms(2) by auto
  then show ?thesis using assms(3) by (intro bexI [of _ t]) (auto simp: in_select_targets)
qed

lemma select_targets_eligible: "t \<in> set (select_targets excluded seen ss) \<Longrightarrow> t \<in> set ss \<and> eligible excluded t"
  by (auto simp: in_select_targets find_Some_iff)

text \<open>
  C20: the targets of a fan-out over a list of subscriptions are exactly the first eligible
  subscription of each domain: every eligible subscription has one target with its domain, no two
  targets share one, none is excluded, every target's inbox is a valid HTTP(S) destination, and where a
  domain occurs twice the earlier entry is chosen. As the state lists subscribers before followers
  (see the property on consistent states), the subscriber entry is preferred.
\<close>
theorem fanout_one_target_per_domain:
  fixes subs :: "subscriber list"
  defines "targets \<equiv> \<lambda>excl. select_targets (excluded_domains excl) [] subs"
  shows "distinct (map dedupe_key (targets excl))
    \<and> (\<forall>t. t \<in> set (targets excl) \<longleftrightarrow>
          find (\<lambda>s. eligible (excluded_domains excl) s \<and> dedupe_key s = dedupe_key t) subs = Some t)
    \<and> (\<forall>s \<in> set subs. eligible (excluded_domains excl) s \<longrightarrow>
          (\<exists>!t. t \<in> set (targets excl) \<and> dedupe_key t = dedupe_key s))
    \<and> (\<forall>t \<in> set (targets excl). \<forall>d \<in> set excl. normalizedStoredDomain d \<noteq> [] \<longrightarrow>
          normalizedStoredDomain (sub_domain t) \<noteq> normalizedStoredDomain d)"
proof (intro conjI ballI allI impI)
  let ?ex = "excluded_domains excl"
  show "distinct (map dedupe_key (targets excl))"
    unfolding targets_def by (rule distinct_select_targets)
  show "t \<in> set (targets excl) \<longleftrightarrow> find (\<lambda>s. eligible ?ex s \<and> dedupe_key s = dedupe_key t) subs = Some t" for t
    unfolding targets_def by (simp add: in_select_targets)
  show "\<exists>!t. t \<in> set (targets excl) \<and> dedupe_key t = dedupe_key s" if "s \<in> set subs" "eligible ?ex s" for s
    using select_targets_complete [OF that, of "[]"] distinct_select_targets [of ?ex "[]" subs]
    unfolding targets_def by (auto simp: distinct_map inj_on_def)
  show "normalizedStoredDomain (sub_domain t) \<noteq> normalizedStoredDomain d"
    if "t \<in> set (targets excl)" "d \<in> set excl" "normalizedStoredDomain d \<noteq> []" for t d
    using select_targets_eligible [of t ?ex "[]" subs] that
    unfolding targets_def by (auto simp: eligible_def excluded_domains_def)
qed

theorem fanout_one_target_per_domain_witness:
  "\<exists>!t. t \<in> set (select_targets (excluded_domains [''src.example'']) []
      [\<lparr>sub_domain = ''A.example'', sub_inbox = ''https://a.example/inbox'', sub_activity = [], sub_actor = []\<rparr>,
       \<lparr>sub_domain = ''a.example.'', sub_inbox = ''https://a.example/u'', sub_activity = [], sub_actor = []\<rparr>])
    \<and> dedupe_key t = ''a.example''"
proof -
  let ?s = "\<lparr>sub_domain = ''A.example'', sub_inbox = ''https://a.example/inbox'', sub_activity = [], sub_actor = []\<rparr>"
  let ?s' = "\<lparr>sub_domain = ''a.example.'', sub_inbox = ''https://a.example/u'', sub_activity = [], sub_actor = []\<rparr>"
  have "eligible (excluded_domains [''src.example'']) ?s" and "dedupe_key ?s = ''a.example''"
    by code_simp+
  moreover have "\<forall>s \<in> set [?s, ?s']. eligible (excluded_domains [''src.example'']) s \<longrightarrow>
      (\<exists>!t. t \<in> set (select_targets (excluded_domains [''src.example'']) [] [?s, ?s']) \<and> dedupe_key t = dedupe_key s)"
    using fanout_one_target_per_domain [of "[''src.example'']" "[?s, ?s']"] by (elim conjE)
  ultimately show ?thesis
    by (metis list.set_intros(1))
qed

section \<open>An accepted fan-out\<close>

definition task_inbox :: "task \<Rightarrow> string" where
  "task_inbox t = arg_value (hd (t_args t))"

definition task_profile :: "task \<Rightarrow> string" where
  "task_profile t = arg_value (t_args t ! 2)"

lemma relayTask_fields [simp]:
  "task_inbox (relayTaskWithProfile inbox uuid prof) = inbox"
  "task_profile (relayTaskWithProfile inbox uuid prof) = prof"
  by (simp_all add: task_inbox_def task_profile_def relayTaskWithProfile_def string_arg_def)

text \<open>What planning yields: one task per planned target, in order, each with a wire profile.\<close>

definition planned :: "string \<Rightarrow> subscriber list \<Rightarrow> task list \<Rightarrow> bool" where
  "planned uuid targets jobs \<longleftrightarrow>
     (\<exists>chosen profs. subseq chosen targets \<and> length profs = length chosen
        \<and> set profs \<subseteq> {ProfileLegacy, ProfileRFC9421}
        \<and> jobs = map2 (\<lambda>t p. relayTaskWithProfile (sub_inbox t) uuid p) chosen profs)"

lemma planned_Cons_skip: "planned uuid ts jobs \<Longrightarrow> planned uuid (t # ts) jobs"
  unfolding planned_def by (metis list_emb_Cons)

lemma planned_Cons:
  assumes "planned uuid ts jobs" and "p \<in> {ProfileLegacy, ProfileRFC9421}"
  shows "planned uuid (t # ts) (relayTaskWithProfile (sub_inbox t) uuid p # jobs)"
proof -
  from assms(1) obtain chosen profs where "subseq chosen ts" "length profs = length chosen"
    "set profs \<subseteq> {ProfileLegacy, ProfileRFC9421}"
    "jobs = map2 (\<lambda>t p. relayTaskWithProfile (sub_inbox t) uuid p) chosen profs"
    unfolding planned_def by blast
  with assms(2) show ?thesis
    unfolding planned_def by (intro exI [of _ "t # chosen"] exI [of _ "p # profs"]) auto
qed

definition signer_ready :: "'db capability_store \<Rightarrow> ('k, 'db) configured_signer option \<Rightarrow> bool" where
  "signer_ready store sg \<longleftrightarrow> (case sg of None \<Rightarrow> True | Some c \<Rightarrow> built_signer store c)"

lemma plannedDeliveryProfile_wire:
  assumes "capability_contract store ok clk" and "signer_ready store sg"
    and "plannedDeliveryProfile sg inbox c db = (Inr p, db')"
  shows "p \<in> {ProfileLegacy, ProfileRFC9421}"
proof (cases sg)
  case (Some c')
  with assms(3) obtain pl where "signer_plan (Some c') ScopeDelivery inbox (fst c) (snd c) db = (Inr pl, db')"
    and "p = p_primary pl"
    by (auto simp: plannedDeliveryProfile_def split: sum.splits prod.splits)
  with Some assms(2) capability_contract.signer_plan_wire [OF assms(1)] show ?thesis
    by (simp add: signer_ready_def)
qed (use assms(3) in \<open>simp add: plannedDeliveryProfile_def\<close>)

lemma plan_targets_planned:
  assumes "capability_contract store ok clk" and "signer_ready store sg"
  shows "plan_targets sg uuid clock i ts db = (jobs, db') \<Longrightarrow> planned uuid ts jobs"
proof (induction ts arbitrary: i db jobs)
  case Nil
  then show ?case by (auto simp: planned_def intro: exI [of _ "[]"])
next
  case (Cons t ts)
  obtain r db1 where step: "plannedDeliveryProfile sg (sub_inbox t) (clock i) db = (r, db1)" by fastforce
  show ?case
  proof (cases r)
    case (Inl e)
    with Cons step show ?thesis
      by (auto simp: negotiatedRelayTask_def intro: planned_Cons_skip)
  next
    case (Inr p)
    with Cons.prems step obtain jobs' where jobs: "jobs = relayTaskWithProfile (sub_inbox t) uuid p # jobs'"
      and rest: "plan_targets sg uuid clock (i + 1) ts db1 = (jobs', db')"
      by (auto simp: negotiatedRelayTask_def split: prod.splits)
    have "p \<in> {ProfileLegacy, ProfileRFC9421}"
      using plannedDeliveryProfile_wire [OF assms] step Inr by blast
    then show ?thesis
      unfolding jobs by (intro planned_Cons Cons.IH [OF rest])
  qed
qed

lemma storeRelayActivity_Inr:
  assumes "redis_server R" and "storeRelayActivity R uuid body n db = (Inr u, ms, db')"
  shows "r_hash R db' (activity_key uuid) ''body'' = Some body"
    and "r_hash R db' (activity_key uuid) ''remain_count'' = Some (show_int n)"
proof -
  let ?f = "storeRelayActivityScript R (activity_key uuid) body n"
  from assms(2) obtain x where run: "call R ''eval'' ?f db = (Inr (Inr x), db')"
    by (auto simp: storeRelayActivity_def command_def split: prod.splits sum.splits if_splits)
  then obtain d where d: "?f d = (Inr x, db')"
    by (auto simp: call_def split: prod.splits trip.splits)
  then have "r_str R d (activity_key uuid) = None"
    and db': "db' = r_pexpire R (activity_key uuid) (ActivityRetentionSeconds * 1000)
      (r_hset R (activity_key uuid) [(''body'', body), (''remain_count'', show_int n)] d)"
    by (auto simp: storeRelayActivityScript_def split: if_splits)
  then show "r_hash R db' (activity_key uuid) ''body'' = Some body"
    "r_hash R db' (activity_key uuid) ''remain_count'' = Some (show_int n)"
    using redis_server.hset_hash [OF assms(1), of d "activity_key uuid"]
    by (simp_all add: redis_server.pexpire_hash [OF assms(1)] ActivityRetentionSeconds_def)
qed

text \<open>
  C14: a fan-out that is accepted with at least one target went through in full: the tasks handed
  to the broker are one per planned target, in the order of the targets, each with the target's
  inbox, the stored activity's identifier and a single wire profile; there are at most
  \<open>MaxFanoutTargets\<close> of them; before they were handed over the payload was stored with exactly
  their number as the count of outstanding deliveries; and the queue reservation is released
  afterwards.
\<close>
theorem accepted_fanout_sends_planned_tasks:
  assumes "redis_server R" and "signer_ready (redis_capability_store R sha pre) sg"
    and "select_targets (excluded_domains excl) [] subs \<noteq> []"
    and "enqueueActivityExcept R B sg max_jobs max_targets clock uuid subs body excl db = (True, ms, db')"
  shows "\<exists>jobs db1 db2. planned uuid (select_targets (excluded_domains excl) [] subs) jobs
    \<and> jobs \<noteq> [] \<and> int (length jobs) \<le> max_targets
    \<and> r_hash R db1 (activity_key uuid) ''body'' = Some body
    \<and> r_hash R db1 (activity_key uuid) ''remain_count'' = Some (show_int (int (length jobs)))
    \<and> b_send_group B jobs (min (int (length jobs)) 16) db1 = (Inr (), db2)
    \<and> db' = snd (releaseQueueCapacity R (int (length jobs)) db2)"
proof -
  let ?ts = "select_targets (excluded_domains excl) [] subs"
  from assms(3,4) obtain jobs d1 d2 d3 why ms0 ms1 where limit: "int (length ?ts) \<le> max_targets"
    and plan: "plan_targets sg uuid clock 0 ?ts db = (jobs, d1)" and "jobs \<noteq> []"
    and send: "send_tasks R B uuid body jobs d2 = (True, ms1, d3)"
    and db': "db' = snd (releaseQueueCapacity R (int (length jobs)) d3)"
    by (auto simp: enqueueActivityExcept_def Let_def split: if_splits prod.splits)
  have planned: "planned uuid ?ts jobs"
    by (rule plan_targets_planned [OF redis_store_contract [OF assms(1)] assms(2) plan])
  then have "length jobs \<le> length ?ts"
    by (auto simp: planned_def dest: list_emb_length)
  with limit have "int (length jobs) \<le> max_targets" by linarith
  moreover from send obtain ms2 db1 where "storeRelayActivity R uuid body (int (length jobs)) d2 = (Inr (), ms2, db1)"
    and "b_send_group B jobs (min (int (length jobs)) 16) db1 = (Inr (), d3)"
    by (auto simp: send_tasks_def Let_def split: sum.splits prod.splits if_splits)
  ultimately show ?thesis
    using planned \<open>jobs \<noteq> []\<close> db' storeRelayActivity_Inr [OF assms(1)] by blast
qed

text \<open>A broker that appends to the list \<open>relay\<close> of the reference server, for concrete runs.\<close>

definition mem_push :: "nat \<Rightarrow> mem \<Rightarrow> mem" where
  "mem_push n m = m\<lparr>m_lens := AList.update queue_name (nat (r_llen mem_redis m queue_name) + n) (m_lens m)\<rparr>"

definition mem_broker :: "mem broker" where
  "mem_broker = \<lparr>b_send_task = (\<lambda>_ m. (Inr (), mem_push 1 m)), b_new_group = (\<lambda>_. Inr ()),
     b_send_group = (\<lambda>ts _ m. (Inr (), mem_push (length ts) m))\<rparr>"

theorem accepted_fanout_sends_planned_tasks_witness:
  "\<exists>ms db' jobs. enqueueActivityExcept mem_redis mem_broker (None :: (unit, mem) configured_signer option) 10 5
      (\<lambda>_. (0, 0)) ''u1'' [as_subscriber (sample_follower ''a.example'')] ''{}'' [''b.example''] no_data
      = (True, ms, db')
    \<and> planned ''u1'' [as_subscriber (sample_follower ''a.example'')] jobs \<and> jobs \<noteq> []"
proof -
  let ?s = "as_subscriber (sample_follower ''a.example'')"
  let ?run = "enqueueActivityExcept mem_redis mem_broker (None :: (unit, mem) configured_signer option) 10 5
      (\<lambda>_. (0, 0)) ''u1'' [?s] ''{}'' [''b.example''] no_data"
  have targets: "select_targets (excluded_domains [''b.example'']) [] [?s] = [?s]"
    by code_simp
  have "fst ?run"
    unfolding enqueueActivityExcept_def targets
    by (simp add: Let_def negotiatedRelayTask_def plannedDeliveryProfile_def reserveQueueCapacityWithReason_def
        command_def call_def mem_redis_def reserveScript_def counter_value_def counter_add_def send_tasks_def
        storeRelayActivity_def storeRelayActivityScript_def mem_broker_def mem_push_def releaseQueueCapacity_def activity_key_def
        split: prod.split)
  then obtain ms db' where run: "?run = (True, ms, db')"
    by (cases ?run) auto
  have "signer_ready (redis_capability_store mem_redis id ''cap:'') (None :: (unit, mem) configured_signer option)"
    by (simp add: signer_ready_def)
  from accepted_fanout_sends_planned_tasks [OF mem.redis_server_axioms this _ run] run
  show ?thesis unfolding targets by blast
qed

section \<open>The bound on the queue\<close>

text \<open>
  Any number of requests admit work at the same time. A holder is a request whose reservation was
  accepted and is not yet released: the pair of the jobs it reserved and those it has pushed. The
  steps are the code's reservation and release, one push by the broker (at most as many as were
  reserved), and consumption by workers. A reservation whose reply was lost stays counted until it
  expires; the expiry of a counter that is still in use is not among the steps.
\<close>

inductive admission :: "'db redis \<Rightarrow> int \<Rightarrow> (int \<times> int) list \<Rightarrow> 'db \<Rightarrow> bool"
  for R :: "'db redis" and maximum :: int where
  idle: "r_llen R db queue_name \<le> maximum \<Longrightarrow> r_str R db queueReservationKey = None \<Longrightarrow>
    r_hash R db queueReservationKey = Map.empty \<Longrightarrow> admission R maximum [] db"
| reserved: "admission R maximum hs db \<Longrightarrow> 1 \<le> n \<Longrightarrow>
    reserveQueueCapacityWithReason R maximum n db = ((True, why), ms, db') \<Longrightarrow>
    admission R maximum ((n, 0) # hs) db'"
| refused: "admission R maximum hs db \<Longrightarrow> 1 \<le> n \<Longrightarrow>
    reserveQueueCapacityWithReason R maximum n db = ((False, why), ms, db') \<Longrightarrow>
    admission R maximum hs db'"
| push: "admission R maximum (hs1 @ (n, k) # hs2) db \<Longrightarrow> k < n \<Longrightarrow>
    r_llen R db' queue_name = r_llen R db queue_name + 1 \<Longrightarrow> r_str R db' = r_str R db \<Longrightarrow>
    r_hash R db' queueReservationKey = r_hash R db queueReservationKey \<Longrightarrow>
    admission R maximum (hs1 @ (n, k + 1) # hs2) db'"
| release: "admission R maximum (hs1 @ (n, k) # hs2) db \<Longrightarrow> releaseQueueCapacity R n db = (ms, db') \<Longrightarrow>
    admission R maximum (hs1 @ hs2) db'"
| consume: "admission R maximum hs db \<Longrightarrow> r_llen R db' queue_name \<le> r_llen R db queue_name \<Longrightarrow>
    r_str R db' = r_str R db \<Longrightarrow> r_hash R db' queueReservationKey = r_hash R db queueReservationKey \<Longrightarrow>
    admission R maximum hs db'"

definition counter_is :: "'db redis \<Rightarrow> 'db \<Rightarrow> int \<Rightarrow> bool" where
  "counter_is R db r \<longleftrightarrow> counter_value (r_str R db queueReservationKey) = NumOk r
     \<and> r_hash R db queueReservationKey = Map.empty"

context redis_server
begin

lemma incrby_counter:
  assumes "counter_is R db r" and "- (2 ^ 63) \<le> r + n" and "r + n < 2 ^ 63"
  obtains db' where "r_incrby R queueReservationKey n db = (Some (r + n), db')" and "counter_is R db' (r + n)"
    and "r_llen R db' = r_llen R db"
proof -
  let ?k = queueReservationKey
  obtain v db' where inc: "r_incrby R ?k n db = (v, db')" by fastforce
  have "counter_add (r_str R db ?k) n = Some (r + n)"
    using assms by (simp add: counter_add_def counter_is_def)
  from incrby_Some [OF _ this] assms(1) inc have "v = Some (r + n)" "r_str R db' ?k = Some (show_int (r + n))"
    by (auto simp: counter_is_def)
  moreover have "r_hash R db' = r_hash R db" "r_llen R db' = r_llen R db"
    using incrby_hash [of ?k n db] incrby_llen [of ?k n db] inc by simp_all
  ultimately show thesis
    using that inc assms parse_int64_show_int [of "r + n"] by (auto simp: counter_is_def counter_value_def)
qed

lemma reserveScript_effect:
  assumes "counter_is R db r" and "0 \<le> r" and "1 \<le> n" and "maximum < 2 ^ 63"
    and "reserveScript R n maximum db = (x, db')"
  obtains "db' = db" and "x \<noteq> Inr 1"
  | "x = Inr 1" and "counter_is R db' (r + n)" and "r_llen R db' = r_llen R db"
    and "r_llen R db queue_name + r + n \<le> maximum"
proof (cases "r_llen R db queue_name + r + n > maximum")
  case True
  with assms show thesis using that(1) by (auto simp: reserveScript_def counter_is_def)
next
  case False
  with assms(2-4) llen_nonneg [of db queue_name] have "- (2 ^ 63) \<le> r + n" "r + n < 2 ^ 63" by simp_all
  from incrby_counter [OF assms(1) this] obtain d where
    inc: "r_incrby R queueReservationKey n db = (Some (r + n), d)" and d: "counter_is R d (r + n)"
      "r_llen R d = r_llen R db" .
  from False assms(1,5) inc have "x = Inr 1" "db' = r_pexpire R queueReservationKey (60 * 1000) d"
    by (auto simp: reserveScript_def counter_is_def)
  with d False show thesis using that(2) by (simp add: counter_is_def)
qed

lemma releaseScript_effect:
  assumes "counter_is R db r" and "1 \<le> n" and "n \<le> r" and "r < 2 ^ 63"
    and "releaseScript R n db = (x, db')"
  shows "counter_is R db' (r - n)" and "r_llen R db' queue_name = r_llen R db queue_name"
proof -
  have "- (2 ^ 63) \<le> r + - n" "r + - n < 2 ^ 63" using assms(2-4) by simp_all
  from incrby_counter [OF assms(1) this] obtain d where
    inc: "r_incrby R queueReservationKey (- n) db = (Some (r + - n), d)" and d: "counter_is R d (r + - n)"
      "r_llen R d = r_llen R db" .
  from assms(5) inc have db': "db' = (if r + - n \<le> 0 then r_del R queueReservationKey d else d)"
    by (simp add: releaseScript_def)
  show "counter_is R db' (r - n)"
    using d(1) assms(3) by (auto simp: db' counter_is_def counter_value_def)
  show "r_llen R db' queue_name = r_llen R db queue_name"
    using d(2) by (simp add: db')
qed

end

text \<open>The invariant: what is queued and still to be pushed fits, and the counter covers all holders.\<close>

definition pending :: "(int \<times> int) list \<Rightarrow> int" where
  "pending hs = sum_list (map (\<lambda>(n, k). n - k) hs)"

definition admission_inv :: "'db redis \<Rightarrow> int \<Rightarrow> (int \<times> int) list \<Rightarrow> 'db \<Rightarrow> bool" where
  "admission_inv R maximum hs db \<longleftrightarrow>
     (\<exists>r. counter_is R db r \<and> sum_list (map fst hs) \<le> r \<and> r < 2 ^ 63)
     \<and> r_llen R db queue_name + pending hs \<le> maximum
     \<and> (\<forall>(n, k) \<in> set hs. 0 \<le> k \<and> k \<le> n \<and> 1 \<le> n)"

lemma pending_bounds:
  assumes "\<forall>(n, k) \<in> set hs. 0 \<le> k \<and> k \<le> n \<and> 1 \<le> n"
  shows "0 \<le> pending hs \<and> pending hs \<le> sum_list (map fst hs)"
  using assms by (induction hs) (auto simp: pending_def)

lemma admission_inv_cong:
  assumes "r_str R db' = r_str R db" and "r_hash R db' queueReservationKey = r_hash R db queueReservationKey"
    and "r_llen R db' queue_name \<le> r_llen R db queue_name" and "admission_inv R maximum hs db"
  shows "admission_inv R maximum hs db'"
  using assms by (auto simp: admission_inv_def counter_is_def)

context redis_server
begin

lemma reserve_script_inv:
  assumes inv: "admission_inv R maximum hs db" and n: "1 \<le> n" and m: "maximum < 2 ^ 63"
    and run: "reserveScript R n maximum db = (x, db')"
  shows "admission_inv R maximum hs db'" and "x = Inr 1 \<Longrightarrow> admission_inv R maximum ((n, 0) # hs) db'"
proof -
  from inv obtain r where r: "counter_is R db r" "sum_list (map fst hs) \<le> r" "r < 2 ^ 63"
    and fits: "r_llen R db queue_name + pending hs \<le> maximum"
    and ok: "\<forall>(n, k) \<in> set hs. 0 \<le> k \<and> k \<le> n \<and> 1 \<le> n"
    unfolding admission_inv_def by blast
  note bounds = pending_bounds [OF ok]
  have "admission_inv R maximum hs db' \<and> (x = Inr 1 \<longrightarrow> admission_inv R maximum ((n, 0) # hs) db')"
  proof (rule reserveScript_effect [OF r(1) _ n m run])
    show "0 \<le> r" using bounds r(2) by simp
  next
    assume "db' = db" "x \<noteq> Inr 1"
    with inv show ?thesis by simp
  next
    assume new: "counter_is R db' (r + n)" "r_llen R db' = r_llen R db"
      "r_llen R db queue_name + r + n \<le> maximum"
    have "r + n < 2 ^ 63" using new(3) m llen_nonneg [of db queue_name] by simp
    moreover have "r_llen R db queue_name + (n + pending hs) \<le> maximum"
      using new(3) bounds r(2) by simp
    moreover have "pending ((n, 0) # hs) = n + pending hs" by (simp add: pending_def)
    ultimately have "admission_inv R maximum ((n, 0) # hs) db'"
      unfolding admission_inv_def using new(1,2) r(2) n ok by auto
    moreover have "admission_inv R maximum hs db'"
      unfolding admission_inv_def using new(1,2) r(2) n ok fits \<open>r + n < 2 ^ 63\<close> by force
    ultimately show ?thesis by simp
  qed
  then show "admission_inv R maximum hs db'" "x = Inr 1 \<Longrightarrow> admission_inv R maximum ((n, 0) # hs) db'"
    by simp_all
qed

lemma frame_inv:
  assumes "r_hash R d = r_hash R db" "r_str R d = r_str R db" "r_llen R d = r_llen R db"
  shows "admission_inv R maximum hs d = admission_inv R maximum hs db"
  using assms by (simp add: admission_inv_def counter_is_def)

lemma reserve_inv:
  assumes inv: "admission_inv R maximum hs db" and n: "1 \<le> n" and m: "maximum < 2 ^ 63"
    and run: "reserveQueueCapacityWithReason R maximum n db = ((acc, why), ms, db')"
  shows "admission_inv R maximum hs db'" and "acc \<Longrightarrow> admission_inv R maximum ((n, 0) # hs) db'"
proof -
  obtain x d where call: "call R ''eval'' (reserveScript R n maximum) db = (x, d)" by fastforce
  with run n have d: "db' = d" "acc \<Longrightarrow> x = Inr (Inr 1)"
    by (auto simp: reserveQueueCapacityWithReason_def command_def split: sum.splits if_splits)
  have "admission_inv R maximum hs d \<and> (x = Inr (Inr 1) \<longrightarrow> admission_inv R maximum ((n, 0) # hs) d)"
    using call
  proof (cases rule: call_cases)
    case (executed y d1)
    then show ?thesis
      using reserve_script_inv [OF _ n m executed(2), of hs] inv frame_inv [OF executed(3-5)] by auto
  next
    case refused
    then show ?thesis using inv frame_inv [OF refused(2-4)] by auto
  next
    case (lost y d1)
    then show ?thesis
      using reserve_script_inv [OF _ n m lost(2), of hs] inv frame_inv [OF lost(3-5)] by auto
  qed
  with d show "admission_inv R maximum hs db'" "acc \<Longrightarrow> admission_inv R maximum ((n, 0) # hs) db'"
    by simp_all
qed

lemma pending_append [simp]: "pending (hs1 @ hs2) = pending hs1 + pending hs2"
  by (simp add: pending_def)

lemma pending_Cons [simp]: "pending ((n, k) # hs) = n - k + pending hs"
  by (simp add: pending_def)

lemma release_inv:
  assumes inv: "admission_inv R maximum (hs1 @ (n, k) # hs2) db"
    and run: "releaseQueueCapacity R n db = (ms, db')"
  shows "admission_inv R maximum (hs1 @ hs2) db'"
proof -
  from inv obtain r where r: "counter_is R db r" "sum_list (map fst (hs1 @ (n, k) # hs2)) \<le> r" "r < 2 ^ 63"
    and fits: "r_llen R db queue_name + pending (hs1 @ (n, k) # hs2) \<le> maximum"
    and ok: "\<forall>(n, k) \<in> set (hs1 @ (n, k) # hs2). 0 \<le> k \<and> k \<le> n \<and> 1 \<le> n"
    unfolding admission_inv_def by blast
  have "0 \<le> sum_list (map fst (hs1 @ hs2))"
    using pending_bounds [of "hs1 @ hs2"] ok by auto
  then have n: "1 \<le> n" "n \<le> r" using r(2) ok by auto
  have weaker: "admission_inv R maximum (hs1 @ hs2) d"
    if "counter_is R d r'" "r - n \<le> r'" "r' \<le> r" "r_llen R d queue_name = r_llen R db queue_name" for d r'
    unfolding admission_inv_def using that r fits ok by force
  obtain x d where call: "call R ''eval'' (releaseScript R n) db = (x, d)" by fastforce
  with run n have d: "db' = d"
    by (auto simp: releaseQueueCapacity_def command_def split: sum.splits)
  from call have "admission_inv R maximum (hs1 @ hs2) d"
  proof (cases rule: call_cases)
    case (executed y d1)
    have "counter_is R d1 r" using r(1) executed by (simp add: counter_is_def)
    from releaseScript_effect [OF this n r(3) executed(2)] executed show ?thesis
      by (intro weaker [of d "r - n"]) (use n in auto)
  next
    case refused
    then show ?thesis using r(1) n by (intro weaker [of d r]) (auto simp: counter_is_def)
  next
    case (lost y d1)
    have "counter_is R d1 r" using r(1) lost by (simp add: counter_is_def)
    from releaseScript_effect [OF this n r(3) lost(2)] lost show ?thesis
      by (intro weaker [of d "r - n"]) (use n in auto)
  qed
  then show ?thesis by (simp add: d)
qed

lemma admission_invariant:
  assumes "admission R maximum hs db" and m: "maximum < 2 ^ 63"
  shows "admission_inv R maximum hs db"
  using assms(1)
proof induction
  case (idle db)
  then show ?case
    by (auto simp: admission_inv_def counter_is_def counter_value_def pending_def)
next
  case (reserved hs db n why ms db')
  then show ?case using reserve_inv(2) [OF _ _ m] by blast
next
  case (refused hs db n why ms db')
  then show ?case using reserve_inv(1) [OF _ _ m] by blast
next
  case (push hs1 n k hs2 db db')
  then show ?case by (auto simp: admission_inv_def counter_is_def)
next
  case (release hs1 n k hs2 db ms db')
  then show ?case using release_inv by blast
next
  case (consume hs db db')
  then show ?case by (intro admission_inv_cong [of R db' db]) auto
qed

end



section \<open>The loop guard\<close>

context redis_server
begin

lemma reserve_accepted:
  assumes "reserveCanonicalRelayActivity R sha token cid db = (Inr (res, True), ms, db')"
  shows "res = \<lparr>res_key = canonicalRelayKey sha cid, res_token = token\<rparr>"
    and "r_str R db' (canonicalRelayKey sha cid) = Some token"
    and "r_hash R db' = r_hash R db" and "\<not> r_exists R db (canonicalRelayKey sha cid)"
proof -
  let ?k = "canonicalRelayKey sha cid"
  have key: "canonicalRelayKey sha (trim_space cid) = ?k" by (simp add: canonicalRelayKey_def)
  from assms have run: "call R ''setnx'' (r_setnx R ?k token (ActivityRetentionSeconds * 1000)) db = (Inr True, db')"
    and res: "res = \<lparr>res_key = ?k, res_token = token\<rparr>"
    by (auto simp: reserveCanonicalRelayActivity_def Let_def key split: if_splits sum.splits prod.splits)
  show "res = \<lparr>res_key = ?k, res_token = token\<rparr>" by (rule res)
  from run obtain d where d: "r_setnx R ?k token (ActivityRetentionSeconds * 1000) d = (True, db')"
    "r_hash R d = r_hash R db" "r_str R d = r_str R db"
    by (cases rule: call_cases) auto
  have "\<not> r_exists R d ?k" using setnx_present [of d ?k token] d(1) by auto
  from setnx_absent [OF _ this, of "ActivityRetentionSeconds * 1000" token] d
  show "r_str R db' ?k = Some token" "r_hash R db' = r_hash R db"
    by (auto simp: ActivityRetentionSeconds_def)
  from \<open>\<not> r_exists R d ?k\<close> d(2,3) show "\<not> r_exists R db ?k" by (simp add: exists_iff)
qed

lemma release_effect:
  assumes "releaseCanonicalRelayActivity R res db = (ms, db')"
  shows "r_str R db' = r_str R db
    \<or> r_str R db (res_key res) = Some (res_token res) \<and> r_str R db' = (r_str R db)(res_key res := None)"
proof -
  let ?f = "releaseCanonicalRelayScript R (res_key res) (res_token res)"
  have script: "r_str R d' = r_str R d
      \<or> r_str R d (res_key res) = Some (res_token res) \<and> r_str R d' = (r_str R d)(res_key res := None)"
    if "?f d = (x, d')" for d x d'
    using that by (auto simp: releaseCanonicalRelayScript_def split: if_splits)
  obtain x d where run: "call R ''eval'' ?f db = (x, d)" by fastforce
  have "r_str R d = r_str R db
      \<or> r_str R db (res_key res) = Some (res_token res) \<and> r_str R d = (r_str R db)(res_key res := None)"
    using run by (cases rule: call_cases) (use script in metis)+
  with assms run show ?thesis
    by (auto simp: releaseCanonicalRelayActivity_def command_def split: if_splits sum.splits)
qed

end



end
