(* ===== verification/Delivery_Facts.thy ===== *)
theory Delivery_Facts
  imports Delivery Fanout_Facts Capability_Store
begin

text \<open>
  Properties of the delivery worker: which attempts settle a target, how long the retries of a task
  can take, and that a task is signed with the profile it was planned with.
\<close>

section \<open>What leaves a key alone\<close>

definition spares :: "'db redis \<Rightarrow> string \<Rightarrow> ('db \<Rightarrow> 'a \<times> 'db) \<Rightarrow> bool" where
  "spares R key f \<longleftrightarrow> (\<forall>db r db'. f db = (r, db') \<longrightarrow>
     r_hash R db' key = r_hash R db key \<and> r_str R db' key = r_str R db key)"

lemma sparesD: "spares R key f \<Longrightarrow> f db = (r, db') \<Longrightarrow>
    r_hash R db' key = r_hash R db key \<and> r_str R db' key = r_str R db key"
  by (simp add: spares_def)

lemma spares_return: "spares R key (\<lambda>db. (h db, db))"
  by (simp add: spares_def)

lemma spares_then_io: "spares R key f \<Longrightarrow> (\<And>x. spares R key (g x)) \<Longrightarrow> spares R key (then_io f g)"
  by (fastforce simp: spares_def then_io_def split: prod.splits sum.splits)

context redis_server
begin

lemma spares_command: "spares R key f \<Longrightarrow> spares R key (command R c f)"
  unfolding spares_def
proof (intro allI impI)
  fix db r db'
  assume f: "\<forall>db r db'. f db = (r, db') \<longrightarrow> r_hash R db' key = r_hash R db key \<and> r_str R db' key = r_str R db key"
  assume "command R c f db = (r, db')"
  then show "r_hash R db' key = r_hash R db key \<and> r_str R db' key = r_str R db key"
    by (cases rule: command_cases) (use f in metis)+
qed

lemma spares_call: "spares R key f \<Longrightarrow> spares R key (call R c f)"
  unfolding spares_def
proof (intro allI impI)
  fix db r db'
  assume f: "\<forall>db r db'. f db = (r, db') \<longrightarrow> r_hash R db' key = r_hash R db key \<and> r_str R db' key = r_str R db key"
  assume "call R c f db = (r, db')"
  then show "r_hash R db' key = r_hash R db key \<and> r_str R db' key = r_str R db key"
    by (cases rule: call_cases) (use f in metis)+
qed

lemma hset_spares: "r_str R db k = None \<Longrightarrow> key \<noteq> k \<Longrightarrow> r_hash R (r_hset R k fvs db) key = r_hash R db key"
  by simp

lemma hincrby_spares:
  assumes "r_str R db k = None" and "key \<noteq> k"
  shows "r_hash R (snd (r_hincrby R k fld n db)) key = r_hash R db key"
proof (cases "counter_add (r_hash R db k fld) n")
  case None
  then show ?thesis using hincrby_None [OF assms(1) None] by simp
next
  case (Some i)
  then show ?thesis using hincrby_Some [OF assms(1) Some] assms(2) by simp
qed

lemma spares_script_incr:
  assumes "key \<noteq> k" and "r_str R db k = None" and "script_incr R k fld db = (r, db')"
  shows "r_hash R db' key = r_hash R db key \<and> r_str R db' = r_str R db"
proof -
  have "db' = snd (r_hincrby R k fld 1 db)"
    using assms(3) by (auto simp: script_incr_def split: prod.splits option.splits)
  then show ?thesis using hincrby_spares [OF assms(2,1)] by simp
qed

lemma spares_health_script: "key \<noteq> k \<Longrightarrow> spares R key (recordReceiverDeliveryScript R k at ok)"
  unfolding spares_def
proof (intro allI impI)
  fix db r db'
  assume key: "key \<noteq> k" and run: "recordReceiverDeliveryScript R k at ok db = (r, db')"
  show "r_hash R db' key = r_hash R db key \<and> r_str R db' key = r_str R db key"
  proof (cases "r_str R db k = None")
    case True
    then have set: "r_str R (r_hset R k fvs db) k = None" "r_hash R (r_hset R k fvs db) key = r_hash R db key" for fvs
      using key by simp_all
    from run True set key show ?thesis
      by (auto simp: recordReceiverDeliveryScript_def then_io_def split: prod.splits sum.splits if_splits
          dest!: spares_script_incr [OF key, rotated])
  qed (use run in \<open>simp add: recordReceiverDeliveryScript_def\<close>)
qed

lemma spares_RecordReceiverDelivery:
  assumes "\<not> has_prefix key receiverHealthKeyPrefix"
  shows "spares R key (RecordReceiverDelivery (Some R) domain ok at wall)"
proof -
  have "key \<noteq> receiverHealthKeyPrefix @ normalizeStateDomain domain"
    using assms by (auto simp: has_prefix_iff)
  note cmd = spares_command [OF spares_health_script [OF this], unfolded spares_def, rule_format]
  show ?thesis
    unfolding spares_def using cmd
    by (auto simp: RecordReceiverDelivery_def Let_def simp del: append.simps split: prod.splits sum.splits if_splits)
qed

lemma spares_pushErrorLogScript: "key \<noteq> k \<Longrightarrow> 0 < s \<Longrightarrow> spares R key (pushErrorLogScript R k text s)"
  by (auto simp: spares_def pushErrorLogScript_def split: if_splits)

lemma spares_SaveDestinationCapability:
  assumes "\<not> has_prefix key pre"
  shows "spares R key (SaveDestinationCapability (Some R) sha pre wall c)"
proof -
  let ?k = "capabilityKey sha pre (c_scope c) (c_origin c)"
  have key: "key \<noteq> ?k" using assms by (auto simp: has_prefix_iff capabilityKey_def)
  have "spares R key (\<lambda>d. saveDestinationCapabilityScript R ?k c d)"
    unfolding spares_def
  proof (intro allI impI)
    fix db r db'
    assume "saveDestinationCapabilityScript R ?k c db = (r, db')"
    moreover have "r_hash R (r_pexpireat R ?k t (r_hset R ?k fvs db)) key = r_hash R db key
        \<and> r_str R (r_pexpireat R ?k t (r_hset R ?k fvs db)) key = r_str R db key" if "r_str R db ?k = None" for t fvs
      using that key pexpireat_past [of t "r_hset R ?k fvs db" ?k] by (cases "r_now R db < t") auto
    ultimately show "r_hash R db' key = r_hash R db key \<and> r_str R db' key = r_str R db key"
      by (auto simp: saveDestinationCapabilityScript_def Let_def split: if_splits option.splits num_result.splits)
  qed
  from spares_call [OF this, unfolded spares_def, rule_format] show ?thesis
    unfolding spares_def
    by (auto simp: SaveDestinationCapability_def split: prod.splits sum.splits if_splits option.splits)
qed

lemma spares_saveObservation:
  assumes "\<not> has_prefix key pre" and "n_store neg = Some (redis_capability_store R sha pre)"
  shows "spares R key (saveObservation (Some neg) sc d prof ev ttl now wall)"
  unfolding spares_def
  using assms(2) spares_SaveDestinationCapability [OF assms(1), unfolded spares_def, rule_format]
  by (auto simp: saveObservation_def redis_capability_store_def Let_def split: sum.splits prod.splits)

lemma ObserveResponse_spares:
  assumes "\<not> has_prefix key pre" and "built_signer (redis_capability_store R sha pre) c"
    and "ObserveResponse sfv (Some c) sc d prof st h now wall db = Returns (r, db')"
  shows "r_hash R db' key = r_hash R db key \<and> r_str R db' key = r_str R db key"
proof (cases "cs_negotiator c")
  case None
  with assms(3) show ?thesis by (simp add: ObserveResponse_def)
next
  case (Some neg)
  with assms(2) have "n_store neg = Some (redis_capability_store R sha pre)"
    by (simp add: built_signer_def)
  note obs = spares_saveObservation [OF assms(1) this, unfolded spares_def, rule_format]
  from assms(3) Some have "db' = db \<or> (\<exists>prof ev ttl o'. saveObservation (Some neg) sc d prof ev ttl now wall db = (o', db'))"
    by (auto simp: ObserveResponse_def ObserveRFC9421Success_def ObserveExplicitRFC9421Rejection_def Let_def
        split: option.splits if_splits exec.splits prod.splits)
  then show ?thesis using obs by auto
qed

lemma finishScript_Inr:
  assumes "finishScript R key d = (Inr x, d')" and "r_hash R d key ''remain_count'' = Some (show_int n)"
    and "1 \<le> n" and "n < 2 ^ 63"
  shows "r_hash R d' key = (if n = 1 then Map.empty else (r_hash R d key)(''remain_count'' \<mapsto> show_int (n - 1)))"
proof -
  have ex: "r_exists R d key" using assms(2) by (rule exists_hash)
  with assms(1) have str: "r_str R d key = None" by (auto simp: finishScript_def split: if_splits)
  have add: "counter_add (r_hash R d key ''remain_count'') (- 1) = Some (n - 1)"
    using assms(2-4) parse_int64_show_int [of n] by (simp add: counter_add_def counter_value_def)
  from hincrby_Some [OF str add] assms(1,3) ex str show ?thesis
    by (auto simp: finishScript_def split: prod.splits option.splits)
qed

lemma settle_True:
  assumes "settle R True activityID db = (ms, db')"
    and "r_hash R db (activity_key activityID) ''remain_count'' = Some (show_int n)" and "1 \<le> n" and "n < 2 ^ 63"
  shows "RedisFailure ''worker'' ''activity_cleanup'' \<in> set ms
    \<or> r_hash R db' (activity_key activityID) = (if n = 1 then Map.empty
        else (r_hash R db (activity_key activityID))(''remain_count'' \<mapsto> show_int (n - 1)))"
proof -
  obtain r d where run: "command R ''eval'' (finishScript R (activity_key activityID)) db = (r, d)" by fastforce
  show ?thesis
  proof (cases r)
    case (Inr x)
    with run obtain d0 where fin: "finishScript R (activity_key activityID) d0 = (Inr x, d)"
      and d0: "r_hash R d0 = r_hash R db" by (auto elim: command_Inr)
    have "db' = d" using assms(1) run Inr by (simp add: settle_def finishRelayTarget_def)
    then show ?thesis using finishScript_Inr [OF fin] assms(2-4) unfolding d0 by blast
  qed (use assms(1) run in \<open>auto simp: settle_def finishRelayTarget_def\<close>)
qed

lemma activity_key_apart [simp]:
  "\<not> has_prefix (activity_key a) receiverHealthKeyPrefix" "activity_key a \<noteq> statistics_key d"
  by (simp_all add: activity_key_def statistics_key_def has_prefix_def)

lemma spares_recordReceiverAttempt: "spares R (activity_key a) (recordReceiverAttempt R domain ok at wall)"
  unfolding spares_def
  using spares_RecordReceiverDelivery [of "activity_key a", unfolded spares_def, rule_format]
  by (auto simp: recordReceiverAttempt_def split: prod.splits sum.splits if_splits)

lemma spares_storeTransientDeliveryError: "spares R (activity_key a) (storeTransientDeliveryError R domain e)"
proof -
  have "spares R (activity_key a) (pushErrorLogScript R (statistics_key domain) msg 60)" for msg
    by (rule spares_pushErrorLogScript) simp_all
  note cmd = spares_command [OF this, unfolded spares_def, rule_format]
  show ?thesis
    unfolding spares_def using cmd
    by (auto simp: storeTransientDeliveryError_def split: prod.splits sum.splits if_splits option.splits)
qed

lemma spares_load_body: "spares R key (load_body R a)"
  unfolding load_body_def by (rule spares_command) (auto simp: spares_def on_hash_def)

end

text \<open>
  The worker's surroundings: its Redis server, its signer with the capability store on the same
  server under a prefix that holds no activity, and an HTTP client whose calls do not write the
  stored activity.
\<close>

definition worker_setting :: "('k, 'db) worker \<Rightarrow> (string \<Rightarrow> string) \<Rightarrow> string \<Rightarrow> string \<Rightarrow> bool" where
  "worker_setting W sha pre activityID \<longleftrightarrow> redis_server (w_redis W)
     \<and> \<not> has_prefix (activity_key activityID) pre
     \<and> (\<forall>c. w_signer W = Some c \<longrightarrow> built_signer (redis_capability_store (w_redis W) sha pre) c)
     \<and> (\<forall>req. spares (w_redis W) (activity_key activityID) (w_post W req))"

lemma observed_send_spares:
  assumes "worker_setting W sha pre activityID" and "observed_send W inbox body prof now wall db = Returns (e, db')"
  shows "r_hash (w_redis W) db' (activity_key activityID) = r_hash (w_redis W) db (activity_key activityID)
    \<and> r_str (w_redis W) db' (activity_key activityID) = r_str (w_redis W) db (activity_key activityID)"
proof -
  let ?R = "w_redis W" and ?k = "activity_key activityID"
  from assms(2) obtain resp db1 pk where
    send: "sendActivityWithResponseProfile W inbox (w_key_id W) body pk prof db = Returns ((resp, e), db1)"
    and rest: "w_signer W = None \<and> db' = db1 \<or> (\<exists>c r. w_signer W = Some c \<and>
      ObserveResponse (w_sfv W) (Some c) ScopeDelivery inbox prof (StatusCode resp) (Header resp) now wall db1 = Returns (r, db'))"
    by (auto simp: observed_send_def split: option.splits exec.splits prod.splits if_splits)
  have "db1 = db \<or> (\<exists>req r. w_post W req db = (r, db1))"
    using send by (auto simp: sendActivityWithResponseProfile_def split: option.splits sum.splits prod.splits if_splits)
  then have send_frame: "r_hash ?R db1 ?k = r_hash ?R db ?k \<and> r_str ?R db1 ?k = r_str ?R db ?k"
    using assms(1) by (auto simp: worker_setting_def dest: sparesD)
  from rest show ?thesis
  proof (elim disjE exE conjE)
    fix c r
    assume "w_signer W = Some c"
      and "ObserveResponse (w_sfv W) (Some c) ScopeDelivery inbox prof (StatusCode resp) (Header resp) now wall db1 = Returns (r, db')"
    with assms(1) send_frame show ?thesis
      by (auto simp: worker_setting_def dest: redis_server.ObserveResponse_spares)
  qed (use send_frame in simp)
qed

text \<open>Every attempt is work that spares the activity, followed by the settling of its target or nothing.\<close>

lemma attempt_then_settle:
  assumes "worker_setting W sha pre (args ! 1)" and "relayActivityV2 W sig args now wall db = Returns (err, ms, db')"
    and "2 \<le> length args" and "deliveryProfileFromArgs (w_config W) args = Inr prof"
  obtains ms' db1 where
    "settle (w_redis W) (err = None \<or> at_terminal (currentDeliveryAttempt (w_fib W) sig)) (args ! 1) db1 = (ms', db')"
    and "set ms' \<subseteq> set ms"
    and "r_hash (w_redis W) db1 (activity_key (args ! 1)) = r_hash (w_redis W) db (activity_key (args ! 1))"
proof -
  let ?R = "w_redis W" and ?k = "activity_key (args ! 1)"
  have R: "redis_server ?R" using assms(1) by (simp add: worker_setting_def)
  note load = redis_server.spares_load_body [OF R, of ?k "args ! 1", THEN sparesD]
  note health = redis_server.spares_recordReceiverAttempt [OF R, of "args ! 1", THEN sparesD]
  note stats = redis_server.spares_storeTransientDeliveryError [OF R, of "args ! 1", THEN sparesD]
  note send = observed_send_spares [OF assms(1)]
  define dom where "dom = (case ReceiverDomainFromInboxURL (args ! 0) of Inl _ \<Rightarrow> [] | Inr d \<Rightarrow> d)"
  obtain b db0 where b: "load_body ?R (args ! 1) db = (b, db0)" by fastforce
  note run = assms(2) [unfolded relayActivityV2_def, folded dom_def] and ctx = assms(3,4) b
  show thesis
  proof (cases b)
    case (Inl e)
    with run ctx load [OF b] show thesis
      by (auto simp: Let_def split: prod.splits intro: that)
  next
    case (Inr body)
    show thesis
    proof (cases body)
      case None
      with run ctx Inr load [OF b] show thesis
        by (auto simp: Let_def split: prod.splits intro: that)
    next
      case (Some body')
      with run ctx Inr obtain e db2 where e: "observed_send W (args ! 0) body' prof now wall db0 = Returns (e, db2)"
        by (auto simp: Let_def split: exec.splits)
      note frame = load [OF b] send [OF e]
      show thesis
      proof (cases e)
        case None
        with run ctx Inr Some e frame show thesis
          by (auto simp: Let_def split: prod.splits dest!: health intro!: that)
      next
        case (Some e')
        with run ctx Inr \<open>body = Some body'\<close> e frame show thesis
          by (auto simp: Let_def split: prod.splits dest!: health stats intro!: that)
      qed
    qed
  qed
qed

section \<open>Settling targets\<close>

text \<open>
  C6: one relay attempt settles its target exactly when it is the last one. An attempt that fails
  with retries left leaves the stored activity and its count of open targets as they were. An
  attempt that succeeds, or that fails with no retry left, takes exactly one from the count and
  deletes the stored activity when the count was one, unless it reports that the clean-up failed.
\<close>
theorem relay_attempt_settles_target:
  assumes "worker_setting W sha pre activityID"
    and "ParseWireProfile prof = Inr p"
    and "relayActivityV2 W sig [inboxURL, activityID, prof] now wall db = Returns (err, ms, db')"
    and "r_hash (w_redis W) db (activity_key activityID) ''remain_count'' = Some (show_int n)"
    and "1 \<le> n" and "n < 2 ^ 63"
  shows "if err = None \<or> at_terminal (currentDeliveryAttempt (w_fib W) sig)
    then RedisFailure ''worker'' ''activity_cleanup'' \<in> set ms
      \<or> r_hash (w_redis W) db' (activity_key activityID)
          = (if n = 1 then Map.empty
             else (r_hash (w_redis W) db (activity_key activityID))(''remain_count'' \<mapsto> show_int (n - 1)))
    else r_hash (w_redis W) db' (activity_key activityID) = r_hash (w_redis W) db (activity_key activityID)"
proof -
  let ?args = "[inboxURL, activityID, prof]"
  have arg: "worker_setting W sha pre (?args ! 1)" "deliveryProfileFromArgs (w_config W) ?args = Inr p"
    using assms(1,2) by (simp_all add: deliveryProfileFromArgs_def)
  have R: "redis_server (w_redis W)" using assms(1) by (simp add: worker_setting_def)
  have len: "2 \<le> length ?args" by simp
  obtain ms' db1 where
    "settle (w_redis W) (err = None \<or> at_terminal (currentDeliveryAttempt (w_fib W) sig)) (?args ! 1) db1 = (ms', db')"
    and ms: "set ms' \<subseteq> set ms"
    and "r_hash (w_redis W) db1 (activity_key (?args ! 1)) = r_hash (w_redis W) db (activity_key (?args ! 1))"
    by (rule attempt_then_settle [OF arg(1) assms(3) len arg(2)])
  then have fin: "settle (w_redis W) (err = None \<or> at_terminal (currentDeliveryAttempt (w_fib W) sig)) activityID db1 = (ms', db')"
    and same: "r_hash (w_redis W) db1 (activity_key activityID) = r_hash (w_redis W) db (activity_key activityID)"
    by simp_all
  show ?thesis
  proof (cases "err = None \<or> at_terminal (currentDeliveryAttempt (w_fib W) sig)")
    case True
    with fin have "settle (w_redis W) True activityID db1 = (ms', db')" by simp
    from redis_server.settle_True [OF R this, unfolded same, OF assms(4-6)] ms True show ?thesis by auto
  qed (use fin same in \<open>auto simp: settle_def\<close>)
qed

text \<open>An instance: one target left, and a receiver that answers 500 to the last attempt.\<close>

definition failing_worker :: "(unit, mem) worker" where
  "failing_worker = \<lparr>w_redis = mem_redis,
     w_config = Some \<lparr>wc_service_name = ''Relay'', wc_host = ''relay.example'', wc_profile = ProfileLegacy, wc_actor_key = Some ()\<rparr>,
     w_signer = None, w_version = ''3.0'', w_key_id = ''https://relay.example/actor#main-key'',
     w_sfv = (\<lambda>_. Inl []), w_sign = (\<lambda>_ _. Inr ()),
     w_post = (\<lambda>_ db. (Inr \<lparr>hr_status_code = 500, hr_status = ''500'', hr_header = (\<lambda>_. []), hr_body = [], hr_read_error = None\<rparr>, db)),
     w_parse_error = plain_error, w_fib = (\<lambda>n. n + 1)\<rparr>"

lemma failing_worker_simps [simp]:
  "w_redis failing_worker = mem_redis" "w_signer failing_worker = None"
  "w_post failing_worker req db = (Inr \<lparr>hr_status_code = 500, hr_status = ''500'', hr_header = (\<lambda>_. []), hr_body = [], hr_read_error = None\<rparr>, db)"
  by (simp_all add: failing_worker_def)

theorem relay_attempt_settles_target_witness:
  "\<exists>err ms db'. relayActivityV2 failing_worker (Some \<lparr>ts_uuid = ''t'', ts_retry_count = 0, ts_retry_timeout = 55\<rparr>)
      [''https://a.example/inbox'', ''x'', ProfileLegacy] 0 0
      (mem_put (activity_key ''x'') [(''body'', ''{}''), (''remain_count'', ''1'')] no_data) = Returns (Some err, ms, db')
    \<and> r_hash mem_redis db' (activity_key ''x'') = Map.empty"
proof -
  let ?sig = "Some \<lparr>ts_uuid = ''t'', ts_retry_count = 0, ts_retry_timeout = 55\<rparr>"
  let ?args = "[''https://a.example/inbox'', ''x'', ProfileLegacy]"
  let ?db = "mem_put (activity_key ''x'') [(''body'', ''{}''), (''remain_count'', ''1'')] no_data"
  have "case relayActivityV2 failing_worker ?sig ?args 0 0 ?db of
      Returns (Some e, ms, d) \<Rightarrow> RedisFailure ''worker'' ''activity_cleanup'' \<notin> set ms | _ \<Rightarrow> False"
    by code_simp
  then have "\<exists>err ms db'. relayActivityV2 failing_worker ?sig ?args 0 0 ?db = Returns (Some err, ms, db')
      \<and> RedisFailure ''worker'' ''activity_cleanup'' \<notin> set ms"
    by (auto split: exec.splits prod.splits option.splits)
  then obtain err ms db' where run: "relayActivityV2 failing_worker ?sig ?args 0 0 ?db = Returns (Some err, ms, db')"
    and ms: "RedisFailure ''worker'' ''activity_cleanup'' \<notin> set ms" by blast
  have "worker_setting failing_worker id ''cap:'' ''x''"
    by (simp add: worker_setting_def mem.redis_server_axioms spares_def activity_key_def has_prefix_def)
  from relay_attempt_settles_target [OF this _ run, of ProfileLegacy 1] ms run show ?thesis
    by (auto simp: currentDeliveryAttempt_def show_int_def Let_def)
qed

section \<open>The retry horizon\<close>

text \<open>
  Machinery retries a failed task with one retry less and the next Fibonacci number as its time-out,
  and waits for that long. \<open>next_fibonacci\<close> is what \<open>retry.FibonacciNext\<close> documents: the least
  Fibonacci number above its argument.
\<close>

fun fibs :: "nat \<Rightarrow> int" where
  "fibs 0 = 1"
| "fibs (Suc 0) = 1"
| "fibs (Suc (Suc k)) = fibs k + fibs (Suc k)"

definition next_fibonacci :: "(int \<Rightarrow> int) \<Rightarrow> bool" where
  "next_fibonacci fib \<longleftrightarrow> (\<forall>n. n < fib n \<and> (\<exists>k. fib n = fibs k) \<and> (\<forall>k. n < fibs k \<longrightarrow> fib n \<le> fibs k))"

definition retry_signature :: "(int \<Rightarrow> int) \<Rightarrow> task_signature \<Rightarrow> task_signature" where
  "retry_signature fib s = s\<lparr>ts_retry_count := ts_retry_count s - 1, ts_retry_timeout := fib (ts_retry_timeout s)\<rparr>"

definition first_signature :: "string \<Rightarrow> task \<Rightarrow> task_signature" where
  "first_signature uuid t = \<lparr>ts_uuid = uuid, ts_retry_count = t_retry_count t, ts_retry_timeout = t_retry_timeout t\<rparr>"

lemma fibs_pos [simp]: "0 < fibs k"
  by (induction k rule: fibs.induct) auto

lemma fibs_Suc: "fibs (Suc k) \<ge> fibs k"
proof (cases k)
  case (Suc j)
  then show ?thesis by (simp add: less_imp_le)
qed simp

lemma fibs_mono: "i \<le> j \<Longrightarrow> fibs i \<le> fibs j"
  by (induction rule: dec_induct) (auto intro: order_trans fibs_Suc)

lemma next_fibonacci_step: "next_fibonacci fib \<Longrightarrow> fib (fibs (Suc k)) = fibs (Suc (Suc k))"
proof -
  assume fib: "next_fibonacci fib"
  then obtain j where j: "fib (fibs (Suc k)) = fibs j" "fibs (Suc k) < fibs j"
    unfolding next_fibonacci_def by metis
  then have "Suc (Suc k) \<le> j" using fibs_mono [of j "Suc k"] by (metis linorder_not_le not_less_eq_eq)
  then have "fibs (Suc (Suc k)) \<le> fib (fibs (Suc k))" unfolding j(1) by (rule fibs_mono)
  moreover have "fibs (Suc k) < fibs (Suc (Suc k))" using fibs_pos [of k] by simp
  ultimately show ?thesis using fib unfolding next_fibonacci_def by (meson order_antisym)
qed

text \<open>
  C27: the retries of a relay task end, and the stored activity outlives them. Following the retry
  rule of the queue from the task that fan-out builds, exactly the sixth attempt is the terminal one,
  the attempts are numbered 1 to 6, and the five waits announced before it are 8, 13, 21, 34 and 55
  seconds: 131 seconds, which leaves more than five minutes of the retention time.
\<close>
theorem retries_end_within_retention:
  assumes "next_fibonacci fib"
  shows "let att = (\<lambda>i. currentDeliveryAttempt fib
        (Some ((retry_signature fib ^^ i) (first_signature uuid (relayTaskWithProfile inboxURL activityID prof)))))
    in (\<forall>i < 6. at_attempt (att i) = int i + 1 \<and> (at_terminal (att i) \<longleftrightarrow> i = 5))
      \<and> map (\<lambda>i. at_next_retry (att i)) [0..<5] = [8, 13, 21, 34, 55]
      \<and> (\<Sum>i<5. at_next_retry (att i)) + 300 < ActivityRetentionSeconds"
proof -
  let ?s = "\<lambda>i. (retry_signature fib ^^ i) (first_signature uuid (relayTaskWithProfile inboxURL activityID prof))"
  have fib: "fib 5 = 8" "fib 8 = 13" "fib 13 = 21" "fib 21 = 34" "fib 34 = 55"
    using next_fibonacci_step [OF assms, of 3] next_fibonacci_step [OF assms, of 4] next_fibonacci_step [OF assms, of 5]
      next_fibonacci_step [OF assms, of 6] next_fibonacci_step [OF assms, of 7] by (simp_all add: eval_nat_numeral)
  have count: "ts_retry_count (?s i) = 5 - int i" for i
    by (induction i) (simp_all add: retry_signature_def first_signature_def relayTaskWithProfile_def RetryCount_def)
  have timeout: "ts_retry_timeout (?s i) = (fib ^^ i) 5" for i
    by (induction i) (simp_all add: retry_signature_def first_signature_def relayTaskWithProfile_def
        InitialRetryTimeoutSeconds_def)
  have five: "[0..<5] = [0, 1, 2, 3, 4]" by (simp add: upt_rec)
  have wait: "at_next_retry (currentDeliveryAttempt fib (Some (?s i))) = (if i < 5 then fib ((fib ^^ i) 5) else 0)" for i
    by (simp add: currentDeliveryAttempt_def Let_def count timeout)
  have waits: "map (\<lambda>i. at_next_retry (currentDeliveryAttempt fib (Some (?s i)))) [0..<5] = [8, 13, 21, 34, 55]"
    by (simp add: five wait fib eval_nat_numeral)
  have "(\<Sum>i<5. at_next_retry (currentDeliveryAttempt fib (Some (?s i)))) = 131"
    by (simp add: wait fib eval_nat_numeral)
  moreover have "at_attempt (currentDeliveryAttempt fib (Some (?s i))) = int i + 1
      \<and> (at_terminal (currentDeliveryAttempt fib (Some (?s i))) \<longleftrightarrow> i = 5)" if "i < 6" for i
    using that by (auto simp: currentDeliveryAttempt_def Let_def count MaxAttempts_def RetryCount_def)
  ultimately show ?thesis
    using waits by (simp add: Let_def ActivityRetentionSeconds_def)
qed

definition next_fib :: "int \<Rightarrow> int" where
  "next_fib n = the (List.find (\<lambda>f. n < f) (map fibs [0..<nat n + 2]))"

lemma fibs_above: "int k < fibs (Suc k)"
proof (induction k rule: fibs.induct)
  case (3 k)
  moreover have "1 \<le> fibs k" using fibs_pos [of k] by linarith
  ultimately show ?case by simp
qed simp_all

lemma next_fib_correct: "next_fibonacci next_fib"
  unfolding next_fibonacci_def
proof
  fix n
  have above: "n < fibs (nat n + 1)" using fibs_above [of "nat n"] by (simp split: if_splits)
  obtain f where f: "List.find (\<lambda>f. n < f) (map fibs [0..<nat n + 2]) = Some f"
    using above by (cases "List.find (\<lambda>f. n < f) (map fibs [0..<nat n + 2])") (force simp: find_None_iff)+
  then obtain i where i: "i < nat n + 2" "n < fibs i" "f = fibs i" "\<forall>j < i. \<not> n < fibs j"
    by (auto simp: find_Some_iff simp del: upt_Suc)
  then have "fibs i \<le> fibs k" if "n < fibs k" for k
    using that by (metis fibs_mono linorder_not_less)
  with f i show "n < next_fib n \<and> (\<exists>k. next_fib n = fibs k) \<and> (\<forall>k. n < fibs k \<longrightarrow> next_fib n \<le> fibs k)"
    by (auto simp: next_fib_def)
qed

theorem retries_end_within_retention_witness:
  "next_fib 5 = 8 \<and> at_terminal (currentDeliveryAttempt next_fib (Some ((retry_signature next_fib ^^ 5)
     (first_signature ''t'' (relayTaskWithProfile ''https://a.example/inbox'' ''x'' ProfileLegacy)))))"
proof -
  have "next_fib 5 = 8" by code_simp
  with retries_end_within_retention [OF next_fib_correct, of "''t''" "''https://a.example/inbox''" "''x''" ProfileLegacy]
  show ?thesis by (simp add: Let_def)
qed

section \<open>The planned profile\<close>

lemma appended_profile:
  assumes "appendSignatureWithProfile W req key pk p = Inr r" and "ParseWireProfile p = Inr q"
  shows "r = req\<lparr>dr_profile := q\<rparr>"
  using assms
  by (auto simp: appendSignatureWithProfile_def SignPOSTWithProfile_def Let_def split: if_splits sum.splits option.splits)



end
