(* ===== verification/Activity.thy ===== *)
theory Activity
  imports Go_URL
begin

text \<open>
  ActivityPub documents: the types of \<open>models/models.go\<close>, the public-address policy
  (\<open>models/public_address_policy.go\<close>) and the delivery metadata (\<open>internal/deliverymeta\<close>).

  A JSON document is a value of type \<open>json\<close>; an object keeps its members in the order of the text.
  The step from text to value and back is a pair of parameters where it is used. Decoding into a Go
  struct follows \<open>encoding/json\<close>: a member goes to the field of that name, or else to one whose name is
  equal up to case; unknown members are ignored, later members overwrite earlier ones, \<open>null\<close> leaves
  a field as it is (and clears a pointer, slice or interface), and a value of the wrong type makes
  the decoding fail. An object held in an \<open>interface{}\<close> is a Go map, in which the last member with a
  name counts. A nil interface is \<open>JNull\<close>.
\<close>

section \<open>JSON values\<close>

datatype json = JNull | JBool bool | JNum string | JStr string | JArr "json list" | JObj "(string \<times> json) list"

definition member :: "(string \<times> json) list \<Rightarrow> string \<Rightarrow> json option" where
  "member ms k = map_of (rev ms) k"

definition string_member :: "(string \<times> json) list \<Rightarrow> string \<Rightarrow> string option" where
  "string_member ms k = (case member ms k of Some (JStr s) \<Rightarrow> Some s | _ \<Rightarrow> None)"

definition type_error :: string where "type_error = ''json: cannot unmarshal value into Go struct field''"

definition struct_field :: "string list \<Rightarrow> string \<Rightarrow> string option" where
  "struct_field names k = (if k \<in> set names then Some k else List.find (\<lambda>n. equal_fold n k) names)"

text \<open>The fold over the members of an object; \<open>assign\<close> sets one field.\<close>

fun decode_members ::
  "string list \<Rightarrow> (string \<Rightarrow> json \<Rightarrow> 'a \<Rightarrow> 'a result) \<Rightarrow> (string \<times> json) list \<Rightarrow> 'a \<Rightarrow> 'a result" where
  "decode_members names assign [] x = Inr x"
| "decode_members names assign ((k, v) # ms) x =
     (case struct_field names k of
        None \<Rightarrow> decode_members names assign ms x
      | Some n \<Rightarrow> (case assign n v x of Inl e \<Rightarrow> Inl e | Inr y \<Rightarrow> decode_members names assign ms y))"

definition decode_struct :: "string list \<Rightarrow> (string \<Rightarrow> json \<Rightarrow> 'a \<Rightarrow> 'a result) \<Rightarrow> 'a \<Rightarrow> json \<Rightarrow> 'a result" where
  "decode_struct names assign zero v =
     (case v of JObj ms \<Rightarrow> decode_members names assign ms zero | JNull \<Rightarrow> Inr zero | _ \<Rightarrow> Inl type_error)"

definition into_string :: "json \<Rightarrow> string \<Rightarrow> string result" where
  "into_string v old = (case v of JStr s \<Rightarrow> Inr s | JNull \<Rightarrow> Inr old | _ \<Rightarrow> Inl type_error)"

fun into_strings :: "json list \<Rightarrow> string list result" where
  "into_strings [] = Inr []"
| "into_strings (v # vs) =
     (case into_string v [] of
        Inl e \<Rightarrow> Inl e
      | Inr s \<Rightarrow> (case into_strings vs of Inl e \<Rightarrow> Inl e | Inr ss \<Rightarrow> Inr (s # ss)))"

definition into_slice :: "json \<Rightarrow> string list result" where
  "into_slice v = (case v of JArr vs \<Rightarrow> into_strings vs | JNull \<Rightarrow> Inr [] | _ \<Rightarrow> Inl type_error)"

definition map_result :: "('a \<Rightarrow> 'b) \<Rightarrow> 'a result \<Rightarrow> 'b result" where
  "map_result f r = (case r of Inl e \<Rightarrow> Inl e | Inr x \<Rightarrow> Inr (f x))"

section \<open>Actors\<close>

record public_key =
  pk_id :: string
  pk_owner :: string
  pk_pem :: string

record actor =
  ac_context :: json
  ac_id :: string
  ac_type :: string
  ac_name :: string
  ac_username :: string
  ac_summary :: string
  ac_inbox :: string
  ac_outbox :: string
  ac_following :: string
  ac_followers :: string
  ac_shared_inbox :: "string option"
  ac_public_key :: public_key
  ac_icon :: "string option"
  ac_image :: "string option"

text \<open>\<open>ac_shared_inbox\<close>, \<open>ac_icon\<close> and \<open>ac_image\<close> are pointers to structs with one string field.\<close>

definition zero_public_key :: public_key where
  "zero_public_key = \<lparr>pk_id = [], pk_owner = [], pk_pem = []\<rparr>"

definition zero_actor :: actor where
  "zero_actor = \<lparr>ac_context = JNull, ac_id = [], ac_type = [], ac_name = [], ac_username = [], ac_summary = [],
     ac_inbox = [], ac_outbox = [], ac_following = [], ac_followers = [], ac_shared_inbox = None,
     ac_public_key = zero_public_key, ac_icon = None, ac_image = None\<rparr>"

definition set_public_key :: "string \<Rightarrow> json \<Rightarrow> public_key \<Rightarrow> public_key result" where
  "set_public_key n v k =
     (if n = ''id'' then map_result (\<lambda>s. k\<lparr>pk_id := s\<rparr>) (into_string v (pk_id k))
      else if n = ''owner'' then map_result (\<lambda>s. k\<lparr>pk_owner := s\<rparr>) (into_string v (pk_owner k))
      else map_result (\<lambda>s. k\<lparr>pk_pem := s\<rparr>) (into_string v (pk_pem k)))"

definition into_pointer :: "string \<Rightarrow> json \<Rightarrow> string option \<Rightarrow> string option result" where
  "into_pointer n v old =
     (case v of
        JNull \<Rightarrow> Inr None
      | _ \<Rightarrow> map_result Some (decode_struct [n] (\<lambda>_. into_string) (case old of None \<Rightarrow> [] | Some s \<Rightarrow> s) v))"

definition actor_fields :: "string list" where
  "actor_fields = [''@context'', ''id'', ''type'', ''name'', ''preferredUsername'', ''summary'', ''inbox'', ''outbox'',
     ''following'', ''followers'', ''endpoints'', ''publicKey'', ''icon'', ''image'']"

definition set_actor :: "string \<Rightarrow> json \<Rightarrow> actor \<Rightarrow> actor result" where
  "set_actor n v a =
     (if n = ''@context'' then Inr (a\<lparr>ac_context := v\<rparr>)
      else if n = ''id'' then map_result (\<lambda>s. a\<lparr>ac_id := s\<rparr>) (into_string v (ac_id a))
      else if n = ''type'' then map_result (\<lambda>s. a\<lparr>ac_type := s\<rparr>) (into_string v (ac_type a))
      else if n = ''name'' then map_result (\<lambda>s. a\<lparr>ac_name := s\<rparr>) (into_string v (ac_name a))
      else if n = ''preferredUsername'' then map_result (\<lambda>s. a\<lparr>ac_username := s\<rparr>) (into_string v (ac_username a))
      else if n = ''summary'' then map_result (\<lambda>s. a\<lparr>ac_summary := s\<rparr>) (into_string v (ac_summary a))
      else if n = ''inbox'' then map_result (\<lambda>s. a\<lparr>ac_inbox := s\<rparr>) (into_string v (ac_inbox a))
      else if n = ''outbox'' then map_result (\<lambda>s. a\<lparr>ac_outbox := s\<rparr>) (into_string v (ac_outbox a))
      else if n = ''following'' then map_result (\<lambda>s. a\<lparr>ac_following := s\<rparr>) (into_string v (ac_following a))
      else if n = ''followers'' then map_result (\<lambda>s. a\<lparr>ac_followers := s\<rparr>) (into_string v (ac_followers a))
      else if n = ''endpoints''
      then map_result (\<lambda>p. a\<lparr>ac_shared_inbox := p\<rparr>) (into_pointer ''sharedInbox'' v (ac_shared_inbox a))
      else if n = ''publicKey''
      then map_result (\<lambda>k. a\<lparr>ac_public_key := k\<rparr>)
             (decode_struct [''id'', ''owner'', ''publicKeyPem''] set_public_key (ac_public_key a) v)
      else if n = ''icon'' then map_result (\<lambda>p. a\<lparr>ac_icon := p\<rparr>) (into_pointer ''url'' v (ac_icon a))
      else map_result (\<lambda>p. a\<lparr>ac_image := p\<rparr>) (into_pointer ''url'' v (ac_image a)))"

definition decode_actor :: "json \<Rightarrow> actor result" where
  "decode_actor = decode_struct actor_fields set_actor zero_actor"

definition Followers :: "actor \<Rightarrow> string" where
  "Followers a = (if ac_followers a \<noteq> [] then ac_followers a else ac_id a @ ''/followers'')"

section \<open>Activities\<close>

record activity =
  av_context :: json
  av_id :: string
  av_actor :: string
  av_type :: string
  av_object :: json
  av_to :: "string list"
  av_cc :: "string list"

definition zero_activity :: activity where
  "zero_activity = \<lparr>av_context = JNull, av_id = [], av_actor = [], av_type = [], av_object = JNull, av_to = [], av_cc = []\<rparr>"

definition set_activity :: "string \<Rightarrow> json \<Rightarrow> activity \<Rightarrow> activity result" where
  "set_activity n v a =
     (if n = ''@context'' then Inr (a\<lparr>av_context := v\<rparr>)
      else if n = ''id'' then map_result (\<lambda>s. a\<lparr>av_id := s\<rparr>) (into_string v (av_id a))
      else if n = ''actor'' then map_result (\<lambda>s. a\<lparr>av_actor := s\<rparr>) (into_string v (av_actor a))
      else if n = ''type'' then map_result (\<lambda>s. a\<lparr>av_type := s\<rparr>) (into_string v (av_type a))
      else if n = ''object'' then Inr (a\<lparr>av_object := v\<rparr>)
      else if n = ''to'' then map_result (\<lambda>l. a\<lparr>av_to := l\<rparr>) (into_slice v)
      else map_result (\<lambda>l. a\<lparr>av_cc := l\<rparr>) (into_slice v))"

definition decode_activity :: "json \<Rightarrow> activity result" where
  "decode_activity =
     decode_struct [''@context'', ''id'', ''actor'', ''type'', ''object'', ''to'', ''cc''] set_activity zero_activity"

text \<open>\<open>json.Marshal\<close> of an activity: empty fields are left out.\<close>

definition string_json :: "string \<Rightarrow> string \<Rightarrow> (string \<times> json) list" where
  "string_json n s = (if s = [] then [] else [(n, JStr s)])"

definition any_json :: "string \<Rightarrow> json \<Rightarrow> (string \<times> json) list" where
  "any_json n v = (if v = JNull then [] else [(n, v)])"

definition strings_json :: "string \<Rightarrow> string list \<Rightarrow> (string \<times> json) list" where
  "strings_json n ss = (if ss = [] then [] else [(n, JArr (map JStr ss))])"

definition activity_json :: "activity \<Rightarrow> json" where
  "activity_json a = JObj (any_json ''@context'' (av_context a) @ string_json ''id'' (av_id a)
     @ string_json ''actor'' (av_actor a) @ string_json ''type'' (av_type a) @ any_json ''object'' (av_object a)
     @ strings_json ''to'' (av_to a) @ strings_json ''cc'' (av_cc a))"

definition GenerateReply :: "string \<Rightarrow> activity \<Rightarrow> actor \<Rightarrow> json \<Rightarrow> string \<Rightarrow> activity" where
  "GenerateReply uuid a actr object typ =
     \<lparr>av_context = JArr [JStr ''https://www.w3.org/ns/activitystreams''], av_id = ac_id actr @ ''/activities/'' @ uuid,
      av_actor = ac_id actr, av_type = typ, av_object = object, av_to = [av_actor a], av_cc = []\<rparr>"

definition NewActivityPubActivity :: "string \<Rightarrow> actor \<Rightarrow> string list \<Rightarrow> json \<Rightarrow> string \<Rightarrow> activity" where
  "NewActivityPubActivity uuid actr to object typ =
     \<lparr>av_context = JArr [JStr ''https://www.w3.org/ns/activitystreams''], av_id = ac_id actr @ ''/activities/'' @ uuid,
      av_actor = ac_id actr, av_type = typ, av_object = object, av_to = to, av_cc = []\<rparr>"

definition UnwrapInnerActivity :: "activity \<Rightarrow> activity result" where
  "UnwrapInnerActivity a =
     (case av_object a of
        JObj ms \<Rightarrow>
          (case (string_member ms ''id'', string_member ms ''type'', string_member ms ''actor'', member ms ''object'') of
             (Some i, Some t, Some ac, Some ob) \<Rightarrow>
               Inr \<lparr>av_context = JNull, av_id = i, av_actor = ac, av_type = t, av_object = ob, av_to = [], av_cc = []\<rparr>
           | _ \<Rightarrow> Inl ''object is not Activity'')
      | _ \<Rightarrow> Inl ''object is not Activity'')"

definition UnwrapInnerObjectId :: "activity \<Rightarrow> string result" where
  "UnwrapInnerObjectId a =
     (case av_object a of
        JStr s \<Rightarrow> Inr s
      | JObj ms \<Rightarrow> (case string_member ms ''id'' of Some i \<Rightarrow> Inr i | None \<Rightarrow> Inl ''object not has id'')
      | _ \<Rightarrow> Inl ''object not has id'')"

section \<open>The public-address policy\<close>

abbreviation activityStreamsPublicAddress :: string where
  "activityStreamsPublicAddress \<equiv> ''https://www.w3.org/ns/activitystreams#Public''"

abbreviation PublicAddressExplicitPublicOnly :: string where
  "PublicAddressExplicitPublicOnly \<equiv> ''explicit_public_only''"

abbreviation PublicAddressPublicAndUnlisted :: string where
  "PublicAddressPublicAndUnlisted \<equiv> ''public_and_unlisted''"

definition ParsePublicAddressDistributionPolicy :: "string \<Rightarrow> string result" where
  "ParsePublicAddressDistributionPolicy v =
     (let w = to_lower (trim_space v)
      in if w = [] then Inr PublicAddressPublicAndUnlisted
         else if w = PublicAddressExplicitPublicOnly then Inr PublicAddressExplicitPublicOnly
         else if w = PublicAddressPublicAndUnlisted then Inr PublicAddressPublicAndUnlisted
         else Inl ''unsupported value'')"

definition DisplayName :: "string \<Rightarrow> string" where
  "DisplayName policy =
     (if policy = PublicAddressExplicitPublicOnly then ''Explicitly public posts only''
      else if policy = PublicAddressPublicAndUnlisted then ''Public and unlisted posts''
      else ''Unknown'')"

definition containsPublicAddress :: "string list \<Rightarrow> bool" where
  "containsPublicAddress addresses \<longleftrightarrow> activityStreamsPublicAddress \<in> set addresses"

definition Allows :: "string \<Rightarrow> string list \<Rightarrow> string list \<Rightarrow> bool" where
  "Allows policy to cc \<longleftrightarrow> containsPublicAddress to
     \<or> policy = PublicAddressPublicAndUnlisted \<and> containsPublicAddress cc"

definition ExcludesPublicOnlyInCC :: "string \<Rightarrow> string list \<Rightarrow> string list \<Rightarrow> bool" where
  "ExcludesPublicOnlyInCC policy to cc \<longleftrightarrow> policy = PublicAddressExplicitPublicOnly
     \<and> \<not> containsPublicAddress to \<and> containsPublicAddress cc"

section \<open>Delivery metadata\<close>

record metadata =
  md_activity_id :: string
  md_activity_type :: string
  md_object_id :: string
  md_actor_id :: string
  md_origin_domain :: string
  md_body_sha256 :: string

definition maxIdentifierBytes :: nat where "maxIdentifierBytes = 2048"

fun first_nonempty :: "string list \<Rightarrow> string" where
  "first_nonempty [] = []"
| "first_nonempty (s # ss) = (if s \<noteq> [] then s else first_nonempty ss)"

lemma size_member: "member ms k = Some v \<Longrightarrow> size v < Suc (size_list (size_prod (\<lambda>_. 0) size) ms)"
proof -
  assume "member ms k = Some v"
  then have "(k, v) \<in> set ms" by (auto simp: member_def dest: map_of_SomeD)
  then have "size_prod (\<lambda>_. 0) size (k, v) \<le> size_list (size_prod (\<lambda>_. 0) size) ms"
    by (rule size_list_estimation') simp
  then show ?thesis by simp
qed

function identifier_of :: "json \<Rightarrow> string" where
  "identifier_of (JStr s) = s"
| "identifier_of (JObj ms) = (case member ms ''id'' of None \<Rightarrow> [] | Some v \<Rightarrow> identifier_of v)"
| "identifier_of (JArr vs) = first_nonempty (map identifier_of vs)"
| "identifier_of JNull = []"
| "identifier_of (JBool b) = []"
| "identifier_of (JNum n) = []"
  by pat_completeness auto
termination
  by (relation "measure size") (auto dest: size_member simp: less_Suc_eq_le size_list_estimation')

fun textValue :: "json \<Rightarrow> string" where
  "textValue (JStr s) = s"
| "textValue (JArr vs) = first_nonempty (map textValue vs)"
| "textValue _ = []"

definition meta_domain :: "string \<Rightarrow> string" where
  "meta_domain i = (case url_parse i of None \<Rightarrow> [] | Some u \<Rightarrow> to_lower (trim_suffix (hostname u) ''.''))"

definition bounded :: "string \<Rightarrow> string" where
  "bounded v0 = (let v = trim_space v0 in if length v \<le> maxIdentifierBytes then v else take maxIdentifierBytes v)"

definition FromBody :: "(string \<Rightarrow> json option) \<Rightarrow> (string \<Rightarrow> string) \<Rightarrow> string \<Rightarrow> metadata" where
  "FromBody parse sha body =
     (let empty = \<lparr>md_activity_id = [], md_activity_type = [], md_object_id = [], md_actor_id = [],
                   md_origin_domain = [], md_body_sha256 = sha body\<rparr>;
          fill = (\<lambda>ms. let get = (\<lambda>k. case member ms k of None \<Rightarrow> JNull | Some v \<Rightarrow> v);
                          actr = bounded (identifier_of (get ''actor''))
                      in empty\<lparr>md_activity_id := bounded (identifier_of (get ''id'')),
                              md_activity_type := bounded (textValue (get ''type'')),
                              md_object_id := bounded (identifier_of (get ''object'')),
                              md_actor_id := actr, md_origin_domain := meta_domain actr\<rparr>)
      in case parse body of
           Some (JObj ms) \<Rightarrow> fill ms
         | Some JNull \<Rightarrow> fill []
         | _ \<Rightarrow> empty)"

section \<open>Properties\<close>

lemma decode_members_append:
  "decode_members names f (ms @ ns) x =
     (case decode_members names f ms x of Inl e \<Rightarrow> Inl e | Inr y \<Rightarrow> decode_members names f ns y)"
  by (induction ms arbitrary: x) (auto split: option.splits sum.splits)

lemma into_strings_JStr: "into_strings (map JStr ss) = Inr ss"
  by (induction ss) (simp_all add: into_string_def)


end
