(* ===== verification/Inbox.thy ===== *)
theory Inbox
  imports Activity Fanout
begin

text \<open>
  What the relay does with an activity: the second half of \<open>api/resolver.go\<close> and \<open>api/handle.go\<close>.

  The globals of the package are the fields of a record \<open>api\<close>, and the state is the relay state with
  the server behind it. A handler returns its outcome together with the goroutines it started, the
  metrics it recorded and the new state; a panic keeps the effects that came before it. A started
  goroutine is a value of type \<open>job\<close>, which \<open>run_job\<close> executes at any later time; its arguments are
  those evaluated by the \<open>go\<close> statement. Fresh identifiers are read from \<open>ids\<close>, and \<open>stamp\<close> is the current
  time as RFC 3339 text. Logging is not modelled.
\<close>

section \<open>State and jobs\<close>

record ('k, 'db) api =
  a_redis :: "'db redis"
  a_broker :: "'db broker"
  a_signer :: "('k, 'db) configured_signer option"
  a_max_jobs :: int
  a_max_targets :: int
  a_actor :: actor
  a_policy :: "string option"
  a_metrics :: bool
  a_sha :: "string \<Rightarrow> string"
  a_print :: "json \<Rightarrow> string"
  a_parse :: "string \<Rightarrow> json option"

datatype job = RegisterJob string string
  | FanoutJob "subscriber list" string string
  | FanoutExceptJob "subscriber list" string "string list"
  | FanoutAllJob string string
  | AnnounceJob string string string reservation

type_synonym ('x, 'db) effect = "'x exec \<times> job list \<times> metric list \<times> relay_state \<times> 'db"

definition run_job ::
  "('k, 'db) api \<Rightarrow> (nat \<Rightarrow> time \<times> time) \<Rightarrow> string \<Rightarrow> relay_state \<Rightarrow> job \<Rightarrow> 'db \<Rightarrow> metric list \<times> 'db" where
  "run_job A clock uuid st j db =
     (let R = a_redis A; B = a_broker A; sg = a_signer A; mj = a_max_jobs A; mt = a_max_targets A
      in case j of
        RegisterJob inboxURL body \<Rightarrow> enqueueRegisterActivity R B sg mj (clock 0) inboxURL body db
      | FanoutJob subs source body \<Rightarrow> enqueueActivity R B sg mj mt clock uuid subs source body db
      | FanoutExceptJob subs body excluded \<Rightarrow>
          snd (enqueueActivityExcept R B sg mj mt clock uuid subs body excluded db)
      | FanoutAllJob source body \<Rightarrow> enqueueActivityForAll R B sg mj mt clock uuid st source body db
      | AnnounceJob body source origin res \<Rightarrow>
          (case enqueueActivityForAllExcept R B sg mj mt clock uuid st body [source, origin] db of (ok, ms, db1) \<Rightarrow>
             if ok then (ms, db1)
             else case releaseCanonicalRelayActivity R res db1 of (ms', db2) \<Rightarrow> (ms @ ms', db2)))"

section \<open>Predicates\<close>

definition contains :: "json \<Rightarrow> string \<Rightarrow> bool" where
  "contains entries key \<longleftrightarrow> entries = JStr key"

definition normalizedActorDomain :: "url option \<Rightarrow> string" where
  "normalizedActorDomain actorID = (case actorID of None \<Rightarrow> [] | Some u \<Rightarrow> to_lower (trim_suffix (hostname u) ''.''))"

definition isActorLimited :: "relay_state \<Rightarrow> url option \<Rightarrow> bool" where
  "isActorLimited st actorID = IsLimited st (normalizedActorDomain actorID)"

definition isActorBlocked :: "relay_state \<Rightarrow> url option \<Rightarrow> bool" where
  "isActorBlocked st actorID = IsBlocked st (normalizedActorDomain actorID)"

definition isActorSubscribed :: "relay_state \<Rightarrow> url option \<Rightarrow> bool" where
  "isActorSubscribed st actorID = IsSubscriber st (normalizedActorDomain actorID)"

definition isActorFollowers :: "relay_state \<Rightarrow> url option \<Rightarrow> bool" where
  "isActorFollowers st actorID = IsFollower st (normalizedActorDomain actorID)"

definition isActorSubscribersOrFollowers :: "relay_state \<Rightarrow> url option \<Rightarrow> bool" where
  "isActorSubscribersOrFollowers st actorID = IsSubscriberOrFollower st (normalizedActorDomain actorID)"

definition isActorAbleToBeFollower :: "actor \<Rightarrow> bool" where
  "isActorAbleToBeFollower actr =
     (case url_parse (ac_id actr) of
        None \<Rightarrow> False
      | Some u \<Rightarrow>
          if normalizedActorDomain (Some u) = [] then False
          else if ac_type actr = ''Application'' \<or> ac_type actr = ''Service'' then True
          else trim_suffix (u_path u) ''/'' = ''/relay'' \<or> trim_suffix (u_path u) ''/'' = ''/friendica'')"

definition isActorAbleToRelay :: "relay_state \<Rightarrow> actor \<Rightarrow> bool" where
  "isActorAbleToRelay st actr =
     (case url_parse (ac_id actr) of
        None \<Rightarrow> False
      | Some u \<Rightarrow>
          if normalizedActorDomain (Some u) = [] then False
          else if isActorBlocked st (Some u) \<or> isActorLimited st (Some u) then False
          else if PersonOnly st \<and> ac_type actr \<noteq> ''Person'' then False
          else True)"

definition isToMyFollower :: "relay_state \<Rightarrow> string list \<Rightarrow> bool" where
  "isToMyFollower st entries = list_ex (\<lambda>entry. has_suffix entry ''/followers''
     \<and> list_ex (\<lambda>f. fol_actor f @ ''/followers'' = entry) (sn_followers (Snapshot st))) entries"

section \<open>Following\<close>

definition register_job :: "('k, 'db) api \<Rightarrow> string \<Rightarrow> activity \<Rightarrow> job" where
  "register_job A inboxURL act = RegisterJob inboxURL (a_print A (activity_json act))"

definition pending_fields :: "string \<Rightarrow> activity \<Rightarrow> actor \<Rightarrow> (string \<times> string) list" where
  "pending_fields inboxURL act actr =
     [(''inbox_url'', inboxURL), (''activity_id'', av_id act), (''type'', ''Follow''), (''actor'', ac_id actr),
      (''object'', case av_object act of JStr s \<Rightarrow> s | _ \<Rightarrow> [])]"

definition executeMutuallyFollow ::
  "('k, 'db) api \<Rightarrow> string \<Rightarrow> follower \<Rightarrow> relay_state \<Rightarrow> job list" where
  "executeMutuallyFollow A uuid f st =
     (if isActorLimited st (url_parse (fol_actor f)) then []
      else [register_job A (fol_inbox f)
             (NewActivityPubActivity uuid (a_actor A) [fol_actor f] (JStr (fol_actor f)) ''Follow'')])"

text \<open>
  A nil \<open>actorID\<close> (an actor id that does not parse) or a nil \<open>Endpoints\<close> panics where it is dereferenced;
  the goroutine that sends the Accept has been started by then.
\<close>

definition follow_public ::
  "('k, 'db) api \<Rightarrow> (nat \<Rightarrow> string) \<Rightarrow> activity \<Rightarrow> actor \<Rightarrow> relay_state \<Rightarrow> 'db \<Rightarrow> (unit result, 'db) effect" where
  "follow_public A ids act actr st db =
     (let R = a_redis A; actorID = url_parse (ac_id actr);
          accept = register_job A (ac_inbox actr)
            (GenerateReply (ids 0) act (a_actor A) (activity_json act) ''Accept'')
      in if ManualApprovalRequired st then
           (case (actorID, ac_shared_inbox actr) of
              (Some u, Some shared) \<Rightarrow>
                (Returns (Inr ()), [], [], st,
                 snd (hset_command R (pending_prefix @ u_host u) (pending_fields shared act actr) db))
            | _ \<Rightarrow> (Panics, [], [], st, db))
         else
           (case (actorID, ac_shared_inbox actr) of
              (Some u, Some shared) \<Rightarrow>
                (case AddSubscriber R \<lparr>sub_domain = u_host u, sub_inbox = shared, sub_activity = av_id act,
                        sub_actor = ac_id actr\<rparr> st db of
                   (st', db') \<Rightarrow> (Returns (Inr ()), [accept], [], st', db'))
            | _ \<Rightarrow> (Panics, [accept], [], st, db)))"

definition follow_relay ::
  "('k, 'db) api \<Rightarrow> (nat \<Rightarrow> string) \<Rightarrow> activity \<Rightarrow> actor \<Rightarrow> relay_state \<Rightarrow> 'db \<Rightarrow> (unit result, 'db) effect" where
  "follow_relay A ids act actr st db =
     (let R = a_redis A
      in case url_parse (ac_id actr) of
           None \<Rightarrow> (Panics, [], [], st, db)
         | Some u \<Rightarrow>
             if ManualApprovalRequired st then
               (Returns (Inr ()), [], [], st,
                snd (hset_command R (pending_prefix @ u_host u) (pending_fields (ac_inbox actr) act actr) db))
             else
               let f = \<lparr>fol_domain = u_host u, fol_inbox = ac_inbox actr, fol_activity = av_id act,
                        fol_actor = ac_id actr, fol_mutual = False\<rparr>
               in case AddFollowerChecked R f st db of
                    (Inl e, st', db') \<Rightarrow> (Returns (Inl (''store follower: '' @ e)), [], [], st', db')
                  | (Inr _, st', db') \<Rightarrow>
                      (Returns (Inr ()),
                       register_job A (ac_inbox actr)
                         (GenerateReply (ids 0) act (a_actor A) (activity_json act) ''Accept'')
                         # executeMutuallyFollow A (ids 1) f st', [], st', db'))"

definition executeFollowing ::
  "('k, 'db) api \<Rightarrow> (nat \<Rightarrow> string) \<Rightarrow> activity \<Rightarrow> actor \<Rightarrow> relay_state \<Rightarrow> 'db \<Rightarrow> (unit result, 'db) effect" where
  "executeFollowing A ids act actr st db =
     (let actorID = url_parse (ac_id actr)
      in if isActorBlocked st actorID
         then (case actorID of
                 None \<Rightarrow> (Panics, [], [], st, db)
               | Some u \<Rightarrow> (Returns (Inl (u_host u @ '' is blocked'')), [], [], st, db))
         else if contains (av_object act) activityStreamsPublicAddress then follow_public A ids act actr st db
         else if contains (av_object act) (ac_id (a_actor A)) \<and> isActorAbleToBeFollower actr
         then follow_relay A ids act actr st db
         else (Returns (Inl ''only Public or the relay actor is allowed to be followed''), [], [], st, db))"

definition executeUnfollowing ::
  "('k, 'db) api \<Rightarrow> activity \<Rightarrow> actor \<Rightarrow> relay_state \<Rightarrow> 'db \<Rightarrow> (unit result, 'db) effect" where
  "executeUnfollowing A act actr st db =
     (let actorID = url_parse (ac_id actr)
      in if contains (av_object act) activityStreamsPublicAddress
         then (case actorID of
                 None \<Rightarrow> (Panics, [], [], st, db)
               | Some u \<Rightarrow> (case DelSubscriber (a_redis A) (u_host u) st db of
                              (st', db') \<Rightarrow> (Returns (Inr ()), [], [], st', db')))
         else if contains (av_object act) (ac_id (a_actor A)) \<and> isActorAbleToBeFollower actr
         then (case actorID of
                 None \<Rightarrow> (Panics, [], [], st, db)
               | Some u \<Rightarrow> (case DelFollower (a_redis A) (u_host u) st db of
                              (st', db') \<Rightarrow> (Returns (Inr ()), [], [], st', db')))
         else (Returns (Inl ''only Public or the relay actor is allowed to be unfollowed''), [], [], st, db))"

definition finalizeMutuallyFollow ::
  "('k, 'db) api \<Rightarrow> activity \<Rightarrow> actor \<Rightarrow> string \<Rightarrow> relay_state \<Rightarrow> 'db \<Rightarrow> (unit, 'db) effect" where
  "finalizeMutuallyFollow A act actr activityType st db =
     (let actorID = url_parse (ac_id actr)
      in if av_actor act = ac_id (a_actor A) \<and> contains (av_object act) (ac_id actr) \<and> isActorFollowers st actorID
         then (case actorID of
                 None \<Rightarrow> (Panics, [], [], st, db)
               | Some u \<Rightarrow> (case UpdateFollowerStatusChecked (a_redis A) (u_host u) (activityType = ''Accept'') st db of
                              (_, st', db') \<Rightarrow> (Returns (), [], [], st', db')))
         else (Returns (), [], [], st, db))"

definition executeRejectRequest :: "('k, 'db) api \<Rightarrow> string \<Rightarrow> activity \<Rightarrow> actor \<Rightarrow> job" where
  "executeRejectRequest A uuid act actr =
     register_job A (ac_inbox actr) (GenerateReply uuid act (a_actor A) (activity_json act) ''Reject'')"

section \<open>Publishers and fan-out\<close>

definition publisherInbox :: "actor \<Rightarrow> string" where
  "publisherInbox actr = (case ac_shared_inbox actr of
     Some s \<Rightarrow> if s \<noteq> [] then s else ac_inbox actr | None \<Rightarrow> ac_inbox actr)"

definition recordPublisherActivity ::
  "('k, 'db) api \<Rightarrow> string \<Rightarrow> activity \<Rightarrow> actor \<Rightarrow> relay_state \<Rightarrow> 'db \<Rightarrow> unit result \<times> relay_state \<times> 'db" where
  "recordPublisherActivity A stamp act actr st db =
     (let actorID = url_parse (ac_id actr); domain = normalizedActorDomain actorID
      in if domain = [] then (Inl ''activity actor has an invalid ID'', st, db)
         else if isActorBlocked st actorID then (Inl (domain @ '' is blocked''), st, db)
         else if \<not> isActorAbleToRelay st actr then (Inr (), st, db)
         else RecordPublisherActivity (a_redis A) stamp
                \<lparr>pub_domain = domain, pub_actor = ac_id actr, pub_inbox = publisherInbox actr, pub_first_seen = [],
                 pub_last_seen = [], pub_last_id = av_id act, pub_last_type = av_type act, pub_count = 0\<rparr> st db)"

definition relay_announce :: "('k, 'db) api \<Rightarrow> string \<Rightarrow> string \<Rightarrow> string" where
  "relay_announce A uuid objectID = a_print A (activity_json
     (NewActivityPubActivity uuid (a_actor A) [Activity.Followers (a_actor A)] (JStr objectID) ''Announce''))"

definition executeEmbeddedAnnounceActivity ::
  "('k, 'db) api \<Rightarrow> (nat \<Rightarrow> string) \<Rightarrow> string \<Rightarrow> activity \<Rightarrow> actor \<Rightarrow> relay_state \<Rightarrow> 'db \<Rightarrow> (unit result, 'db) effect" where
  "executeEmbeddedAnnounceActivity A ids stamp act actr st db =
     (let actorID = url_parse (ac_id actr); source = normalizedActorDomain actorID
      in if source = [] then (Returns (Inl ''activity actor has an invalid ID''), [], [], st, db)
         else if isActorBlocked st actorID then (Returns (Inl (source @ '' is blocked'')), [], [], st, db)
         else if \<not> isActorAbleToRelay st actr then (Returns (Inr ()), [], [], st, db)
         else case UnwrapInnerObjectId act of
           Inl e \<Rightarrow> (Returns (Inl e), [], [], st, db)
         | Inr objectID \<Rightarrow>
             (case recordPublisherActivity A stamp act actr st db of
                (Inl e, st', db') \<Rightarrow> (Returns (Inl e), [], [], st', db')
              | (Inr _, st', db') \<Rightarrow>
                  (Returns (Inr ()), [FanoutAllJob source (relay_announce A (ids 0) objectID)], [], st', db')))"

definition signature_shape :: "json \<Rightarrow> bool" where
  "signature_shape v =
     (case decode_struct [''type'', ''creator'', ''created'', ''signatureValue'']
             (\<lambda>n w m. map_result (\<lambda>s. m(n \<mapsto> s)) (into_string w (case m n of None \<Rightarrow> [] | Some s \<Rightarrow> s)))
             Map.empty v of
        Inl e \<Rightarrow> False
      | Inr m \<Rightarrow>
          let get = (\<lambda>n. case m n of None \<Rightarrow> [] | Some s \<Rightarrow> s)
          in get ''type'' = ''RsaSignature2017'' \<and> trim_space (get ''creator'') \<noteq> []
             \<and> trim_space (get ''created'') \<noteq> [] \<and> trim_space (get ''signatureValue'') \<noteq> [])"

definition hasMastodonLinkedDataSignature :: "(string \<Rightarrow> json option) \<Rightarrow> string \<Rightarrow> bool" where
  "hasMastodonLinkedDataSignature parse body =
     (case parse body of
        None \<Rightarrow> False
      | Some v \<Rightarrow>
          (case decode_struct [''signature''] (\<lambda>_ w _. Inr w) JNull v of
             Inl e \<Rightarrow> False
           | Inr sig \<Rightarrow> sig \<noteq> JNull \<and> signature_shape sig))"

definition executeRelayActivity ::
  "('k, 'db) api \<Rightarrow> (nat \<Rightarrow> string) \<Rightarrow> string \<Rightarrow> activity \<Rightarrow> actor \<Rightarrow> string \<Rightarrow> relay_state \<Rightarrow> 'db
    \<Rightarrow> (unit result, 'db) effect" where
  "executeRelayActivity A ids stamp act actr body st db =
     (let actorID = url_parse (ac_id actr); source = normalizedActorDomain actorID
      in if source = [] then (Returns (Inl ''activity actor has an invalid ID''), [], [], st, db)
         else if isActorBlocked st actorID then (Returns (Inl (source @ '' is blocked'')), [], [], st, db)
         else if \<not> isActorAbleToRelay st actr then (Returns (Inr ()), [], [], st, db)
         else case recordPublisherActivity A stamp act actr st db of
           (Inl e, st', db') \<Rightarrow> (Returns (Inl e), [], [], st', db')
         | (Inr _, st', db') \<Rightarrow>
             let snap = Snapshot st';
                 preserve = hasMastodonLinkedDataSignature (a_parse A) body;
                 direct = (if preserve then [FanoutJob (sn_subscribers snap) source body] else [])
             in case UnwrapInnerObjectId act of
                  Inl e \<Rightarrow> (Returns (Inr ()), direct, [], st', db')
                | Inr objectID \<Rightarrow>
                    let announce = relay_announce A (ids 0) objectID
                    in (Returns (Inr ()),
                        direct @ [if preserve
                                  then FanoutExceptJob (map as_subscriber (sn_followers snap)) announce
                                         (source # map sub_domain (sn_subscribers snap))
                                  else FanoutJob (sn_both snap) source announce], [], st', db'))"

definition executeAnnounceActivity ::
  "('k, 'db) api \<Rightarrow> (nat \<Rightarrow> string) \<Rightarrow> string \<Rightarrow> activity \<Rightarrow> actor \<Rightarrow> string \<Rightarrow> relay_state \<Rightarrow> 'db
    \<Rightarrow> (unit result, 'db) effect" where
  "executeAnnounceActivity A ids stamp act actr sourceRelay st db =
     (let actorID = url_parse (ac_id actr); origin = normalizedActorDomain actorID; R = a_redis A
      in if origin = [] then (Returns (Inl ''activity actor has an invalid ID''), [], [], st, db)
         else if isActorBlocked st actorID then (Returns (Inl (origin @ '' is blocked'')), [], [], st, db)
         else if \<not> isActorAbleToRelay st actr then (Returns (Inr ()), [], [], st, db)
         else case reserveCanonicalRelayActivity R (a_sha A) (ids 0) (av_id act) db of
           (Inl e, ms, db1) \<Rightarrow> (Returns (Inr ()), [], ms, st, db1)
         | (Inr (res, accepted), ms, db1) \<Rightarrow>
             if \<not> accepted
             then (Returns (Inr ()), [], ms @ [QueueAdmission ''relay'' ''skipped'' ''canonical_duplicate''], st, db1)
             else case recordPublisherActivity A stamp act actr st db1 of
               (Inl e, st', db2) \<Rightarrow>
                 (case releaseCanonicalRelayActivity R res db2 of
                    (ms', db3) \<Rightarrow> (Returns (Inl e), [], ms @ ms', st', db3))
             | (Inr _, st', db2) \<Rightarrow>
                 (Returns (Inr ()), [AnnounceJob (relay_announce A (ids 1) (av_id act)) sourceRelay origin res],
                  ms, st', db2))"

section \<open>Responses\<close>

record http_out =
  ho_status :: int
  ho_body :: string
  ho_content_type :: string
  ho_allow :: string

definition reply :: "int \<Rightarrow> string \<Rightarrow> http_out" where
  "reply status body = \<lparr>ho_status = status, ho_body = body, ho_content_type = [], ho_allow = []\<rparr>"

definition activityPubContentType :: string where "activityPubContentType = ''application/activity+json''"

definition writeActivityPubJSON :: "(json \<Rightarrow> string) \<Rightarrow> string \<Rightarrow> json \<Rightarrow> http_out" where
  "writeActivityPubJSON print meth v =
     \<lparr>ho_status = 200, ho_body = (if meth = ''HEAD'' then [] else print v), ho_content_type = activityPubContentType, ho_allow = []\<rparr>"

definition emptyOrderedCollection :: "string \<Rightarrow> json" where
  "emptyOrderedCollection i = JObj [(''@context'', JStr ''https://www.w3.org/ns/activitystreams''), (''id'', JStr i),
     (''type'', JStr ''OrderedCollection''), (''totalItems'', JNum ''0''), (''orderedItems'', JArr [])]"

definition handleReadOnlyOrderedCollection :: "(json \<Rightarrow> string) \<Rightarrow> string \<Rightarrow> string \<Rightarrow> string \<Rightarrow> http_out" where
  "handleReadOnlyOrderedCollection print meth i allow =
     (if meth = ''GET'' \<or> meth = ''HEAD'' then writeActivityPubJSON print meth (emptyOrderedCollection i)
      else (reply 405 [])\<lparr>ho_allow := allow\<rparr>)"

definition handleRelayOutbox :: "('k, 'db) api \<Rightarrow> string \<Rightarrow> http_out" where
  "handleRelayOutbox A meth = handleReadOnlyOrderedCollection (a_print A) meth (ac_outbox (a_actor A)) ''GET, HEAD''"

definition handleRelayFollowers :: "('k, 'db) api \<Rightarrow> string \<Rightarrow> http_out" where
  "handleRelayFollowers A meth = handleReadOnlyOrderedCollection (a_print A) meth (ac_followers (a_actor A)) ''GET, HEAD''"

definition handleRelayFollowing :: "('k, 'db) api \<Rightarrow> string \<Rightarrow> http_out" where
  "handleRelayFollowing A meth = handleReadOnlyOrderedCollection (a_print A) meth (ac_following (a_actor A)) ''GET, HEAD''"

section \<open>The inbox\<close>

definition configuredPublicAddressDistributionPolicy :: "('k, 'db) api \<Rightarrow> string" where
  "configuredPublicAddressDistributionPolicy A =
     (case a_policy A of None \<Rightarrow> PublicAddressPublicAndUnlisted
      | Some p \<Rightarrow> if p = [] then PublicAddressPublicAndUnlisted else p)"

definition shouldDistributeByPublicAddress :: "activity \<Rightarrow> string \<Rightarrow> bool" where
  "shouldDistributeByPublicAddress act policy = Allows policy (av_to act) (av_cc act)"

definition isPublicOnlyInCCExcluded :: "activity \<Rightarrow> string \<Rightarrow> bool" where
  "isPublicOnlyInCCExcluded act policy = ExcludesPublicOnlyInCC policy (av_to act) (av_cc act)"

definition executePolicyExcludedPublicActivity ::
  "('k, 'db) api \<Rightarrow> string \<Rightarrow> activity \<Rightarrow> actor \<Rightarrow> relay_state \<Rightarrow> 'db \<Rightarrow> (unit result, 'db) effect" where
  "executePolicyExcludedPublicActivity A stamp act actr st db =
     (if av_type act \<in> {''Create'', ''Update'', ''Delete'', ''Move'', ''Announce''}
      then (case recordPublisherActivity A stamp act actr st db of (r, st', db') \<Rightarrow> (Returns r, [], [], st', db'))
      else (Returns (Inr ()), [], [], st, db))"

definition shouldFanOutPublicAnnounce :: "activity \<Rightarrow> bool" where
  "shouldFanOutPublicAnnounce act =
     (if av_type act \<noteq> ''Announce'' then False
      else case av_object act of
        JObj ms \<Rightarrow>
          (case UnwrapInnerObjectId act of
             Inl e \<Rightarrow> False
           | Inr objectID \<Rightarrow>
               (case (url_parse (av_actor act), url_parse objectID) of
                  (Some a, Some ob) \<Rightarrow> normalizedActorDomain (Some a) \<noteq> []
                    \<and> normalizedActorDomain (Some a) = normalizedActorDomain (Some ob)
                | _ \<Rightarrow> False))
      | _ \<Rightarrow> False)"

definition executePublicAnnounce ::
  "('k, 'db) api \<Rightarrow> (nat \<Rightarrow> string) \<Rightarrow> string \<Rightarrow> activity \<Rightarrow> actor \<Rightarrow> relay_state \<Rightarrow> 'db \<Rightarrow> (unit result, 'db) effect" where
  "executePublicAnnounce A ids stamp act actr st db =
     (if shouldFanOutPublicAnnounce act then executeEmbeddedAnnounceActivity A ids stamp act actr st db
      else case recordPublisherActivity A stamp act actr st db of (r, st', db') \<Rightarrow> (Returns r, [], [], st', db'))"

text \<open>The response to an operation: a given status on success, another with the error text.\<close>

definition respond :: "(unit result \<Rightarrow> http_out \<times> job list) \<Rightarrow> (unit result, 'db) effect \<Rightarrow> (http_out, 'db) effect" where
  "respond f e = (case e of
     (Panics, js, ms, st, db) \<Rightarrow> (Panics, js, ms, st, db)
   | (Returns r, js, ms, st, db) \<Rightarrow> (case f r of (out, js') \<Rightarrow> (Returns out, js @ js', ms, st, db)))"

definition accepted_or_401 :: "unit result \<Rightarrow> http_out \<times> job list" where
  "accepted_or_401 r = (case r of Inl e \<Rightarrow> (reply 401 e, []) | Inr _ \<Rightarrow> (reply 202 [], []))"

definition accepted_or_reject :: "('k, 'db) api \<Rightarrow> string \<Rightarrow> activity \<Rightarrow> actor \<Rightarrow> unit result \<Rightarrow> http_out \<times> job list" where
  "accepted_or_reject A uuid act actr r =
     (reply 202 [], case r of Inl e \<Rightarrow> [executeRejectRequest A uuid act actr] | Inr _ \<Rightarrow> [])"

definition nothing_done :: "relay_state \<Rightarrow> 'db \<Rightarrow> (http_out, 'db) effect" where
  "nothing_done st db = (Returns (reply 202 []), [], [], st, db)"

definition inbox_public ::
  "('k, 'db) api \<Rightarrow> (nat \<Rightarrow> string) \<Rightarrow> string \<Rightarrow> activity \<Rightarrow> actor \<Rightarrow> string \<Rightarrow> relay_state \<Rightarrow> 'db \<Rightarrow> (http_out, 'db) effect" where
  "inbox_public A ids stamp act actr body st db =
     (if av_type act \<in> {''Create'', ''Update'', ''Delete'', ''Move''}
      then respond accepted_or_401 (executeRelayActivity A ids stamp act actr body st db)
      else if av_type act = ''Announce''
      then respond accepted_or_401 (executePublicAnnounce A ids stamp act actr st db)
      else nothing_done st db)"

definition inbox_follow ::
  "('k, 'db) api \<Rightarrow> (nat \<Rightarrow> string) \<Rightarrow> activity \<Rightarrow> actor \<Rightarrow> relay_state \<Rightarrow> 'db \<Rightarrow> (http_out, 'db) effect" where
  "inbox_follow A ids act actr st db =
     respond (accepted_or_reject A (ids 2) act actr) (executeFollowing A ids act actr st db)"

definition inbox_undo ::
  "('k, 'db) api \<Rightarrow> (nat \<Rightarrow> string) \<Rightarrow> activity \<Rightarrow> actor \<Rightarrow> relay_state \<Rightarrow> 'db \<Rightarrow> (http_out, 'db) effect" where
  "inbox_undo A ids act actr st db =
     (case UnwrapInnerActivity act of
        Inl e \<Rightarrow> nothing_done st db
      | Inr inner \<Rightarrow>
          if av_type inner = ''Follow''
          then respond (accepted_or_reject A (ids 2) act actr) (executeUnfollowing A inner actr st db)
          else nothing_done st db)"

definition inbox_answer ::
  "('k, 'db) api \<Rightarrow> activity \<Rightarrow> actor \<Rightarrow> relay_state \<Rightarrow> 'db \<Rightarrow> (http_out, 'db) effect" where
  "inbox_answer A act actr st db =
     (case UnwrapInnerActivity act of
        Inl e \<Rightarrow> nothing_done st db
      | Inr inner \<Rightarrow>
          if av_type inner = ''Follow''
          then (case finalizeMutuallyFollow A inner actr (av_type act) st db of
                  (Panics, js, ms, st', db') \<Rightarrow> (Panics, js, ms, st', db')
                | (Returns _, js, ms, st', db') \<Rightarrow> (Returns (reply 202 []), js, ms, st', db'))
          else nothing_done st db)"

definition inbox_announce ::
  "('k, 'db) api \<Rightarrow> (nat \<Rightarrow> string) \<Rightarrow> string \<Rightarrow> (string \<Rightarrow> 'db \<Rightarrow> (activity \<times> actor) result \<times> 'db) \<Rightarrow> activity
    \<Rightarrow> relay_state \<Rightarrow> 'db \<Rightarrow> (http_out, 'db) effect" where
  "inbox_announce A ids stamp fetch act st db =
     (if \<not> isActorSubscribersOrFollowers st (url_parse (av_actor act))
      then (Returns (reply 401 ''to use the relay service, please follow in advance''), [], [], st, db)
      else case av_object act of
        JStr innerObject \<Rightarrow>
          (case fetch innerObject db of
             (Inl e, db1) \<Rightarrow> (Returns (reply 400 e), [], [], st, db1)
           | (Inr (orig, origActor), db1) \<Rightarrow>
               respond (\<lambda>_. (reply 202 [], []))
                 (executeAnnounceActivity A ids stamp orig origActor (normalizedActorDomain (url_parse (av_actor act))) st db1))
      | _ \<Rightarrow> nothing_done st db)"

definition inbox_litepub ::
  "('k, 'db) api \<Rightarrow> (nat \<Rightarrow> string) \<Rightarrow> string \<Rightarrow> (string \<Rightarrow> 'db \<Rightarrow> (activity \<times> actor) result \<times> 'db) \<Rightarrow> activity \<Rightarrow> actor
    \<Rightarrow> relay_state \<Rightarrow> 'db \<Rightarrow> (http_out, 'db) effect" where
  "inbox_litepub A ids stamp fetch act actr st db =
     (if av_type act = ''Follow'' then inbox_follow A ids act actr st db
      else if av_type act = ''Undo'' then inbox_undo A ids act actr st db
      else if av_type act = ''Accept'' \<or> av_type act = ''Reject'' then inbox_answer A act actr st db
      else if av_type act = ''Announce'' then inbox_announce A ids stamp fetch act st db
      else nothing_done st db)"

definition process_activity ::
  "('k, 'db) api \<Rightarrow> (nat \<Rightarrow> string) \<Rightarrow> string \<Rightarrow> (string \<Rightarrow> 'db \<Rightarrow> (activity \<times> actor) result \<times> 'db) \<Rightarrow> activity \<Rightarrow> actor
    \<Rightarrow> string \<Rightarrow> relay_state \<Rightarrow> 'db \<Rightarrow> (http_out, 'db) effect" where
  "process_activity A ids stamp fetch act actr body st db =
     (let policy = configuredPublicAddressDistributionPolicy A
      in if shouldDistributeByPublicAddress act policy then inbox_public A ids stamp act actr body st db
         else if ac_id (a_actor A) \<in> set (av_to act) \<or> ac_id (a_actor A) \<in> set (av_cc act)
                 \<or> isToMyFollower st (av_to act) \<or> isToMyFollower st (av_cc act)
         then inbox_litepub A ids stamp fetch act actr st db
         else if isPublicOnlyInCCExcluded act policy
         then respond accepted_or_401 (executePolicyExcludedPublicActivity A stamp act actr st db)
         else if av_type act = ''Follow'' then inbox_follow A ids act actr st db
         else if av_type act = ''Undo'' then inbox_undo A ids act actr st db
         else nothing_done st db)"

definition classifyInboxMetric :: "int \<Rightarrow> string \<times> string" where
  "classifyInboxMetric status =
     (if 200 \<le> status \<and> status < 300 then (''accepted'', ''accepted'')
      else if status = 405 then (''ignored'', ''method'')
      else if status = 400 then (''rejected'', ''invalid'')
      else if status = 401 \<or> status = 403 then (''rejected'', ''policy'')
      else if status \<ge> 500 then (''rejected'', ''internal'')
      else (''rejected'', ''unsupported''))"

definition with_activity_metric :: "bool \<Rightarrow> string \<Rightarrow> (http_out, 'db) effect \<Rightarrow> (http_out, 'db) effect" where
  "with_activity_metric enabled typ e =
     (if \<not> enabled then e
      else case e of
        (Panics, js, ms, st, db) \<Rightarrow> (Panics, js, ms @ [ActivityMetric ''rejected'' typ ''internal''], st, db)
      | (Returns out, js, ms, st, db) \<Rightarrow>
          (case classifyInboxMetric (ho_status out) of (result, reason) \<Rightarrow>
             (Returns out, js, ms @ [ActivityMetric result typ reason], st, db)))"

definition handleInbox ::
  "('k, 'db) api \<Rightarrow> (nat \<Rightarrow> string) \<Rightarrow> string \<Rightarrow> (string \<Rightarrow> 'db \<Rightarrow> (activity \<times> actor) result \<times> 'db)
    \<Rightarrow> ('db \<Rightarrow> (activity \<times> actor \<times> string) result \<times> 'db) \<Rightarrow> string \<Rightarrow> relay_state \<Rightarrow> 'db \<Rightarrow> (http_out, 'db) effect" where
  "handleInbox A ids stamp fetch decode meth st db =
     (if meth = ''GET'' \<or> meth = ''HEAD''
      then (Returns (handleReadOnlyOrderedCollection (a_print A) meth (ac_inbox (a_actor A)) ''GET, HEAD, POST''), [], [], st, db)
      else if meth = ''POST'' then
        (case decode db of
           (Inl e, db1) \<Rightarrow> with_activity_metric (a_metrics A) ''other'' (Returns (reply 400 []), [], [], st, db1)
         | (Inr (act, actr, body), db1) \<Rightarrow>
             with_activity_metric (a_metrics A) (av_type act)
               (process_activity A ids stamp fetch act actr body st db1))
      else (Returns ((reply 405 [])\<lparr>ho_allow := ''GET, HEAD, POST''\<rparr>), [], [], st, db))"

section \<open>Discovery\<close>

definition webfinger_json :: "string \<Rightarrow> string \<Rightarrow> json" where
  "webfinger_json subject href = JObj (string_json ''subject'' subject
     @ [(''links'', JArr [JObj (string_json ''rel'' ''self'' @ string_json ''type'' ''application/activity+json''
          @ string_json ''href'' href)])])"

definition GenerateWebfingerResource :: "actor \<Rightarrow> string \<Rightarrow> string \<times> string" where
  "GenerateWebfingerResource actr host = (''acct:'' @ ac_username actr @ ''@'' @ host, ac_id actr)"

definition handleWebfinger :: "(json \<Rightarrow> string) \<Rightarrow> (string \<times> string) list \<Rightarrow> string \<Rightarrow> string list \<Rightarrow> http_out" where
  "handleWebfinger print resources meth queried =
     (if meth \<noteq> ''GET'' \<or> queried = [] then reply 400 []
      else case List.find (\<lambda>(subject, _). subject = hd queried) resources of
        Some (subject, href) \<Rightarrow> (reply 200 (print (webfinger_json subject href)))\<lparr>ho_content_type := ''application/json''\<rparr>
      | None \<Rightarrow> reply 404 [])"

definition nodeinfo_links_json :: "string \<Rightarrow> json" where
  "nodeinfo_links_json host = JObj [(''links'', JArr [JObj
     [(''rel'', JStr ''http://nodeinfo.diaspora.software/ns/schema/2.1''),
      (''href'', JStr (''https://'' @ host @ ''/nodeinfo/2.1''))]])]"

definition nodeinfo_json :: "string \<Rightarrow> nat \<Rightarrow> json" where
  "nodeinfo_json version users = JObj
     [(''version'', JStr ''2.1''),
      (''software'', JObj [(''name'', JStr ''activity-relay''), (''version'', JStr version),
         (''repository'', JStr ''https://github.com/thystra/Activity-Relay'')]),
      (''protocols'', JArr [JStr ''activitypub'']),
      (''services'', JObj [(''inbound'', JArr []), (''outbound'', JArr [])]),
      (''openRegistrations'', JBool True),
      (''usage'', JObj [(''users'', JObj [(''total'', JNum (show_nat users)), (''activeMonth'', JNum (show_nat users)),
         (''activeHalfyear'', JNum (show_nat users))])]),
      (''metadata'', JObj [])]"

definition NewActivityPubActorFromRelayConfig ::
  "string \<Rightarrow> string \<Rightarrow> string \<Rightarrow> string \<Rightarrow> string option \<Rightarrow> string option \<Rightarrow> actor" where
  "NewActivityPubActorFromRelayConfig hostname' name summary pem icon img =
     \<lparr>ac_context = JArr [JStr ''https://www.w3.org/ns/activitystreams'', JStr ''https://w3id.org/security/v1''],
      ac_id = hostname' @ ''/actor'', ac_type = ''Application'', ac_name = name, ac_username = ''relay'',
      ac_summary = summary, ac_inbox = hostname' @ ''/inbox'', ac_outbox = hostname' @ ''/actor/outbox'',
      ac_following = hostname' @ ''/actor/following'', ac_followers = hostname' @ ''/actor/followers'',
      ac_shared_inbox = Some (hostname' @ ''/inbox''),
      ac_public_key = \<lparr>pk_id = hostname' @ ''/actor#main-key'', pk_owner = hostname' @ ''/actor'', pk_pem = pem\<rparr>,
      ac_icon = icon, ac_image = img\<rparr>"

definition handleNodeinfoLink :: "(json \<Rightarrow> string) \<Rightarrow> string \<Rightarrow> string \<Rightarrow> http_out" where
  "handleNodeinfoLink print host meth =
     (if meth \<noteq> ''GET'' then reply 400 []
      else (reply 200 (print (nodeinfo_links_json host)))\<lparr>ho_content_type := ''application/json''\<rparr>)"

definition handleNodeinfo :: "(json \<Rightarrow> string) \<Rightarrow> string \<Rightarrow> string \<Rightarrow> relay_state \<Rightarrow> http_out" where
  "handleNodeinfo print version meth st =
     (if meth \<noteq> ''GET'' then reply 400 []
      else (reply 200 (print (nodeinfo_json version (length (sn_subscribers (Snapshot st))))))\<lparr>ho_content_type := ''application/json''\<rparr>)"

end
