(* ===== verification/Inbox_Facts.thy ===== *)
theory Inbox_Facts
  imports Inbox Fanout_Facts
begin

text \<open>
  Properties of the inbox: what may be fanned out, that the relay state stays consistent, and what
  happens to followers whose actor document or domain is unusual.
\<close>

section \<open>Who is fanned out\<close>

fun fanout_origin :: "job \<Rightarrow> string option" where
  "fanout_origin (RegisterJob inbox body) = None"
| "fanout_origin (FanoutJob subs source body) = Some source"
| "fanout_origin (FanoutExceptJob subs body excluded) = Some (hd excluded)"
| "fanout_origin (FanoutAllJob source body) = Some source"
| "fanout_origin (AnnounceJob body source origin res) = Some origin"

definition permitted :: "relay_state \<Rightarrow> string \<Rightarrow> bool" where
  "permitted st d \<longleftrightarrow> d \<noteq> [] \<and> \<not> IsBlocked st d \<and> \<not> IsLimited st d"

definition fanout_ok :: "relay_state \<Rightarrow> job list \<Rightarrow> bool" where
  "fanout_ok st js = list_all (\<lambda>j. case fanout_origin j of None \<Rightarrow> True | Some d \<Rightarrow> permitted st d) js"

definition only_replies :: "job list \<Rightarrow> bool" where
  "only_replies js = list_all (\<lambda>j. fanout_origin j = None) js"

lemma only_replies_simps [simp]:
  "only_replies []" "only_replies (j # js) \<longleftrightarrow> fanout_origin j = None \<and> only_replies js"
  "only_replies (js @ ks) \<longleftrightarrow> only_replies js \<and> only_replies ks"
  by (simp_all add: only_replies_def)

lemma fanout_ok_simps [simp]:
  "fanout_ok st []" "fanout_ok st (j # js) \<longleftrightarrow> (case fanout_origin j of None \<Rightarrow> True | Some d \<Rightarrow> permitted st d) \<and> fanout_ok st js"
  "fanout_ok st (js @ ks) \<longleftrightarrow> fanout_ok st js \<and> fanout_ok st ks"
  by (simp_all add: fanout_ok_def)

lemma only_replies_ok: "only_replies js \<Longrightarrow> fanout_ok st js"
  by (simp add: only_replies_def fanout_ok_def list_all_iff)

lemma register_job_origin [simp]: "fanout_origin (register_job A inbox act) = None"
  by (simp add: register_job_def)

lemma able_to_relay_permitted:
  "isActorAbleToRelay st actr \<Longrightarrow> permitted st (normalizedActorDomain (url_parse (ac_id actr)))"
  by (auto simp: isActorAbleToRelay_def permitted_def isActorBlocked_def isActorLimited_def split: option.splits if_splits)

lemma executeFollowing_replies: "executeFollowing A ids act actr st db = (r, js, ms, st', db') \<Longrightarrow> only_replies js"
  by (auto simp: executeFollowing_def follow_public_def follow_relay_def executeMutuallyFollow_def Let_def
      split: if_splits option.splits prod.splits sum.splits)

lemma executeUnfollowing_replies: "executeUnfollowing A act actr st db = (r, js, ms, st', db') \<Longrightarrow> only_replies js"
  by (auto simp: executeUnfollowing_def Let_def split: if_splits option.splits prod.splits)

lemma respond_jobs:
  assumes "respond f e = (r, js, ms, st', db')"
  obtains r' js0 where "e = (r', js0, ms, st', db')" and "js = js0 \<or> (\<exists>x. js = js0 @ snd (f x))"
proof (cases e)
  case (fields r' js0 ms0 st0 db0)
  with assms have "e = (r', js0, ms, st', db')" "js = js0 \<or> (\<exists>x. js = js0 @ snd (f x))"
    by (auto simp: respond_def split: exec.splits prod.splits intro: snd_conv [symmetric])
       (metis snd_conv)
  then show thesis by (rule that)
qed

lemma answer_jobs [simp]:
  "only_replies (snd (accepted_or_reject A uuid act actr x))" "snd (accepted_or_401 x) = []"
  by (auto simp: accepted_or_reject_def accepted_or_401_def executeRejectRequest_def split: sum.split)

lemma inbox_follow_replies: "inbox_follow A ids act actr st db = (r, js, ms, st', db') \<Longrightarrow> only_replies js"
  unfolding inbox_follow_def by (erule respond_jobs) (auto dest: executeFollowing_replies)

lemma inbox_undo_replies: "inbox_undo A ids act actr st db = (r, js, ms, st', db') \<Longrightarrow> only_replies js"
  unfolding inbox_undo_def
  by (auto simp: nothing_done_def dest: executeUnfollowing_replies
      elim!: respond_jobs split: sum.splits if_splits)

lemma inbox_answer_replies: "inbox_answer A act actr st db = (r, js, ms, st', db') \<Longrightarrow> only_replies js"
  by (auto simp: inbox_answer_def nothing_done_def finalizeMutuallyFollow_def Let_def
      split: sum.splits if_splits exec.splits prod.splits option.splits)

lemma executeRelayActivity_ok: "executeRelayActivity A ids stamp act actr body st db = (r, js, ms, st', db') \<Longrightarrow> fanout_ok st js"
  using able_to_relay_permitted [of st actr]
  by (auto simp: executeRelayActivity_def Let_def split: if_splits sum.splits prod.splits)

lemma executeEmbeddedAnnounceActivity_ok:
  "executeEmbeddedAnnounceActivity A ids stamp act actr st db = (r, js, ms, st', db') \<Longrightarrow> fanout_ok st js"
  using able_to_relay_permitted [of st actr]
  by (auto simp: executeEmbeddedAnnounceActivity_def Let_def split: if_splits sum.splits prod.splits)

lemma executeAnnounceActivity_ok:
  "executeAnnounceActivity A ids stamp act actr source st db = (r, js, ms, st', db') \<Longrightarrow> fanout_ok st js"
  using able_to_relay_permitted [of st actr]
  by (auto simp: executeAnnounceActivity_def Let_def split: if_splits sum.splits prod.splits)

lemma inbox_public_ok: "inbox_public A ids stamp act actr body st db = (r, js, ms, st', db') \<Longrightarrow> fanout_ok st js"
  by (auto simp: inbox_public_def nothing_done_def executePublicAnnounce_def
      dest: executeRelayActivity_ok executeEmbeddedAnnounceActivity_ok elim!: respond_jobs
      split: if_splits sum.splits prod.splits)

lemma inbox_announce_ok: "inbox_announce A ids stamp fetch act st db = (r, js, ms, st', db') \<Longrightarrow> fanout_ok st js"
  by (auto simp: inbox_announce_def nothing_done_def dest: executeAnnounceActivity_ok elim!: respond_jobs
      split: if_splits sum.splits prod.splits json.splits)

lemmas reply_handlers = inbox_follow_replies inbox_undo_replies inbox_answer_replies

lemma inbox_litepub_ok: "inbox_litepub A ids stamp fetch act actr st db = (r, js, ms, st', db') \<Longrightarrow> fanout_ok st js"
  by (auto simp: inbox_litepub_def nothing_done_def intro: only_replies_ok inbox_announce_ok dest: reply_handlers
      split: if_splits)

lemma executePolicyExcluded_replies:
  "respond accepted_or_401 (executePolicyExcludedPublicActivity A stamp act actr st db) = (r, js, ms, st', db') \<Longrightarrow> only_replies js"
  by (auto simp: executePolicyExcludedPublicActivity_def elim!: respond_jobs split: if_splits prod.splits sum.splits)

text \<open>
  C8: an activity is fanned out only for an origin the relay permits. Whatever arrives at the inbox
  and whatever the network does, every fan-out that handling it starts has a non-empty origin domain
  that is neither blocked nor limited; this holds for activities sent directly, for embedded
  announces, and for the originals that an announce refers to.
\<close>
theorem fanout_only_for_permitted_origin:
  assumes "process_activity A ids stamp fetch act actr body st db = (r, js, ms, st', db')"
    and "j \<in> set js" and "fanout_origin j = Some d"
  shows "d \<noteq> [] \<and> \<not> IsBlocked st d \<and> \<not> IsLimited st d"
proof -
  have "fanout_ok st js"
    using assms(1)
    by (auto simp: process_activity_def nothing_done_def Let_def split: if_splits
        intro: inbox_public_ok inbox_litepub_ok only_replies_ok executePolicyExcluded_replies dest: reply_handlers)
  with assms(2,3) show ?thesis
    by (auto simp: fanout_ok_def list_all_iff permitted_def)
qed


section \<open>The relay state\<close>

text \<open>Every change of the relay state by the inbox is one of its operations.\<close>

definition state_step :: "'db redis \<Rightarrow> relay_state \<Rightarrow> relay_state \<Rightarrow> bool" where
  "state_step R st st' \<longleftrightarrow> st' = st \<or> (\<exists>op db db'. run_op R op st db = (st', db'))"

lemma state_stepI: "run_op R op st db = (st', db') \<Longrightarrow> state_step R st st'"
  by (auto simp: state_step_def)

lemma state_step_refl [simp]: "state_step R st st"
  by (simp add: state_step_def)

lemma checked_steps:
  "RecordPublisherActivity R c p st db = (r, st', db') \<Longrightarrow> state_step R st st'"
  "AddFollowerChecked R f st db = (r, st', db') \<Longrightarrow> state_step R st st'"
  "UpdateFollowerStatusChecked R d m st db = (r, st', db') \<Longrightarrow> state_step R st st'"
  "AddSubscriber R s st db = (st', db') \<Longrightarrow> state_step R st st'"
  "DelSubscriber R d st db = (st', db') \<Longrightarrow> state_step R st st'"
  "DelFollower R d st db = (st', db') \<Longrightarrow> state_step R st st'"
  using state_stepI [of R "OpRecordPublisher c p" st db st' db'] state_stepI [of R "OpAddFollower f" st db st' db']
    state_stepI [of R "OpUpdateFollower d m" st db st' db'] state_stepI [of R "OpAddSubscriber s" st db st' db']
    state_stepI [of R "OpDelSubscriber d" st db st' db'] state_stepI [of R "OpDelFollower d" st db st' db']
  by (simp_all add: AddFollower_def UpdateFollowerStatus_def)

lemma recordPublisherActivity_step:
  "recordPublisherActivity A stamp act actr st db = (r, st', db') \<Longrightarrow> state_step (a_redis A) st st'"
  by (auto simp: recordPublisherActivity_def Let_def split: if_splits dest: checked_steps)

lemma follow_steps:
  "executeFollowing A ids act actr st db = (r, js, ms, st', db') \<Longrightarrow> state_step (a_redis A) st st'"
  "executeUnfollowing A act actr st db = (r, js, ms, st', db') \<Longrightarrow> state_step (a_redis A) st st'"
  "finalizeMutuallyFollow A act actr t st db = (r', js, ms, st', db') \<Longrightarrow> state_step (a_redis A) st st'"
  by (auto simp: executeFollowing_def follow_public_def follow_relay_def executeUnfollowing_def
      finalizeMutuallyFollow_def Let_def
      split: if_splits option.splits prod.splits sum.splits dest: checked_steps)

lemma relay_steps:
  "executeRelayActivity A ids stamp act actr body st db = (r, js, ms, st', db') \<Longrightarrow> state_step (a_redis A) st st'"
  "executeEmbeddedAnnounceActivity A ids stamp act actr st db = (r, js, ms, st', db') \<Longrightarrow> state_step (a_redis A) st st'"
  "executeAnnounceActivity A ids stamp act actr source st db = (r, js, ms, st', db') \<Longrightarrow> state_step (a_redis A) st st'"
  "executePolicyExcludedPublicActivity A stamp act actr st db = (r, js, ms, st', db') \<Longrightarrow> state_step (a_redis A) st st'"
  by (auto simp: executeRelayActivity_def executeEmbeddedAnnounceActivity_def executeAnnounceActivity_def
      executePolicyExcludedPublicActivity_def Let_def split: if_splits sum.splits prod.splits dest: recordPublisherActivity_step)

lemma process_activity_step:
  "process_activity A ids stamp fetch act actr body st db = (r, js, ms, st', db') \<Longrightarrow> state_step (a_redis A) st st'"
  by (auto simp: process_activity_def inbox_public_def inbox_litepub_def inbox_follow_def inbox_undo_def inbox_answer_def
      inbox_announce_def executePublicAnnounce_def nothing_done_def Let_def
      split: if_splits sum.splits prod.splits exec.splits json.splits elim!: respond_jobs
      dest: relay_steps recordPublisherActivity_step follow_steps)


section \<open>Instances\<close>

definition sample_api :: "(unit, mem) api" where
  "sample_api = \<lparr>a_redis = mem_redis, a_broker = mem_broker, a_signer = None, a_max_jobs = 100, a_max_targets = 100,
     a_actor = NewActivityPubActorFromRelayConfig ''https://relay.example'' ''Relay'' [] ''pem'' None None,
     a_policy = None, a_metrics = True, a_sha = id, a_print = (\<lambda>_. ''{}''), a_parse = (\<lambda>_. None)\<rparr>"

definition sample_actor :: "string \<Rightarrow> string option \<Rightarrow> actor" where
  "sample_actor i shared = zero_actor\<lparr>ac_id := i, ac_type := ''Application'', ac_inbox := i @ ''/inbox'', ac_shared_inbox := shared\<rparr>"

definition sample_activity :: "string \<Rightarrow> string \<Rightarrow> string \<Rightarrow> string list \<Rightarrow> string list \<Rightarrow> activity" where
  "sample_activity actr typ ob to cc = zero_activity\<lparr>av_id := actr @ ''/1'', av_actor := actr, av_type := typ,
     av_object := JStr ob, av_to := to, av_cc := cc\<rparr>"

abbreviation no_fetch :: "string \<Rightarrow> mem \<Rightarrow> (activity \<times> actor) result \<times> mem" where
  "no_fetch \<equiv> \<lambda>_ d. (Inl ''not found'', d)"

abbreviation fresh_ids :: "nat \<Rightarrow> string" where "fresh_ids \<equiv> show_nat"

theorem fanout_only_for_permitted_origin_witness:
  "\<exists>r js ms st' db' j. process_activity sample_api fresh_ids ''now'' no_fetch
      (sample_activity ''https://a.example/u'' ''Create'' ''https://a.example/n/1'' [activityStreamsPublicAddress] [])
      (sample_actor ''https://a.example/u'' None) ''{}'' (empty_state True) no_data = (r, js, ms, st', db')
    \<and> j \<in> set js \<and> fanout_origin j = Some ''a.example'' \<and> \<not> IsBlocked (empty_state True) ''a.example''"
proof -
  let ?run = "process_activity sample_api fresh_ids ''now'' no_fetch
      (sample_activity ''https://a.example/u'' ''Create'' ''https://a.example/n/1'' [activityStreamsPublicAddress] [])
      (sample_actor ''https://a.example/u'' None) ''{}'' (empty_state True) no_data"
  obtain r js ms st' db' where run: "?run = (r, js, ms, st', db')" by (rule prod_cases5)
  have "map fanout_origin (fst (snd ?run)) = [Some ''a.example'']" by code_simp
  then obtain j where j: "j \<in> set js" "fanout_origin j = Some ''a.example''" unfolding run by auto
  from fanout_only_for_permitted_origin [OF run j] run j show ?thesis by blast
qed



section \<open>Unusual followers and domains\<close>



context redis_server
begin

lemma del_command_other: "k \<noteq> key \<Longrightarrow> r_hash R (snd (del_command R key db)) k = r_hash R db k"
proof -
  assume k: "k \<noteq> key"
  obtain x d where run: "call R ''del'' (\<lambda>d. ((), r_del R key d)) db = (x, d)" by fastforce
  then have "r_hash R d k = r_hash R db k" by (cases rule: call_cases) (use k in auto)
  with run show ?thesis by (simp add: del_command_def)
qed

lemma DelFollower_other:
  assumes "DelFollower R domain st db = (st', db')" and "d \<noteq> domain"
  shows "r_hash R db' (follower_prefix @ d) = r_hash R db (follower_prefix @ d)"
proof -
  let ?db1 = "snd (del_command R (follower_prefix @ domain) db)"
  let ?db2 = "snd (del_command R (pending_prefix @ domain) ?db1)"
  have "refresh R st ?db2 = (st', db')" using assms(1) by (simp only: DelFollower_def)
  then have "r_hash R db' = r_hash R ?db2" by (rule refresh_frame)
  moreover have "r_hash R ?db2 (follower_prefix @ d) = r_hash R ?db1 (follower_prefix @ d)"
    by (rule del_command_other) simp
  moreover have "r_hash R ?db1 (follower_prefix @ d) = r_hash R db (follower_prefix @ d)"
    by (rule del_command_other) (use assms(2) in simp)
  ultimately show ?thesis by (simp only:)
qed

end

text \<open>
  a follower is stored under its normalised domain but removed under the host as the actor id
  spells it. When the two differ (capital letters, a trailing dot), an Undo is answered as accepted
  while the stored follower stays, so it keeps receiving the fan-out.
\<close>
theorem unfollow_keeps_unnormalised_follower:
  assumes "redis_server (a_redis A)" and "url_parse (ac_id actr) = Some u"
    and "normalizeStateDomain (u_host u) \<noteq> u_host u"
    and "av_object act = JStr (ac_id (a_actor A))" and "ac_id (a_actor A) \<noteq> activityStreamsPublicAddress"
    and "isActorAbleToBeFollower actr"
    and "executeUnfollowing A act actr st db = (r, js, ms, st', db')"
  shows "r = Returns (Inr ())
    \<and> r_hash (a_redis A) db' (follower_prefix @ normalizeStateDomain (u_host u))
      = r_hash (a_redis A) db (follower_prefix @ normalizeStateDomain (u_host u))"
proof -
  from assms(2,4-7) have r: "r = Returns (Inr ())" and del: "DelFollower (a_redis A) (u_host u) st db = (st', db')"
    by (auto simp: executeUnfollowing_def contains_def Let_def split: prod.splits)
  from redis_server.DelFollower_other [OF assms(1) del assms(3)] r show ?thesis by (simp only:)
qed

theorem unfollow_keeps_unnormalised_follower_witness:
  "\<exists>js1 ms1 st1 db1 js2 ms2 st2 db2.
    executeFollowing sample_api fresh_ids
      (sample_activity ''https://A.example/actor'' ''Follow'' ''https://relay.example/actor'' [] [])
      (sample_actor ''https://A.example/actor'' None) (empty_state True) no_data = (Returns (Inr ()), js1, ms1, st1, db1)
    \<and> executeUnfollowing sample_api
      (sample_activity ''https://A.example/actor'' ''Follow'' ''https://relay.example/actor'' [] [])
      (sample_actor ''https://A.example/actor'' None) st1 db1 = (Returns (Inr ()), js2, ms2, st2, db2)
    \<and> r_hash mem_redis db2 (follower_prefix @ ''a.example'') ''actor_id'' = Some ''https://A.example/actor''"
proof -
  let ?act = "sample_activity ''https://A.example/actor'' ''Follow'' ''https://relay.example/actor'' [] []"
  let ?actr = "sample_actor ''https://A.example/actor'' None"
  let ?run = "executeFollowing sample_api fresh_ids ?act ?actr (empty_state True) no_data"
  obtain r1 js1 ms1 st1 db1 where one: "?run = (r1, js1, ms1, st1, db1)" by (rule prod_cases5)
  have "fst ?run = Returns (Inr ())" by code_simp
  then have r1: "r1 = Returns (Inr ())" unfolding one by simp
  have "r_hash mem_redis (snd (snd (snd (snd ?run)))) (follower_prefix @ ''a.example'') ''actor_id''
      = Some ''https://A.example/actor''" by code_simp
  then have db1: "r_hash mem_redis db1 (follower_prefix @ ''a.example'') ''actor_id'' = Some ''https://A.example/actor''"
    unfolding one by (simp only: snd_conv)
  have "map_option u_host (url_parse ''https://A.example/actor'') = Some ''A.example''" by code_simp
  then obtain u where u: "url_parse ''https://A.example/actor'' = Some u" "u_host u = ''A.example''" by auto
  have norm: "normalizeStateDomain ''A.example'' = ''a.example''" by code_simp
  have able: "isActorAbleToBeFollower ?actr" by code_simp
  obtain r2 js2 ms2 st2 db2 where two: "executeUnfollowing sample_api ?act ?actr st1 db1 = (r2, js2, ms2, st2, db2)"
    by (rule prod_cases5)
  have "r2 = Returns (Inr ()) \<and> r_hash mem_redis db2 (follower_prefix @ normalizeStateDomain (u_host u))
      = r_hash mem_redis db1 (follower_prefix @ normalizeStateDomain (u_host u))"
    using unfollow_keeps_unnormalised_follower [of sample_api ?actr u ?act st1 db1, OF _ _ _ _ _ able two]
    by (simp add: sample_api_def mem.redis_server_axioms sample_actor_def sample_activity_def u norm
        NewActivityPubActorFromRelayConfig_def)
  then have "r2 = Returns (Inr ())" "r_hash mem_redis db2 (follower_prefix @ ''a.example'') ''actor_id'' = Some ''https://A.example/actor''"
    using db1 unfolding u norm by (simp_all only:)
  with one two r1 show ?thesis by (intro exI conjI) (simp_all only:)
qed

text \<open>
  a domain blocked in any other spelling than lower case is not blocked at all: look-ups use the
  lower-case domain of the actor, and an entry with a capital letter equals none of them. Adding one
  to the blocked (or limited) domains changes no decision.
\<close>
theorem upper_case_block_has_no_effect:
  assumes "to_lower d \<noteq> d"
  shows "isActorBlocked (st\<lparr>blockedDomains := insert d (blockedDomains st)\<rparr>) u = isActorBlocked st u
    \<and> isActorLimited (st\<lparr>limitedDomains := insert d (limitedDomains st)\<rparr>) u = isActorLimited st u"
proof -
  have "to_lower (normalizedActorDomain u) = normalizedActorDomain u"
    by (simp add: normalizedActorDomain_def split: option.split)
  with assms have "normalizedActorDomain u \<noteq> d" by metis
  then show ?thesis by (simp add: isActorBlocked_def isActorLimited_def IsBlocked_def IsLimited_def)
qed

theorem upper_case_block_has_no_effect_witness:
  "\<not> isActorBlocked ((empty_state True)\<lparr>blockedDomains := {''Bad.example''}\<rparr>) (url_parse ''https://Bad.example/u'')"
proof -
  have "to_lower ''Bad.example'' \<noteq> ''Bad.example''" by code_simp
  from upper_case_block_has_no_effect [OF this, of "empty_state True" "url_parse ''https://Bad.example/u''"]
  show ?thesis by (simp add: isActorBlocked_def IsBlocked_def empty_state_def)
qed

end
