(* ===== verification/Announce_Facts.thy ===== *)
theory Announce_Facts
  imports Inbox_Facts
begin

text \<open>Relaying an announced original: the composition of the announce handler with the loop guard.\<close>

lemma announce_job:
  assumes "executeAnnounceActivity A ids stamp act actr source st db = (r, js, ms, st', db')" and "js \<noteq> []"
  shows "\<exists>res ms1 db1 x. reserveCanonicalRelayActivity (a_redis A) (a_sha A) (ids 0) (av_id act) db = (Inr (res, True), ms1, db1)
    \<and> recordPublisherActivity A stamp act actr st db1 = (x, st', db')"
  using assms by (auto simp: executeAnnounceActivity_def Let_def split: if_splits sum.splits prod.splits)

context redis_server
begin

lemma publisher_transaction_str:
  assumes "publisher_transaction R key seen p db = (r, db')"
  shows "r_str R db' = r_str R db"
proof -
  from assms have "db' = db \<or> (\<exists>f g. db' = snd (r_hincrby R key ''activity_count'' 1
      (r_hset R key f (if r_hash R db key ''first_seen'' = None then r_hset R key g db else db))))"
    by (auto simp: publisher_transaction_def Let_def split: if_splits prod.splits option.splits)
       (metis snd_conv)+
  then show ?thesis by auto
qed

lemma RecordPublisherActivity_str:
  assumes "RecordPublisherActivity R c p st db = (r, st', db')"
  shows "r_str R db' = r_str R db"
proof -
  let ?key = "publisher_prefix @ normalizeStateDomain (pub_domain p)"
  let ?seen = "if pub_last_seen p = [] then c else pub_last_seen p"
  have tx: "r_str R d' = r_str R d" if "command R ''exec'' (publisher_transaction R ?key ?seen p) d = (x, d')" for d x d'
    using that by (cases rule: command_cases) (auto dest: publisher_transaction_str)
  have rd: "r_str R d' = r_str R d"
    if "command R ''hget'' (on_hash R ?key (\<lambda>d. (r_hash R d ?key ''first_seen'', d))) d = (x, d')" for d x d'
    using that by (cases rule: command_cases) (auto simp: on_hash_def split: if_splits)
  show ?thesis
  proof (cases "normalizeStateDomain (pub_domain p) = []")
    case True
    with assms show ?thesis by (simp add: RecordPublisherActivity_def)
  next
    case False
    obtain a db1 where a: "command R ''exec'' (publisher_transaction R ?key ?seen p) db = (a, db1)" by fastforce
    obtain b db2 where b: "command R ''hget'' (on_hash R ?key (\<lambda>d. (r_hash R d ?key ''first_seen'', d))) db1 = (b, db2)"
      by fastforce
    have "db' = db1 \<or> db' = db2"
      using assms False a b
      by (auto simp: RecordPublisherActivity_def then_io_def Let_def simp del: append.simps
          split: sum.splits prod.splits option.splits)
    then show ?thesis using tx [OF a] rd [OF b] by auto
  qed
qed

lemma recordPublisherActivity_str:
  "a_redis A = R \<Longrightarrow> recordPublisherActivity A stamp act actr st db = (r, st', db') \<Longrightarrow> r_str R db' = r_str R db"
  using RecordPublisherActivity_str [of stamp _ st db r st' db']
  by (auto simp: recordPublisherActivity_def Let_def split: if_splits)

lemma announce_holds_reservation:
  assumes "a_redis A = R" and "executeAnnounceActivity A ids stamp act actr source st db = (r, js, ms, st', db')" and "js \<noteq> []"
  shows "r_str R db' (canonicalRelayKey (a_sha A) (av_id act)) = Some (ids 0)"
    and "r_str R db (canonicalRelayKey (a_sha A) (av_id act)) = None"
proof -
  from announce_job [OF assms(2,3)] obtain res ms1 db1 x where
    res: "reserveCanonicalRelayActivity R (a_sha A) (ids 0) (av_id act) db = (Inr (res, True), ms1, db1)"
    and "recordPublisherActivity A stamp act actr st db1 = (x, st', db')"
    unfolding assms(1) by blast
  then show "r_str R db' (canonicalRelayKey (a_sha A) (av_id act)) = Some (ids 0)"
    using reserve_accepted(2) recordPublisherActivity_str [OF assms(1)] by metis
  show "r_str R db (canonicalRelayKey (a_sha A) (av_id act)) = None"
    using reserve_accepted(4) [OF res] by (simp add: exists_iff)
qed

end

text \<open>
  C13: an announced original is relayed once. After an announce started its fan-out, every further
  announce of the same original, from whichever relay and whoever its actor document names, starts
  none as long as the guard's entry is still stored; the entry is removed only by expiry or when the
  first fan-out reports failure.
\<close>
theorem announced_original_relayed_once:
  assumes "redis_server (a_redis A)"
    and "executeAnnounceActivity A ids stamp act actr source st db = (r, js, ms, st', db1)" and "js \<noteq> []"
    and "r_str (a_redis A) db2 (canonicalRelayKey (a_sha A) (av_id act)) = r_str (a_redis A) db1 (canonicalRelayKey (a_sha A) (av_id act))"
    and "av_id act' = av_id act"
    and "executeAnnounceActivity A ids' stamp' act' actr' source' st2 db2 = (r', js', ms', st2', db3)"
  shows "js' = []"
proof (rule ccontr)
  assume "js' \<noteq> []"
  from redis_server.announce_holds_reservation(2) [OF assms(1) refl assms(6) this]
    redis_server.announce_holds_reservation(1) [OF assms(1) refl assms(2,3)] assms(4,5)
  show False by simp
qed

theorem announced_original_relayed_once_witness:
  "\<exists>r js ms st1 db1 r' ms' st2 db2.
    executeAnnounceActivity sample_api fresh_ids ''now''
      (sample_activity ''https://a.example/u'' ''Create'' ''https://a.example/n/1'' [] []) (sample_actor ''https://a.example/u'' None)
      ''relay1.example'' (empty_state True) no_data = (r, js, ms, st1, db1) \<and> js \<noteq> []
    \<and> executeAnnounceActivity sample_api fresh_ids ''now''
      (sample_activity ''https://a.example/u'' ''Create'' ''https://a.example/n/1'' [] []) (sample_actor ''https://a.example/u'' None)
      ''relay2.example'' st1 db1 = (r', [], ms', st2, db2)"
proof -
  let ?act = "sample_activity ''https://a.example/u'' ''Create'' ''https://a.example/n/1'' [] []"
  let ?actr = "sample_actor ''https://a.example/u'' None"
  let ?run = "executeAnnounceActivity sample_api fresh_ids ''now'' ?act ?actr ''relay1.example'' (empty_state True) no_data"
  obtain r js ms st1 db1 where one: "?run = (r, js, ms, st1, db1)" by (rule prod_cases5)
  have "length (fst (snd ?run)) = 1" by code_simp
  then have js: "js \<noteq> []" unfolding one by auto
  obtain r' js' ms' st2 db2 where two:
    "executeAnnounceActivity sample_api fresh_ids ''now'' ?act ?actr ''relay2.example'' st1 db1 = (r', js', ms', st2, db2)"
    by (rule prod_cases5)
  have R: "redis_server (a_redis sample_api)" by (simp add: sample_api_def mem.redis_server_axioms)
  have "js' = []" by (rule announced_original_relayed_once [OF R one js refl refl two])
  with one two js show ?thesis by blast
qed

end
