(* ===== verification/Remote_Fetch.thy ===== *)
theory Remote_Fetch
  imports Accept_Signature Activity
begin

text \<open>
  Fetching remote documents, \<open>fetchRemoteJSON\<close> and its two callers in \<open>models/models.go\<close>.

  A signer of remote requests either executes the request itself (the configured signer, by
  \<open>DoGET\<close>) or only signs it. The HTTP client and the actor cache (go-cache) are parameters over the
  state \<open>'s\<close>; the cache holds untyped values, of which the code expects bytes. \<open>rm_parse\<close> is the JSON
  parser; \<open>rm_url_error\<close> and \<open>rm_json_error\<close> are the texts of the errors of \<open>net/url\<close> and \<open>encoding/json\<close>;
  \<open>rm_residue\<close> is what a failed decoding leaves in the struct. The headers \<open>Accept\<close> and \<open>User-Agent\<close> and
  the time-outs of the client are not modelled.
\<close>

definition maxRemoteJSONBytes :: int where "maxRemoteJSONBytes = 2 * 1024 * 1024"
definition maxRemoteErrorBodyBytes :: int where "maxRemoteErrorBodyBytes = 4096"

datatype cached = CachedBytes string | CachedOther

record 's actor_cache =
  ca_get :: "string \<Rightarrow> 's \<Rightarrow> cached option"
  ca_set :: "string \<Rightarrow> string \<Rightarrow> 's \<Rightarrow> 's"
  ca_delete :: "string \<Rightarrow> 's \<Rightarrow> 's"

datatype 's remote_signer =
    RemoteRequestExecutor "'s client_do \<Rightarrow> string \<Rightarrow> 's \<Rightarrow> get_response result \<times> 's"
  | PlainSigner "string \<Rightarrow> unit result"

record 's remote =
  rm_signer :: "'s remote_signer option"
  rm_client :: "'s client_do"
  rm_cache :: "'s actor_cache"
  rm_parse :: "string \<Rightarrow> json option"
  rm_url_error :: "string \<Rightarrow> string"
  rm_json_error :: "string \<Rightarrow> string"
  rm_residue :: "string \<Rightarrow> actor"

text \<open>\<open>io.ReadAll\<close> of an \<open>io.LimitReader\<close>.\<close>

definition read_limited :: "int \<Rightarrow> string \<Rightarrow> string option \<Rightarrow> string result" where
  "read_limited n body err =
     (if n \<le> int (length body) then Inr (take (nat n) body) else case err of Some e \<Rightarrow> Inl e | None \<Rightarrow> Inr body)"

definition unmarshal :: "'s remote \<Rightarrow> (json \<Rightarrow> 'a result) \<Rightarrow> string \<Rightarrow> 'a result" where
  "unmarshal M decode data = (case rm_parse M data of None \<Rightarrow> Inl (rm_json_error M data) | Some v \<Rightarrow> decode v)"

text \<open>The redirect check that signs a redirected request again.\<close>

definition plain_redirect_check :: "(string \<Rightarrow> unit result) \<Rightarrow> 's redirect_check" where
  "plain_redirect_check sign redirect via s =
     (if via \<ge> 10 then (Inl ''stopped after 10 redirects'', s)
      else case sign (g_url redirect) of
        Inl e \<Rightarrow> (Inl (''sign redirected remote request: '' @ e), s)
      | Inr _ \<Rightarrow> (Inr redirect, s))"

definition error_reply :: "get_response \<Rightarrow> string" where
  "error_reply resp =
     (case read_limited (maxRemoteErrorBodyBytes + 1) (gr_body resp) (gr_read_error resp) of
        Inl e \<Rightarrow> gr_status_line resp @ '': unable to read response body: '' @ e
      | Inr body \<Rightarrow>
          let truncated = maxRemoteErrorBodyBytes < int (length body);
              text = join '' '' (Prelude.fields (take (nat maxRemoteErrorBodyBytes) body));
              text = (if truncated \<and> text \<noteq> [] then text @ '' [truncated]'' else text)
          in if text \<noteq> [] then gr_status_line resp @ '': '' @ text else gr_status_line resp)"

definition fetchRemoteJSON ::
  "'s remote \<Rightarrow> (json \<Rightarrow> 'a result) \<Rightarrow> string \<Rightarrow> 's \<Rightarrow> (string \<times> 'a) result \<times> 's" where
  "fetchRemoteJSON M decode address s =
     (case url_parse address of
        None \<Rightarrow> (Inl (''create remote request: '' @ rm_url_error M address), s)
      | Some u \<Rightarrow>
          if u_scheme u \<noteq> ''http'' \<and> u_scheme u \<noteq> ''https''
          then (Inl (''unsupported remote URL scheme '' @ CHR 0x22 # u_scheme u @ [CHR 0x22]), s)
          else
            (case (case rm_signer M of
                None \<Rightarrow> (Inl ''remote request signer is not configured'', s)
              | Some (RemoteRequestExecutor doGET) \<Rightarrow> doGET (rm_client M) address s
              | Some (PlainSigner sign) \<Rightarrow>
                  (case sign address of
                     Inl e \<Rightarrow> (Inl (''sign remote request: '' @ e), s)
                   | Inr _ \<Rightarrow> rm_client M (plain_redirect_check sign)
                               \<lparr>g_url = address, g_profile = [], g_plan = None\<rparr> s)) of
               (Inl e, s1) \<Rightarrow> (Inl e, s1)
             | (Inr resp, s1) \<Rightarrow>
                 (if gr_status resp \<noteq> 200 then Inl (error_reply resp)
                  else case read_limited (maxRemoteJSONBytes + 1) (gr_body resp) (gr_read_error resp) of
                    Inl e \<Rightarrow> Inl (''read remote response: '' @ e)
                  | Inr data \<Rightarrow>
                      if maxRemoteJSONBytes < int (length data) then Inl ''remote JSON response exceeds 2 MiB limit''
                      else case unmarshal M decode data of Inl e \<Rightarrow> Inl e | Inr x \<Rightarrow> Inr (data, x), s1)))"

definition decode_actor_into :: "actor \<Rightarrow> json \<Rightarrow> actor result" where
  "decode_actor_into a = decode_struct actor_fields set_actor a"

text \<open>A cache hit that decodes; otherwise the entry is dropped and the document is fetched.\<close>

definition NewActivityPubActorFromRemoteActor :: "'s remote \<Rightarrow> string \<Rightarrow> 's \<Rightarrow> actor result \<times> 's" where
  "NewActivityPubActorFromRemoteActor M url s =
     (let C = rm_cache M;
          fetch = (\<lambda>into s1. case fetchRemoteJSON M (decode_actor_into into) url s1 of
             (Inl e, s2) \<Rightarrow> (Inl e, s2)
           | (Inr (data, a), s2) \<Rightarrow> (Inr a, ca_set C url data s2))
      in case ca_get C url s of
           Some (CachedBytes data) \<Rightarrow>
             (case unmarshal M decode_actor data of
                Inr a \<Rightarrow> (Inr a, s)
              | Inl _ \<Rightarrow> fetch (rm_residue M data) (ca_delete C url s))
         | Some CachedOther \<Rightarrow> fetch zero_actor (ca_delete C url s)
         | None \<Rightarrow> fetch zero_actor s)"

definition NewActivityPubActivityFromRemoteActivity :: "'s remote \<Rightarrow> string \<Rightarrow> 's \<Rightarrow> activity result \<times> 's" where
  "NewActivityPubActivityFromRemoteActivity M url s =
     (case fetchRemoteJSON M decode_activity url s of
        (Inl e, s1) \<Rightarrow> (Inl e, s1) | (Inr (_, a), s1) \<Rightarrow> (Inr a, s1))"

section \<open>The configured signer as executor\<close>

text \<open>
  \<open>DoGET\<close> never panics: planning fails first on a signer without a key. So as an executor it is a
  function to a result.
\<close>

lemma DoGET_total: "\<exists>r s'. DoGET sfv sign sg now wall prev client url s = Returns (r, s')"
proof (cases "\<exists>c. sg = Some c \<and> cs_signer c \<noteq> None")
  case True
  then obtain c where c: "sg = Some c" "cs_signer c \<noteq> None" by blast
  show ?thesis unfolding c(1) by (rule DoGET_returns [OF c(2)])
next
  case False
  then have "signer_plan sg sc d now wall s = (Inl ''configured outbound HTTP signer is not initialized'', s)" for sc d
    by (auto simp: signer_plan_def split: option.splits)
  then show ?thesis
    by (simp add: DoGET_def signPlannedGET_def split: option.splits)
qed

definition configured_executor ::
  "sfv_parser \<Rightarrow> ('k signer \<Rightarrow> string \<Rightarrow> profile \<Rightarrow> unit result) \<Rightarrow> ('k, 's) configured_signer option \<Rightarrow> time \<Rightarrow> time
    \<Rightarrow> 's remote_signer" where
  "configured_executor sfv sign sg now wall = RemoteRequestExecutor (\<lambda>client url s.
     case DoGET sfv sign sg now wall None (Some client) (Some url) s of
       Returns x \<Rightarrow> x | Panics \<Rightarrow> (Inl [], s))"

section \<open>The cache holds actor documents\<close>

text \<open>Whether an object decodes does not depend on the struct it is decoded into.\<close>

lemma map_result_isl [simp]: "isl (map_result f r) = isl r"
  by (simp add: map_result_def split: sum.split)

lemma into_string_isl: "isl (into_string v old) = (case v of JStr _ \<Rightarrow> False | JNull \<Rightarrow> False | _ \<Rightarrow> True)"
  by (simp add: into_string_def split: json.split)

lemma decode_members_isl:
  assumes "\<And>n v x y. isl (assign n v x) = isl (assign n v y)"
  shows "isl (decode_members names assign ms x) = isl (decode_members names assign ms y)"
proof (induction ms arbitrary: x y)
  case (Cons m ms)
  obtain k v where m: "m = (k, v)" by fastforce
  show ?case
  proof (cases "struct_field names k")
    case None
    then show ?thesis using Cons [of x y] by (simp add: m)
  next
    case (Some n)
    then show ?thesis using assms [of n v x y] Cons
      by (cases "assign n v x"; cases "assign n v y") (simp_all add: m)
  qed
qed simp

lemma decode_struct_isl:
  assumes "\<And>n v x y. isl (assign n v x) = isl (assign n v y)"
  shows "isl (decode_struct names assign x v) = isl (decode_struct names assign y v)"
  using decode_members_isl [OF assms] by (cases v) (simp_all add: decode_struct_def)

lemma set_public_key_isl: "isl (set_public_key n v x) = isl (set_public_key n v y)"
  by (simp add: set_public_key_def into_string_isl)

lemma into_pointer_isl: "isl (into_pointer n v x) = isl (into_pointer n v y)"
proof -
  have "isl (decode_struct [n] (\<lambda>_. into_string) a v) = isl (decode_struct [n] (\<lambda>_. into_string) b v)" for a b v
    by (rule decode_struct_isl) (simp add: into_string_isl)
  then show ?thesis by (cases v) (simp_all add: into_pointer_def)
qed

lemma set_actor_isl: "isl (set_actor n v x) = isl (set_actor n v y)"
proof -
  have key: "isl (decode_struct ns set_public_key a v) = isl (decode_struct ns set_public_key b v)" for ns a b
    by (rule decode_struct_isl [OF set_public_key_isl])
  show ?thesis
    unfolding set_actor_def
    by (simp only: map_result_isl if_distrib [of isl] into_string_isl sum.disc
        into_pointer_isl [of _ _ "ac_shared_inbox x" "ac_shared_inbox y"] into_pointer_isl [of _ _ "ac_icon x" "ac_icon y"]
        into_pointer_isl [of _ _ "ac_image x" "ac_image y"] key [of _ "ac_public_key x" "ac_public_key y"])
qed

lemma decode_actor_into_isl: "isl (decode_actor_into a v) = isl (decode_actor v)"
  unfolding decode_actor_into_def decode_actor_def by (rule decode_struct_isl [OF set_actor_isl])

text \<open>
  What the code relies on of the cache: a look-up finds what was stored last under the key, or
  nothing once it has expired.
\<close>

locale cache_laws =
  fixes C :: "'s actor_cache"
  assumes get_set: "ca_get C k (ca_set C k' v s) \<in> {if k = k' then Some (CachedBytes v) else ca_get C k s, None}"
    and get_delete: "ca_get C k (ca_delete C k' s) \<in> {ca_get C k s, None}"

definition actor_documents :: "'s remote \<Rightarrow> 's \<Rightarrow> bool" where
  "actor_documents M s \<longleftrightarrow> (\<forall>url c. ca_get (rm_cache M) url s = Some c \<longrightarrow>
     (\<exists>data a. c = CachedBytes data \<and> unmarshal M decode_actor data = Inr a))"

text \<open>A request over the network may let entries expire but stores none.\<close>

definition network_keeps_cache :: "'s remote \<Rightarrow> bool" where
  "network_keeps_cache M \<longleftrightarrow>
     (\<forall>chk req s k. ca_get (rm_cache M) k (snd (rm_client M chk req s)) \<in> {ca_get (rm_cache M) k s, None})
   \<and> (\<forall>f url s k. rm_signer M = Some (RemoteRequestExecutor f) \<longrightarrow>
        ca_get (rm_cache M) k (snd (f (rm_client M) url s)) \<in> {ca_get (rm_cache M) k s, None})"

lemma fetchRemoteJSON_Inr:
  assumes "fetchRemoteJSON M decode url s = (Inr (data, a), s')"
  shows "unmarshal M decode data = Inr a \<and> int (length data) \<le> maxRemoteJSONBytes"
  using assms by (auto simp: fetchRemoteJSON_def split: option.splits if_splits prod.splits sum.splits remote_signer.splits)

lemma fetchRemoteJSON_cache:
  assumes "network_keeps_cache M" and "fetchRemoteJSON M decode url s = (r, s')"
  shows "ca_get (rm_cache M) k s' \<in> {ca_get (rm_cache M) k s, None}"
proof -
  have "s' = s \<or> (\<exists>chk req. s' = snd (rm_client M chk req s))
      \<or> (\<exists>f. rm_signer M = Some (RemoteRequestExecutor f) \<and> s' = snd (f (rm_client M) url s))"
    using assms(2)
    by (auto simp: fetchRemoteJSON_def split: option.splits if_splits prod.splits sum.splits remote_signer.splits)
       (metis snd_conv)+
  moreover have "ca_get (rm_cache M) k (snd (rm_client M chk req s)) \<in> {ca_get (rm_cache M) k s, None}" for chk req
    using assms(1) unfolding network_keeps_cache_def by blast
  moreover have "ca_get (rm_cache M) k (snd (f (rm_client M) url s)) \<in> {ca_get (rm_cache M) k s, None}"
    if "rm_signer M = Some (RemoteRequestExecutor f)" for f
    using assms(1) that unfolding network_keeps_cache_def by blast
  ultimately show ?thesis by (elim disjE exE conjE) (simp, metis, metis)
qed

lemma unmarshal_into: "isl (unmarshal M (decode_actor_into a) data) = isl (unmarshal M decode_actor data)"
  by (simp add: unmarshal_def decode_actor_into_isl split: option.split)

context cache_laws
begin

lemma fetched_documents:
  assumes "rm_cache M = C" and "network_keeps_cache M" and "actor_documents M s"
    and "fetchRemoteJSON M (decode_actor_into a0) url s = (r, s1)"
  shows "actor_documents M s1 \<and> (\<forall>data a. r = Inr (data, a) \<longrightarrow> actor_documents M (ca_set C url data s1))"
proof -
  have keep: "ca_get C k s1 \<in> {ca_get C k s, None}" for k
    using fetchRemoteJSON_cache [OF assms(2,4), of k] assms(1) by simp
  then have docs: "actor_documents M s1"
    using assms(3) unfolding actor_documents_def assms(1) by (metis insertE singletonD option.distinct(1))
  have "actor_documents M (ca_set C url data s1)" if "r = Inr (data, a)" for data a
  proof -
    have "isl (unmarshal M decode_actor data) = False"
      using fetchRemoteJSON_Inr assms(4) that unmarshal_into [of M a0 data] by force
    then obtain b where "unmarshal M decode_actor data = Inr b" by (cases "unmarshal M decode_actor data") auto
    then show ?thesis
      using docs get_set [of _ url data s1] unfolding actor_documents_def assms(1)
      by (metis insertE singletonD option.distinct(1) option.inject)
  qed
  with docs show ?thesis by blast
qed

lemma actor_fetch_documents:
  assumes "rm_cache M = C" and "network_keeps_cache M" and "actor_documents M s"
    and "NewActivityPubActorFromRemoteActor M url s = (r, s')"
  shows "actor_documents M s'"
proof (cases "ca_get C url s")
  case None
  then show ?thesis
    using assms(4) fetched_documents [OF assms(1-3), of zero_actor url]
    by (auto simp: NewActivityPubActorFromRemoteActor_def assms(1) Let_def split: prod.splits sum.splits)
next
  case (Some c)
  then obtain data a where "c = CachedBytes data" "unmarshal M decode_actor data = Inr a"
    using assms(1,3) unfolding actor_documents_def by blast
  then show ?thesis using assms(1,3,4) Some by (simp add: NewActivityPubActorFromRemoteActor_def Let_def)
qed

end

text \<open>A reference cache, kept beside the rest of the state.\<close>

definition map_cache :: "((string \<Rightarrow> cached option) \<times> 's) actor_cache" where
  "map_cache = \<lparr>ca_get = (\<lambda>k s. fst s k), ca_set = (\<lambda>k v s. ((fst s)(k \<mapsto> CachedBytes v), snd s)),
     ca_delete = (\<lambda>k s. ((fst s)(k := None), snd s))\<rparr>"

interpretation map_cache: cache_laws map_cache
  by unfold_locales (simp_all add: map_cache_def)

text \<open>
  C36: the actor cache holds actor documents. If every cached value is a byte string that decodes to an
  actor, this is so again after an actor has been looked up, whether it was found, fetched or refused;
  and then the result does not depend on what a failed decoding would leave behind, so the branch
  that decodes a fetched document over the remains of a broken cache entry is never taken.
\<close>
theorem actor_cache_holds_actors:
  assumes "cache_laws (rm_cache M)" and "network_keeps_cache M" and "actor_documents M s"
    and "NewActivityPubActorFromRemoteActor M url s = (r, s')"
  shows "actor_documents M s' \<and> NewActivityPubActorFromRemoteActor (M\<lparr>rm_residue := f\<rparr>) url s = (r, s')"
proof
  show "actor_documents M s'" by (rule cache_laws.actor_fetch_documents [OF assms(1) refl assms(2-4)])
  have parse: "unmarshal (M\<lparr>rm_residue := f\<rparr>) d x = unmarshal M d x" for d :: "json \<Rightarrow> actor result" and x
    by (cases M, hypsubst, unfold unmarshal_def remote.select_convs remote.update_convs, rule refl)
  have fetch: "fetchRemoteJSON (M\<lparr>rm_residue := f\<rparr>) d u t = fetchRemoteJSON M d u t" for d :: "json \<Rightarrow> actor result" and u t
    by (cases M, hypsubst, unfold fetchRemoteJSON_def unmarshal_def remote.select_convs remote.update_convs, rule refl)
  show "NewActivityPubActorFromRemoteActor (M\<lparr>rm_residue := f\<rparr>) url s = (r, s')"
  proof (cases "ca_get (rm_cache M) url s")
    case None
    with assms(4) show ?thesis by (simp add: NewActivityPubActorFromRemoteActor_def fetch Let_def)
  next
    case (Some c)
    then obtain data a where hit: "ca_get (rm_cache M) url s = Some (CachedBytes data)" "unmarshal M decode_actor data = Inr a"
      using assms(3) unfolding actor_documents_def by blast
    then have "(r, s') = (Inr a, s)" using assms(4) by (simp add: NewActivityPubActorFromRemoteActor_def)
    then show ?thesis using hit by (simp add: NewActivityPubActorFromRemoteActor_def parse)
  qed
qed

text \<open>An instance: a server with one actor document, and a parser that knows its text.\<close>

definition sample_remote :: "((string \<Rightarrow> cached option) \<times> unit) remote" where
  "sample_remote = \<lparr>rm_signer = Some (PlainSigner (\<lambda>_. Inr ())),
     rm_client = (\<lambda>chk req s. (Inr \<lparr>gr_request = req, gr_status = 200, gr_header = (\<lambda>_. []), gr_status_line = ''200 OK'',
       gr_body = ''actor'', gr_read_error = None\<rparr>, s)),
     rm_cache = map_cache,
     rm_parse = (\<lambda>t. if t = ''actor'' then Some (JObj [(''id'', JStr ''https://a.example/actor'')]) else None),
     rm_url_error = (\<lambda>_. []), rm_json_error = (\<lambda>_. ''invalid character''), rm_residue = (\<lambda>_. zero_actor)\<rparr>"

theorem actor_cache_holds_actors_witness:
  "\<exists>r s'. NewActivityPubActorFromRemoteActor sample_remote ''https://a.example/actor'' (\<lambda>_. None, ()) = (r, s')
   \<and> actor_documents sample_remote s' \<and> map_option (\<lambda>_. ()) (fst s' ''https://a.example/actor'') = Some ()"
proof -
  let ?run = "NewActivityPubActorFromRemoteActor sample_remote ''https://a.example/actor'' (\<lambda>_. None, ())"
  obtain r s' where run: "?run = (r, s')" by (cases ?run)
  have laws: "cache_laws (rm_cache sample_remote)" by (simp add: sample_remote_def map_cache.cache_laws_axioms)
  have net: "network_keeps_cache sample_remote" by (simp add: network_keeps_cache_def sample_remote_def)
  have start: "actor_documents sample_remote (\<lambda>_. None, ())" by (simp add: actor_documents_def sample_remote_def map_cache_def)
  have "map_option u_scheme (url_parse ''https://a.example/actor'') = Some ''https''" by code_simp
  then obtain u where u: "url_parse ''https://a.example/actor'' = Some u" "u_scheme u = ''https''" by auto
  have "is_ok (unmarshal sample_remote (decode_actor_into zero_actor) ''actor'')" by code_simp
  then obtain a where a: "unmarshal sample_remote (decode_actor_into zero_actor) ''actor'' = Inr a" by (auto simp: is_ok_iff)
  have "fst (snd ?run) ''https://a.example/actor'' = Some (CachedBytes ''actor'')"
    by (simp add: NewActivityPubActorFromRemoteActor_def fetchRemoteJSON_def u)
       (simp add: sample_remote_def [THEN arg_cong, of rm_cache] sample_remote_def [THEN arg_cong, of rm_client]
         sample_remote_def [THEN arg_cong, of rm_signer] map_cache_def read_limited_def maxRemoteJSONBytes_def a)
  with actor_cache_holds_actors [OF laws net start run, of "\<lambda>_. zero_actor"] run show ?thesis by simp
qed

end
