(* ===== verification/RFC9421_Signature.thy ===== *)
theory RFC9421_Signature
  imports Accept_Signature Redis_Interface
begin

text \<open>
  Signatures on HTTP messages: the primitive signer (\<open>internal/httpsignature/signer.go\<close> and
  \<open>rfc9421.go\<close>), the inbound verifier (\<open>rfc9421_verify.go\<close>) and the store of used nonces
  (\<open>redis_nonce_store.go\<close>).

  The signature libraries (common-fate/httpsig, go-fed/httpsig, httpsfv) are a parameter: a record
  \<open>sig_library\<close> with one field per call the code makes of them. \<open>'k\<close> and \<open>'p\<close> are the types of private and
  public RSA keys. SHA-256 is an argument \<open>sum256\<close> from bytes to bytes; nothing proved here depends
  on more than that it is a function. Header names are canonical; a nil request is \<^const>\<open>None\<close>.
  The quoting of \<^verbatim>\<open>%q\<close> in error texts is exact for printable ASCII.
\<close>

section \<open>Requests and headers\<close>

record http_request =
  hq_method :: string
  hq_host :: string
  hq_url :: "url option"
  hq_header :: header
  hq_body :: string

definition header_get :: "header \<Rightarrow> string \<Rightarrow> string" where
  "header_get h k = (case h k of [] \<Rightarrow> [] | v # _ \<Rightarrow> v)"

definition header_set :: "string \<Rightarrow> string \<Rightarrow> header \<Rightarrow> header" where
  "header_set k v h = h(k := [v])"

definition header_del :: "string \<Rightarrow> header \<Rightarrow> header" where
  "header_del k h = h(k := [])"

definition go_quote :: "string \<Rightarrow> string" where
  "go_quote s = CHR 0x22 # concat (map (\<lambda>c. if c = CHR 0x22 \<or> c = CHR 0x5C then [CHR 0x5C, c] else [c]) s) @ [CHR 0x22]"

definition lower_hex :: "nat \<Rightarrow> char" where
  "lower_hex d = char_of (if d < 10 then 48 + d else 87 + d)"

definition hex_encode :: "string \<Rightarrow> string" where
  "hex_encode s = concat (map (\<lambda>c. [lower_hex (of_char c div 16), lower_hex (of_char c mod 16)]) s)"

text \<open>\<open>strings.ReplaceAll\<close>, which is what \<open>ReplaceAllString\<close> does for a pattern without operators.\<close>

function replace_all :: "string \<Rightarrow> string \<Rightarrow> string \<Rightarrow> string" where
  "replace_all pat new s =
     (if pat = [] then s
      else if has_prefix s pat then new @ replace_all pat new (drop (length pat) s)
      else case s of [] \<Rightarrow> [] | c # r \<Rightarrow> c # replace_all pat new r)"
  by pat_completeness auto
termination
  by (relation "measure (\<lambda>(pat, _, s). length s)") (auto simp: has_prefix_iff)

declare replace_all.simps [simp del]

record sig_message =
  sm_covered :: "string list"
  sm_key_id :: string
  sm_alg :: string
  sm_nonce :: string
  sm_created :: time
  sm_expires :: time
  sm_signature :: string

record ('k, 'p) sig_library =
  sl_dictionary :: sfv_parser
  sl_digest_field :: "string \<Rightarrow> string result"
  sl_unmarshal :: "http_request \<Rightarrow> (string \<times> sig_message) list result"
  sl_find :: "(string \<times> sig_message) list \<Rightarrow> string \<Rightarrow> sig_message result"
  sl_derive :: "sig_message \<Rightarrow> http_request \<Rightarrow> (string \<times> string) list result"
  sl_canonical :: "(string \<times> string) list \<Rightarrow> sig_message \<Rightarrow> string result"
  sl_verify :: "'p \<Rightarrow> string \<Rightarrow> string \<Rightarrow> unit result"
  sl_sign :: "'k \<Rightarrow> string \<Rightarrow> string \<Rightarrow> string list \<Rightarrow> http_request \<Rightarrow> sig_message result"
  sl_include :: "(string \<times> sig_message) list \<Rightarrow> http_request \<Rightarrow> http_request result"
  sl_sign_legacy :: "'k \<Rightarrow> string \<Rightarrow> string list \<Rightarrow> string option \<Rightarrow> http_request \<Rightarrow> http_request result"

section \<open>The legacy signer\<close>

text \<open>\<open>date\<close> is the HTTP date of the current time.\<close>

definition sign_legacy ::
  "('k, 'p) sig_library \<Rightarrow> string \<Rightarrow> 'k signer option \<Rightarrow> http_request option \<Rightarrow> string option \<Rightarrow> string list
    \<Rightarrow> http_request result" where
  "sign_legacy L date sg req body headers =
     (case sg of
        None \<Rightarrow> Inl ''HTTP signature signer is not initialized''
      | Some k \<Rightarrow>
        (case sg_private_key k of
           None \<Rightarrow> Inl ''HTTP signature signer is not initialized''
         | Some key \<Rightarrow>
             if trim_space (sg_key_id k) = [] then Inl ''HTTP signature signer is not initialized''
             else case req of
               None \<Rightarrow> Inl ''signed request has no URL host''
             | Some r \<Rightarrow>
               (case hq_url r of
                  None \<Rightarrow> Inl ''signed request has no URL host''
                | Some u \<Rightarrow>
                    if u_host u = [] then Inl ''signed request has no URL host''
                    else
                      let h = header_set ''Host'' (u_host u) (hq_header r);
                          h = (if header_get h ''Date'' = [] then header_set ''Date'' date h else h)
                      in case sl_sign_legacy L key (sg_key_id k) headers body (r\<lparr>hq_host := u_host u, hq_header := h\<rparr>) of
                           Inl e \<Rightarrow> Inl e
                         | Inr signed \<Rightarrow>
                             Inr (signed\<lparr>hq_header := header_set ''Signature''
                                (replace_all (''algorithm='' @ go_quote ''hs2019'') (''algorithm='' @ go_quote ''rsa-sha256'')
                                   (header_get (hq_header signed) ''Signature'')) (hq_header signed)\<rparr>))))"

definition SignGET ::
  "('k, 'p) sig_library \<Rightarrow> string \<Rightarrow> 'k signer option \<Rightarrow> http_request option \<Rightarrow> http_request result" where
  "SignGET L date sg req = sign_legacy L date sg req None [''(request-target)'', ''Host'', ''Date'']"

definition SignPOST ::
  "('k, 'p) sig_library \<Rightarrow> string \<Rightarrow> 'k signer option \<Rightarrow> http_request option \<Rightarrow> string \<Rightarrow> http_request result" where
  "SignPOST L date sg req body =
     sign_legacy L date sg req (Some body) [''(request-target)'', ''Host'', ''Date'', ''Digest'', ''Content-Type'']"

section \<open>The RFC 9421 signer\<close>

definition RFC9530ContentDigestSHA256 ::
  "('k, 'p) sig_library \<Rightarrow> (string \<Rightarrow> string) \<Rightarrow> string \<Rightarrow> string result" where
  "RFC9530ContentDigestSHA256 L sum256 body =
     (case sl_digest_field L (sum256 body) of
        Inl e \<Rightarrow> Inl (''marshal RFC 9530 Content-Digest: '' @ e) | Inr v \<Rightarrow> Inr v)"

definition VerifyRFC9530ContentDigestSHA256 ::
  "sfv_parser \<Rightarrow> (string \<Rightarrow> string) \<Rightarrow> string list \<Rightarrow> string \<Rightarrow> unit result" where
  "VerifyRFC9530ContentDigestSHA256 sfv sum256 vals body =
     (if vals = [] then Inl ''Content-Digest field is missing''
      else case sfv vals of
        Inl e \<Rightarrow> Inl (''parse Content-Digest structured field: '' @ e)
      | Inr dictionary \<Rightarrow>
          (case map_of dictionary ''sha-256'' of
             None \<Rightarrow> Inl ''Content-Digest has no sha-256 member''
           | Some (InnerList _ _) \<Rightarrow> Inl ''Content-Digest sha-256 member is not an item''
           | Some (Item it) \<Rightarrow>
               (case it_value it of
                  VBytes presented \<Rightarrow>
                    if presented \<noteq> sum256 body
                    then Inl ''Content-Digest sha-256 value does not match message content''
                    else Inr ()
                | _ \<Rightarrow> Inl ''Content-Digest sha-256 member is not a byte sequence'')))"

definition signRFC9421 ::
  "('k, 'p) sig_library \<Rightarrow> (string \<Rightarrow> string) \<Rightarrow> string \<Rightarrow> 'k signer option \<Rightarrow> http_request option \<Rightarrow> string \<Rightarrow> bool
    \<Rightarrow> string list \<Rightarrow> http_request result" where
  "signRFC9421 L sum256 date sg req body includeContentDigest coveredComponents =
     (case sg of
        None \<Rightarrow> Inl ''HTTP signature signer is not initialized''
      | Some k \<Rightarrow>
        (case sg_private_key k of
           None \<Rightarrow> Inl ''HTTP signature signer is not initialized''
         | Some key \<Rightarrow>
             if trim_space (sg_key_id k) = [] then Inl ''HTTP signature signer is not initialized''
             else case req of
               None \<Rightarrow> Inl ''signed request has no URL host''
             | Some r \<Rightarrow>
               (case hq_url r of
                  None \<Rightarrow> Inl ''signed request has no URL host''
                | Some u \<Rightarrow>
                    if u_host u = [] then Inl ''signed request has no URL host''
                    else
                      let u' = u\<lparr>u_fragment := [], u_rawfragment := []\<rparr>;
                          h = header_set ''Host'' (u_host u) (hq_header r);
                          h = (if header_get h ''Date'' = [] then header_set ''Date'' date h else h);
                          h = header_del ''Digest'' (header_del ''Signature-Input'' (header_del ''Signature'' h));
                          r' = r\<lparr>hq_url := Some u', hq_host := u_host u, hq_header := h\<rparr>;
                          prepared =
                            (if includeContentDigest
                             then case RFC9530ContentDigestSHA256 L sum256 body of
                                    Inl e \<Rightarrow> Inl e
                                  | Inr digest \<Rightarrow> Inr (r'\<lparr>hq_header := header_set ''Content-Digest'' digest h, hq_body := body\<rparr>)
                             else Inr (r'\<lparr>hq_header := header_del ''Content-Digest'' h\<rparr>))
                      in case prepared of
                           Inl e \<Rightarrow> Inl e
                         | Inr p \<Rightarrow>
                             (case sl_sign L key (sg_key_id k) rfc9421SignatureTag coveredComponents p of
                                Inl e \<Rightarrow> Inl (''sign RFC 9421 request: '' @ e)
                              | Inr message \<Rightarrow>
                                  (case sl_include L [(rfc9421SignatureLabel, message)] p of
                                     Inl e \<Rightarrow> Inl (''include RFC 9421 signature fields: '' @ e)
                                   | Inr signed \<Rightarrow> Inr signed)))))"

definition Signer_SignGETWithProfile ::
  "('k, 'p) sig_library \<Rightarrow> (string \<Rightarrow> string) \<Rightarrow> string \<Rightarrow> 'k signer option \<Rightarrow> http_request option \<Rightarrow> profile
    \<Rightarrow> http_request result" where
  "Signer_SignGETWithProfile L sum256 date sg req prof =
     (case profile_validate prof of
        Inl e \<Rightarrow> Inl e
      | Inr _ \<Rightarrow>
          if prof = ProfileLegacy then SignGET L date sg req
          else if prof = ProfileRFC9421 then signRFC9421 L sum256 date sg req [] False rfc9421GETComponents
          else if prof = ProfileDual then Inl ErrDualProfileRequiresDeliveryPolicy
          else Inl (''unsupported HTTP signature profile '' @ go_quote prof))"

definition Signer_SignPOSTWithProfile ::
  "('k, 'p) sig_library \<Rightarrow> (string \<Rightarrow> string) \<Rightarrow> string \<Rightarrow> 'k signer option \<Rightarrow> http_request option \<Rightarrow> string \<Rightarrow> profile
    \<Rightarrow> http_request result" where
  "Signer_SignPOSTWithProfile L sum256 date sg req body prof =
     (case profile_validate prof of
        Inl e \<Rightarrow> Inl e
      | Inr _ \<Rightarrow>
          if prof = ProfileLegacy then SignPOST L date sg req body
          else if prof = ProfileRFC9421 then signRFC9421 L sum256 date sg req body True rfc9421POSTComponents
          else if prof = ProfileDual then Inl ErrDualProfileRequiresDeliveryPolicy
          else Inl (''unsupported HTTP signature profile '' @ go_quote prof))"

section \<open>The verifier\<close>

definition DefaultRFC9421MaximumAge :: duration where "DefaultRFC9421MaximumAge = 5 * minute"
definition DefaultRFC9421FutureSkew :: duration where "DefaultRFC9421FutureSkew = 30 * second"
definition DefaultRFC9421ReplayTTL :: duration where "DefaultRFC9421ReplayTTL = 10 * minute"
definition maxRFC9421NonceBytes :: nat where "maxRFC9421NonceBytes = 256"

text \<open>The one error that callers recognise by identity, and every other by its text.\<close>

datatype sig_error = ErrRFC9421Replay | SigError string

record 'p resolved_key =
  rk_key_id :: string
  rk_owner :: string
  rk_actor_id :: string
  rk_public_key :: "'p option"

text \<open>
  The two interfaces of the verifier. Both work on the state \<open>'s\<close> behind them; \<open>wrap64\<close> is the sum of
  two durations as 64-bit integers.
\<close>

type_synonym ('p, 's) key_resolver = "string \<Rightarrow> 's \<Rightarrow> 'p resolved_key result \<times> 's"
type_synonym 's nonce_store = "string \<Rightarrow> string \<Rightarrow> duration \<Rightarrow> 's \<Rightarrow> bool result \<times> 's"

record ('p, 's) verifier_options =
  vo_scheme :: string
  vo_authority :: string
  vo_key_resolver :: "('p, 's) key_resolver option"
  vo_nonce_store :: "'s nonce_store option"
  vo_maximum_age :: duration
  vo_future_skew :: duration
  vo_replay_ttl :: duration

record ('p, 's) rfc9421_verifier =
  rv_scheme :: string
  rv_authority :: string
  rv_key_resolver :: "('p, 's) key_resolver"
  rv_nonce_store :: "'s nonce_store"
  rv_maximum_age :: duration
  rv_future_skew :: duration
  rv_replay_ttl :: duration

record rfc9421_verification =
  vf_key_id :: string
  vf_key_owner :: string
  vf_key_actor :: string
  vf_nonce :: string
  vf_created :: time
  vf_expires :: time
  vf_covered :: "string list"
  vf_algorithm :: string

definition wrap64 :: "int \<Rightarrow> int" where
  "wrap64 i = (i + 2 ^ 63) mod 2 ^ 64 - 2 ^ 63"

definition NewRFC9421Verifier :: "('p, 's) verifier_options \<Rightarrow> ('p, 's) rfc9421_verifier result" where
  "NewRFC9421Verifier opts =
     (let scheme = to_lower (trim_space (vo_scheme opts)); authority = trim_space (vo_authority opts)
      in if scheme \<noteq> ''http'' \<and> scheme \<noteq> ''https''
         then Inl (''RFC 9421 verifier scheme '' @ go_quote scheme @ '' is unsupported'')
         else if authority = [] then Inl ''RFC 9421 verifier authority is empty''
         else case vo_key_resolver opts of
           None \<Rightarrow> Inl ''RFC 9421 key resolver is nil''
         | Some resolver \<Rightarrow>
           (case vo_nonce_store opts of
              None \<Rightarrow> Inl ''RFC 9421 nonce store is nil''
            | Some nonces \<Rightarrow>
                let maximumAge = (if vo_maximum_age opts = 0 then DefaultRFC9421MaximumAge else vo_maximum_age opts);
                    futureSkew = (if vo_future_skew opts = 0 then DefaultRFC9421FutureSkew else vo_future_skew opts);
                    replayTTL = (if vo_replay_ttl opts = 0 then DefaultRFC9421ReplayTTL else vo_replay_ttl opts)
                in if maximumAge < second then Inl ''RFC 9421 maximum age must be at least one second''
                   else if futureSkew < 0 then Inl ''RFC 9421 future skew cannot be negative''
                   else if replayTTL < wrap64 (maximumAge + futureSkew)
                   then Inl ''RFC 9421 replay TTL must cover maximum age and future skew''
                   else Inr \<lparr>rv_scheme = scheme, rv_authority = authority, rv_key_resolver = resolver,
                             rv_nonce_store = nonces, rv_maximum_age = maximumAge, rv_future_skew = futureSkew,
                             rv_replay_ttl = replayTTL\<rparr>))"

text \<open>The loop over the covered components; the result is what is left of the required ones.\<close>

fun check_covered :: "string list \<Rightarrow> string list \<Rightarrow> string list \<Rightarrow> string list result" where
  "check_covered [] seen required = Inr required"
| "check_covered (c # cs) seen required =
     (if c = [] then Inl ''RFC 9421 covered component is empty''
      else if c \<in> set seen then Inl (''RFC 9421 covered component '' @ go_quote c @ '' is duplicated'')
      else check_covered cs (c # seen) (removeAll c required))"

definition validateRFC9421POSTParameters ::
  "string list \<Rightarrow> string \<Rightarrow> string \<Rightarrow> string \<Rightarrow> time \<Rightarrow> time \<Rightarrow> time \<Rightarrow> duration \<Rightarrow> duration \<Rightarrow> unit result" where
  "validateRFC9421POSTParameters covered keyID algorithm nonce created expires now maximumAge futureSkew =
     (if trim_space keyID = [] then Inl ''RFC 9421 keyid parameter is required''
      else if algorithm \<noteq> rfc9421RSAAlgorithm
      then Inl (''RFC 9421 algorithm '' @ go_quote algorithm @ '' is not allowed'')
      else if nonce = [] then Inl ''RFC 9421 nonce parameter is required''
      else if maxRFC9421NonceBytes < length nonce then Inl ''RFC 9421 nonce exceeds 256 bytes''
      else if is_zero created then Inl ''RFC 9421 created parameter is required''
      else if created < now - maximumAge then Inl ''RFC 9421 signature is older than the allowed maximum age''
      else if now + futureSkew < created then Inl ''RFC 9421 signature was created too far in the future''
      else if \<not> is_zero expires \<and> expires < created then Inl ''RFC 9421 expires precedes created''
      else if \<not> is_zero expires \<and> expires < now then Inl ''RFC 9421 signature has expired''
      else case check_covered covered [] rfc9421POSTComponents of
        Inl e \<Rightarrow> Inl e
      | Inr required \<Rightarrow>
          (case filter (\<lambda>c. c \<in> set required) rfc9421POSTComponents of
             [] \<Rightarrow> Inr ()
           | c # _ \<Rightarrow> Inl (''RFC 9421 required covered component '' @ go_quote c @ '' is missing'')))"

definition cloneRFC9421Request :: "http_request \<Rightarrow> url \<Rightarrow> string \<Rightarrow> string \<Rightarrow> string \<Rightarrow> http_request" where
  "cloneRFC9421Request req u body scheme authority =
     req\<lparr>hq_url := Some (u\<lparr>u_scheme := scheme, u_host := authority\<rparr>), hq_host := authority, hq_body := body\<rparr>"

text \<open>The part of \<open>VerifyPOST\<close> after key resolution: the signature base, the signature, the nonce.\<close>

definition verify_message ::
  "('k, 'p) sig_library \<Rightarrow> ('p, 's) rfc9421_verifier \<Rightarrow> http_request \<Rightarrow> url \<Rightarrow> string \<Rightarrow> sig_message \<Rightarrow> 'p resolved_key \<Rightarrow> 's
    \<Rightarrow> (sig_error + rfc9421_verification) \<times> 's" where
  "verify_message L V req u body m resolved s =
     (if rk_key_id resolved \<noteq> sm_key_id m then (Inl (SigError ''resolved RFC 9421 key ID does not match keyid''), s)
      else case rk_public_key resolved of
        None \<Rightarrow> (Inl (SigError ''resolved RFC 9421 RSA public key is nil''), s)
      | Some key \<Rightarrow>
          (case sl_derive L m (cloneRFC9421Request req u body (rv_scheme V) (rv_authority V)) of
             Inl e \<Rightarrow> (Inl (SigError (''derive RFC 9421 signature base: '' @ e)), s)
           | Inr base \<Rightarrow>
             (case sl_canonical L base m of
                Inl e \<Rightarrow> (Inl (SigError (''serialize RFC 9421 signature base: '' @ e)), s)
              | Inr signingString \<Rightarrow>
                (case sl_verify L key signingString (sm_signature m) of
                   Inl e \<Rightarrow> (Inl (SigError (''verify RFC 9421 signature: '' @ e)), s)
                 | Inr _ \<Rightarrow>
                   (case rv_nonce_store V (sm_key_id m) (sm_nonce m) (rv_replay_ttl V) s of
                      (Inl e, s1) \<Rightarrow> (Inl (SigError (''reserve RFC 9421 nonce: '' @ e)), s1)
                    | (Inr reserved, s1) \<Rightarrow>
                        if \<not> reserved then (Inl ErrRFC9421Replay, s1)
                        else (Inr \<lparr>vf_key_id = sm_key_id m, vf_key_owner = rk_owner resolved,
                                   vf_key_actor = rk_actor_id resolved, vf_nonce = sm_nonce m,
                                   vf_created = sm_created m, vf_expires = sm_expires m,
                                   vf_covered = sm_covered m, vf_algorithm = sm_alg m\<rparr>, s1))))))"

definition VerifyPOST ::
  "('k, 'p) sig_library \<Rightarrow> (string \<Rightarrow> string) \<Rightarrow> ('p, 's) rfc9421_verifier option \<Rightarrow> time \<Rightarrow> http_request option \<Rightarrow> string \<Rightarrow> 's
    \<Rightarrow> (sig_error + rfc9421_verification) \<times> 's" where
  "VerifyPOST L sum256 verifier now req body s =
     (case verifier of
        None \<Rightarrow> (Inl (SigError ''RFC 9421 verifier is nil''), s)
      | Some V \<Rightarrow>
        (case req of
           None \<Rightarrow> (Inl (SigError ''RFC 9421 request or URL is nil''), s)
         | Some r \<Rightarrow>
           (case hq_url r of
              None \<Rightarrow> (Inl (SigError ''RFC 9421 request or URL is nil''), s)
            | Some u \<Rightarrow>
                if hq_method r \<noteq> ''POST''
                then (Inl (SigError (''RFC 9421 method '' @ go_quote (hq_method r) @ '' is not allowed for ActivityPub delivery'')), s)
                else
                  let wireAuthority = (if hq_host r = [] then u_host u else hq_host r)
                  in if wireAuthority \<noteq> rv_authority V
                     then (Inl (SigError (''RFC 9421 request authority '' @ go_quote wireAuthority
                             @ '' does not match expected '' @ go_quote (rv_authority V))), s)
                     else case sl_unmarshal L r of
                       Inl e \<Rightarrow> (Inl (SigError (''parse RFC 9421 signature fields: '' @ e)), s)
                     | Inr ms \<Rightarrow>
                       (case sl_find L ms rfc9421SignatureTag of
                          Inl e \<Rightarrow> (Inl (SigError (''find ActivityPub RFC 9421 signature: '' @ e)), s)
                        | Inr m \<Rightarrow>
                          (case validateRFC9421POSTParameters (sm_covered m) (sm_key_id m) (sm_alg m) (sm_nonce m)
                                  (sm_created m) (sm_expires m) now (rv_maximum_age V) (rv_future_skew V) of
                             Inl e \<Rightarrow> (Inl (SigError e), s)
                           | Inr _ \<Rightarrow>
                             (case VerifyRFC9530ContentDigestSHA256 (sl_dictionary L) sum256 (hq_header r ''Content-Digest'') body of
                                Inl e \<Rightarrow> (Inl (SigError e), s)
                              | Inr _ \<Rightarrow>
                                (case rv_key_resolver V (sm_key_id m) s of
                                   (Inl e, s1) \<Rightarrow> (Inl (SigError (''resolve RFC 9421 key: '' @ e)), s1)
                                 | (Inr resolved, s1) \<Rightarrow> verify_message L V r u body m resolved s1)))))))"

section \<open>Binding the verified identity\<close>

text \<open>\<open>perr\<close> is the text of the error of \<open>net/url\<close> for a text it does not parse.\<close>

definition canonicalRFC9421ActorIdentity :: "(string \<Rightarrow> string) \<Rightarrow> string \<Rightarrow> string result" where
  "canonicalRFC9421ActorIdentity perr v =
     (case url_parse_request_uri (trim_space v) of
        None \<Rightarrow> Inl (perr (trim_space v))
      | Some u \<Rightarrow>
          if u_scheme u = [] \<or> u_host u = [] then Inl ''actor identity URL is not absolute''
          else if u_user u \<noteq> None then Inl ''actor identity URL contains user information''
          else if u_fragment u \<noteq> [] then Inl ''actor identity URL contains a fragment''
          else Inr (url_string (u\<lparr>u_scheme := to_lower (u_scheme u), u_host := to_lower (u_host u)\<rparr>)))"

definition BindActivityActor :: "(string \<Rightarrow> string) \<Rightarrow> rfc9421_verification option \<Rightarrow> string \<Rightarrow> unit result" where
  "BindActivityActor perr verification activityActor =
     (case verification of
        None \<Rightarrow> Inl ''RFC 9421 verification result is nil''
      | Some v \<Rightarrow>
        (case canonicalRFC9421ActorIdentity perr activityActor of
           Inl e \<Rightarrow> Inl (''invalid activity actor identity: '' @ e)
         | Inr activityIdentity \<Rightarrow>
           (case canonicalRFC9421ActorIdentity perr (vf_key_owner v) of
              Inl e \<Rightarrow> Inl (''invalid public-key owner identity: '' @ e)
            | Inr ownerIdentity \<Rightarrow>
                if ownerIdentity \<noteq> activityIdentity
                then Inl ''RFC 9421 public-key owner does not match activity actor''
                else if trim_space (vf_key_actor v) = [] then Inr ()
                else case canonicalRFC9421ActorIdentity perr (vf_key_actor v) of
                  Inl e \<Rightarrow> Inl (''invalid resolved key actor identity: '' @ e)
                | Inr keyActorIdentity \<Rightarrow>
                    if keyActorIdentity \<noteq> activityIdentity
                    then Inl ''RFC 9421 resolved key actor does not match activity actor''
                    else Inr ())))"

section \<open>The nonce store\<close>

definition defaultRFC9421NoncePrefix :: string where
  "defaultRFC9421NoncePrefix = ''relay:http-signature:nonce:''"

definition NewRedisRFC9421NonceStore :: "'c option \<Rightarrow> string \<Rightarrow> ('c \<times> string) result" where
  "NewRedisRFC9421NonceStore client given =
     (case client of
        None \<Rightarrow> Inl ''RFC 9421 Redis nonce client is nil''
      | Some c \<Rightarrow> let pre = trim_space given in Inr (c, if pre = [] then defaultRFC9421NoncePrefix else pre))"

definition nonceKey :: "(string \<Rightarrow> string) \<Rightarrow> string \<Rightarrow> string \<Rightarrow> string \<Rightarrow> string" where
  "nonceKey sum256 pre keyID nonce = pre @ hex_encode (sum256 (keyID @ [char_of (0 :: nat)] @ nonce))"

text \<open>The client rounds a positive time to live below one millisecond up to one.\<close>

definition ttl_millis :: "duration \<Rightarrow> int" where
  "ttl_millis ttl = max 1 (ttl div millisecond)"

definition ReserveRFC9421Nonce :: "'db redis option \<Rightarrow> (string \<Rightarrow> string) \<Rightarrow> string \<Rightarrow> 'db nonce_store" where
  "ReserveRFC9421Nonce client sum256 pre keyID nonce ttl db =
     (case client of
        None \<Rightarrow> (Inl ''RFC 9421 Redis nonce store is not initialized'', db)
      | Some R \<Rightarrow>
          if trim_space keyID = [] then (Inl ''RFC 9421 nonce reservation key ID is empty'', db)
          else if nonce = [] then (Inl ''RFC 9421 nonce reservation nonce is empty'', db)
          else if ttl \<le> 0 then (Inl ''RFC 9421 nonce reservation TTL is not positive'', db)
          else call R ''setnx'' (r_setnx R (nonceKey sum256 pre keyID nonce) ''1'' (ttl_millis ttl)) db)"

end
