(* ===== verification/Decode.thy ===== *)
theory Decode
  imports Remote_Fetch RFC9421_Signature Inbox
begin

text \<open>
  Authentication of inbound activities: \<open>api/decode.go\<close>, \<open>api/rfc9421_inbound.go\<close>, the parsing of public
  keys in \<open>models/utils.go\<close>, and the classification of verification errors in
  \<open>api/operational_metrics.go\<close>.

  The globals of the package that decoding reads are the fields of a record \<open>inbound\<close>. The verifier of
  legacy signatures (go-fed/httpsig) is a parameter: from a request it yields a key id and a check
  against a public key. PEM and ASN.1 decoding are parameters of \<open>ReadPublicKeyRSAFromString\<close>.
\<close>

section \<open>Public keys and digests\<close>

datatype 'p pkix_key = PkixRSA 'p | PkixOther string

record 'p key_codec =
  kc_pem :: "string \<Rightarrow> string option"
  kc_pkix :: "string \<Rightarrow> 'p pkix_key result"
  kc_pkcs1 :: "string \<Rightarrow> 'p result"

definition ReadPublicKeyRSAFromString :: "'p key_codec \<Rightarrow> string \<Rightarrow> 'p result" where
  "ReadPublicKeyRSAFromString K pem =
     (case kc_pem K pem of
        None \<Rightarrow> Inl ''public key PEM is invalid''
      | Some der \<Rightarrow>
          (case kc_pkix K der of
             Inr (PkixRSA key) \<Rightarrow> Inr key
           | Inr (PkixOther t) \<Rightarrow> Inl (''public key is '' @ t @ '', not RSA'')
           | Inl pkixErr \<Rightarrow>
               (case kc_pkcs1 K der of
                  Inr key \<Rightarrow> Inr key
                | Inl pkcs1Err \<Rightarrow> Inl (''parse RSA public key: PKIX: '' @ pkixErr @ ''; PKCS#1: '' @ pkcs1Err))))"

definition base64_digit :: "nat \<Rightarrow> char" where
  "base64_digit n = char_of (if n < 26 then n + 65 else if n < 52 then n + 71 else if n < 62 then n - 4
     else if n = 62 then 43 else 47)"

fun base64_std :: "string \<Rightarrow> string" where
  "base64_std (a # b # c # s) =
     (let x = of_char a; y = of_char b; z = of_char c
      in [base64_digit (x div 4), base64_digit (x mod 4 * 16 + y div 16),
          base64_digit (y mod 16 * 4 + z div 64), base64_digit (z mod 64)] @ base64_std s)"
| "base64_std [a, b] =
     (let x = of_char a; y = of_char b
      in [base64_digit (x div 4), base64_digit (x mod 4 * 16 + y div 16), base64_digit (y mod 16 * 4), CHR ''=''])"
| "base64_std [a] = (let x = of_char a in [base64_digit (x div 4), base64_digit (x mod 4 * 16), CHR ''='', CHR ''=''])"
| "base64_std [] = []"

section \<open>Binding an activity to a key\<close>

definition normalizedRemoteHost :: "(string \<Rightarrow> string) \<Rightarrow> string \<Rightarrow> string result" where
  "normalizedRemoteHost perr address =
     (case url_parse address of
        None \<Rightarrow> Inl (perr address)
      | Some u \<Rightarrow>
          let host = to_lower (trim_suffix (hostname u) ''.'')
          in if host = [] then Inl ''remote URL has no host'' else Inr host)"

definition verifySignatureActorBinding :: "(string \<Rightarrow> string) \<Rightarrow> string \<Rightarrow> actor \<Rightarrow> string \<Rightarrow> unit result" where
  "verifySignatureActorBinding perr keyID keyOwner activityActor =
     (case normalizedRemoteHost perr activityActor of
        Inl e \<Rightarrow> Inl (''invalid activity actor: '' @ e)
      | Inr actorHost \<Rightarrow>
        (case normalizedRemoteHost perr keyID of
           Inl e \<Rightarrow> Inl (''invalid signature key ID: '' @ e)
         | Inr keyHost \<Rightarrow>
             if keyHost \<noteq> actorHost then Inl ''signature key host does not match activity actor host''
             else if ac_id keyOwner \<noteq> [] \<and> normalizedRemoteHost perr (ac_id keyOwner) \<noteq> Inr actorHost
             then Inl ''signature key owner does not match activity actor host''
             else if pk_owner (ac_public_key keyOwner) \<noteq> []
                  \<and> normalizedRemoteHost perr (pk_owner (ac_public_key keyOwner)) \<noteq> Inr actorHost
             then Inl ''public key owner does not match activity actor host''
             else Inr ()))"

definition verifyActivityActorDocument :: "(string \<Rightarrow> string) \<Rightarrow> string \<Rightarrow> actor \<Rightarrow> unit result" where
  "verifyActivityActorDocument perr activityActor remoteActor =
     (case normalizedRemoteHost perr activityActor of
        Inl e \<Rightarrow> Inl (''invalid activity actor: '' @ e)
      | Inr activityHost \<Rightarrow>
          if normalizedRemoteHost perr (ac_id remoteActor) \<noteq> Inr activityHost
          then Inl ''resolved actor document does not match activity actor host''
          else Inr ())"

section \<open>Decoding\<close>

record 'p legacy_verifier =
  lv_key_id :: string
  lv_verify :: "'p \<Rightarrow> unit result"

record ('k, 'p, 's) inbound =
  in_library :: "('k, 'p) sig_library"
  in_legacy :: "http_request \<Rightarrow> 'p legacy_verifier result"
  in_codec :: "'p key_codec"
  in_sum :: "string \<Rightarrow> string"
  in_verifier :: "('p, 's) rfc9421_verifier option"
  in_remote :: "'s remote"
  in_has_cache :: bool
  in_max_bytes :: int
  in_metrics :: bool

abbreviation inboundSignatureProfileLegacy :: string where "inboundSignatureProfileLegacy \<equiv> ''legacy''"
abbreviation inboundSignatureProfileRFC9421 :: string where "inboundSignatureProfileRFC9421 \<equiv> ''rfc9421''"

definition selectInboundSignatureProfile :: "http_request option \<Rightarrow> string" where
  "selectInboundSignatureProfile req =
     (case req of
        None \<Rightarrow> inboundSignatureProfileLegacy
      | Some r \<Rightarrow> if hq_header r ''Signature-Input'' \<noteq> [] then inboundSignatureProfileRFC9421 else inboundSignatureProfileLegacy)"

text \<open>
  The body of a request yields the bytes \<open>hq_body\<close> and then ends, or fails with an error; a nil body is
  \<^const>\<open>None\<close>.
\<close>

definition readInboundActivityBody :: "int \<Rightarrow> (string \<times> string option) option \<Rightarrow> string result" where
  "readInboundActivityBody maximum stream =
     (case stream of
        None \<Rightarrow> Inl ''activity request body is unavailable''
      | Some (bytes, err) \<Rightarrow>
          (case read_limited (wrap64 (maximum + 1)) bytes err of
             Inl e \<Rightarrow> Inl e
           | Inr body \<Rightarrow> if int (length body) > maximum then Inl ''activity body exceeds configured limit'' else Inr body))"

definition parseInboundActivity :: "'s remote \<Rightarrow> string \<Rightarrow> activity result" where
  "parseInboundActivity M body =
     (case unmarshal M decode_activity body of
        Inl e \<Rightarrow> Inl e
      | Inr act \<Rightarrow> if trim_space (av_actor act) = [] then Inl ''activity has no actor'' else Inr act)"

definition decodeRFC9421Activity ::
  "('k, 'p, 's) inbound \<Rightarrow> time \<Rightarrow> http_request option \<Rightarrow> string \<Rightarrow> 's \<Rightarrow> (sig_error + activity \<times> actor) \<times> 's" where
  "decodeRFC9421Activity D now req body s =
     (if in_verifier D = None then (Inl (SigError ''RFC 9421 inbound verifier is unavailable''), s)
      else let M = in_remote D; perr = rm_url_error M
      in case VerifyPOST (in_library D) (in_sum D) (in_verifier D) now req body s of
        (Inl e, s1) \<Rightarrow> (Inl e, s1)
      | (Inr verification, s1) \<Rightarrow>
          (case parseInboundActivity M body of
             Inl e \<Rightarrow> (Inl (SigError e), s1)
           | Inr act \<Rightarrow>
             (case BindActivityActor perr (Some verification) (av_actor act) of
                Inl e \<Rightarrow> (Inl (SigError e), s1)
              | Inr _ \<Rightarrow>
                (case NewActivityPubActorFromRemoteActor M (av_actor act) s1 of
                   (Inl e, s2) \<Rightarrow> (Inl (SigError e), s2)
                 | (Inr remoteActor, s2) \<Rightarrow>
                   (case BindActivityActor perr (Some verification) (ac_id remoteActor) of
                      Inl e \<Rightarrow> (Inl (SigError e), s2)
                    | Inr _ \<Rightarrow> (Inr (act, remoteActor), s2))))))"

text \<open>The last steps of \<open>decodeLegacyActivity\<close>, after the signature has been checked.\<close>

definition bind_legacy_activity ::
  "('k, 'p, 's) inbound \<Rightarrow> http_request \<Rightarrow> string \<Rightarrow> string \<Rightarrow> actor \<Rightarrow> 's \<Rightarrow> (sig_error + activity \<times> actor) \<times> 's" where
  "bind_legacy_activity D r body keyID keyOwner s =
     (let M = in_remote D; perr = rm_url_error M
      in if header_get (hq_header r) ''Digest'' \<noteq> ''SHA-256='' @ base64_std (in_sum D body)
         then (Inl (SigError ''digest header is mismatch''), s)
         else case parseInboundActivity M body of
           Inl e \<Rightarrow> (Inl (SigError e), s)
         | Inr act \<Rightarrow>
           (case verifySignatureActorBinding perr keyID keyOwner (av_actor act) of
              Inl e \<Rightarrow> (Inl (SigError e), s)
            | Inr _ \<Rightarrow>
              (case NewActivityPubActorFromRemoteActor M (av_actor act) s of
                 (Inl e, s1) \<Rightarrow> (Inl (SigError e), s1)
               | (Inr remoteActor, s1) \<Rightarrow>
                 (case verifyActivityActorDocument perr (av_actor act) remoteActor of
                    Inl e \<Rightarrow> (Inl (SigError e), s1)
                  | Inr _ \<Rightarrow> (Inr (act, remoteActor), s1)))))"

definition decodeLegacyActivity ::
  "('k, 'p, 's) inbound \<Rightarrow> http_request \<Rightarrow> string \<Rightarrow> 's \<Rightarrow> (sig_error + activity \<times> actor) \<times> 's" where
  "decodeLegacyActivity D req body s =
     (let r = req\<lparr>hq_header := header_set ''Host'' (hq_host req) (hq_header req)\<rparr>
      in case in_legacy D r of
        Inl e \<Rightarrow> (Inl (SigError e), s)
      | Inr verifier \<Rightarrow>
        (case NewActivityPubActorFromRemoteActor (in_remote D) (lv_key_id verifier) s of
           (Inl e, s1) \<Rightarrow> (Inl (SigError e), s1)
         | (Inr keyOwner, s1) \<Rightarrow>
           (case ReadPublicKeyRSAFromString (in_codec D) (pk_pem (ac_public_key keyOwner)) of
              Inl e \<Rightarrow> (Inl (SigError e), s1)
            | Inr key \<Rightarrow>
              (case lv_verify verifier key of
                 Inl e \<Rightarrow> (Inl (SigError e), s1)
               | Inr _ \<Rightarrow> bind_legacy_activity D r body (lv_key_id verifier) keyOwner s1))))"

section \<open>Metrics\<close>

definition classifyHTTPSignatureVerificationError :: "sig_error option \<Rightarrow> string" where
  "classifyHTTPSignatureVerificationError err =
     (case err of
        None \<Rightarrow> ''accepted''
      | Some ErrRFC9421Replay \<Rightarrow> ''replay''
      | Some (SigError raw) \<Rightarrow>
          let text = to_lower raw; has = has_sub text
          in if has ''content-digest'' \<or> has ''digest header'' then ''digest''
             else if has ''older than'' \<or> has ''future'' \<or> has ''expired'' \<or> has ''expires'' \<or> has ''created parameter'' then ''time''
             else if has ''authority'' then ''authority''
             else if has ''actor'' \<or> has ''owner'' then ''actor''
             else if has ''resolve'' \<or> has ''public key'' \<or> has ''keyid'' then ''key''
             else if has ''reserve rfc 9421 nonce'' \<or> has ''redis'' then ''redis''
             else if has ''covered component'' \<or> has ''algorithm'' \<or> has ''nonce parameter'' then ''policy''
             else if has ''parse rfc 9421'' \<or> has ''find activitypub'' \<or> has ''structured field'' then ''parse''
             else if has ''verify rfc 9421 signature'' \<or> has ''verification error'' then ''crypto''
             else if has ''invalid character'' \<or> has ''activity has no actor'' then ''activity''
             else ''other'')"

definition recordHTTPSignatureVerification :: "('k, 'p, 's) inbound \<Rightarrow> string \<Rightarrow> string \<Rightarrow> string \<Rightarrow> metric list" where
  "recordHTTPSignatureVerification D prof result reason =
     (if in_metrics D then [SignatureVerification prof result reason] else [])"

definition decodeActivity ::
  "('k, 'p, 's) inbound \<Rightarrow> time \<Rightarrow> http_request \<Rightarrow> (string \<times> string option) option \<Rightarrow> 's
    \<Rightarrow> (sig_error + activity \<times> actor \<times> string) \<times> metric list \<times> 's" where
  "decodeActivity D now req stream s =
     (let prof = selectInboundSignatureProfile (Some req)
      in case readInboundActivityBody (in_max_bytes D) stream of
        Inl e \<Rightarrow> (Inl (SigError e), [], s)
      | Inr body \<Rightarrow>
          (case (if prof = inboundSignatureProfileRFC9421 then decodeRFC9421Activity D now (Some req) body s
                 else decodeLegacyActivity D req body s) of
             (Inl e, s1) \<Rightarrow>
               (Inl e, recordHTTPSignatureVerification D prof ''failure'' (classifyHTTPSignatureVerificationError (Some e)), s1)
           | (Inr (act, actr), s1) \<Rightarrow>
               (Inr (act, actr, body), recordHTTPSignatureVerification D prof ''success'' ''accepted'', s1)))"

definition fetchOriginalActivityFromURL :: "'s remote \<Rightarrow> string \<Rightarrow> 's \<Rightarrow> (activity \<times> actor) result \<times> 's" where
  "fetchOriginalActivityFromURL M address s =
     (case NewActivityPubActivityFromRemoteActivity M address s of
        (Inl e, s1) \<Rightarrow> (Inl e, s1)
      | (Inr act, s1) \<Rightarrow>
          (case NewActivityPubActorFromRemoteActor M (av_actor act) s1 of
             (Inl e, s2) \<Rightarrow> (Inl e, s2) | (Inr actr, s2) \<Rightarrow> (Inr (act, actr), s2)))"

section \<open>The key resolver\<close>

definition relayRemoteUserAgent :: "string \<Rightarrow> string \<Rightarrow> string \<Rightarrow> string" where
  "relayRemoteUserAgent serviceName version host =
     serviceName @ '' (golang net/http; Activity-Relay '' @ version @ ''; '' @ host @ '')''"

definition ResolveRFC9421Key :: "('k, 'p, 's) inbound \<Rightarrow> ('p, 's) key_resolver" where
  "ResolveRFC9421Key D keyID0 s =
     (let keyID = trim_space keyID0
      in if keyID = [] then (Inl ''RFC 9421 key ID is empty'', s)
         else if \<not> in_has_cache D then (Inl ''ActivityPub actor cache is unavailable'', s)
         else if rm_signer (in_remote D) = None then (Inl ''remote request signer is unavailable'', s)
         else case NewActivityPubActorFromRemoteActor (in_remote D) keyID s of
           (Inl e, s1) \<Rightarrow> (Inl e, s1)
         | (Inr a, s1) \<Rightarrow>
             let pk = ac_public_key a
             in (if trim_space (ac_id a) = [] then Inl ''resolved ActivityPub actor has no ID''
                 else if trim_space (pk_id pk) = [] then Inl ''resolved ActivityPub actor has no public-key ID''
                 else if pk_id pk \<noteq> keyID then Inl ''resolved ActivityPub public-key ID does not match keyid''
                 else if trim_space (pk_owner pk) = [] then Inl ''resolved ActivityPub public key has no owner''
                 else case ReadPublicKeyRSAFromString (in_codec D) (pk_pem pk) of
                   Inl e \<Rightarrow> Inl (''parse resolved ActivityPub RSA public key: '' @ e)
                 | Inr key \<Rightarrow> Inr \<lparr>rk_key_id = pk_id pk, rk_owner = pk_owner pk, rk_actor_id = ac_id a,
                                   rk_public_key = Some key\<rparr>, s1))"

text \<open>The public identity of the server is its configured URL; the resolver does not read the verifier.\<close>

definition newInboundRFC9421Verifier ::
  "('k, 'p, 'db) inbound \<Rightarrow> url option \<Rightarrow> 'db redis option \<Rightarrow> ('p, 'db) rfc9421_verifier result" where
  "newInboundRFC9421Verifier D server client =
     (case server of
        None \<Rightarrow> Inl ''RFC 9421 public server identity is unavailable''
      | Some u \<Rightarrow>
          (case NewRedisRFC9421NonceStore client [] of
             Inl e \<Rightarrow> Inl e
           | Inr (R, pre) \<Rightarrow>
               NewRFC9421Verifier \<lparr>vo_scheme = u_scheme u, vo_authority = u_host u,
                 vo_key_resolver = Some (ResolveRFC9421Key D), vo_nonce_store = Some (ReserveRFC9421Nonce (Some R) (in_sum D) pre),
                 vo_maximum_age = 0, vo_future_skew = 0, vo_replay_ttl = 0\<rparr>))"

text \<open>
  The inbox endpoint as it is registered: \<open>handleInbox\<close> with this decoder and with the fetch of announced
  originals.
\<close>

definition error_text :: "sig_error \<Rightarrow> string" where
  "error_text e = (case e of ErrRFC9421Replay \<Rightarrow> ''RFC 9421 signature nonce has already been used'' | SigError t \<Rightarrow> t)"

definition inbox_endpoint ::
  "('k, 'db) api \<Rightarrow> ('k, 'p, 'db) inbound \<Rightarrow> (nat \<Rightarrow> string) \<Rightarrow> string \<Rightarrow> time \<Rightarrow> http_request \<Rightarrow> (string \<times> string option) option
    \<Rightarrow> relay_state \<Rightarrow> 'db \<Rightarrow> (http_out, 'db) effect" where
  "inbox_endpoint A D ids stamp now req stream st db =
     (let run = (\<lambda>decode. handleInbox A ids stamp (fetchOriginalActivityFromURL (in_remote D)) decode (hq_method req) st db)
      in if hq_method req \<noteq> ''POST'' then run (\<lambda>db. (Inl [], db))
         else case decodeActivity D now req stream db of (r, ms, db1) \<Rightarrow>
           (case run (\<lambda>_. (case r of Inl e \<Rightarrow> Inl (error_text e) | Inr x \<Rightarrow> Inr x, db1)) of
              (out, js, ms', st', db') \<Rightarrow> (out, js, ms @ ms', st', db')))"

end
