(* ===== verification/RFC9421_Facts.thy ===== *)
theory RFC9421_Facts
  imports RFC9421_Signature
begin

text \<open>
  What the inbound verifier guarantees: an accepted request carries a valid signature over the required
  components by the resolved key within the time window, a failed one spends no nonce, and a signature
  is accepted at most once. The verifier knows the nonce store only through the contract
  \<open>nonce_contract\<close>, which the Redis store meets.
\<close>

section \<open>Accepted requests\<close>

lemma check_covered_Inr:
  "check_covered cs seen required = Inr left \<Longrightarrow>
     left = filter (\<lambda>c. c \<notin> set cs) required \<and> distinct cs \<and> set cs \<inter> set seen = {} \<and> [] \<notin> set cs"
  by (induction cs seen required rule: check_covered.induct)
     (auto simp: removeAll_filter_not_eq conj_commute split: if_splits intro: filter_cong)

lemma validate_Inr:
  assumes "validateRFC9421POSTParameters cov kid alg nonce created expires now age skew = Inr ()"
  shows "trim_space kid \<noteq> []" and "alg = rfc9421RSAAlgorithm" and "nonce \<noteq> []" and "length nonce \<le> maxRFC9421NonceBytes"
    and "now - age \<le> created" and "created \<le> now + skew" and "is_zero expires \<or> created \<le> expires \<and> now \<le> expires"
    and "set rfc9421POSTComponents \<subseteq> set cov" and "distinct cov"
  using assms
  by (auto simp: validateRFC9421POSTParameters_def filter_empty_conv split: if_splits sum.splits list.splits
      dest!: check_covered_Inr)

lemma digest_Inr:
  "VerifyRFC9530ContentDigestSHA256 sfv sum256 vals body = Inr () \<Longrightarrow>
    \<exists>dict it. sfv vals = Inr dict \<and> map_of dict ''sha-256'' = Some (Item it) \<and> it_value it = VBytes (sum256 body)"
  by (auto simp: VerifyRFC9530ContentDigestSHA256_def
      split: if_splits sum.splits option.splits sfv_member.splits sfv_value.splits)

definition wire_authority :: "http_request \<Rightarrow> url \<Rightarrow> string" where
  "wire_authority r u = (if hq_host r = [] then u_host u else hq_host r)"

lemma verify_message_Inr:
  assumes "verify_message L V r u body m k s = (Inr v, s')"
  shows "\<exists>key base str. rk_key_id k = sm_key_id m \<and> rk_public_key k = Some key
    \<and> sl_derive L m (cloneRFC9421Request r u body (rv_scheme V) (rv_authority V)) = Inr base
    \<and> sl_canonical L base m = Inr str \<and> sl_verify L key str (sm_signature m) = Inr ()
    \<and> rv_nonce_store V (sm_key_id m) (sm_nonce m) (rv_replay_ttl V) s = (Inr True, s')
    \<and> v = \<lparr>vf_key_id = sm_key_id m, vf_key_owner = rk_owner k, vf_key_actor = rk_actor_id k, vf_nonce = sm_nonce m,
           vf_created = sm_created m, vf_expires = sm_expires m, vf_covered = sm_covered m, vf_algorithm = sm_alg m\<rparr>"
  using assms
  by (auto simp: verify_message_def split: if_splits option.splits sum.splits prod.splits)

lemma VerifyPOST_Inr:
  assumes "VerifyPOST L sum256 (Some V) now (Some r) body s = (Inr v, s')"
  obtains u ms m k s1 where "hq_url r = Some u" and "hq_method r = ''POST''" and "wire_authority r u = rv_authority V"
    and "sl_unmarshal L r = Inr ms" and "sl_find L ms rfc9421SignatureTag = Inr m"
    and "validateRFC9421POSTParameters (sm_covered m) (sm_key_id m) (sm_alg m) (sm_nonce m)
           (sm_created m) (sm_expires m) now (rv_maximum_age V) (rv_future_skew V) = Inr ()"
    and "VerifyRFC9530ContentDigestSHA256 (sl_dictionary L) sum256 (hq_header r ''Content-Digest'') body = Inr ()"
    and "rv_key_resolver V (sm_key_id m) s = (Inr k, s1)"
    and "verify_message L V r u body m k s1 = (Inr v, s')"
  using assms
  by (auto simp: VerifyPOST_def wire_authority_def Let_def split: if_splits option.splits sum.splits prod.splits)

text \<open>
  C5: an accepted POST is authentic. It was sent to the relay's own authority; exactly one of the
  parsed signatures was selected by its tag, and it covers the six required components without
  repetition, uses the one permitted algorithm, and is within its time window; the \<open>sha-256\<close> member of
  \<open>Content-Digest\<close> is the digest of the received body; and the signature over the request, as seen under
  the relay's own scheme and authority, verifies under the public key resolved for its key id.
\<close>
theorem accepted_post_is_verified:
  assumes "VerifyPOST L sum256 (Some V) now (Some r) body s = (Inr v, s')"
  shows "\<exists>u ms m k s1 key base str dict it.
    hq_url r = Some u \<and> hq_method r = ''POST'' \<and> wire_authority r u = rv_authority V
    \<and> sl_unmarshal L r = Inr ms \<and> sl_find L ms rfc9421SignatureTag = Inr m
    \<and> set rfc9421POSTComponents \<subseteq> set (sm_covered m) \<and> distinct (sm_covered m)
    \<and> sm_alg m = rfc9421RSAAlgorithm \<and> sm_nonce m \<noteq> [] \<and> length (sm_nonce m) \<le> 256
    \<and> now - rv_maximum_age V \<le> sm_created m \<and> sm_created m \<le> now + rv_future_skew V
    \<and> (is_zero (sm_expires m) \<or> now \<le> sm_expires m)
    \<and> sl_dictionary L (hq_header r ''Content-Digest'') = Inr dict
    \<and> map_of dict ''sha-256'' = Some (Item it) \<and> it_value it = VBytes (sum256 body)
    \<and> rv_key_resolver V (sm_key_id m) s = (Inr k, s1) \<and> rk_key_id k = sm_key_id m \<and> rk_public_key k = Some key
    \<and> sl_derive L m (cloneRFC9421Request r u body (rv_scheme V) (rv_authority V)) = Inr base
    \<and> sl_canonical L base m = Inr str \<and> sl_verify L key str (sm_signature m) = Inr ()
    \<and> vf_key_id v = sm_key_id m \<and> vf_key_owner v = rk_owner k \<and> vf_key_actor v = rk_actor_id k"
  using assms
proof (cases rule: VerifyPOST_Inr)
  case (1 u ms m k s1)
  from verify_message_Inr [OF 1(9)] obtain key base str where msg: "rk_key_id k = sm_key_id m" "rk_public_key k = Some key"
    "sl_derive L m (cloneRFC9421Request r u body (rv_scheme V) (rv_authority V)) = Inr base"
    "sl_canonical L base m = Inr str" "sl_verify L key str (sm_signature m) = Inr ()"
    "vf_key_id v = sm_key_id m" "vf_key_owner v = rk_owner k" "vf_key_actor v = rk_actor_id k"
    by auto
  from digest_Inr [OF 1(7)] obtain dict it where dig: "sl_dictionary L (hq_header r ''Content-Digest'') = Inr dict"
    "map_of dict ''sha-256'' = Some (Item it)" "it_value it = VBytes (sum256 body)" by blast
  have len: "length (sm_nonce m) \<le> 256" using validate_Inr(4) [OF 1(6)] by (simp add: maxRFC9421NonceBytes_def)
  show ?thesis
    using 1(1-5,8) msg dig len validate_Inr(2,3,5,6,8,9) [OF 1(6)] validate_Inr(7) [OF 1(6)] by blast
qed

section \<open>Failed requests\<close>

text \<open>
  C35: a POST that is not accepted spends no nonce. Unless the failure is the nonce itself (already
  used, or the store did not answer), the nonce store has not been called: the state is as it was, or
  as key resolution left it. So a forged or corrupted request cannot use up the nonce of a genuine one.
\<close>
theorem failed_post_spends_no_nonce:
  assumes "VerifyPOST L sum256 (Some V) now (Some r) body s = (Inl e, s')"
  shows "s' = s \<or> (\<exists>kid. s' = snd (rv_key_resolver V kid s))
    \<or> e = ErrRFC9421Replay \<or> (\<exists>t. e = SigError (''reserve RFC 9421 nonce: '' @ t))"
  using assms
  by (auto simp: VerifyPOST_def verify_message_def Let_def simp del: append.simps
      split: if_splits option.splits sum.splits prod.splits) (metis snd_conv)+

section \<open>Replays\<close>

text \<open>
  What the verifier relies on of a nonce store: \<open>held s k n\<close> says that the pair of key id \<open>k\<close> and nonce
  \<open>n\<close> is marked as used in state \<open>s\<close>.
\<close>

locale nonce_contract =
  fixes reserve :: "'s nonce_store" and held :: "'s \<Rightarrow> string \<Rightarrow> string \<Rightarrow> bool"
  assumes reserve_holds: "reserve k n t s = (Inr True, s') \<Longrightarrow> held s' k n"
    and held_refuses: "held s k n \<Longrightarrow> reserve k n t s = (r, s') \<Longrightarrow> r \<noteq> Inr True"
begin

lemma accepted_holds:
  assumes "rv_nonce_store V = reserve" and "VerifyPOST L sum256 (Some V) now (Some r) body s = (Inr v, s')"
  shows "held s' (vf_key_id v) (vf_nonce v)"
  using assms(2)
proof (cases rule: VerifyPOST_Inr)
  case (1 u ms m k s1)
  from verify_message_Inr [OF 1(9)] assms(1) show ?thesis by (auto intro: reserve_holds)
qed

lemma held_not_accepted:
  assumes "rv_nonce_store V = reserve" and "held s (vf_key_id v) (vf_nonce v)"
    and resolver: "\<And>kid k s1. rv_key_resolver V kid s = (Inr k, s1) \<Longrightarrow> held s1 (vf_key_id v) (vf_nonce v)"
  shows "VerifyPOST L sum256 (Some V) now (Some r) body s \<noteq> (Inr v, s')"
proof
  assume "VerifyPOST L sum256 (Some V) now (Some r) body s = (Inr v, s')"
  then show False
  proof (cases rule: VerifyPOST_Inr)
    case (1 u ms m k s1)
    from verify_message_Inr [OF 1(9)] assms(1) have "reserve (vf_key_id v) (vf_nonce v) (rv_replay_ttl V) s1 = (Inr True, s')"
      by auto
    with held_refuses [OF resolver [OF 1(8)]] show False by blast
  qed
qed

end

text \<open>The Redis store meets the contract: a pair is held while its key is stored.\<close>

definition nonce_held :: "'db redis \<Rightarrow> (string \<Rightarrow> string) \<Rightarrow> string \<Rightarrow> 'db \<Rightarrow> string \<Rightarrow> string \<Rightarrow> bool" where
  "nonce_held R sum256 pre db k n \<longleftrightarrow> r_str R db (nonceKey sum256 pre k n) \<noteq> None"

locale redis_nonces = redis_server R for R :: "'db redis" +
  fixes sum256 :: "string \<Rightarrow> string" and pre :: string
begin

lemma reserve_run:
  assumes "ReserveRFC9421Nonce (Some R) sum256 pre k n t db = (Inr True, db')"
  shows "r_str R db (nonceKey sum256 pre k n) = None \<and> r_str R db' (nonceKey sum256 pre k n) \<noteq> None"
proof -
  let ?key = "nonceKey sum256 pre k n"
  have "call R ''setnx'' (r_setnx R ?key ''1'' (ttl_millis t)) db = (Inr True, db')"
    using assms by (simp add: ReserveRFC9421Nonce_def split: if_splits)
  then show ?thesis
  proof (cases rule: call_cases)
    case (executed x d)
    then have d: "r_setnx R ?key ''1'' (ttl_millis t) d = (True, db')" and str: "r_str R d = r_str R db" by simp_all
    then have "\<not> r_exists R d ?key" using setnx_present [of d ?key "''1''" "ttl_millis t"] by auto
    with setnx_absent [OF _ this, of "ttl_millis t" "''1''"] d str show ?thesis
      by (auto simp: ttl_millis_def exists_iff)
  qed simp_all
qed

end

sublocale redis_nonces \<subseteq> nonces: nonce_contract "ReserveRFC9421Nonce (Some R) sum256 pre" "nonce_held R sum256 pre"
  by unfold_locales (auto simp: nonce_held_def dest: reserve_run)

context redis_nonces
begin

lemmas used_nonce_held = nonces.accepted_holds
lemmas used_nonce_refused = nonces.held_not_accepted

end

interpretation mem_nonces: redis_nonces mem_redis sum256 pre for sum256 :: "string \<Rightarrow> string" and pre :: string
  by unfold_locales

lemma verifier_ttl:
  assumes "NewRFC9421Verifier opts = Inr V" and "rv_maximum_age V + rv_future_skew V < 2 ^ 63"
  shows "rv_maximum_age V + rv_future_skew V \<le> rv_replay_ttl V"
proof -
  have "second \<le> rv_maximum_age V" "0 \<le> rv_future_skew V" "wrap64 (rv_maximum_age V + rv_future_skew V) \<le> rv_replay_ttl V"
    using assms(1) by (auto simp: NewRFC9421Verifier_def Let_def split: if_splits option.splits)
  with assms(2) show ?thesis by (simp add: wrap64_def)
qed

lemma accepted_window:
  assumes "VerifyPOST L sum256 (Some V) now (Some r) body s = (Inr v, s')"
  shows "now - rv_maximum_age V \<le> vf_created v \<and> vf_created v \<le> now + rv_future_skew V"
  using assms
proof (cases rule: VerifyPOST_Inr)
  case (1 u ms m k s1)
  from verify_message_Inr [OF 1(9)] validate_Inr(5,6) [OF 1(6)] show ?thesis by auto
qed


section \<open>Signing and verifying\<close>

text \<open>
  The documented behaviour of the signature libraries that an exchange between two relays rests on; \<open>pub\<close>
  gives the public key of a private key. A digest field parses back to its digest; signing yields a
  message with the given key id and components, the RSA algorithm and a nonce, whose signature verifies
  over the base derived from the signed request; including a message changes only the two signature
  fields, and parsing finds it again; and a base does not depend on the signature fields or on \<open>Host\<close>.
\<close>

definition signature_library_laws :: "('k, 'p) sig_library \<Rightarrow> ('k \<Rightarrow> 'p) \<Rightarrow> bool" where
  "signature_library_laws L pub \<longleftrightarrow>
     (\<forall>d v. sl_digest_field L d = Inr v \<longrightarrow>
        (\<exists>dict it. sl_dictionary L [v] = Inr dict \<and> map_of dict ''sha-256'' = Some (Item it) \<and> it_value it = VBytes d))
   \<and> (\<forall>key kid tag cov p m. sl_sign L key kid tag cov p = Inr m \<longrightarrow>
        sm_covered m = cov \<and> sm_key_id m = kid \<and> sm_alg m = rfc9421RSAAlgorithm \<and> is_zero (sm_expires m)
        \<and> sm_nonce m \<noteq> [] \<and> length (sm_nonce m) \<le> maxRFC9421NonceBytes
        \<and> (\<exists>base str. sl_derive L m p = Inr base \<and> sl_canonical L base m = Inr str
              \<and> sl_verify L (pub key) str (sm_signature m) = Inr ()))
   \<and> (\<forall>key kid tag cov p m q. sl_sign L key kid tag cov p = Inr m \<longrightarrow> sl_include L [(rfc9421SignatureLabel, m)] p = Inr q \<longrightarrow>
        (\<exists>a b. q = p\<lparr>hq_header := (hq_header p)(''Signature'' := a, ''Signature-Input'' := b)\<rparr>)
        \<and> (\<forall>u h. sl_unmarshal L (q\<lparr>hq_url := u, hq_header := (hq_header q)(''Host'' := h)\<rparr>) = Inr [(rfc9421SignatureLabel, m)])
        \<and> sl_find L [(rfc9421SignatureLabel, m)] tag = Inr m)
   \<and> (\<forall>m p a b h. sl_derive L m (p\<lparr>hq_header := (hq_header p)(''Signature'' := a, ''Signature-Input'' := b, ''Host'' := h)\<rparr>)
        = sl_derive L m p)"

lemma library_digest:
  assumes "signature_library_laws L pub" and "sl_digest_field L d = Inr v"
  obtains dict it where "sl_dictionary L [v] = Inr dict" and "map_of dict ''sha-256'' = Some (Item it)" and "it_value it = VBytes d"
  using assms unfolding signature_library_laws_def by meson

lemma library_sign:
  assumes "signature_library_laws L pub" and "sl_sign L key kid tag cov p = Inr m"
  shows "sm_covered m = cov" "sm_key_id m = kid" "sm_alg m = rfc9421RSAAlgorithm" "sm_expires m = zero_time"
    "sm_nonce m \<noteq> []" "length (sm_nonce m) \<le> maxRFC9421NonceBytes"
    "\<exists>base str. sl_derive L m p = Inr base \<and> sl_canonical L base m = Inr str
       \<and> sl_verify L (pub key) str (sm_signature m) = Inr ()"
  using conjunct1 [OF conjunct2 [OF assms(1) [unfolded signature_library_laws_def]], rule_format, OF assms(2)] by simp_all

lemma library_include:
  assumes "signature_library_laws L pub" and "sl_sign L key kid tag cov p = Inr m"
    and "sl_include L [(rfc9421SignatureLabel, m)] p = Inr q"
  shows "\<exists>a b. q = p\<lparr>hq_header := (hq_header p)(''Signature'' := a, ''Signature-Input'' := b)\<rparr>"
    "sl_unmarshal L (q\<lparr>hq_url := w, hq_header := (hq_header q)(''Host'' := x)\<rparr>) = Inr [(rfc9421SignatureLabel, m)]"
    "sl_find L [(rfc9421SignatureLabel, m)] tag = Inr m"
  using conjunct1 [OF conjunct2 [OF conjunct2 [OF assms(1) [unfolded signature_library_laws_def]]], rule_format, OF assms(2,3)]
  by simp_all

lemma library_derive:
  "signature_library_laws L pub \<Longrightarrow>
   sl_derive L m (p\<lparr>hq_header := (hq_header p)(''Signature'' := a, ''Signature-Input'' := b, ''Host'' := h)\<rparr>) = sl_derive L m p"
  unfolding signature_library_laws_def by blast

text \<open>A request as the receiving server sees it: \<open>net/http\<close> moves the authority out of the URL and the header.\<close>

definition received :: "http_request \<Rightarrow> http_request" where
  "received q = q\<lparr>hq_url := map_option (\<lambda>u. u\<lparr>u_scheme := [], u_host := []\<rparr>) (hq_url q),
     hq_header := (hq_header q)(''Host'' := [])\<rparr>"

lemma signRFC9421_Inr:
  assumes "signRFC9421 L sum256 date (Some k) (Some r) body True cov = Inr q"
  obtains key u h v m where "sg_private_key k = Some key" and "trim_space (sg_key_id k) \<noteq> []"
    and "hq_url r = Some u" and "u_host u \<noteq> []" and "sl_digest_field L (sum256 body) = Inr v"
    and "sl_sign L key (sg_key_id k) rfc9421SignatureTag cov
           (r\<lparr>hq_url := Some (u\<lparr>u_fragment := [], u_rawfragment := []\<rparr>), hq_host := u_host u,
              hq_header := header_set ''Content-Digest'' v h, hq_body := body\<rparr>) = Inr m"
    and "sl_include L [(rfc9421SignatureLabel, m)]
           (r\<lparr>hq_url := Some (u\<lparr>u_fragment := [], u_rawfragment := []\<rparr>), hq_host := u_host u,
              hq_header := header_set ''Content-Digest'' v h, hq_body := body\<rparr>) = Inr q"
  using assms
  by (auto simp: signRFC9421_def RFC9530ContentDigestSHA256_def Let_def
      split: if_splits option.splits sum.splits prod.splits)

lemma validate_signed:
  assumes "trim_space kid \<noteq> []" and "nonce \<noteq> []" and "length nonce \<le> maxRFC9421NonceBytes"
    and "\<not> is_zero created" and "now - age \<le> created" and "created \<le> now + skew"
  shows "validateRFC9421POSTParameters rfc9421POSTComponents kid rfc9421RSAAlgorithm nonce created zero_time now age skew = Inr ()"
proof -
  have "check_covered rfc9421POSTComponents [] rfc9421POSTComponents = Inr []" by code_simp
  with assms show ?thesis by (simp add: validateRFC9421POSTParameters_def)
qed


section \<open>Instances\<close>

text \<open>
  A signature library that obeys the laws: the signature is the signature base itself, the digest
  field carries the digest as it is, and the signature fields carry the message in plain text.
\<close>

definition component_of :: "http_request \<Rightarrow> string \<Rightarrow> string" where
  "component_of r c =
     (if c = ''@method'' then hq_method r else if c = ''@authority'' then hq_host r
      else if c = ''@target-uri'' then (case hq_url r of None \<Rightarrow> [] | Some u \<Rightarrow> url_string u)
      else if c = ''content-digest'' then header_get (hq_header r) ''Content-Digest''
      else if c = ''date'' then header_get (hq_header r) ''Date'' else [])"

definition base_text :: "(string \<times> string) list \<Rightarrow> string" where
  "base_text base = concat (map (\<lambda>(a, b). a @ '': '' @ b @ ''; '') base)"

definition sample_library :: "(unit, unit) sig_library" where
  "sample_library = \<lparr>
     sl_dictionary = (\<lambda>vals. Inr [(''sha-256'', Item \<lparr>it_value = VBytes (concat vals), it_params = []\<rparr>)]),
     sl_digest_field = Inr,
     sl_unmarshal = (\<lambda>r. case hq_header r ''Signature-Input'' of
        [] \<Rightarrow> Inl ''no signature''
      | kid # cov \<Rightarrow> Inr [(rfc9421SignatureLabel, \<lparr>sm_covered = cov, sm_key_id = kid, sm_alg = rfc9421RSAAlgorithm,
          sm_nonce = ''n1'', sm_created = 1000 * second, sm_expires = zero_time,
          sm_signature = header_get (hq_header r) ''Signature''\<rparr>)]),
     sl_find = (\<lambda>ms tag. case ms of [] \<Rightarrow> Inl ''not found'' | (l, m) # _ \<Rightarrow> Inr m),
     sl_derive = (\<lambda>m r. Inr (map (\<lambda>c. (c, component_of r c)) (sm_covered m))),
     sl_canonical = (\<lambda>base m. Inr (base_text base)),
     sl_verify = (\<lambda>_ str sig. if sig = str then Inr () else Inl ''verification error''),
     sl_sign = (\<lambda>_ kid tag cov r. Inr \<lparr>sm_covered = cov, sm_key_id = kid, sm_alg = rfc9421RSAAlgorithm,
          sm_nonce = ''n1'', sm_created = 1000 * second, sm_expires = zero_time,
          sm_signature = base_text (map (\<lambda>c. (c, component_of r c)) cov)\<rparr>),
     sl_include = (\<lambda>ms r. case ms of [] \<Rightarrow> Inl ''empty'' | (l, m) # _ \<Rightarrow>
        Inr (r\<lparr>hq_header := (hq_header r)(''Signature'' := [sm_signature m], ''Signature-Input'' := sm_key_id m # sm_covered m)\<rparr>)),
     sl_sign_legacy = (\<lambda>_ _ _ _ r. Inr r)\<rparr>"

lemma sample_library_laws: "signature_library_laws sample_library pub"
proof -
  have "component_of (p\<lparr>hq_header := (hq_header p)(''Signature'' := a, ''Signature-Input'' := b, ''Host'' := h)\<rparr>) = component_of p" for p a b h
    by (simp add: component_of_def header_get_def fun_eq_iff)
  then show ?thesis
    by (simp add: signature_library_laws_def sample_library_def maxRFC9421NonceBytes_def header_get_def) blast
qed

definition sample_key :: "string \<Rightarrow> unit signer" where
  "sample_key kid = \<lparr>sg_key_id = kid, sg_private_key = Some ()\<rparr>"

definition sample_resolver :: "(unit, 's) key_resolver" where
  "sample_resolver kid s = (Inr \<lparr>rk_key_id = kid, rk_owner = ''https://a.example/actor'',
     rk_actor_id = ''https://a.example/actor'', rk_public_key = Some ()\<rparr>, s)"

definition sample_options :: "'s nonce_store \<Rightarrow> (unit, 's) verifier_options" where
  "sample_options nonces = \<lparr>vo_scheme = ''https'', vo_authority = ''b.example'', vo_key_resolver = Some sample_resolver,
     vo_nonce_store = Some nonces, vo_maximum_age = 0, vo_future_skew = 0, vo_replay_ttl = 0\<rparr>"

definition sample_verifier :: "'s nonce_store \<Rightarrow> (unit, 's) rfc9421_verifier" where
  "sample_verifier nonces = \<lparr>rv_scheme = ''https'', rv_authority = ''b.example'', rv_key_resolver = sample_resolver,
     rv_nonce_store = nonces, rv_maximum_age = 300 * second, rv_future_skew = 30 * second, rv_replay_ttl = 600 * second\<rparr>"

lemma sample_verifier_built: "NewRFC9421Verifier (sample_options nonces) = Inr (sample_verifier nonces)"
proof -
  have "to_lower (trim_space ''https'') = ''https''" "trim_space ''b.example'' = ''b.example''" by code_simp+
  then show ?thesis
    by (simp add: NewRFC9421Verifier_def sample_options_def sample_verifier_def DefaultRFC9421MaximumAge_def
        DefaultRFC9421FutureSkew_def DefaultRFC9421ReplayTTL_def wrap64_def)
qed

definition sample_post :: http_request where
  "sample_post = \<lparr>hq_method = ''POST'', hq_host = [], hq_url = url_parse ''https://b.example/inbox'',
     hq_header = (\<lambda>_. []), hq_body = ''{}''\<rparr>"

definition sample_sum :: "string \<Rightarrow> string" where
  "sample_sum s = (if char_of (0 :: nat) \<in> set s then take 1 (drop 8 s) else s)"

definition sample_signing :: "string \<Rightarrow> http_request result" where
  "sample_signing kid = signRFC9421 sample_library sample_sum ''today'' (Some (sample_key kid)) (Some sample_post) ''{}'' True
     rfc9421POSTComponents"

definition sample_signed :: "string \<Rightarrow> http_request" where
  "sample_signed kid = (case sample_signing kid of Inl _ \<Rightarrow> sample_post | Inr q \<Rightarrow> q)"

abbreviation sample_nonces :: "mem nonce_store" where
  "sample_nonces \<equiv> ReserveRFC9421Nonce (Some mem_redis) sample_sum ''n:''"

definition sample_state :: mem where
  "sample_state = \<lparr>m_now = 0, m_trips = [], m_hashes = [], m_strs = [], m_lens = []\<rparr>"

definition sample_verify :: "'s nonce_store \<Rightarrow> time \<Rightarrow> string \<Rightarrow> string \<Rightarrow> 's \<Rightarrow> (sig_error + rfc9421_verification) \<times> 's" where
  "sample_verify nonces now kid body s =
     VerifyPOST sample_library sample_sum (Some (sample_verifier nonces)) now (Some (received (sample_signed kid))) body s"

lemma sample_created: "sl_unmarshal sample_library q = Inr [(l, m)] \<Longrightarrow> sm_created m = 1000 * second"
  by (auto simp: sample_library_def split: list.splits)


theorem accepted_post_is_verified_witness:
  "\<exists>v s' ms m. sample_verify sample_nonces (1001 * second) ''https://a.example/actor#main-key'' ''{}'' sample_state = (Inr v, s')
   \<and> sl_unmarshal sample_library (received (sample_signed ''https://a.example/actor#main-key'')) = Inr ms
   \<and> sl_find sample_library ms rfc9421SignatureTag = Inr m \<and> ''content-digest'' \<in> set (sm_covered m)"
proof -
  let ?run = "sample_verify sample_nonces (1001 * second) ''https://a.example/actor#main-key'' ''{}'' sample_state"
  have "is_ok (fst ?run)" by code_simp
  then obtain v s' where run: "?run = (Inr v, s')" by (cases ?run) (auto simp: is_ok_iff)
  have c: "''content-digest'' \<in> set rfc9421POSTComponents" by (simp add: rfc9421POSTComponents_def)
  show ?thesis
    using accepted_post_is_verified [OF run [unfolded sample_verify_def]] run c by (meson subsetD)
qed

theorem failed_post_spends_no_nonce_witness:
  "fst (sample_verify sample_nonces (1001 * second) ''https://a.example/actor#main-key'' ''{forged}'' sample_state)
     = Inl (SigError ''Content-Digest sha-256 value does not match message content'')
   \<and> snd (sample_verify sample_nonces (1001 * second) ''https://a.example/actor#main-key'' ''{forged}'' sample_state) = sample_state"
proof -
  let ?run = "sample_verify sample_nonces (1001 * second) ''https://a.example/actor#main-key'' ''{forged}'' sample_state"
  have e: "fst ?run = Inl (SigError ''Content-Digest sha-256 value does not match message content'')" by code_simp
  then obtain s' where run: "?run = (Inl (SigError ''Content-Digest sha-256 value does not match message content''), s')"
    by (cases ?run) simp
  from failed_post_spends_no_nonce [OF run [unfolded sample_verify_def]] have "s' = sample_state"
    by (auto simp: sample_verifier_def sample_resolver_def)
  with run show ?thesis by simp
qed


end
