(* ===== verification/Decode_Facts.thy ===== *)
theory Decode_Facts
  imports Decode RFC9421_Facts Inbox_Facts
begin

text \<open>What an accepted activity has been checked for, from the request to the effects of the inbox.\<close>

section \<open>Authentication\<close>

lemma BindActivityActor_Inr:
  assumes "BindActivityActor perr (Some v) a = Inr ()"
  shows "\<exists>i. canonicalRFC9421ActorIdentity perr a = Inr i \<and> canonicalRFC9421ActorIdentity perr (vf_key_owner v) = Inr i
    \<and> (trim_space (vf_key_actor v) = [] \<or> canonicalRFC9421ActorIdentity perr (vf_key_actor v) = Inr i)"
  using assms by (auto simp: BindActivityActor_def split: sum.splits if_splits)

text \<open>
  An activity is authenticated by an RFC 9421 signature when the verified key's owner, the activity's
  actor and the fetched actor document have one canonical identity; by a legacy signature when the
  signature verifies under the key fetched for its key id, the \<open>Digest\<close> header is that of the body, and key
  id, activity actor and actor document are of one host.
\<close>

definition rfc9421_authenticated ::
  "('k, 'p, 's) inbound \<Rightarrow> time \<Rightarrow> http_request \<Rightarrow> string \<Rightarrow> 's \<Rightarrow> activity \<Rightarrow> actor \<Rightarrow> bool" where
  "rfc9421_authenticated D now req body s act actr \<longleftrightarrow>
     (\<exists>v s1 i. VerifyPOST (in_library D) (in_sum D) (in_verifier D) now (Some req) body s = (Inr v, s1)
        \<and> canonicalRFC9421ActorIdentity (rm_url_error (in_remote D)) (vf_key_owner v) = Inr i
        \<and> canonicalRFC9421ActorIdentity (rm_url_error (in_remote D)) (av_actor act) = Inr i
        \<and> canonicalRFC9421ActorIdentity (rm_url_error (in_remote D)) (ac_id actr) = Inr i)"

definition with_host :: "http_request \<Rightarrow> http_request" where
  "with_host req = req\<lparr>hq_header := header_set ''Host'' (hq_host req) (hq_header req)\<rparr>"

definition legacy_authenticated ::
  "('k, 'p, 's) inbound \<Rightarrow> http_request \<Rightarrow> string \<Rightarrow> 's \<Rightarrow> activity \<Rightarrow> actor \<Rightarrow> bool" where
  "legacy_authenticated D req body s act actr \<longleftrightarrow>
     (\<exists>verifier keyOwner s1 key host. in_legacy D (with_host req) = Inr verifier
        \<and> NewActivityPubActorFromRemoteActor (in_remote D) (lv_key_id verifier) s = (Inr keyOwner, s1)
        \<and> ReadPublicKeyRSAFromString (in_codec D) (pk_pem (ac_public_key keyOwner)) = Inr key
        \<and> lv_verify verifier key = Inr ()
        \<and> header_get (hq_header req) ''Digest'' = ''SHA-256='' @ base64_std (in_sum D body)
        \<and> normalizedRemoteHost (rm_url_error (in_remote D)) (lv_key_id verifier) = Inr host
        \<and> normalizedRemoteHost (rm_url_error (in_remote D)) (av_actor act) = Inr host
        \<and> normalizedRemoteHost (rm_url_error (in_remote D)) (ac_id actr) = Inr host)"

definition authenticated ::
  "('k, 'p, 's) inbound \<Rightarrow> time \<Rightarrow> http_request \<Rightarrow> string \<Rightarrow> 's \<Rightarrow> activity \<Rightarrow> actor \<Rightarrow> bool" where
  "authenticated D now req body s act actr \<longleftrightarrow>
     parseInboundActivity (in_remote D) body = Inr act
     \<and> (if hq_header req ''Signature-Input'' \<noteq> [] then rfc9421_authenticated D now req body s act actr
        else legacy_authenticated D req body s act actr)"

lemma decodeRFC9421Activity_Inr:
  assumes "decodeRFC9421Activity D now (Some req) body s = (Inr (act, actr), s')"
  shows "parseInboundActivity (in_remote D) body = Inr act \<and> rfc9421_authenticated D now req body s act actr"
proof -
  let ?perr = "rm_url_error (in_remote D)"
  from assms obtain v s1 where "VerifyPOST (in_library D) (in_sum D) (in_verifier D) now (Some req) body s = (Inr v, s1)"
      and parse: "parseInboundActivity (in_remote D) body = Inr act"
      and bind: "BindActivityActor ?perr (Some v) (av_actor act) = Inr ()" "BindActivityActor ?perr (Some v) (ac_id actr) = Inr ()"
    by (auto simp: decodeRFC9421Activity_def Let_def split: if_splits sum.splits prod.splits)
  moreover from BindActivityActor_Inr [OF bind(1)] BindActivityActor_Inr [OF bind(2)]
  have "\<exists>i. canonicalRFC9421ActorIdentity ?perr (vf_key_owner v) = Inr i
      \<and> canonicalRFC9421ActorIdentity ?perr (av_actor act) = Inr i \<and> canonicalRFC9421ActorIdentity ?perr (ac_id actr) = Inr i"
    by auto
  ultimately show ?thesis unfolding rfc9421_authenticated_def by blast
qed

lemma verifySignatureActorBinding_Inr:
  "verifySignatureActorBinding perr kid owner a = Inr () \<Longrightarrow>
     \<exists>h. normalizedRemoteHost perr kid = Inr h \<and> normalizedRemoteHost perr a = Inr h"
  by (auto simp: verifySignatureActorBinding_def split: sum.splits if_splits)

lemma verifyActivityActorDocument_Inr:
  "verifyActivityActorDocument perr a doc = Inr () \<Longrightarrow>
     \<exists>h. normalizedRemoteHost perr a = Inr h \<and> normalizedRemoteHost perr (ac_id doc) = Inr h"
  by (auto simp: verifyActivityActorDocument_def split: sum.splits if_splits)

lemma decodeLegacyActivity_steps:
  assumes "decodeLegacyActivity D req body s = (Inr (act, actr), s')"
  obtains verifier keyOwner s1 key where "in_legacy D (with_host req) = Inr verifier"
    and "NewActivityPubActorFromRemoteActor (in_remote D) (lv_key_id verifier) s = (Inr keyOwner, s1)"
    and "ReadPublicKeyRSAFromString (in_codec D) (pk_pem (ac_public_key keyOwner)) = Inr key"
    and "lv_verify verifier key = Inr ()"
    and "header_get (hq_header req) ''Digest'' = ''SHA-256='' @ base64_std (in_sum D body)"
    and "parseInboundActivity (in_remote D) body = Inr act"
    and "verifySignatureActorBinding (rm_url_error (in_remote D)) (lv_key_id verifier) keyOwner (av_actor act) = Inr ()"
    and "NewActivityPubActorFromRemoteActor (in_remote D) (av_actor act) s1 = (Inr actr, s')"
    and "verifyActivityActorDocument (rm_url_error (in_remote D)) (av_actor act) actr = Inr ()"
proof -
  from assms obtain verifier keyOwner s1 key where v: "in_legacy D (with_host req) = Inr verifier"
      "NewActivityPubActorFromRemoteActor (in_remote D) (lv_key_id verifier) s = (Inr keyOwner, s1)"
      "ReadPublicKeyRSAFromString (in_codec D) (pk_pem (ac_public_key keyOwner)) = Inr key"
      "lv_verify verifier key = Inr ()"
      and rest: "bind_legacy_activity D (with_host req) body (lv_key_id verifier) keyOwner s1 = (Inr (act, actr), s')"
    by (auto simp: decodeLegacyActivity_def with_host_def Let_def split: sum.splits prod.splits)
  have "header_get (hq_header (with_host req)) ''Digest'' = header_get (hq_header req) ''Digest''"
    by (simp add: header_get_def header_set_def with_host_def)
  with rest v show thesis
    by (auto simp: bind_legacy_activity_def Let_def simp del: append.simps split: sum.splits prod.splits if_splits intro: that)
qed

lemma decodeLegacyActivity_Inr:
  assumes "decodeLegacyActivity D req body s = (Inr (act, actr), s')"
  shows "parseInboundActivity (in_remote D) body = Inr act \<and> legacy_authenticated D req body s act actr"
  using assms
proof (cases rule: decodeLegacyActivity_steps)
  case (1 verifier keyOwner s1 key)
  from verifySignatureActorBinding_Inr [OF 1(7)] verifyActivityActorDocument_Inr [OF 1(9)]
  obtain h where "normalizedRemoteHost (rm_url_error (in_remote D)) (lv_key_id verifier) = Inr h"
      "normalizedRemoteHost (rm_url_error (in_remote D)) (av_actor act) = Inr h"
      "normalizedRemoteHost (rm_url_error (in_remote D)) (ac_id actr) = Inr h"
    by auto
  with 1(1-6) show ?thesis unfolding legacy_authenticated_def by blast
qed

lemma decodeActivity_Inr:
  assumes "decodeActivity D now req stream s = (Inr (act, actr, body), ms, s')"
  shows "readInboundActivityBody (in_max_bytes D) stream = Inr body \<and> authenticated D now req body s act actr"
  using assms decodeRFC9421Activity_Inr [of D now req body s act actr s'] decodeLegacyActivity_Inr [of D req body s act actr s']
  by (auto simp: decodeActivity_def selectInboundSignatureProfile_def authenticated_def Let_def
      split: sum.splits prod.splits if_splits)

lemma body_within_limit: "readInboundActivityBody maximum stream = Inr body \<Longrightarrow> int (length body) \<le> maximum"
  by (auto simp: readInboundActivityBody_def split: option.splits sum.splits if_splits prod.splits)

text \<open>
  C2: the inbox acts only on authenticated activities. Whenever handling a request changes the relay
  state or starts a job, the request was a POST whose body is within the configured limit, the
  activity is the one in that body, it is authenticated (by an RFC 9421 signature if the request has
  one, otherwise by a legacy signature), and the effects are those of processing this activity.
\<close>
theorem inbox_acts_on_authenticated_activities:
  assumes "inbox_endpoint A D ids stamp now req stream st db = (out, js, ms, st', db')"
    and "js \<noteq> [] \<or> st' \<noteq> st"
  shows "hq_method req = ''POST'' \<and> (\<exists>body act actr ms1 db1.
    readInboundActivityBody (in_max_bytes D) stream = Inr body \<and> int (length body) \<le> in_max_bytes D
    \<and> authenticated D now req body db act actr
    \<and> process_activity A ids stamp (fetchOriginalActivityFromURL (in_remote D)) act actr body st db1 = (out, js, ms1, st', db'))"
proof (cases "hq_method req = ''POST''")
  case False
  with assms show ?thesis by (auto simp: inbox_endpoint_def handleInbox_def Let_def split: if_splits)
next
  case True
  obtain r m1 db1 where dec: "decodeActivity D now req stream db = (r, m1, db1)" by (rule prod_cases3)
  show ?thesis
  proof (cases r)
    case (Inl e)
    with assms True dec have False
      by (auto simp: inbox_endpoint_def handleInbox_def with_activity_metric_def Let_def split: if_splits prod.splits)
    then show ?thesis ..
  next
    case (Inr x)
    then obtain act actr body where r: "r = Inr (act, actr, body)" by (metis prod_cases3)
    obtain out1 js1 ms1 st1 db2 where run:
      "process_activity A ids stamp (fetchOriginalActivityFromURL (in_remote D)) act actr body st db1 = (out1, js1, ms1, st1, db2)"
      by (rule prod_cases5)
    with assms(1) True dec r have "out1 = out \<and> js1 = js \<and> st1 = st' \<and> db2 = db'"
      by (auto simp: inbox_endpoint_def handleInbox_def with_activity_metric_def Let_def split: if_splits prod.splits exec.splits)
    with run True decodeActivity_Inr [OF dec [unfolded r]] body_within_limit show ?thesis by blast
  qed
qed

section \<open>Legacy signatures and the body\<close>

text \<open>
  C37: a legacy signature need not cover the body. The decoder compares the \<open>Digest\<close> header with the body
  but does not ask that the signature covers that header. If it does not (so that the verifier's
  answer is the same for another value of \<open>Digest\<close>), then an accepted request stays accepted when body
  and \<open>Digest\<close> are replaced by those of any other activity with the same actor.
\<close>
theorem legacy_signature_leaves_body_unbound:
  assumes "decodeLegacyActivity D req body s = (Inr (act, actr), s')"
    and "in_legacy D (with_host (req\<lparr>hq_header := header_set ''Digest'' d (hq_header req)\<rparr>)) = in_legacy D (with_host req)"
    and "d = ''SHA-256='' @ base64_std (in_sum D body')"
    and "parseInboundActivity (in_remote D) body' = Inr act'" and "av_actor act' = av_actor act"
  shows "decodeLegacyActivity D (req\<lparr>hq_header := header_set ''Digest'' d (hq_header req)\<rparr>) body' s = (Inr (act', actr), s')"
  using assms(1)
proof (cases rule: decodeLegacyActivity_steps)
  case (1 verifier keyOwner s1 key)
  let ?req = "req\<lparr>hq_header := header_set ''Digest'' d (hq_header req)\<rparr>"
  have "header_get (hq_header (with_host ?req)) ''Digest'' = d"
    by (simp add: header_get_def header_set_def with_host_def)
  then have "bind_legacy_activity D (with_host ?req) body' (lv_key_id verifier) keyOwner s1 = (Inr (act', actr), s')"
    using 1(7-9) assms(3-5) by (simp add: bind_legacy_activity_def Let_def)
  then show ?thesis
    unfolding decodeLegacyActivity_def with_host_def [symmetric] using 1(1-4) assms(2) by simp
qed

section \<open>Instances\<close>

text \<open>
  A server on which every document is the actor \<open>https://a.example/u\<close>, a verifier of legacy signatures that
  reads the key id from the \<open>Signature\<close> header and covers no other header, and a parser that knows two
  activities of that actor.
\<close>

definition follow_json :: "string \<Rightarrow> json" where
  "follow_json i = JObj [(''id'', JStr i), (''type'', JStr ''Follow''), (''actor'', JStr ''https://a.example/u''),
     (''object'', JStr activityStreamsPublicAddress)]"

definition actor_json :: json where
  "actor_json = JObj [(''id'', JStr ''https://a.example/u''), (''inbox'', JStr ''https://a.example/inbox''),
     (''endpoints'', JObj [(''sharedInbox'', JStr ''https://a.example/inbox'')])]"

definition one_actor_remote :: "mem remote" where
  "one_actor_remote = \<lparr>rm_signer = Some (PlainSigner (\<lambda>_. Inr ())),
     rm_client = (\<lambda>chk req s. (Inr \<lparr>gr_request = req, gr_status = 200, gr_header = (\<lambda>_. []), gr_status_line = ''200 OK'',
       gr_body = ''A'', gr_read_error = None\<rparr>, s)),
     rm_cache = \<lparr>ca_get = (\<lambda>_ _. None), ca_set = (\<lambda>_ _ s. s), ca_delete = (\<lambda>_ s. s)\<rparr>,
     rm_parse = (\<lambda>t. if t = ''A'' then Some actor_json else if t = ''1'' \<or> t = ''2'' then Some (follow_json t) else None),
     rm_url_error = (\<lambda>_. []), rm_json_error = (\<lambda>_. ''invalid character''), rm_residue = (\<lambda>_. zero_actor)\<rparr>"

definition legacy_inbound :: "(unit, unit, mem) inbound" where
  "legacy_inbound = \<lparr>in_library = sample_library,
     in_legacy = (\<lambda>r. if hq_header r ''Signature'' = [] then Inl ''no signature''
        else Inr \<lparr>lv_key_id = hd (hq_header r ''Signature''), lv_verify = (\<lambda>_. Inr ())\<rparr>),
     in_codec = \<lparr>kc_pem = Some, kc_pkix = (\<lambda>_. Inr (PkixRSA ())), kc_pkcs1 = (\<lambda>_. Inl [])\<rparr>,
     in_sum = (\<lambda>s. s), in_verifier = None, in_remote = one_actor_remote, in_has_cache = True, in_max_bytes = 1000,
     in_metrics = False\<rparr>"

definition legacy_post :: "string \<Rightarrow> http_request" where
  "legacy_post body = \<lparr>hq_method = ''POST'', hq_host = ''relay.example'', hq_url = None,
     hq_header = (\<lambda>_. [])(''Signature'' := [''https://a.example/u#main-key''],
       ''Digest'' := [''SHA-256='' @ base64_std body]), hq_body = body\<rparr>"

theorem inbox_acts_on_authenticated_activities_witness:
  "\<exists>out js ms st' db' act actr. inbox_endpoint sample_api legacy_inbound fresh_ids ''now'' 0 (legacy_post ''1'') (Some (''1'', None))
      (empty_state True) no_data = (out, js, ms, st', db') \<and> js \<noteq> []
    \<and> authenticated legacy_inbound 0 (legacy_post ''1'') ''1'' no_data act actr"
proof -
  let ?run = "inbox_endpoint sample_api legacy_inbound fresh_ids ''now'' 0 (legacy_post ''1'') (Some (''1'', None)) (empty_state True) no_data"
  obtain out js ms st' db' where run: "?run = (out, js, ms, st', db')" by (rule prod_cases5)
  have "length (fst (snd ?run)) = 1" by code_simp
  then have js: "js \<noteq> []" unfolding run by auto
  have body: "readInboundActivityBody (in_max_bytes legacy_inbound) (Some (''1'', None)) = Inr ''1''" by code_simp
  from inbox_acts_on_authenticated_activities [OF run] js body
  have "\<exists>act actr. authenticated legacy_inbound 0 (legacy_post ''1'') ''1'' no_data act actr" by auto
  with run js show ?thesis by blast
qed

theorem legacy_signature_leaves_body_unbound_witness:
  "\<exists>act actr s act' s'. decodeLegacyActivity legacy_inbound (legacy_post ''1'') ''1'' no_data = (Inr (act, actr), s)
     \<and> decodeLegacyActivity legacy_inbound ((legacy_post ''1'')\<lparr>hq_header :=
          header_set ''Digest'' (''SHA-256='' @ base64_std ''2'') (hq_header (legacy_post ''1''))\<rparr>) ''2'' no_data = (Inr (act', actr), s')
     \<and> av_id act = ''1'' \<and> av_id act' = ''2''"
proof -
  let ?run = "decodeLegacyActivity legacy_inbound (legacy_post ''1'') ''1'' no_data"
  have "is_ok (fst ?run)" by code_simp
  then obtain act actr s where run: "?run = (Inr (act, actr), s)" by (cases ?run) (auto simp: is_ok_iff)
  have ids: "map_result (\<lambda>a. (av_id a, av_actor a)) (parseInboundActivity one_actor_remote ''1'') = Inr (''1'', ''https://a.example/u'')"
    "map_result (\<lambda>a. (av_id a, av_actor a)) (parseInboundActivity one_actor_remote ''2'') = Inr (''2'', ''https://a.example/u'')"
    by code_simp+
  then obtain act' where p2: "parseInboundActivity one_actor_remote ''2'' = Inr act'" "av_id act' = ''2''" "av_actor act' = ''https://a.example/u''"
    by (auto simp: map_result_def split: sum.splits)
  have "parseInboundActivity (in_remote legacy_inbound) ''1'' = Inr act"
    using decodeLegacyActivity_Inr [OF run] by simp
  then have p1: "av_id act = ''1''" "av_actor act = ''https://a.example/u''"
    using ids(1) by (simp_all add: legacy_inbound_def map_result_def)
  have "decodeLegacyActivity legacy_inbound ((legacy_post ''1'')\<lparr>hq_header :=
          header_set ''Digest'' (''SHA-256='' @ base64_std ''2'') (hq_header (legacy_post ''1''))\<rparr>) ''2'' no_data = (Inr (act', actr), s)"
    by (rule legacy_signature_leaves_body_unbound [OF run])
       (simp_all add: legacy_inbound_def with_host_def header_set_def legacy_post_def p1 p2)
  with run p1 p2 show ?thesis by blast
qed

end
