(* ===== verification/Directory_Store.thy ===== *)
theory Directory_Store
  imports Redis_Interface Destination_Negotiation RFC9421_Signature
begin

text \<open>
  The durable state of the directory scheduler and its leases (\<open>internal/directoryscheduler/store.go\<close>).
  State and lease of a directory live under two Redis keys made from the SHA-256 of its origin; SHA-256
  is the argument \<open>sum256\<close>. A lease holds its key and its random token, which is an argument of
  \<open>Acquire\<close> (\<^const>\<open>Inl\<close> when the source of randomness fails). The client pointer of a store or a lease is
  never nil: stores are made by \<open>NewRedisStore\<close>, leases by \<open>Acquire\<close>, both over the one server \<open>R\<close>.
\<close>

record sched_state =
  ss_registered :: bool
  ss_last_success :: time
  ss_next_attempt :: time
  ss_outcome :: string
  ss_diagnostic :: string
  ss_attempt :: int
  ss_last_observed :: time
  ss_profile_digest :: string
  ss_profile_version :: int

definition zero_state :: sched_state where
  "zero_state = \<lparr>ss_registered = False, ss_last_success = zero_time, ss_next_attempt = zero_time, ss_outcome = [],
     ss_diagnostic = [], ss_attempt = 0, ss_last_observed = zero_time, ss_profile_digest = [], ss_profile_version = 0\<rparr>"

record lease =
  ls_key :: string
  ls_value :: string

definition ErrStore :: string where "ErrStore = ''directory scheduler store failed''"
definition keyPrefix :: string where "keyPrefix = ''relay:directory:v1:''"
definition stateRetention :: duration where "stateRetention = 90 * 24 * hour"
definition maximumAttempt :: int where "maximumAttempt = 16"

definition directoryKey :: "(string \<Rightarrow> string) \<Rightarrow> string \<Rightarrow> string \<Rightarrow> string" where
  "directoryKey sum256 origin part = keyPrefix @ hex_encode (sum256 origin) @ '':'' @ part"

section \<open>Encoding\<close>

definition parseTime :: "string \<Rightarrow> time result" where
  "parseTime v =
     (if v = [] \<or> v = ''0'' then Inr zero_time
      else case parse_int64 v of
        NumOk s \<Rightarrow> if s < 0 then Inl ErrStore else Inr (s * second)
      | _ \<Rightarrow> Inl ErrStore)"

definition unixString :: "time \<Rightarrow> string" where
  "unixString t = (if is_zero t then ''0'' else show_int (t div second))"

text \<open>\<open>hex.DecodeString\<close>.\<close>

fun hex_decode :: "string \<Rightarrow> string option" where
  "hex_decode [] = Some []"
| "hex_decode [c] = None"
| "hex_decode (h # l # s) =
     (case (unhex h, unhex l, hex_decode s) of
        (Some a, Some b, Some t) \<Rightarrow> Some (char_of (16 * a + b) # t)
      | _ \<Rightarrow> None)"

definition validProfileState :: "string \<Rightarrow> int \<Rightarrow> bool" where
  "validProfileState digest version =
     (if digest = [] then version = 0
      else if version \<noteq> 1 \<and> version \<noteq> 2 \<and> version \<noteq> 3 \<or> length digest \<noteq> 64 then False
      else case hex_decode digest of
        None \<Rightarrow> False
      | Some d \<Rightarrow> length d = 32 \<and> hex_encode d = digest)"

definition validOutcome :: "string \<Rightarrow> bool" where
  "validOutcome v \<longleftrightarrow> v \<in> {[], ''registered'', ''heartbeat'', ''retrying'', ''authentication'', ''policy'', ''suspended'',
     ''malformed'', ''disabled''}"

definition validDiagnostic :: "string \<Rightarrow> bool" where
  "validDiagnostic v \<longleftrightarrow> v \<in> {[], ''none'', ''transport'', ''internal'', ''rate_limited'', ''authentication'', ''enrollment'',
     ''suspended'', ''lifecycle'', ''malformed'', ''lease_lost'', ''disabled''}"

definition validateState :: "string \<Rightarrow> sched_state \<Rightarrow> unit result" where
  "validateState origin s =
     (if origin = [] \<or> ss_attempt s < 0 \<or> maximumAttempt < ss_attempt s \<or> \<not> validOutcome (ss_outcome s)
         \<or> \<not> validDiagnostic (ss_diagnostic s) \<or> \<not> validProfileState (ss_profile_digest s) (ss_profile_version s)
      then Inl ErrStore else Inr ())"

definition state_fields :: "string list" where
  "state_fields = [''registered'', ''last_success_unix'', ''next_attempt_unix'', ''last_outcome'', ''diagnostic'',
     ''attempt'', ''last_observed_unix'', ''profile_digest'', ''profile_protocol_version'']"

definition stateArguments :: "sched_state \<Rightarrow> string list" where
  "stateArguments s =
     [if ss_registered s then ''1'' else ''0'', unixString (ss_last_success s), unixString (ss_next_attempt s),
      ss_outcome s, ss_diagnostic s, show_int (ss_attempt s), unixString (ss_last_observed s),
      ss_profile_digest s, show_int (ss_profile_version s)]"

text \<open>The value of a field of the reply, as Go reads a map: an absent field is the empty string.\<close>

definition value_of :: "(string \<Rightarrow> string option) \<Rightarrow> string \<Rightarrow> string" where
  "value_of h f = (case h f of None \<Rightarrow> [] | Some v \<Rightarrow> v)"

text \<open>\<open>strconv.ParseUint(v, 10, 8)\<close> with an upper bound, 0 for an empty field.\<close>

definition small_number :: "int \<Rightarrow> string \<Rightarrow> int result" where
  "small_number bound v =
     (if v = [] then Inr 0
      else case parse_uint 8 v of
        NumOk n \<Rightarrow> if bound < n then Inl ErrStore else Inr n
      | _ \<Rightarrow> Inl ErrStore)"

definition decode_state :: "(string \<Rightarrow> string option) \<Rightarrow> sched_state result" where
  "decode_state h =
     (if value_of h ''registered'' \<noteq> ''0'' \<and> value_of h ''registered'' \<noteq> ''1'' then Inl ErrStore
      else
        bind_result (parseTime (value_of h ''last_success_unix'')) (\<lambda>last_success.
        bind_result (parseTime (value_of h ''next_attempt_unix'')) (\<lambda>next_attempt.
        bind_result (parseTime (value_of h ''last_observed_unix'')) (\<lambda>last_observed.
        bind_result (small_number maximumAttempt (value_of h ''attempt'')) (\<lambda>attempt.
        bind_result (small_number 3 (value_of h ''profile_protocol_version'')) (\<lambda>version.
          let s = \<lparr>ss_registered = (value_of h ''registered'' = ''1''), ss_last_success = last_success,
                ss_next_attempt = next_attempt, ss_outcome = value_of h ''last_outcome'',
                ss_diagnostic = value_of h ''diagnostic'', ss_attempt = attempt, ss_last_observed = last_observed,
                ss_profile_digest = value_of h ''profile_digest'', ss_profile_version = version\<rparr>
          in if \<not> validOutcome (ss_outcome s) \<or> \<not> validDiagnostic (ss_diagnostic s)
                \<or> \<not> validProfileState (ss_profile_digest s) version then Inl ErrStore
             else Inr s))))))"

section \<open>Operations\<close>

text \<open>\<open>HGETALL\<close> gives the fields and values of the hash.\<close>

definition hgetall :: "'db redis \<Rightarrow> string \<Rightarrow> 'db \<Rightarrow> (string \<times> string) list result \<times> 'db" where
  "hgetall R key = command R ''hgetall'' (on_hash R key (\<lambda>db.
     (List.map_filter (\<lambda>f. map_option (Pair f) (r_hash R db key f)) (r_hkeys R db key), db)))"

definition LoadState ::
  "'db redis \<Rightarrow> (string \<Rightarrow> string) \<Rightarrow> string \<Rightarrow> 'db \<Rightarrow> sched_state result \<times> 'db" where
  "LoadState R sum256 origin db =
     (if origin = [] then (Inl ErrStore, db)
      else case hgetall R (directoryKey sum256 origin ''state'') db of
        (Inl e, db') \<Rightarrow> (Inl ErrStore, db')
      | (Inr fvs, db') \<Rightarrow> (if fvs = [] then Inr zero_state else decode_state (map_of fvs), db'))"

definition write_state :: "'db redis \<Rightarrow> string \<Rightarrow> sched_state \<Rightarrow> 'db \<Rightarrow> 'db" where
  "write_state R key s db =
     r_pexpire R key (stateRetention div millisecond) (r_hset R key (zip state_fields (stateArguments s)) db)"

definition Save :: "'db redis \<Rightarrow> (string \<Rightarrow> string) \<Rightarrow> string \<Rightarrow> sched_state \<Rightarrow> 'db \<Rightarrow> unit result \<times> 'db" where
  "Save R sum256 origin s db =
     (if isl (validateState origin s) then (Inl ErrStore, db)
      else let key = directoryKey sum256 origin ''state''
           in case command R ''exec'' (on_hash R key (\<lambda>db. ((), write_state R key s db))) db of
                (Inl e, db') \<Rightarrow> (Inl ErrStore, db')
              | (Inr _, db') \<Rightarrow> (Inr (), db'))"

definition saveOwnedScript :: "'db redis \<Rightarrow> string \<Rightarrow> string \<Rightarrow> string \<Rightarrow> sched_state \<Rightarrow> 'db \<Rightarrow> int result \<times> 'db" where
  "saveOwnedScript R lease_key state_key token s db =
     (if r_hkeys R db lease_key \<noteq> [] then (Inl redis_error, db)
      else if r_str R db lease_key \<noteq> Some token then (Inr 0, db)
      else if r_str R db state_key \<noteq> None then (Inl redis_error, db)
      else (Inr 1, write_state R state_key s db))"

definition SaveOwned ::
  "'db redis \<Rightarrow> (string \<Rightarrow> string) \<Rightarrow> string \<Rightarrow> lease \<Rightarrow> sched_state \<Rightarrow> 'db \<Rightarrow> bool result \<times> 'db" where
  "SaveOwned R sum256 origin l s db =
     (if ls_key l \<noteq> directoryKey sum256 origin ''lease'' \<or> isl (validateState origin s) then (Inl ErrStore, db)
      else case command R ''eval''
              (saveOwnedScript R (ls_key l) (directoryKey sum256 origin ''state'') (ls_value l) s) db of
        (Inl e, db') \<Rightarrow> (Inl ErrStore, db')
      | (Inr n, db') \<Rightarrow> (Inr (n = 1), db'))"

definition Acquire ::
  "'db redis \<Rightarrow> (string \<Rightarrow> string) \<Rightarrow> string result \<Rightarrow> string \<Rightarrow> duration \<Rightarrow> 'db \<Rightarrow> lease option result \<times> 'db" where
  "Acquire R sum256 token origin ttl db =
     (if origin = [] \<or> ttl \<le> 0 then (Inl ErrStore, db)
      else case token of
        Inl e \<Rightarrow> (Inl ErrStore, db)
      | Inr v \<Rightarrow>
          let key = directoryKey sum256 origin ''lease''
          in case call R ''set'' (r_setnx R key v (ttl_millis ttl)) db of
               (Inl e, db') \<Rightarrow> (Inl ErrStore, db')
             | (Inr acquired, db') \<Rightarrow>
                 (Inr (if acquired then Some \<lparr>ls_key = key, ls_value = v\<rparr> else None), db'))"

text \<open>The scripts of \<open>Renew\<close> and \<open>Release\<close>; \<open>GET\<close> of a key that holds a hash fails.\<close>

definition ownedScript :: "'db redis \<Rightarrow> lease \<Rightarrow> ('db \<Rightarrow> 'db) \<Rightarrow> 'db \<Rightarrow> int result \<times> 'db" where
  "ownedScript R l f db =
     (if r_hkeys R db (ls_key l) \<noteq> [] then (Inl redis_error, db)
      else if r_str R db (ls_key l) = Some (ls_value l) then (Inr 1, f db) else (Inr 0, db))"

definition Renew :: "'db redis \<Rightarrow> lease \<Rightarrow> duration \<Rightarrow> 'db \<Rightarrow> bool result \<times> 'db" where
  "Renew R l ttl db =
     (if ttl \<le> 0 then (Inl ErrStore, db)
      else case command R ''eval'' (ownedScript R l (r_pexpire R (ls_key l) (ttl div millisecond))) db of
        (Inl e, db') \<Rightarrow> (Inl ErrStore, db')
      | (Inr n, db') \<Rightarrow> (Inr (n = 1), db'))"

definition Release :: "'db redis \<Rightarrow> lease \<Rightarrow> 'db \<Rightarrow> unit result \<times> 'db" where
  "Release R l db =
     (case command R ''eval'' (ownedScript R l (r_del R (ls_key l))) db of
        (Inl e, db') \<Rightarrow> (Inl ErrStore, db')
      | (Inr n, db') \<Rightarrow> (Inr (), db'))"

end
