(* ===== verification/Go_Net.thy ===== *)
theory Go_Net
  imports Go_URL
begin

text \<open>
  What the directory client uses of Go's \<open>net/netip\<close>, \<open>net\<close> and \<open>mime\<close>: \<open>netip.ParseAddr\<close>, \<open>Addr.String\<close>
  and the classification of addresses, \<open>net.SplitHostPort\<close>, and \<open>mime.ParseMediaType\<close>. An address is
  its octets, or its eight 16-bit groups and its zone.
\<close>

section \<open>IP addresses\<close>

datatype addr = V4 "int list" | V6 "int list" string

text \<open>\<open>parseIPv4Fields\<close>: four decimal octets without leading zeros.\<close>

definition v4_octet :: "string \<Rightarrow> bool" where
  "v4_octet f \<longleftrightarrow> f \<noteq> [] \<and> list_all is_digit f \<and> digits_value f \<le> 255 \<and> (length f = 1 \<or> hd f \<noteq> CHR ''0'')"

definition parse_v4 :: "string \<Rightarrow> int list option" where
  "parse_v4 s = (let fs = split_on (CHR ''.'') s
     in if length fs = 4 \<and> list_all v4_octet fs then Some (map (\<lambda>f. int (digits_value f)) fs) else None)"

definition hex_digit :: "char \<Rightarrow> bool" where
  "hex_digit c \<longleftrightarrow> unhex c \<noteq> None"

definition hex_value :: "string \<Rightarrow> int" where
  "hex_value s = foldl (\<lambda>n c. 16 * n + (case unhex c of Some d \<Rightarrow> int d | None \<Rightarrow> 0)) 0 s"

text \<open>
  The loop of \<open>parseIPv6\<close>: the groups read so far and the position of the ellipsis.
\<close>

lemma dropWhile_length: "dropWhile P s = t \<Longrightarrow> length t \<le> length s"
  using length_dropWhile_le by blast

function v6_fields :: "string \<Rightarrow> int list \<Rightarrow> nat option \<Rightarrow> (int list \<times> nat option) option" where
  "v6_fields s acc ell =
     (if 8 \<le> length acc then (if s = [] then Some (acc, ell) else None)
      else
        let run = takeWhile hex_digit s; acc' = acc @ [hex_value run]
        in if run = [] \<or> 4 < length run then None
           else case dropWhile hex_digit s of
             [] \<Rightarrow> Some (acc', ell)
           | c # r \<Rightarrow>
               if c = CHR ''.'' then
                 (if ell = None \<and> length acc \<noteq> 6 \<or> 6 < length acc then None
                  else case parse_v4 s of
                    Some [a, b, c, d] \<Rightarrow> Some (acc @ [256 * a + b, 256 * c + d], ell)
                  | _ \<Rightarrow> None)
               else if c \<noteq> CHR '':'' then None
               else (case r of
                  [] \<Rightarrow> None
                | d # r' \<Rightarrow>
                    if d \<noteq> CHR '':'' then v6_fields r acc' ell
                    else if ell \<noteq> None then None
                    else if r' = [] then Some (acc', Some (length acc'))
                    else v6_fields r' acc' (Some (length acc'))))"
  by pat_completeness auto
termination
  by (relation "measure (\<lambda>(s, _, _). length s)") (auto dest!: dropWhile_length)

declare v6_fields.simps [simp del]

definition v6_expand :: "int list \<times> nat option \<Rightarrow> int list option" where
  "v6_expand ge =
     (case ge of (gs, ell) \<Rightarrow>
        (case ell of
           None \<Rightarrow> if length gs = 8 then Some gs else None
         | Some e \<Rightarrow> if length gs < 8 then Some (take e gs @ replicate (8 - length gs) 0 @ drop e gs) else None))"

definition parse_v6 :: "string \<Rightarrow> addr option" where
  "parse_v6 s0 =
     (case cut (CHR ''%'') s0 of (s, zone) \<Rightarrow>
        if CHR ''%'' \<in> set s0 \<and> zone = [] then None
        else if has_prefix s ''::'' then
          (if drop 2 s = [] then Some (V6 (replicate 8 0) zone)
           else map_option (\<lambda>gs. V6 gs zone) (Option.bind (v6_fields (drop 2 s) [] (Some 0)) v6_expand))
        else map_option (\<lambda>gs. V6 gs zone) (Option.bind (v6_fields s [] None) v6_expand))"

definition parse_addr :: "string \<Rightarrow> addr option" where
  "parse_addr s =
     (case dropWhile (\<lambda>c. c \<notin> set ''.:%'') s of
        [] \<Rightarrow> None
      | c # _ \<Rightarrow> if c = CHR ''.'' then map_option V4 (parse_v4 s)
                 else if c = CHR '':'' then parse_v6 s else None)"

function show_hex :: "int \<Rightarrow> string" where
  "show_hex n =
     (if n < 16 then [lower_char (upper_hex (nat n))]
      else show_hex (n div 16) @ [lower_char (upper_hex (nat (n mod 16)))])"
  by pat_completeness auto
termination
  by (relation "measure nat") auto

declare show_hex.simps [simp del]

definition show_v4 :: "int list \<Rightarrow> string" where
  "show_v4 os = join ''.'' (map show_int os)"

text \<open>The first longest run of at least two zero groups, as start and length.\<close>

definition zero_run :: "int list \<Rightarrow> nat \<times> nat" where
  "zero_run gs = foldl (\<lambda>(st, n) i.
     let l = length (takeWhile (\<lambda>g. g = 0) (drop i gs)) in if 2 \<le> l \<and> n < l then (i, l) else (st, n)) (0, 0) [0..<8]"

definition is4in6 :: "int list \<Rightarrow> bool" where
  "is4in6 gs \<longleftrightarrow> take 6 gs = [0, 0, 0, 0, 0, 65535]"

definition unmap_groups :: "int list \<Rightarrow> int list" where
  "unmap_groups gs = concat (map (\<lambda>g. [g div 256, g mod 256]) (drop 6 gs))"

definition addr_string :: "addr \<Rightarrow> string" where
  "addr_string a =
     (case a of
        V4 os \<Rightarrow> show_v4 os
      | V6 gs zone \<Rightarrow>
          (if is4in6 gs then ''::ffff:'' @ show_v4 (unmap_groups gs)
           else case zero_run gs of (st, n) \<Rightarrow>
             if n = 0 then join '':'' (map show_hex gs)
             else join '':'' (map show_hex (take st gs)) @ ''::'' @ join '':'' (map show_hex (drop (st + n) gs)))
          @ (if zone = [] then [] else CHR ''%'' # zone))"

definition is6 :: "addr \<Rightarrow> bool" where
  "is6 a = (case a of V4 _ \<Rightarrow> False | V6 _ _ \<Rightarrow> True)"

text \<open>
  The classes of addresses. \<open>IsUnspecified\<close> compares with the two unspecified addresses as they are;
  the other tests see an IPv4-mapped address as the IPv4 address it carries.
\<close>

definition is_unspecified :: "addr \<Rightarrow> bool" where
  "is_unspecified a \<longleftrightarrow> a = V4 [0, 0, 0, 0] \<or> a = V6 [0, 0, 0, 0, 0, 0, 0, 0] []"

definition unmap :: "addr \<Rightarrow> addr" where
  "unmap a = (case a of V4 os \<Rightarrow> V4 os | V6 gs zone \<Rightarrow> if is4in6 gs then V4 (unmap_groups gs) else V6 gs zone)"

definition is_loopback :: "addr \<Rightarrow> bool" where
  "is_loopback a = (case unmap a of V4 os \<Rightarrow> hd os = 127 | V6 gs _ \<Rightarrow> gs = [0, 0, 0, 0, 0, 0, 0, 1])"

definition is_link_local_unicast :: "addr \<Rightarrow> bool" where
  "is_link_local_unicast a =
     (case unmap a of V4 os \<Rightarrow> take 2 os = [169, 254] | V6 gs _ \<Rightarrow> hd gs div 64 = 0xfe80 div 64)"

definition is_link_local_multicast :: "addr \<Rightarrow> bool" where
  "is_link_local_multicast a =
     (case unmap a of
        V4 os \<Rightarrow> take 3 os = [224, 0, 0]
      | V6 gs _ \<Rightarrow> hd gs div 256 = 255 \<and> hd gs mod 16 = 2)"

definition is_multicast :: "addr \<Rightarrow> bool" where
  "is_multicast a = (case unmap a of V4 os \<Rightarrow> hd os div 16 = 14 | V6 gs _ \<Rightarrow> hd gs div 256 = 255)"

section \<open>\<open>net.SplitHostPort\<close>\<close>

definition net_split_host_port :: "string \<Rightarrow> (string \<times> string) option" where
  "net_split_host_port hp =
     (case last_cut (CHR '':'') hp of
        None \<Rightarrow> None
      | Some (h, p) \<Rightarrow>
          if has_prefix hp ''['' then
            (case cut (CHR '']'') (tl hp) of (inner, after) \<Rightarrow>
               if CHR '']'' \<notin> set hp \<or> after \<noteq> CHR '':'' # p \<or> CHR ''['' \<in> set inner
                  \<or> CHR ''['' \<in> set after \<or> CHR '']'' \<in> set after then None
               else Some (inner, p))
          else if CHR '':'' \<in> set h \<or> CHR ''['' \<in> set hp \<or> CHR '']'' \<in> set hp then None
          else Some (h, p))"

section \<open>\<open>mime.ParseMediaType\<close>\<close>

definition tspecial :: "char \<Rightarrow> bool" where
  "tspecial c \<longleftrightarrow> c \<in> set ''()<>@,;:/[]?='' \<union> {CHR 0x22, CHR 0x5C}"

definition token_char :: "char \<Rightarrow> bool" where
  "token_char c \<longleftrightarrow> 32 < (of_char c :: nat) \<and> (of_char c :: nat) < 127 \<and> \<not> tspecial c"

definition consume_token :: "string \<Rightarrow> string \<times> string" where
  "consume_token v = (takeWhile token_char v, dropWhile token_char v)"

text \<open>A quoted string without its opening quote; a line break or a missing quote is an error.\<close>

fun quoted_rest :: "string \<Rightarrow> (string \<times> string) option" where
  "quoted_rest [] = None"
| "quoted_rest (c # s) =
     (if c = CHR 0x22 then Some ([], s)
      else if c = CHR 0x5C \<and> s \<noteq> [] \<and> tspecial (hd s)
      then map_option (\<lambda>(a, b). (hd s # a, b)) (quoted_rest (tl s))
      else if c = CHR 0x0D \<or> c = CHR 0x0A then None
      else map_option (\<lambda>(a, b). (c # a, b)) (quoted_rest s))"

definition consume_value :: "string \<Rightarrow> string \<times> string" where
  "consume_value v =
     (case v of
        [] \<Rightarrow> ([], [])
      | c # s \<Rightarrow> if c \<noteq> CHR 0x22 then consume_token v
                 else case quoted_rest s of None \<Rightarrow> ([], v) | Some r \<Rightarrow> r)"

definition consume_media_param :: "string \<Rightarrow> (string \<times> string \<times> string) option" where
  "consume_media_param v =
     (case trim_left v of
        [] \<Rightarrow> None
      | c # s \<Rightarrow>
          if c \<noteq> CHR '';'' then None
          else case consume_token (trim_left s) of (param, r) \<Rightarrow>
            if param = [] then None
            else case trim_left r of
              [] \<Rightarrow> None
            | e # r1 \<Rightarrow>
                if e \<noteq> CHR ''='' then None
                else let r2 = trim_left r1
                     in case consume_value r2 of (val, r3) \<Rightarrow>
                          if val = [] \<and> r3 = r2 then None else Some (to_lower param, val, r3))"

lemma length_trim_left: "length (trim_left s) \<le> length s"
  using suffix_trim_runes [of s space_runes] by (metis trim_left_def le_add2 length_append)

lemma length_quoted_rest: "quoted_rest s = Some (a, b) \<Longrightarrow> length b \<le> length s"
  by (induction s arbitrary: a rule: quoted_rest.induct) (force split: if_splits)+

lemma length_consume_value: "length (snd (consume_value v)) \<le> length v"
  by (auto simp: consume_value_def consume_token_def length_dropWhile_le intro: le_SucI
      dest: length_quoted_rest split: list.split option.split)

lemma consume_media_param_less:
  assumes "consume_media_param v = Some (k, val, rest)" shows "length rest < length v"
proof -
  obtain s r r1 where s: "trim_left v = CHR '';'' # s" and r: "r = snd (consume_token (trim_left s))"
    and r1: "trim_left r = CHR ''='' # r1" and rest: "rest = snd (consume_value (trim_left r1))"
    using assms by (auto simp: consume_media_param_def Let_def split: list.splits if_splits prod.splits)
  have "length rest \<le> length (trim_left r1)" unfolding rest by (rule length_consume_value)
  also have "\<dots> \<le> length r1" by (rule length_trim_left)
  also have "\<dots> < length (trim_left r)" unfolding r1 by simp
  also have "\<dots> \<le> length r" by (rule length_trim_left)
  also have "\<dots> \<le> length (trim_left s)" unfolding r consume_token_def by (simp add: length_dropWhile_le)
  also have "\<dots> \<le> length s" by (rule length_trim_left)
  also have "\<dots> \<le> length (trim_left v)" unfolding s by simp
  also have "\<dots> \<le> length v" by (rule length_trim_left)
  finally show ?thesis .
qed

text \<open>The parameters, under the names as written; the outer \<^const>\<open>None\<close> is an error.\<close>

function media_params :: "string \<Rightarrow> (string \<times> string) list \<Rightarrow> (string \<times> string) list option" where
  "media_params v ps =
     (if trim_left v = [] then Some ps
      else case consume_media_param (trim_left v) of
        None \<Rightarrow> if trim_space (trim_left v) = '';'' then Some ps else None
      | Some (k, val, rest) \<Rightarrow>
          (case map_of ps k of
             Some old \<Rightarrow> if old \<noteq> val then None else media_params rest ps
           | None \<Rightarrow> media_params rest ((k, val) # ps)))"
  by pat_completeness auto
termination
  by (relation "measure (\<lambda>(v, _). length v)")
     (auto dest!: consume_media_param_less intro: less_le_trans [OF _ length_trim_left])

declare media_params.simps [simp del]

text \<open>
  RFC 2231: a name with a star is a piece of a parameter. The piece of a name that ends in the star
  counts when it has a charset the package knows and no broken escape; otherwise piece 0 must be there.
\<close>

fun valid_percent :: "string \<Rightarrow> bool" where
  "valid_percent [] = True"
| "valid_percent (c # s) =
     (if c = CHR ''%'' then (case s of h # l # r \<Rightarrow> hex_digit h \<and> hex_digit l \<and> valid_percent r | _ \<Rightarrow> False)
      else valid_percent s)"

definition decode_2231 :: "string \<Rightarrow> bool" where
  "decode_2231 v =
     (case split_on (CHR 0x27) v of
        charset # _ # rest \<Rightarrow>
          rest \<noteq> [] \<and> to_lower charset \<in> {''us-ascii'', ''utf-8''} \<and> valid_percent (join [CHR 0x27] rest)
      | _ \<Rightarrow> False)"

definition param_name :: "(string \<times> string) list \<Rightarrow> string \<Rightarrow> string option" where
  "param_name ps k =
     (if CHR ''*'' \<notin> set k then Some k
      else let base = fst (cut (CHR ''*'') k)
           in case map_of ps (base @ ''*'') of
                Some v \<Rightarrow> if decode_2231 v then Some base else None
              | None \<Rightarrow> if map_of ps (base @ ''*0'') \<noteq> None \<or> map_of ps (base @ ''*0*'') \<noteq> None then Some base else None)"

definition valid_media_type :: "string \<Rightarrow> bool" where
  "valid_media_type s =
     (case consume_token s of (typ, r) \<Rightarrow>
        typ \<noteq> [] \<and> (r = [] \<or> hd r = CHR ''/'' \<and> tl r \<noteq> [] \<and> list_all token_char (tl r)))"

text \<open>The media type and the names of its parameters.\<close>

definition parse_media_type :: "string \<Rightarrow> (string \<times> string list) option" where
  "parse_media_type v =
     (let base = takeWhile (\<lambda>c. c \<noteq> CHR '';'') v; mt = trim_space (to_lower base)
      in if \<not> valid_media_type mt then None
         else case media_params (drop (length base) v) [] of
           None \<Rightarrow> None
         | Some ps \<Rightarrow> Some (mt, List.map_filter (param_name ps) (map fst ps)))"

lemma media_type_examples:
  "parse_media_type '' Application/JSON '' = Some (''application/json'', [])"
  "parse_media_type ''application/json; charset=utf-8'' = Some (''application/json'', [''charset''])"
  "parse_media_type ''application/json; '' = Some (''application/json'', [])"
  "parse_media_type ''application/json; x'' = None"
  by code_simp+

lemma addr_examples:
  "map_option addr_string (parse_addr ''192.0.2.7'') = Some ''192.0.2.7''"
  "map_option addr_string (parse_addr ''2001:DB8:0:0:1:0:0:1'') = Some ''2001:db8::1:0:0:1''"
  "map_option addr_string (parse_addr ''::ffff:10.0.0.1'') = Some ''::ffff:10.0.0.1''"
  "parse_addr ''01.2.3.4'' = None" "parse_addr ''1::2::3'' = None" "parse_addr ''example.com'' = None"
  "net_split_host_port ''[2001:db8::1]:443'' = Some (''2001:db8::1'', ''443'')"
  by code_simp+

end
