(* ===== verification/Directory_Profile.thy ===== *)
theory Directory_Profile
  imports Go_Net Destination_Negotiation "HOL-Library.List_Lexorder" "HOL-Library.Char_ord"
begin

text \<open>
  The vocabulary of the Activity-Relay Directory protocol (\<open>internal/directoryclient/vocabulary.go\<close>), the
  origins of directories (\<open>origin.go\<close>) and the descriptive profile of a relay (\<open>profile.go\<close>). The Go
  types \<open>Operation\<close>, \<open>Outcome\<close> and \<open>ErrorCode\<close> are strings that may hold any text a directory sends; their
  \<open>valid\<close> methods close the vocabulary. \<open>mail.ParseAddress\<close> is the argument \<open>mail\<close>, which gives the address
  it parsed.
\<close>

section \<open>Vocabulary\<close>

type_synonym operation = string
type_synonym dir_outcome = string
type_synonym error_code = string

abbreviation OperationRegister :: operation where "OperationRegister \<equiv> ''register''"
abbreviation OperationHeartbeat :: operation where "OperationHeartbeat \<equiv> ''heartbeat''"
abbreviation OperationUnregister :: operation where "OperationUnregister \<equiv> ''unregister''"

definition operation_valid :: "operation \<Rightarrow> bool" where
  "operation_valid op \<longleftrightarrow> op \<in> {OperationRegister, OperationHeartbeat, OperationUnregister}"

definition outcome_valid_for :: "dir_outcome \<Rightarrow> operation \<Rightarrow> bool" where
  "outcome_valid_for oc op =
     (if op = OperationRegister then oc = ''created'' \<or> oc = ''updated'' \<or> oc = ''unchanged''
      else if op = OperationHeartbeat then oc = ''recorded''
      else if op = OperationUnregister then oc = ''removed'' \<or> oc = ''absent''
      else False)"

abbreviation ErrorInvalidRequest :: error_code where "ErrorInvalidRequest \<equiv> ''invalid_request''"
abbreviation ErrorUnsupportedProtocolVersion :: error_code where
  "ErrorUnsupportedProtocolVersion \<equiv> ''unsupported_protocol_version''"
abbreviation ErrorAuthenticationFailed :: error_code where "ErrorAuthenticationFailed \<equiv> ''authentication_failed''"
abbreviation ErrorReplayDetected :: error_code where "ErrorReplayDetected \<equiv> ''replay_detected''"
abbreviation ErrorLifecycleUnavailable :: error_code where "ErrorLifecycleUnavailable \<equiv> ''lifecycle_unavailable''"
abbreviation ErrorEnrollmentClosed :: error_code where "ErrorEnrollmentClosed \<equiv> ''enrollment_closed''"
abbreviation ErrorRelayNotRegistered :: error_code where "ErrorRelayNotRegistered \<equiv> ''relay_not_registered''"
abbreviation ErrorRelaySuspended :: error_code where "ErrorRelaySuspended \<equiv> ''relay_suspended''"
abbreviation ErrorRateLimited :: error_code where "ErrorRateLimited \<equiv> ''rate_limited''"
abbreviation ErrorInternal :: error_code where "ErrorInternal \<equiv> ''internal_error''"

definition error_code_valid :: "error_code \<Rightarrow> bool" where
  "error_code_valid c \<longleftrightarrow> c \<in> {ErrorInvalidRequest, ErrorUnsupportedProtocolVersion, ErrorAuthenticationFailed,
     ErrorReplayDetected, ErrorLifecycleUnavailable, ErrorEnrollmentClosed, ErrorRelayNotRegistered,
     ErrorRelaySuspended, ErrorRateLimited, ErrorInternal}"

record response =
  rs_version :: int
  rs_operation :: operation
  rs_outcome :: dir_outcome
  rs_actor :: string

record protocol_error =
  pe_status :: int
  pe_code :: error_code
  pe_retry_after :: duration

datatype dir_error =
    ErrDirectoryConfiguration
  | ErrDirectoryResponse
  | ErrResponseTooLarge
  | ErrDirectoryTransport
  | ErrProfile
  | Protocol protocol_error
  | OtherError string

section \<open>Origins\<close>

record directory =
  d_origin :: string
  d_enabled :: bool

definition MaximumDirectories :: nat where "MaximumDirectories = 8"

definition validDNSLabel :: "string \<Rightarrow> bool" where
  "validDNSLabel label \<longleftrightarrow>
     label \<noteq> [] \<and> length label \<le> 63 \<and> hd label \<noteq> CHR ''-'' \<and> last label \<noteq> CHR ''-''
     \<and> list_all (\<lambda>c. (97 \<le> (of_char c :: nat) \<and> (of_char c :: nat) \<le> 122) \<or> is_digit c \<or> c = CHR ''-'') label"

definition canonical_port :: "string \<Rightarrow> bool" where
  "canonical_port p =
     (case parse_uint 16 p of
        NumOk n \<Rightarrow> n \<noteq> 0 \<and> n \<noteq> 443 \<and> show_int n = p
      | _ \<Rightarrow> False)"

definition canonicalAuthority :: "url \<Rightarrow> bool" where
  "canonicalAuthority u =
     (let h = hostname u; p = port u;
          host = (case parse_addr h of
              Some a \<Rightarrow> if h \<noteq> addr_string a then None
                         else Some (if is6 a then ''['' @ h @ '']'' else h)
            | None \<Rightarrow>
                if to_lower h \<noteq> h \<or> has_suffix h ''.'' \<or> 253 < length h \<or> \<not> has_sub h ''.''
                   \<or> \<not> list_all validDNSLabel (split_on (CHR ''.'') h) then None
                else Some h)
      in case host of
           None \<Rightarrow> False
         | Some ch \<Rightarrow>
             if p = [] then u_host u = ch
             else canonical_port p \<and> u_host u = ch @ '':'' @ p)"

definition ParseOrigin :: "string \<Rightarrow> dir_error + url" where
  "ParseOrigin v =
     (if v = [] \<or> trim_space v \<noteq> v then Inl ErrDirectoryConfiguration
      else case url_parse_request_uri v of
        None \<Rightarrow> Inl ErrDirectoryConfiguration
      | Some u \<Rightarrow>
          if u_scheme u \<noteq> ''https'' \<or> u_host u = [] \<or> hostname u = [] \<or> u_user u \<noteq> None \<or> u_path u \<noteq> []
             \<or> u_rawpath u \<noteq> [] \<or> u_rawquery u \<noteq> [] \<or> u_fragment u \<noteq> [] \<or> u_forcequery u \<or> u_opaque u \<noteq> []
             \<or> url_string u \<noteq> v then Inl ErrDirectoryConfiguration
          else if \<not> canonicalAuthority u then Inl ErrDirectoryConfiguration
          else Inr u)"

fun parse_entries :: "string list \<Rightarrow> directory list \<Rightarrow> dir_error + directory list" where
  "parse_entries seen [] = Inr []"
| "parse_entries seen (e # es) =
     (case ParseOrigin (d_origin e) of
        Inl x \<Rightarrow> Inl x
      | Inr origin \<Rightarrow>
          let canonical = url_string origin
          in if canonical \<in> set seen then Inl ErrDirectoryConfiguration
             else case parse_entries (canonical # seen) es of
               Inl x \<Rightarrow> Inl x
             | Inr ds \<Rightarrow> Inr (\<lparr>d_origin = canonical, d_enabled = d_enabled e\<rparr> # ds))"

definition ParseDirectories :: "directory list \<Rightarrow> dir_error + directory list" where
  "ParseDirectories es =
     (if MaximumDirectories < length es then Inl ErrDirectoryConfiguration else parse_entries [] es)"

section \<open>The profile\<close>

text \<open>\<open>utf8.ValidString\<close>.\<close>

definition cont_byte :: "char \<Rightarrow> bool" where
  "cont_byte c \<longleftrightarrow> (of_char c :: nat) div 64 = 2"

definition second_byte_ok :: "nat \<Rightarrow> char \<Rightarrow> bool" where
  "second_byte_ok lead c =
     (let n = (of_char c :: nat)
      in if lead = 224 then 160 \<le> n \<and> n \<le> 191
         else if lead = 237 then 128 \<le> n \<and> n \<le> 159
         else if lead = 240 then 144 \<le> n \<and> n \<le> 191
         else if lead = 244 then 128 \<le> n \<and> n \<le> 143
         else cont_byte c)"

definition rune_length :: "nat \<Rightarrow> nat" where
  "rune_length lead =
     (if lead < 128 then 1 else if lead < 194 then 0 else if lead < 224 then 2 else if lead < 240 then 3
      else if lead < 245 then 4 else 0)"

fun valid_utf8 :: "string \<Rightarrow> bool" where
  "valid_utf8 [] = True"
| "valid_utf8 (c # s) =
     (let lead = (of_char c :: nat); n = rune_length lead
      in if n = 1 then valid_utf8 s
         else if n = 2 then (case s of a # r \<Rightarrow> second_byte_ok lead a \<and> valid_utf8 r | _ \<Rightarrow> False)
         else if n = 3 then (case s of a # b # r \<Rightarrow> second_byte_ok lead a \<and> cont_byte b \<and> valid_utf8 r | _ \<Rightarrow> False)
         else if n = 4 then (case s of a # b # d # r \<Rightarrow> second_byte_ok lead a \<and> cont_byte b \<and> cont_byte d \<and> valid_utf8 r
                                     | _ \<Rightarrow> False)
         else False)"

record profile_warning =
  pw_field :: string
  pw_message :: string

record relay_profile =
  pr_participation_mode :: string
  pr_availability :: string
  pr_relay_type :: string
  pr_languages :: "string list"
  pr_countries :: "string list"
  pr_regions :: "string list"
  pr_topics :: "string list"
  pr_contact_fediverse :: string
  pr_contact_email :: string
  pr_contact_url :: string
  pr_participation_url :: string
  pr_notes :: string

definition empty_profile :: relay_profile where
  "empty_profile = \<lparr>pr_participation_mode = [], pr_availability = [], pr_relay_type = [], pr_languages = [],
     pr_countries = [], pr_regions = [], pr_topics = [], pr_contact_fediverse = [], pr_contact_email = [],
     pr_contact_url = [], pr_participation_url = [], pr_notes = []\<rparr>"

definition MaximumProfileScalarBytes :: int where "MaximumProfileScalarBytes = 256"
definition MaximumProfileNoteBytes :: int where "MaximumProfileNoteBytes = 1024"
definition MaximumProfileListItems :: nat where "MaximumProfileListItems = 16"
definition MaximumProfileListItemBytes :: int where "MaximumProfileListItemBytes = 128"
definition MaximumProfileURLBytes :: int where "MaximumProfileURLBytes = 2048"
definition MaximumProfileEmailBytes :: int where "MaximumProfileEmailBytes = 320"
definition MaximumProfileFediverseIDBytes :: int where "MaximumProfileFediverseIDBytes = 256"

definition validParticipationMode :: "string \<Rightarrow> bool" where
  "validParticipationMode v \<longleftrightarrow> v \<in> {[], ''open'', ''restricted'', ''closed''}"

text \<open>The runes below 32 and 127 are the bytes with these values, in any text.\<close>

definition containsProfileControl :: "string \<Rightarrow> bool" where
  "containsProfileControl v \<longleftrightarrow> list_ex is_ctl v"

definition text_within :: "int \<Rightarrow> string \<Rightarrow> bool" where
  "text_within maximum v \<longleftrightarrow> valid_utf8 v \<and> int (length v) \<le> maximum \<and> \<not> containsProfileControl v"

definition normalizeProfileText :: "int \<Rightarrow> string \<Rightarrow> dir_error + string" where
  "normalizeProfileText maximum v0 =
     (let v = trim_space v0
      in if v = [] then Inr [] else if \<not> text_within maximum v then Inl ErrProfile else Inr v)"

fun list_items :: "string list \<Rightarrow> dir_error + string list" where
  "list_items [] = Inr []"
| "list_items (v # vs) =
     (case normalizeProfileText MaximumProfileListItemBytes v of
        Inl e \<Rightarrow> Inl ErrProfile
      | Inr w \<Rightarrow> if w = [] then Inl ErrProfile
                 else case list_items vs of Inl e \<Rightarrow> Inl e | Inr ws \<Rightarrow> Inr (w # ws))"

definition normalizeProfileList :: "string list \<Rightarrow> dir_error + string list" where
  "normalizeProfileList vs =
     (if vs = [] then Inr []
      else if MaximumProfileListItems < length vs then Inl ErrProfile
      else case list_items vs of Inl e \<Rightarrow> Inl e | Inr ws \<Rightarrow> Inr (sort (remdups ws)))"

definition normalizeProfileEmail :: "(string \<Rightarrow> string option) \<Rightarrow> string \<Rightarrow> dir_error + string" where
  "normalizeProfileEmail mail v0 =
     (let v = trim_space v0
      in if v = [] then Inr []
         else if \<not> text_within MaximumProfileEmailBytes v then Inl ErrProfile
         else if mail v \<noteq> Some v \<or> list_ex (\<lambda>c. c \<in> {CHR ''<'', CHR ''>'', CHR 0x22}) v then Inl ErrProfile
         else Inr v)"

definition profile_path :: "url \<Rightarrow> string" where
  "profile_path u = (if escaped_path u = [] then ''/'' else escaped_path u)"

definition normalizeProfileURL :: "string \<Rightarrow> dir_error + string" where
  "normalizeProfileURL v0 =
     (let v = trim_space v0
      in if v = [] then Inr []
         else if \<not> text_within MaximumProfileURLBytes v then Inl ErrProfile
         else case url_parse_request_uri v of
           None \<Rightarrow> Inl ErrProfile
         | Some u \<Rightarrow>
             if u_scheme u \<noteq> ''https'' \<or> u_user u \<noteq> None \<or> u_host u = [] \<or> u_rawquery u \<noteq> [] \<or> u_fragment u \<noteq> []
                \<or> u_forcequery u \<or> u_opaque u \<noteq> [] \<or> url_string u \<noteq> v then Inl ErrProfile
             else if isl (ParseOrigin (''https://'' @ u_host u)) then Inl ErrProfile
             else let path = profile_path u
                  in if has_sub path ''%'' \<or> has_sub path [CHR 0x5C] \<or> has_sub path ''//''
                        \<or> list_ex (\<lambda>seg. seg = ''.'' \<or> seg = ''..'') (split_on (CHR ''/'') path) then Inl ErrProfile
                     else Inr (''https://'' @ u_host u @ path))"

definition NormalizeRelayProfile :: "(string \<Rightarrow> string option) \<Rightarrow> relay_profile \<Rightarrow> dir_error + relay_profile" where
  "NormalizeRelayProfile mail p =
     bind_result (normalizeProfileText MaximumProfileScalarBytes (pr_participation_mode p)) (\<lambda>mode.
     if \<not> validParticipationMode mode then Inl ErrProfile else
     bind_result (normalizeProfileText MaximumProfileScalarBytes (pr_availability p)) (\<lambda>availability.
     bind_result (normalizeProfileText MaximumProfileScalarBytes (pr_relay_type p)) (\<lambda>relay_type.
     bind_result (normalizeProfileList (pr_languages p)) (\<lambda>languages.
     bind_result (normalizeProfileList (pr_countries p)) (\<lambda>countries.
     bind_result (normalizeProfileList (pr_regions p)) (\<lambda>regions.
     bind_result (normalizeProfileList (pr_topics p)) (\<lambda>topics.
     bind_result (normalizeProfileText MaximumProfileFediverseIDBytes (pr_contact_fediverse p)) (\<lambda>fediverse.
     bind_result (normalizeProfileEmail mail (pr_contact_email p)) (\<lambda>email.
     bind_result (normalizeProfileURL (pr_contact_url p)) (\<lambda>contact_url.
     bind_result (normalizeProfileURL (pr_participation_url p)) (\<lambda>participation_url.
     bind_result (normalizeProfileText MaximumProfileNoteBytes (pr_notes p)) (\<lambda>notes.
       Inr \<lparr>pr_participation_mode = mode, pr_availability = availability, pr_relay_type = relay_type,
         pr_languages = languages, pr_countries = countries, pr_regions = regions, pr_topics = topics,
         pr_contact_fediverse = fediverse, pr_contact_email = email, pr_contact_url = contact_url,
         pr_participation_url = participation_url, pr_notes = notes\<rparr>))))))))))))"

text \<open>One optional field of \<open>SanitizeRelayProfile\<close>: its value, or the zero value and a warning.\<close>

definition omit :: "string \<Rightarrow> string \<Rightarrow> dir_error + 'a list \<Rightarrow> 'a list \<times> profile_warning list" where
  "omit field message r = (case r of Inl _ \<Rightarrow> ([], [\<lparr>pw_field = field, pw_message = message\<rparr>]) | Inr v \<Rightarrow> (v, []))"

definition set_text :: "string \<Rightarrow> int \<Rightarrow> string \<Rightarrow> string \<times> profile_warning list" where
  "set_text field maximum v = omit field ''invalid value; field will be omitted'' (normalizeProfileText maximum v)"

definition set_list :: "string \<Rightarrow> string list \<Rightarrow> string list \<times> profile_warning list" where
  "set_list field vs = omit field ''invalid list; field will be omitted'' (normalizeProfileList vs)"

definition participation_field :: "string \<Rightarrow> dir_error + string" where
  "participation_field v =
     bind_result (normalizeProfileText MaximumProfileScalarBytes v)
       (\<lambda>mode. if validParticipationMode mode then Inr mode else Inl ErrProfile)"

definition SanitizeRelayProfile ::
  "(string \<Rightarrow> string option) \<Rightarrow> relay_profile \<Rightarrow> relay_profile \<times> profile_warning list" where
  "SanitizeRelayProfile mail p =
     (let mode = omit ''participation_mode''
            ''invalid value; allowed values are open, restricted, closed; field will be omitted''
            (participation_field (pr_participation_mode p));
          availability = set_text ''availability'' MaximumProfileScalarBytes (pr_availability p);
          relay_type = set_text ''relay_type'' MaximumProfileScalarBytes (pr_relay_type p);
          languages = set_list ''languages'' (pr_languages p);
          countries = set_list ''countries'' (pr_countries p);
          regions = set_list ''regions'' (pr_regions p);
          topics = set_list ''topics'' (pr_topics p);
          fediverse = set_text ''contact_fediverse'' MaximumProfileFediverseIDBytes (pr_contact_fediverse p);
          email = omit ''contact_email'' ''invalid email address; field will be omitted''
            (normalizeProfileEmail mail (pr_contact_email p));
          contact_url = omit ''contact_url'' ''invalid HTTPS URL; field will be omitted''
            (normalizeProfileURL (pr_contact_url p));
          participation_url = omit ''participation_url'' ''invalid HTTPS URL; field will be omitted''
            (normalizeProfileURL (pr_participation_url p));
          notes = set_text ''notes'' MaximumProfileNoteBytes (pr_notes p)
      in (\<lparr>pr_participation_mode = fst mode, pr_availability = fst availability, pr_relay_type = fst relay_type,
            pr_languages = fst languages, pr_countries = fst countries, pr_regions = fst regions,
            pr_topics = fst topics, pr_contact_fediverse = fst fediverse, pr_contact_email = fst email,
            pr_contact_url = fst contact_url, pr_participation_url = fst participation_url, pr_notes = fst notes\<rparr>,
          snd mode @ snd availability @ snd relay_type @ snd languages @ snd countries @ snd regions @ snd topics
          @ snd fediverse @ snd email @ snd contact_url @ snd participation_url @ snd notes))"

end
