(* ===== verification/Directory_Client.thy ===== *)
theory Directory_Client
  imports Directory_Profile Remote_Fetch RFC9421_Signature Go_Time
begin

text \<open>
  The client of the directory protocol (\<open>internal/directoryclient/client.go\<close>, \<open>v2.go\<close>, \<open>v3.go\<close> and
  \<open>signer.go\<close>). What lies outside the repository is the record \<open>surroundings\<close>, over a type \<open>'w\<close> of states of
  the world: one exchange of the HTTP transport (which follows no redirect, as the client tells it), the
  clock, the source of nonces, the signature library, SHA-256, the JSON text syntax and \<open>http.ParseTime\<close>.
  A client is only made by \<open>New\<close>, so its parts are never nil.
\<close>

section \<open>The world\<close>

record http_response =
  hr_status :: int
  hr_header :: header
  hr_body :: string
  hr_read_error :: "string option"

record sig_params =
  sp_key_id :: string
  sp_tag :: string
  sp_alg :: string
  sp_created :: time
  sp_expires :: time
  sp_covered :: "string list"
  sp_nonce :: string

record ('k, 'p, 'w) surroundings =
  sv_do :: "http_request \<Rightarrow> 'w \<Rightarrow> http_response option \<times> 'w"
  sv_now :: "'w \<Rightarrow> time"
  sv_nonce :: "'w \<Rightarrow> string result \<times> 'w"
  sv_library :: "('k, 'p) sig_library"
  sv_derive :: "sig_params \<Rightarrow> http_request \<Rightarrow> (string \<times> string) list result"
  sv_canonical :: "(string \<times> string) list \<Rightarrow> sig_params \<Rightarrow> string result"
  sv_sign :: "'k \<Rightarrow> string \<Rightarrow> string result"
  sv_include :: "string \<Rightarrow> sig_params \<Rightarrow> string \<Rightarrow> http_request \<Rightarrow> http_request result"
  sv_key_bits :: "'k \<Rightarrow> int"
  sv_sum256 :: "string \<Rightarrow> string"
  sv_parse :: "string \<Rightarrow> json option"
  sv_print :: "json \<Rightarrow> string"
  sv_http_time :: "string \<Rightarrow> time option"
  sv_mail :: "string \<Rightarrow> string option"

record ('k, 'w) dir_client =
  cl_origin :: url
  cl_actor :: string
  cl_base :: string
  cl_profile :: relay_profile
  cl_key_id :: string
  cl_key :: 'k
  cl_timeout :: duration
  cl_telemetry :: "('w \<Rightarrow> int result \<times> 'w) option"

text \<open>\<open>t.UTC().Format(http.TimeFormat)\<close>.\<close>

definition format_http_date :: "time \<Rightarrow> string" where
  "format_http_date t =
     (case civil_date (day_number t) of (y, m, d) \<Rightarrow>
        let s = clock_seconds t
        in [''Sun'', ''Mon'', ''Tue'', ''Wed'', ''Thu'', ''Fri'', ''Sat''] ! nat ((day_number t + 4) mod 7) @ '', ''
           @ pad 2 d @ '' ''
           @ [''Jan'', ''Feb'', ''Mar'', ''Apr'', ''May'', ''Jun'', ''Jul'', ''Aug'', ''Sep'', ''Oct'', ''Nov'', ''Dec''] ! nat (m - 1)
           @ '' '' @ pad 4 y @ '' '' @ pad 2 (s div 3600) @ '':'' @ pad 2 (s div 60 mod 60) @ '':'' @ pad 2 (s mod 60)
           @ '' GMT'')"

section \<open>The request signer\<close>

definition SignatureLabel :: string where "SignatureLabel = ''directory''"
definition SignatureTag :: string where "SignatureTag = ''activity-relay-directory-v1''"
definition SignatureTagV2 :: string where "SignatureTagV2 = ''activity-relay-directory-v2''"
definition SignatureTagV3 :: string where "SignatureTagV3 = ''activity-relay-directory-v3''"
definition SignatureAlg :: string where "SignatureAlg = ''rsa-v1_5-sha256''"
definition SignatureTTL :: duration where "SignatureTTL = 5 * minute"

definition postComponents :: "string list" where
  "postComponents = [''@method'', ''@authority'', ''@target-uri'', ''content-digest'', ''content-type'', ''date'']"

definition valid_signing_key :: "('k, 'p, 'w) surroundings \<Rightarrow> string \<Rightarrow> 'k option \<Rightarrow> bool" where
  "valid_signing_key W keyID key \<longleftrightarrow>
     keyID \<noteq> [] \<and> trim_space keyID = keyID \<and> (case key of None \<Rightarrow> False | Some k \<Rightarrow> 2048 \<le> sv_key_bits W k)"

definition valid_nonce :: "string \<Rightarrow> bool" where
  "valid_nonce n \<longleftrightarrow> n \<noteq> [] \<and> length n \<le> 256 \<and> CHR 0x0D \<notin> set n \<and> CHR 0x0A \<notin> set n"

definition signing_time :: "time \<Rightarrow> time" where
  "signing_time now = now div second * second"

definition prepared_request :: "url \<Rightarrow> time \<Rightarrow> string \<Rightarrow> string \<Rightarrow> http_request \<Rightarrow> http_request" where
  "prepared_request u created digest body r =
     r\<lparr>hq_host := u_host u,
       hq_header := header_del ''Signature-Input'' (header_del ''Signature'' (header_del ''Digest''
         (header_set ''Content-Digest'' digest (header_set ''Date'' (format_http_date created)
           (header_set ''Content-Type'' ''application/json'' (header_set ''Host'' (u_host u) (hq_header r))))))),
       hq_body := body\<rparr>"

definition directory_params :: "string \<Rightarrow> string \<Rightarrow> time \<Rightarrow> string \<Rightarrow> sig_params" where
  "directory_params keyID tag created nonce =
     \<lparr>sp_key_id = keyID, sp_tag = tag, sp_alg = SignatureAlg, sp_created = created,
      sp_expires = created + SignatureTTL, sp_covered = postComponents, sp_nonce = nonce\<rparr>"

definition signed_request ::
  "('k, 'p, 'w) surroundings \<Rightarrow> 'k \<Rightarrow> sig_params \<Rightarrow> http_request \<Rightarrow> dir_error + http_request" where
  "signed_request W key params r =
     (case sv_derive W params r of
        Inl e \<Rightarrow> Inl (OtherError (''derive directory signature: '' @ e))
      | Inr base \<Rightarrow>
          (case sv_canonical W base params of
             Inl e \<Rightarrow> Inl (OtherError (''canonicalize directory signature: '' @ e))
           | Inr canonical \<Rightarrow>
               (case sv_sign W key canonical of
                  Inl e \<Rightarrow> Inl (OtherError (''sign directory request: '' @ e))
                | Inr signed \<Rightarrow>
                    (case sv_include W SignatureLabel params signed r of
                       Inl e \<Rightarrow> Inl (OtherError (''include directory signature: '' @ e))
                     | Inr r' \<Rightarrow>
                         if header_get (hq_header r') ''Signature-Input'' = [] \<or> header_get (hq_header r') ''Signature'' = []
                         then Inl (OtherError ''directory signature fields are missing'') else Inr r'))))"

definition signWithTag ::
  "('k, 'p, 'w) surroundings \<Rightarrow> string \<Rightarrow> 'k \<Rightarrow> http_request \<Rightarrow> string \<Rightarrow> string \<Rightarrow> 'w
    \<Rightarrow> (dir_error + http_request) \<times> 'w" where
  "signWithTag W keyID key r body tag w =
     (case hq_url r of
        None \<Rightarrow> (Inl ErrDirectoryConfiguration, w)
      | Some u \<Rightarrow>
          if tag = [] \<or> hq_method r \<noteq> ''POST'' \<or> u_scheme u \<noteq> ''https'' \<or> u_host u = [] \<or> u_fragment u \<noteq> []
          then (Inl ErrDirectoryConfiguration, w)
          else let created = signing_time (sv_now W w)
               in if created < 0 then (Inl ErrDirectoryConfiguration, w)
                  else case sv_nonce W w of
                    (Inl e, w1) \<Rightarrow> (Inl ErrDirectoryConfiguration, w1)
                  | (Inr nonce, w1) \<Rightarrow>
                      if \<not> valid_nonce nonce then (Inl ErrDirectoryConfiguration, w1)
                      else case RFC9530ContentDigestSHA256 (sv_library W) (sv_sum256 W) body of
                        Inl e \<Rightarrow> (Inl (OtherError (''directory content digest: '' @ e)), w1)
                      | Inr digest \<Rightarrow>
                          (signed_request W key (directory_params keyID tag created nonce)
                             (prepared_request u created digest body r), w1))"

section \<open>Construction\<close>

definition validRelayIdentity :: "string \<Rightarrow> string \<Rightarrow> bool" where
  "validRelayIdentity actor publicBase =
     (case (url_parse_request_uri actor, ParseOrigin publicBase) of
        (Some a, Inr b) \<Rightarrow>
          u_scheme a = ''https'' \<and> u_scheme b = ''https'' \<and> u_user a = None \<and> u_user b = None
          \<and> u_rawquery a = [] \<and> u_fragment a = [] \<and> \<not> u_forcequery a \<and> \<not> has_sub actor ''#''
          \<and> u_rawquery b = [] \<and> u_fragment b = [] \<and> \<not> u_forcequery b
          \<and> u_host a \<noteq> [] \<and> u_host b \<noteq> [] \<and> u_host a = u_host b
          \<and> u_path b = [] \<and> u_path a \<noteq> [] \<and> url_string a = actor \<and> url_string b = publicBase
          \<and> \<not> has_sub (escaped_path a) ''//''
          \<and> list_all (\<lambda>seg. seg \<noteq> ''.'' \<and> seg \<noteq> ''..'') (split_on (CHR ''/'') (escaped_path a))
      | _ \<Rightarrow> False)"

definition defaultRequestTimeout :: duration where "defaultRequestTimeout = 15 * second"

record ('k, 'w) dir_options =
  do_origin :: string
  do_actor :: string
  do_base :: string
  do_profile :: relay_profile
  do_key_id :: string
  do_key :: "'k option"
  do_http_timeout :: "duration option"
  do_telemetry :: "('w \<Rightarrow> int result \<times> 'w) option"

definition New ::
  "('k, 'p, 'w) surroundings \<Rightarrow> ('k, 'w) dir_options \<Rightarrow> dir_error + ('k, 'w) dir_client" where
  "New W opts =
     (case ParseOrigin (do_origin opts) of
        Inl e \<Rightarrow> Inl ErrDirectoryConfiguration
      | Inr origin \<Rightarrow>
          if \<not> validRelayIdentity (do_actor opts) (do_base opts) then Inl ErrDirectoryConfiguration
          else case NormalizeRelayProfile (sv_mail W) (do_profile opts) of
            Inl e \<Rightarrow> Inl ErrDirectoryConfiguration
          | Inr prof \<Rightarrow>
              (case do_key opts of
                 None \<Rightarrow> Inl ErrDirectoryConfiguration
               | Some key \<Rightarrow>
                   if \<not> valid_signing_key W (do_key_id opts) (do_key opts) then Inl ErrDirectoryConfiguration
                   else let t = (case do_http_timeout opts of None \<Rightarrow> defaultRequestTimeout | Some t \<Rightarrow> t)
                        in Inr \<lparr>cl_origin = origin, cl_actor = do_actor opts, cl_base = do_base opts, cl_profile = prof,
                             cl_key_id = do_key_id opts, cl_key = key,
                             cl_timeout = (if t \<le> 0 \<or> defaultRequestTimeout < t then defaultRequestTimeout else t),
                             cl_telemetry = do_telemetry opts\<rparr>))"

text \<open>The dialer of the default transport: \<open>lookup\<close> is the resolver, \<open>dial\<close> one connection attempt.\<close>

definition unsafeDirectoryDestination :: "addr \<Rightarrow> bool" where
  "unsafeDirectoryDestination a \<longleftrightarrow>
     is_unspecified a \<or> is_loopback a \<or> is_link_local_unicast a \<or> is_link_local_multicast a \<or> is_multicast a"

fun dial_candidates ::
  "(string \<Rightarrow> 'w \<Rightarrow> 'conn option \<times> 'w) \<Rightarrow> string \<Rightarrow> addr list \<Rightarrow> 'w \<Rightarrow> (dir_error + 'conn) \<times> 'w" where
  "dial_candidates dial p [] w = (Inl ErrDirectoryTransport, w)"
| "dial_candidates dial p (a # as) w =
     (if unsafeDirectoryDestination a then dial_candidates dial p as w
      else case dial (join_host_port (addr_string a) p) w of
        (Some conn, w1) \<Rightarrow> (Inr conn, w1)
      | (None, w1) \<Rightarrow> dial_candidates dial p as w1)"

definition guardedDirectoryDialContext ::
  "(string \<Rightarrow> addr list result) \<Rightarrow> (string \<Rightarrow> 'w \<Rightarrow> 'conn option \<times> 'w) \<Rightarrow> string \<Rightarrow> 'w \<Rightarrow> (dir_error + 'conn) \<times> 'w" where
  "guardedDirectoryDialContext lookup dial address w =
     (case net_split_host_port address of
        None \<Rightarrow> (Inl ErrDirectoryTransport, w)
      | Some (h, p) \<Rightarrow>
          (case lookup h of
             Inl e \<Rightarrow> (Inl ErrDirectoryTransport, w)
           | Inr as \<Rightarrow> if as = [] then (Inl ErrDirectoryTransport, w) else dial_candidates dial p as w))"

section \<open>Strict decoding\<close>

definition maximumResponseBytes :: int where "maximumResponseBytes = 16 * 1024"
definition maximumErrorMessage :: nat where "maximumErrorMessage = 256"
definition MaximumRetryAfter :: duration where "MaximumRetryAfter = 24 * hour"

definition readResponseBody :: "string \<Rightarrow> string option \<Rightarrow> dir_error + string" where
  "readResponseBody body err =
     (case read_limited (maximumResponseBytes + 1) body err of
        Inl e \<Rightarrow> Inl ErrDirectoryResponse
      | Inr data \<Rightarrow> if maximumResponseBytes < int (length data) then Inl ErrResponseTooLarge else Inr data)"

definition validJSONMediaType :: "string \<Rightarrow> bool" where
  "validJSONMediaType v =
     (case parse_media_type v of Some (mt, ps) \<Rightarrow> mt = ''application/json'' \<and> ps = [] | None \<Rightarrow> False)"

text \<open>
  \<open>duplicateJSONName\<close> reads tokens after \<open>json.Valid\<close> accepted the text, so its error branches are not
  reached; on the value the text denotes it looks for an object with a repeated name.
\<close>

fun duplicateJSONName :: "json \<Rightarrow> bool" where
  "duplicateJSONName (JArr vs) = list_ex duplicateJSONName vs"
| "duplicateJSONName (JObj ms) = (\<not> distinct (map fst ms) \<or> list_ex (\<lambda>kv. duplicateJSONName (snd kv)) ms)"
| "duplicateJSONName v = False"

text \<open>Decoding with \<open>DisallowUnknownFields\<close>: every member must name a field.\<close>

fun strict_members ::
  "string list \<Rightarrow> (string \<Rightarrow> json \<Rightarrow> 'a \<Rightarrow> 'a result) \<Rightarrow> (string \<times> json) list \<Rightarrow> 'a \<Rightarrow> 'a result" where
  "strict_members names assign [] x = Inr x"
| "strict_members names assign ((k, v) # ms) x =
     (case struct_field names k of
        None \<Rightarrow> Inl ''json: unknown field''
      | Some n \<Rightarrow> (case assign n v x of Inl e \<Rightarrow> Inl e | Inr y \<Rightarrow> strict_members names assign ms y))"

definition strict_struct :: "string list \<Rightarrow> (string \<Rightarrow> json \<Rightarrow> 'a \<Rightarrow> 'a result) \<Rightarrow> 'a \<Rightarrow> json \<Rightarrow> 'a result" where
  "strict_struct names assign zero v =
     (case v of JObj ms \<Rightarrow> strict_members names assign ms zero | JNull \<Rightarrow> Inr zero | _ \<Rightarrow> Inl type_error)"

definition into_int :: "json \<Rightarrow> int \<Rightarrow> int result" where
  "into_int v old =
     (case v of
        JNum s \<Rightarrow> (case parse_int64 s of NumOk n \<Rightarrow> Inr n | _ \<Rightarrow> Inl type_error)
      | JNull \<Rightarrow> Inr old
      | _ \<Rightarrow> Inl type_error)"

definition into_bool :: "json \<Rightarrow> bool \<Rightarrow> bool result" where
  "into_bool v old = (case v of JBool b \<Rightarrow> Inr b | JNull \<Rightarrow> Inr old | _ \<Rightarrow> Inl type_error)"

fun into_ints :: "json list \<Rightarrow> int list \<Rightarrow> int list result" where
  "into_ints [] old = Inr []"
| "into_ints (v # vs) old =
     (case into_int v (case old of [] \<Rightarrow> 0 | n # _ \<Rightarrow> n) of
        Inl e \<Rightarrow> Inl e
      | Inr n \<Rightarrow> (case into_ints vs (tl old) of Inl e \<Rightarrow> Inl e | Inr ns \<Rightarrow> Inr (n # ns)))"

definition into_int_slice :: "json \<Rightarrow> int list \<Rightarrow> int list result" where
  "into_int_slice v old =
     (case v of JArr vs \<Rightarrow> into_ints vs old | JNull \<Rightarrow> Inr [] | _ \<Rightarrow> Inl type_error)"

definition decodeStrictJSON ::
  "('k, 'p, 'w) surroundings \<Rightarrow> (json \<Rightarrow> 'a result) \<Rightarrow> string \<Rightarrow> dir_error + 'a" where
  "decodeStrictJSON W decode body =
     (if body = [] then Inl ErrDirectoryResponse
      else case sv_parse W body of
        None \<Rightarrow> Inl ErrDirectoryResponse
      | Some v \<Rightarrow>
          if duplicateJSONName v then Inl ErrDirectoryResponse
          else case decode v of Inl e \<Rightarrow> Inl ErrDirectoryResponse | Inr x \<Rightarrow> Inr x)"

definition zero_response :: response where
  "zero_response = \<lparr>rs_version = 0, rs_operation = [], rs_outcome = [], rs_actor = []\<rparr>"

definition set_response :: "string \<Rightarrow> json \<Rightarrow> response \<Rightarrow> response result" where
  "set_response n v r =
     (if n = ''protocol_version'' then map_result (\<lambda>x. r\<lparr>rs_version := x\<rparr>) (into_int v (rs_version r))
      else if n = ''operation'' then map_result (\<lambda>x. r\<lparr>rs_operation := x\<rparr>) (into_string v (rs_operation r))
      else if n = ''outcome'' then map_result (\<lambda>x. r\<lparr>rs_outcome := x\<rparr>) (into_string v (rs_outcome r))
      else map_result (\<lambda>x. r\<lparr>rs_actor := x\<rparr>) (into_string v (rs_actor r)))"

definition decode_response :: "json \<Rightarrow> response result" where
  "decode_response = strict_struct [''protocol_version'', ''operation'', ''outcome'', ''relay_actor''] set_response zero_response"

record error_document =
  ed_code :: error_code
  ed_message :: string

record error_response =
  er_version :: int
  er_error :: error_document

definition zero_error :: error_response where
  "zero_error = \<lparr>er_version = 0, er_error = \<lparr>ed_code = [], ed_message = []\<rparr>\<rparr>"

definition set_error_document :: "string \<Rightarrow> json \<Rightarrow> error_document \<Rightarrow> error_document result" where
  "set_error_document n v d =
     (if n = ''code'' then map_result (\<lambda>x. d\<lparr>ed_code := x\<rparr>) (into_string v (ed_code d))
      else map_result (\<lambda>x. d\<lparr>ed_message := x\<rparr>) (into_string v (ed_message d)))"

definition set_error_response :: "string \<Rightarrow> json \<Rightarrow> error_response \<Rightarrow> error_response result" where
  "set_error_response n v r =
     (if n = ''protocol_version'' then map_result (\<lambda>x. r\<lparr>er_version := x\<rparr>) (into_int v (er_version r))
      else map_result (\<lambda>x. r\<lparr>er_error := x\<rparr>) (strict_struct [''code'', ''message''] set_error_document (er_error r) v))"

definition decode_error :: "json \<Rightarrow> error_response result" where
  "decode_error = strict_struct [''protocol_version'', ''error''] set_error_response zero_error"

record status =
  st_schema :: int
  st_versions :: "int list"
  st_service :: string
  st_version :: string
  st_base :: string
  st_lifecycle_enabled :: bool
  st_lifecycle_available :: bool
  st_enrollment_open :: bool
  st_listing_enabled :: bool
  st_listing_available :: bool

definition zero_status :: status where
  "zero_status = \<lparr>st_schema = 0, st_versions = [], st_service = [], st_version = [], st_base = [],
     st_lifecycle_enabled = False, st_lifecycle_available = False, st_enrollment_open = False,
     st_listing_enabled = False, st_listing_available = False\<rparr>"

definition set_status :: "string \<Rightarrow> json \<Rightarrow> status \<Rightarrow> status result" where
  "set_status n v s =
     (if n = ''schema_version'' then map_result (\<lambda>x. s\<lparr>st_schema := x\<rparr>) (into_int v (st_schema s))
      else if n = ''lifecycle_protocol_versions''
      then map_result (\<lambda>x. s\<lparr>st_versions := x\<rparr>) (into_int_slice v (st_versions s))
      else if n = ''service'' then map_result (\<lambda>x. s\<lparr>st_service := x\<rparr>) (into_string v (st_service s))
      else if n = ''version'' then map_result (\<lambda>x. s\<lparr>st_version := x\<rparr>) (into_string v (st_version s))
      else if n = ''public_base_url'' then map_result (\<lambda>x. s\<lparr>st_base := x\<rparr>) (into_string v (st_base s))
      else if n = ''lifecycle_enabled''
      then map_result (\<lambda>x. s\<lparr>st_lifecycle_enabled := x\<rparr>) (into_bool v (st_lifecycle_enabled s))
      else if n = ''lifecycle_available''
      then map_result (\<lambda>x. s\<lparr>st_lifecycle_available := x\<rparr>) (into_bool v (st_lifecycle_available s))
      else if n = ''enrollment_open''
      then map_result (\<lambda>x. s\<lparr>st_enrollment_open := x\<rparr>) (into_bool v (st_enrollment_open s))
      else if n = ''public_listing_enabled''
      then map_result (\<lambda>x. s\<lparr>st_listing_enabled := x\<rparr>) (into_bool v (st_listing_enabled s))
      else map_result (\<lambda>x. s\<lparr>st_listing_available := x\<rparr>) (into_bool v (st_listing_available s)))"

definition decode_status :: "json \<Rightarrow> status result" where
  "decode_status = strict_struct [''schema_version'', ''lifecycle_protocol_versions'', ''service'', ''version'',
     ''public_base_url'', ''lifecycle_enabled'', ''lifecycle_available'', ''enrollment_open'',
     ''public_listing_enabled'', ''public_listing_available''] set_status zero_status"

definition success_status :: "operation \<Rightarrow> int \<Rightarrow> bool" where
  "success_status op code \<longleftrightarrow> (if op = OperationRegister then code = 200 \<or> code = 201 else code = 200)"

definition decodeSuccessVersion ::
  "('k, 'p, 'w) surroundings \<Rightarrow> int \<Rightarrow> operation \<Rightarrow> string \<Rightarrow> int \<Rightarrow> string \<Rightarrow> dir_error + response" where
  "decodeSuccessVersion W code op actor version body =
     (if \<not> success_status op code then Inl ErrDirectoryResponse
      else case decodeStrictJSON W decode_response body of
        Inl e \<Rightarrow> Inl ErrDirectoryResponse
      | Inr r \<Rightarrow>
          if rs_version r \<noteq> version \<or> rs_operation r \<noteq> op \<or> \<not> outcome_valid_for (rs_outcome r) op \<or> rs_actor r \<noteq> actor
          then Inl ErrDirectoryResponse else Inr r)"

definition ProtocolVersion :: int where "ProtocolVersion = 1"
definition ProtocolVersion2 :: int where "ProtocolVersion2 = 2"
definition ProtocolVersion3 :: int where "ProtocolVersion3 = 3"

definition decodeSuccess ::
  "('k, 'p, 'w) surroundings \<Rightarrow> int \<Rightarrow> operation \<Rightarrow> string \<Rightarrow> string \<Rightarrow> dir_error + response" where
  "decodeSuccess W code op actor body =
     (if \<not> success_status op code then Inl ErrDirectoryResponse
      else case decodeStrictJSON W decode_response body of
        Inl e \<Rightarrow> Inl ErrDirectoryResponse
      | Inr r \<Rightarrow>
          if rs_version r \<noteq> ProtocolVersion \<or> rs_operation r \<noteq> op \<or> \<not> outcome_valid_for (rs_outcome r) op
             \<or> rs_actor r \<noteq> actor
          then Inl ErrDirectoryResponse else Inr r)"

section \<open>Errors of the directory\<close>

definition errorStatusMatches :: "error_code \<Rightarrow> int \<Rightarrow> bool" where
  "errorStatusMatches c code =
     (if c = ErrorInvalidRequest then code = 400 \<or> code = 413
      else if c = ErrorUnsupportedProtocolVersion then code = 400
      else if c = ErrorAuthenticationFailed then code = 401
      else if c = ErrorReplayDetected \<or> c = ErrorRelayNotRegistered then code = 409
      else if c = ErrorLifecycleUnavailable then code = 503
      else if c = ErrorEnrollmentClosed \<or> c = ErrorRelaySuspended then code = 403
      else if c = ErrorRateLimited then code = 429
      else if c = ErrorInternal then code = 500 \<or> code = 503
      else False)"

definition boundedRetryAfter ::
  "('k, 'p, 'w) surroundings \<Rightarrow> error_code \<Rightarrow> int \<Rightarrow> header \<Rightarrow> time \<Rightarrow> dir_error + duration" where
  "boundedRetryAfter W c code h now =
     (if \<not> (c = ErrorRateLimited \<or> c = ErrorInternal \<and> code = 503) then Inr 0
      else let v = trim_space (header_get h ''Retry-After'')
           in if v = [] then Inr 0
              else case parse_uint 64 v of
                NumOk n \<Rightarrow> Inr (if MaximumRetryAfter div second < n then MaximumRetryAfter else n * second)
              | _ \<Rightarrow>
                  (case sv_http_time W v of
                     None \<Rightarrow> Inl ErrDirectoryResponse
                   | Some at \<Rightarrow>
                       let delay = at - now
                       in if delay < 0 then Inl ErrDirectoryResponse
                          else Inr (if MaximumRetryAfter < delay then MaximumRetryAfter else delay)))"

definition decodeProtocolErrorAtVersion ::
  "('k, 'p, 'w) surroundings \<Rightarrow> int \<Rightarrow> header \<Rightarrow> int \<Rightarrow> string \<Rightarrow> time \<Rightarrow> dir_error" where
  "decodeProtocolErrorAtVersion W code h version body now =
     (case decodeStrictJSON W decode_error body of
        Inl e \<Rightarrow> ErrDirectoryResponse
      | Inr r \<Rightarrow>
          let c = ed_code (er_error r); message = ed_message (er_error r)
          in if er_version r \<noteq> version \<or> \<not> error_code_valid c \<or> message = [] \<or> maximumErrorMessage < length message
                \<or> \<not> errorStatusMatches c code then ErrDirectoryResponse
             else case boundedRetryAfter W c code h now of
               Inl e \<Rightarrow> ErrDirectoryResponse
             | Inr retryAfter \<Rightarrow> Protocol \<lparr>pe_status = code, pe_code = c, pe_retry_after = retryAfter\<rparr>)"

definition decodeProtocolErrorAt ::
  "('k, 'p, 'w) surroundings \<Rightarrow> int \<Rightarrow> header \<Rightarrow> string \<Rightarrow> time \<Rightarrow> dir_error" where
  "decodeProtocolErrorAt W code h body now =
     (case decodeStrictJSON W decode_error body of
        Inl e \<Rightarrow> ErrDirectoryResponse
      | Inr r \<Rightarrow>
          let c = ed_code (er_error r); message = ed_message (er_error r)
          in if er_version r \<noteq> ProtocolVersion \<or> \<not> error_code_valid c \<or> message = []
                \<or> maximumErrorMessage < length message \<or> \<not> errorStatusMatches c code then ErrDirectoryResponse
             else case boundedRetryAfter W c code h now of
               Inl e \<Rightarrow> ErrDirectoryResponse
             | Inr retryAfter \<Rightarrow> Protocol \<lparr>pe_status = code, pe_code = c, pe_retry_after = retryAfter\<rparr>)"

section \<open>The status document\<close>

definition validDirectoryVersionToken :: "string \<Rightarrow> bool" where
  "validDirectoryVersionToken v \<longleftrightarrow> v \<noteq> [] \<and> length v \<le> 64 \<and> list_all (\<lambda>c. is_alnum c \<or> c \<in> set ''._+~-'') v"

definition MaximumLifecycleProtocolVersions :: nat where "MaximumLifecycleProtocolVersions = 8"

fun increasing_from :: "int \<Rightarrow> int list \<Rightarrow> bool" where
  "increasing_from previous [] = True"
| "increasing_from previous (v # vs) = (previous < v \<and> increasing_from v vs)"

definition validStatusLifecycleVersions :: "status \<Rightarrow> bool" where
  "validStatusLifecycleVersions s =
     (if st_schema s = 2 \<or> st_schema s = 3 then st_versions s = []
      else if st_schema s = 4
      then st_versions s \<noteq> [] \<and> length (st_versions s) \<le> MaximumLifecycleProtocolVersions
           \<and> increasing_from 0 (st_versions s) \<and> ProtocolVersion \<in> set (st_versions s)
      else False)"

definition new_request :: "string \<Rightarrow> url \<Rightarrow> string \<Rightarrow> dir_error + http_request" where
  "new_request meth target body =
     (case url_parse (url_string target) of
        None \<Rightarrow> Inl ErrDirectoryConfiguration
      | Some u \<Rightarrow> Inr \<lparr>hq_method = meth, hq_host = u_host u, hq_url = Some u, hq_header = (\<lambda>_. []), hq_body = body\<rparr>)"

definition Status ::
  "('k, 'p, 'w) surroundings \<Rightarrow> ('k, 'w) dir_client \<Rightarrow> 'w \<Rightarrow> (dir_error + status) \<times> 'w" where
  "Status W cl w =
     (case new_request ''GET'' ((cl_origin cl)\<lparr>u_path := ''/v1/status''\<rparr>) [] of
        Inl e \<Rightarrow> (Inl e, w)
      | Inr req \<Rightarrow>
          (case sv_do W req w of
             (None, w1) \<Rightarrow> (Inl ErrDirectoryTransport, w1)
           | (Some resp, w1) \<Rightarrow>
               (case readResponseBody (hr_body resp) (hr_read_error resp) of
                  Inl e \<Rightarrow> Inl e
                | Inr body \<Rightarrow>
                    if \<not> validJSONMediaType (header_get (hr_header resp) ''Content-Type'') then Inl ErrDirectoryResponse
                    else if hr_status resp \<noteq> 200
                    then Inl (decodeProtocolErrorAt W (hr_status resp) (hr_header resp) body (sv_now W w1))
                    else case decodeStrictJSON W decode_status body of
                      Inl e \<Rightarrow> Inl ErrDirectoryResponse
                    | Inr s \<Rightarrow>
                        if \<not> validStatusLifecycleVersions s \<or> st_service s \<noteq> ''activity-relay-directory''
                           \<or> \<not> validDirectoryVersionToken (st_version s) \<or> st_base s \<noteq> url_string (cl_origin cl)
                        then Inl ErrDirectoryResponse else Inr s, w1)))"

definition best_version :: "int list \<Rightarrow> int option" where
  "best_version vs = List.find (\<lambda>v. v \<in> {ProtocolVersion, ProtocolVersion2, ProtocolVersion3}) (rev vs)"

definition negotiatedProtocolVersion ::
  "('k, 'p, 'w) surroundings \<Rightarrow> ('k, 'w) dir_client \<Rightarrow> 'w \<Rightarrow> (dir_error + int) \<times> 'w" where
  "negotiatedProtocolVersion W cl w =
     (case Status W cl w of
        (Inl e, w1) \<Rightarrow> (Inl e, w1)
      | (Inr s, w1) \<Rightarrow>
          (Inr (if 4 \<le> st_schema s
                then case best_version (st_versions s) of Some v \<Rightarrow> v | None \<Rightarrow> ProtocolVersion
                else ProtocolVersion), w1))"

section \<open>Requests\<close>

text \<open>
  The tail that \<open>send\<close>, \<open>sendV2\<close> and \<open>sendV3\<close> share: build and sign the request, exchange it, and decode the
  reply with the functions of the protocol version.
\<close>

definition exchange ::
  "('k, 'p, 'w) surroundings \<Rightarrow> ('k, 'w) dir_client \<Rightarrow> string \<Rightarrow> string
    \<Rightarrow> (int \<Rightarrow> string \<Rightarrow> dir_error + response) \<Rightarrow> (int \<Rightarrow> header \<Rightarrow> string \<Rightarrow> time \<Rightarrow> dir_error) \<Rightarrow> json \<Rightarrow> 'w
    \<Rightarrow> (dir_error + response) \<times> 'w" where
  "exchange W cl path tag success failure document w =
     (let body = sv_print W document
      in case new_request ''POST'' ((cl_origin cl)\<lparr>u_path := path\<rparr>) body of
           Inl e \<Rightarrow> (Inl e, w)
         | Inr req \<Rightarrow>
             (case signWithTag W (cl_key_id cl) (cl_key cl) req body tag w of
                (Inl e, w1) \<Rightarrow> (Inl e, w1)
              | (Inr signed, w1) \<Rightarrow>
                  (case sv_do W signed w1 of
                     (None, w2) \<Rightarrow> (Inl ErrDirectoryTransport, w2)
                   | (Some resp, w2) \<Rightarrow>
                       (case readResponseBody (hr_body resp) (hr_read_error resp) of
                          Inl e \<Rightarrow> Inl e
                        | Inr data \<Rightarrow>
                            if \<not> validJSONMediaType (header_get (hr_header resp) ''Content-Type'')
                            then Inl ErrDirectoryResponse
                            else if 200 \<le> hr_status resp \<and> hr_status resp < 300 then success (hr_status resp) data
                            else Inl (failure (hr_status resp) (hr_header resp) data (sv_now W w2)), w2))))"

definition operationPath :: "operation \<Rightarrow> string" where
  "operationPath op =
     (if op = OperationRegister then ''/v1/relays/register''
      else if op = OperationHeartbeat then ''/v1/relays/heartbeat''
      else if op = OperationUnregister then ''/v1/relays/unregister'' else [])"

definition send ::
  "('k, 'p, 'w) surroundings \<Rightarrow> ('k, 'w) dir_client \<Rightarrow> operation \<Rightarrow> json \<Rightarrow> 'w \<Rightarrow> (dir_error + response) \<times> 'w" where
  "send W cl op document w =
     (if \<not> operation_valid op then (Inl ErrDirectoryConfiguration, w)
      else exchange W cl (operationPath op) SignatureTag
        (\<lambda>code body. decodeSuccess W code op (cl_actor cl) body) (decodeProtocolErrorAt W) document w)"

definition path_v2 :: "operation \<Rightarrow> string" where
  "path_v2 op =
     (if op = OperationRegister then ''/v2/relays/register''
      else if op = OperationHeartbeat then ''/v2/relays/heartbeat''
      else if op = OperationUnregister then ''/v2/relays/unregister'' else [])"

definition sendV2 ::
  "('k, 'p, 'w) surroundings \<Rightarrow> ('k, 'w) dir_client \<Rightarrow> operation \<Rightarrow> json \<Rightarrow> 'w \<Rightarrow> (dir_error + response) \<times> 'w" where
  "sendV2 W cl op document w =
     (if \<not> operation_valid op then (Inl ErrDirectoryConfiguration, w)
      else exchange W cl (path_v2 op) SignatureTagV2
        (\<lambda>code body. decodeSuccessVersion W code op (cl_actor cl) ProtocolVersion2 body)
        (\<lambda>code h body now. decodeProtocolErrorAtVersion W code h ProtocolVersion2 body now) document w)"

definition path_v3 :: "operation \<Rightarrow> string" where
  "path_v3 op =
     (if op = OperationRegister then ''/v3/relays/register''
      else if op = OperationHeartbeat then ''/v3/relays/heartbeat''
      else if op = OperationUnregister then ''/v3/relays/unregister'' else [])"

definition sendV3 ::
  "('k, 'p, 'w) surroundings \<Rightarrow> ('k, 'w) dir_client \<Rightarrow> operation \<Rightarrow> json \<Rightarrow> 'w \<Rightarrow> (dir_error + response) \<times> 'w" where
  "sendV3 W cl op document w =
     (if \<not> operation_valid op then (Inl ErrDirectoryConfiguration, w)
      else exchange W cl (path_v3 op) SignatureTagV3
        (\<lambda>code body. decodeSuccessVersion W code op (cl_actor cl) ProtocolVersion3 body)
        (\<lambda>code h body now. decodeProtocolErrorAtVersion W code h ProtocolVersion3 body now) document w)"

section \<open>Documents\<close>

definition num_json :: "int \<Rightarrow> json" where
  "num_json n = JNum (show_int n)"

definition registerRequest :: "int \<Rightarrow> ('k, 'w) dir_client \<Rightarrow> (string \<times> json) list" where
  "registerRequest version cl =
     [(''protocol_version'', num_json version), (''operation'', JStr OperationRegister),
      (''relay_actor'', JStr (cl_actor cl)), (''public_base_url'', JStr (cl_base cl))]"

definition identityRequest :: "int \<Rightarrow> operation \<Rightarrow> ('k, 'w) dir_client \<Rightarrow> (string \<times> json) list" where
  "identityRequest version op cl =
     [(''protocol_version'', num_json version), (''operation'', JStr op), (''relay_actor'', JStr (cl_actor cl))]"

definition profileWire :: "relay_profile \<Rightarrow> json" where
  "profileWire p = (let strings = (\<lambda>vs. JArr (map JStr vs)) in JObj
     [(''participation_mode'', JStr (pr_participation_mode p)), (''availability'', JStr (pr_availability p)),
      (''relay_type'', JStr (pr_relay_type p)), (''languages'', strings (pr_languages p)),
      (''countries'', strings (pr_countries p)), (''regions'', strings (pr_regions p)),
      (''topics'', strings (pr_topics p)), (''contact_fediverse'', JStr (pr_contact_fediverse p)),
      (''contact_email'', JStr (pr_contact_email p)), (''contact_url'', JStr (pr_contact_url p)),
      (''participation_url'', JStr (pr_participation_url p)), (''notes'', JStr (pr_notes p))])"

definition ProfileDigest :: "('k, 'p, 'w) surroundings \<Rightarrow> ('k, 'w) dir_client \<Rightarrow> string" where
  "ProfileDigest W cl = hex_encode (sv_sum256 W (sv_print W (profileWire (cl_profile cl))))"

definition MaximumParticipatingInstanceCount :: int where "MaximumParticipatingInstanceCount = 10000000"

definition currentV3Telemetry :: "('k, 'w) dir_client \<Rightarrow> 'w \<Rightarrow> int option \<times> 'w" where
  "currentV3Telemetry cl w =
     (case cl_telemetry cl of
        None \<Rightarrow> (None, w)
      | Some provider \<Rightarrow>
          (case provider w of
             (Inl e, w1) \<Rightarrow> (None, w1)
           | (Inr n, w1) \<Rightarrow> (if n < 0 \<or> MaximumParticipatingInstanceCount < n then None else Some n, w1)))"

definition telemetry_json :: "int option \<Rightarrow> (string \<times> json) list" where
  "telemetry_json t =
     (case t of None \<Rightarrow> [] | Some n \<Rightarrow> [(''telemetry'', JObj [(''participating_instance_count'', num_json n)])])"

section \<open>Operations\<close>

definition Register :: "('k, 'p, 'w) surroundings \<Rightarrow> ('k, 'w) dir_client \<Rightarrow> 'w \<Rightarrow> (dir_error + response) \<times> 'w" where
  "Register W cl = send W cl OperationRegister (JObj (registerRequest ProtocolVersion cl))"

definition Heartbeat :: "('k, 'p, 'w) surroundings \<Rightarrow> ('k, 'w) dir_client \<Rightarrow> 'w \<Rightarrow> (dir_error + response) \<times> 'w" where
  "Heartbeat W cl = send W cl OperationHeartbeat (JObj (identityRequest ProtocolVersion OperationHeartbeat cl))"

definition Unregister :: "('k, 'p, 'w) surroundings \<Rightarrow> ('k, 'w) dir_client \<Rightarrow> 'w \<Rightarrow> (dir_error + response) \<times> 'w" where
  "Unregister W cl = send W cl OperationUnregister (JObj (identityRequest ProtocolVersion OperationUnregister cl))"

definition registerVersion ::
  "('k, 'p, 'w) surroundings \<Rightarrow> ('k, 'w) dir_client \<Rightarrow> int \<Rightarrow> 'w \<Rightarrow> (dir_error + response) \<times> 'w" where
  "registerVersion W cl version w =
     (if version = ProtocolVersion then send W cl OperationRegister (JObj (registerRequest ProtocolVersion cl)) w
      else if version = ProtocolVersion2
      then sendV2 W cl OperationRegister
             (JObj (registerRequest ProtocolVersion2 cl @ [(''profile'', profileWire (cl_profile cl))])) w
      else if version = ProtocolVersion3
      then (case currentV3Telemetry cl w of (t, w1) \<Rightarrow>
              sendV3 W cl OperationRegister
                (JObj (registerRequest ProtocolVersion3 cl @ [(''profile'', profileWire (cl_profile cl))] @ telemetry_json t)) w1)
      else (Inl ErrDirectoryConfiguration, w))"

definition heartbeatVersion ::
  "('k, 'p, 'w) surroundings \<Rightarrow> ('k, 'w) dir_client \<Rightarrow> int \<Rightarrow> 'w \<Rightarrow> (dir_error + response) \<times> 'w" where
  "heartbeatVersion W cl version w =
     (if version = ProtocolVersion
      then send W cl OperationHeartbeat (JObj (identityRequest ProtocolVersion OperationHeartbeat cl)) w
      else if version = ProtocolVersion2
      then sendV2 W cl OperationHeartbeat (JObj (identityRequest ProtocolVersion2 OperationHeartbeat cl)) w
      else if version = ProtocolVersion3
      then (case currentV3Telemetry cl w of (t, w1) \<Rightarrow>
              sendV3 W cl OperationHeartbeat
                (JObj (identityRequest ProtocolVersion3 OperationHeartbeat cl @ telemetry_json t)) w1)
      else (Inl ErrDirectoryConfiguration, w))"

definition unregisterVersion ::
  "('k, 'p, 'w) surroundings \<Rightarrow> ('k, 'w) dir_client \<Rightarrow> int \<Rightarrow> 'w \<Rightarrow> (dir_error + response) \<times> 'w" where
  "unregisterVersion W cl version w =
     (if version = ProtocolVersion
      then send W cl OperationUnregister (JObj (identityRequest ProtocolVersion OperationUnregister cl)) w
      else if version = ProtocolVersion2
      then sendV2 W cl OperationUnregister (JObj (identityRequest ProtocolVersion2 OperationUnregister cl)) w
      else if version = ProtocolVersion3
      then sendV3 W cl OperationUnregister (JObj (identityRequest ProtocolVersion3 OperationUnregister cl)) w
      else (Inl ErrDirectoryConfiguration, w))"

text \<open>Runs one step of the client after another and stops at the first error.\<close>

definition then_dir ::
  "('w \<Rightarrow> (dir_error + 'a) \<times> 'w) \<Rightarrow> ('a \<Rightarrow> 'w \<Rightarrow> (dir_error + 'b) \<times> 'w) \<Rightarrow> 'w \<Rightarrow> (dir_error + 'b) \<times> 'w" where
  "then_dir f g w = (case f w of (Inl e, w1) \<Rightarrow> (Inl e, w1) | (Inr x, w1) \<Rightarrow> g x w1)"

text \<open>A heartbeat that registers once when the directory does not know the relay, and then beats again.\<close>

definition reconcile ::
  "('w \<Rightarrow> (dir_error + response) \<times> 'w) \<Rightarrow> ('w \<Rightarrow> (dir_error + response) \<times> 'w) \<Rightarrow> 'w \<Rightarrow> (dir_error + response) \<times> 'w" where
  "reconcile heartbeat reg w =
     (case heartbeat w of
        (Inr r, w1) \<Rightarrow> (Inr r, w1)
      | (Inl (Protocol pe), w1) \<Rightarrow>
          if pe_code pe \<noteq> ErrorRelayNotRegistered then (Inl (Protocol pe), w1)
          else then_dir reg (\<lambda>_. heartbeat) w1
      | (Inl e, w1) \<Rightarrow> (Inl e, w1))"

definition HeartbeatWithRegisterReconciliation ::
  "('k, 'p, 'w) surroundings \<Rightarrow> ('k, 'w) dir_client \<Rightarrow> 'w \<Rightarrow> (dir_error + response) \<times> 'w" where
  "HeartbeatWithRegisterReconciliation W cl = reconcile (Heartbeat W cl) (Register W cl)"

definition RegisterNegotiated ::
  "('k, 'p, 'w) surroundings \<Rightarrow> ('k, 'w) dir_client \<Rightarrow> 'w \<Rightarrow> (dir_error + response) \<times> 'w" where
  "RegisterNegotiated W cl = then_dir (negotiatedProtocolVersion W cl) (registerVersion W cl)"

definition HeartbeatNegotiated ::
  "('k, 'p, 'w) surroundings \<Rightarrow> ('k, 'w) dir_client \<Rightarrow> 'w \<Rightarrow> (dir_error + response) \<times> 'w" where
  "HeartbeatNegotiated W cl = then_dir (negotiatedProtocolVersion W cl) (heartbeatVersion W cl)"

definition UnregisterNegotiated ::
  "('k, 'p, 'w) surroundings \<Rightarrow> ('k, 'w) dir_client \<Rightarrow> 'w \<Rightarrow> (dir_error + response) \<times> 'w" where
  "UnregisterNegotiated W cl = then_dir (negotiatedProtocolVersion W cl) (unregisterVersion W cl)"

definition HeartbeatWithRegisterReconciliationNegotiated ::
  "('k, 'p, 'w) surroundings \<Rightarrow> ('k, 'w) dir_client \<Rightarrow> 'w \<Rightarrow> (dir_error + response) \<times> 'w" where
  "HeartbeatWithRegisterReconciliationNegotiated W cl =
     then_dir (negotiatedProtocolVersion W cl)
       (\<lambda>version. reconcile (heartbeatVersion W cl version) (registerVersion W cl version))"

end
