(* ===== verification/Directory_Scheduler.thy ===== *)
theory Directory_Scheduler
  imports Directory_Store Directory_Client Observability
begin

text \<open>
  The scheduler that keeps a relay registered at its directories
  (\<open>internal/directoryscheduler/scheduler.go\<close> and \<open>profile_sync.go\<close>). The \<open>Client\<close> interface is a record of
  operations on the state \<open>'w\<close> of the world; the methods a client may or may not have (the type
  assertions of \<open>profile_sync.go\<close>) are optional fields.

  Other processes share the Redis server and the configuration file. A record \<open>moments\<close> holds what one
  reconciliation meets while it runs: what the durable configuration says each time it is read, the
  clock, the lease token, and what other processes do to the database before the first read, before the
  lease is taken, before each renewal of the lease, and until the remote operation ends. The renewal
  goroutine stops with the remote operation, so one list of renewals stands for it. A cancelled context
  is a flag.
\<close>

section \<open>The client of the scheduler\<close>

type_synonym 'w lifecycle_call = "'w \<Rightarrow> (dir_error + response) \<times> 'w"

record 'w sched_client =
  sc_register :: "'w lifecycle_call"
  sc_heartbeat :: "'w lifecycle_call"
  sc_negotiated :: "('w lifecycle_call \<times> 'w lifecycle_call) option"
  sc_digest :: "string option"

definition schedulerRegister :: "'w sched_client \<Rightarrow> 'w lifecycle_call" where
  "schedulerRegister c = (case sc_negotiated c of Some (reg, _) \<Rightarrow> reg | None \<Rightarrow> sc_register c)"

definition schedulerHeartbeat :: "'w sched_client \<Rightarrow> 'w lifecycle_call" where
  "schedulerHeartbeat c = (case sc_negotiated c of Some (_, beat) \<Rightarrow> beat | None \<Rightarrow> sc_heartbeat c)"

definition clientProfileDigest :: "'w sched_client \<Rightarrow> string option" where
  "clientProfileDigest c =
     (case sc_digest c of None \<Rightarrow> None | Some d \<Rightarrow> if length d = 64 then Some d else None)"

text \<open>\<open>directoryclient.Client\<close> as the scheduler sees it.\<close>

definition directory_client :: "('k, 'p, 'w) surroundings \<Rightarrow> ('k, 'w) dir_client \<Rightarrow> 'w sched_client" where
  "directory_client W cl =
     \<lparr>sc_register = Register W cl, sc_heartbeat = HeartbeatWithRegisterReconciliation W cl,
      sc_negotiated = Some (RegisterNegotiated W cl, HeartbeatWithRegisterReconciliationNegotiated W cl),
      sc_digest = Some (ProfileDigest W cl)\<rparr>"

section \<open>Deadlines\<close>

definition NominalHeartbeatInterval :: duration where "NominalHeartbeatInterval = 24 * hour"
definition MaximumStableJitter :: duration where "MaximumStableJitter = 2 * hour"
definition SchedulerPollInterval :: duration where "SchedulerPollInterval = minute"
definition minimumSchedulerSleep :: duration where "minimumSchedulerSleep = second"
definition leaseTTL :: duration where "leaseTTL = minute"
definition initialRetry :: duration where "initialRetry = 30 * second"
definition maximumLocalRetry :: duration where "maximumLocalRetry = 15 * minute"

definition truncate_second :: "time \<Rightarrow> time" where
  "truncate_second t = t div second * second"

definition be_uint64 :: "string \<Rightarrow> int" where
  "be_uint64 s = foldl (\<lambda>n c. 256 * n + of_char c) 0 (take 8 s)"

definition stableJitter :: "(string \<Rightarrow> string) \<Rightarrow> string \<Rightarrow> string \<Rightarrow> duration" where
  "stableJitter sum256 actor origin =
     be_uint64 (sum256 (actor @ [CHR 0x00] @ origin @ [CHR 0x00] @ ''daily'')) mod (MaximumStableJitter div second + 1) * second"

definition retryDelay :: "(string \<Rightarrow> string) \<Rightarrow> int \<Rightarrow> string \<Rightarrow> string \<Rightarrow> duration" where
  "retryDelay sum256 attempt0 actor origin =
     (let attempt = (if attempt0 < 1 then 1 else attempt0);
          shifted = wrap64 (initialRetry * 2 ^ nat (attempt - 1));
          base = (if maximumLocalRetry < shifted then maximumLocalRetry else shifted);
          digest = sum256 (actor @ [CHR 0x00] @ origin @ [CHR 0x00] @ ''retry'' @ [CHR 0x00] @ show_int attempt);
          jitterRange = base div 5
      in if jitterRange \<le> 0 then base
         else let delay = base + be_uint64 digest mod (jitterRange div second + 1) * second
              in if maximumLocalRetry < delay then maximumLocalRetry else delay)"

definition NextHeartbeatAttempt :: "(string \<Rightarrow> string) \<Rightarrow> string \<Rightarrow> string \<Rightarrow> time \<Rightarrow> time" where
  "NextHeartbeatAttempt sum256 actor origin completedAt =
     (if is_zero completedAt then zero_time
      else truncate_second completedAt + (NominalHeartbeatInterval + stableJitter sum256 actor origin))"

definition startupReconciliationDue :: "sched_state \<Rightarrow> time \<Rightarrow> bool" where
  "startupReconciliationDue s boundary =
     (if is_zero boundary \<or> \<not> is_zero (ss_last_observed s) \<and> \<not> ss_last_observed s < boundary then False
      else ss_outcome s \<in> {[], ''registered'', ''heartbeat''})"

text \<open>Outcome and diagnostic of a failed operation.\<close>

definition failure_class :: "dir_error \<Rightarrow> string \<times> string" where
  "failure_class e =
     (case e of
        ErrDirectoryTransport \<Rightarrow> (''retrying'', ''transport'')
      | Protocol pe \<Rightarrow>
          if pe_code pe = ErrorRateLimited then (''retrying'', ''rate_limited'')
          else if pe_code pe = ErrorInternal then (''retrying'', ''internal'')
          else if pe_code pe = ErrorAuthenticationFailed then (''authentication'', ''authentication'')
          else if pe_code pe = ErrorRelaySuspended then (''suspended'', ''suspended'')
          else if pe_code pe = ErrorEnrollmentClosed then (''policy'', ''enrollment'')
          else if pe_code pe = ErrorLifecycleUnavailable then (''policy'', ''lifecycle'')
          else (''malformed'', ''malformed'')
      | _ \<Rightarrow> (''malformed'', ''malformed''))"

definition remote_delay :: "dir_error \<Rightarrow> duration" where
  "remote_delay e = (case e of Protocol pe \<Rightarrow> pe_retry_after pe | _ \<Rightarrow> 0)"

definition applyFailure ::
  "(string \<Rightarrow> string) \<Rightarrow> string \<Rightarrow> sched_state \<Rightarrow> string \<Rightarrow> time \<Rightarrow> dir_error \<Rightarrow> sched_state" where
  "applyFailure sum256 actor s origin now e =
     (case failure_class e of (oc, diag) \<Rightarrow>
        let s1 = s\<lparr>ss_last_observed := now, ss_outcome := oc, ss_diagnostic := diag\<rparr>
        in if oc \<noteq> ''retrying''
           then s1\<lparr>ss_attempt := 0, ss_next_attempt := NextHeartbeatAttempt sum256 actor origin now\<rparr>
           else
             let attempt = (if maximumAttempt < ss_attempt s + 1 then maximumAttempt else ss_attempt s + 1);
                 local = retryDelay sum256 attempt actor origin;
                 delay = (if local < remote_delay e then remote_delay e else local);
                 bound = (if MaximumRetryAfter < delay then MaximumRetryAfter else delay)
             in s1\<lparr>ss_attempt := attempt, ss_next_attempt := now + bound\<rparr>)"

definition applySuccess ::
  "(string \<Rightarrow> string) \<Rightarrow> string \<Rightarrow> sched_state \<Rightarrow> string \<Rightarrow> time \<Rightarrow> string option \<Rightarrow> response \<Rightarrow> sched_state" where
  "applySuccess sum256 actor s origin completedAt digest r =
     (let registered = rs_operation r = OperationRegister;
          s1 = s\<lparr>ss_registered := True\<rparr>;
          s2 = (case digest of
              Some d \<Rightarrow> if registered then s1\<lparr>ss_profile_digest := d, ss_profile_version := rs_version r\<rparr> else s1
            | None \<Rightarrow> s1)
      in s2\<lparr>ss_last_success := completedAt, ss_next_attempt := NextHeartbeatAttempt sum256 actor origin completedAt,
           ss_attempt := 0, ss_diagnostic := ''none'', ss_outcome := (if registered then ''registered'' else ''heartbeat''),
           ss_last_observed := completedAt\<rparr>)"

section \<open>The scheduler\<close>

record scheduler =
  sd_actor :: string
  sd_directories :: "directory list"
  sd_last_now :: time

definition New_scheduler :: "string \<Rightarrow> directory list \<Rightarrow> scheduler result" where
  "New_scheduler actor directories =
     (if actor = [] \<or> directories = [] \<or> MaximumDirectories < length directories
      then Inl ''directory scheduler configuration is invalid''
      else Inr \<lparr>sd_actor = actor, sd_directories = directories, sd_last_now = zero_time\<rparr>)"

definition monotonicNow :: "scheduler \<Rightarrow> time \<Rightarrow> time \<Rightarrow> time \<times> scheduler" where
  "monotonicNow sd clock persisted =
     (let now = truncate_second clock;
          now = (if now < sd_last_now sd then sd_last_now sd else now);
          now = (if now < persisted then persisted else now)
      in (now, sd\<lparr>sd_last_now := now\<rparr>))"

definition nextWakeDelay :: "scheduler \<Rightarrow> time \<Rightarrow> time \<Rightarrow> duration \<times> scheduler" where
  "nextWakeDelay sd clock nextAttempt =
     (let (delay, sd') =
            (if is_zero nextAttempt then (SchedulerPollInterval, sd)
             else case monotonicNow sd clock zero_time of (now, sd') \<Rightarrow>
               (if nextAttempt - now < SchedulerPollInterval then nextAttempt - now else SchedulerPollInterval, sd'))
      in (if delay < minimumSchedulerSleep then minimumSchedulerSleep else delay, sd'))"

record ('db, 'w) moments =
  mo_enabled :: "bool result"
  mo_enabled_owned :: "bool result"
  mo_preview :: "'w sched_client option"
  mo_client :: "'w sched_client option"
  mo_clock :: time
  mo_clock_owned :: time
  mo_clock_done :: time
  mo_token :: "string result"
  mo_before :: "'db \<Rightarrow> 'db"
  mo_before_lease :: "'db \<Rightarrow> 'db"
  mo_renewals :: "('db \<Rightarrow> 'db) list"
  mo_during :: "'db \<Rightarrow> 'db"
  mo_cancelled :: bool

text \<open>One renewal per element: what other processes did before it.\<close>

fun renewLease :: "'db redis \<Rightarrow> lease \<Rightarrow> ('db \<Rightarrow> 'db) list \<Rightarrow> 'db \<Rightarrow> bool \<times> 'db" where
  "renewLease R l [] db = (False, db)"
| "renewLease R l (g # gs) db =
     (case Renew R l leaseTTL (g db) of
        (Inr True, db1) \<Rightarrow> renewLease R l gs db1
      | (_, db1) \<Rightarrow> (True, db1))"

type_synonym 'db save_result = "string option \<times> metric list \<times> 'db"

definition saveOwned ::
  "'db redis \<Rightarrow> (string \<Rightarrow> string) \<Rightarrow> string \<Rightarrow> lease \<Rightarrow> sched_state \<Rightarrow> 'db \<Rightarrow> 'db save_result" where
  "saveOwned R sum256 origin l s db =
     (case SaveOwned R sum256 origin l s db of
        (Inl e, db1) \<Rightarrow> (Some e, [DirectoryMetric ''failure'' ''internal''], db1)
      | (Inr owned, db1) \<Rightarrow>
          if \<not> owned then (Some ErrStore, [DirectoryMetric ''failure'' ''lease_lost''], db1) else (None, [], db1))"

text \<open>The remote operation: a heartbeat or a registration, and a registration when the heartbeat moved to another protocol version.\<close>

definition remote_operation :: "'w sched_client \<Rightarrow> sched_state \<Rightarrow> bool \<Rightarrow> 'w lifecycle_call" where
  "remote_operation c s profileChanged w =
     (case (if ss_registered s \<and> \<not> profileChanged then schedulerHeartbeat c w else schedulerRegister c w) of
        (Inl e, w1) \<Rightarrow> (Inl e, w1)
      | (Inr r, w1) \<Rightarrow>
          if rs_operation r = OperationHeartbeat \<and> ProtocolVersion2 \<le> rs_version r \<and> ss_profile_version s \<noteq> rs_version r
          then schedulerRegister c w1 else (Inr r, w1))"

definition profile_changed :: "'w sched_client \<Rightarrow> sched_state \<Rightarrow> bool" where
  "profile_changed c s =
     (case clientProfileDigest c of Some d \<Rightarrow> ss_registered s \<and> ss_profile_digest s \<noteq> d | None \<Rightarrow> False)"

definition not_due :: "sched_state \<Rightarrow> time \<Rightarrow> bool \<Rightarrow> bool \<Rightarrow> bool" where
  "not_due s now startupDue profileChanged \<longleftrightarrow>
     \<not> startupDue \<and> \<not> profileChanged \<and> \<not> is_zero (ss_next_attempt s) \<and> now < ss_next_attempt s"

type_synonym ('db, 'w) run_result = "(time \<times> string option) \<times> metric list \<times> scheduler \<times> 'w \<times> 'db"

text \<open>Saves the state a run ends with and reports the deadline it holds.\<close>

definition conclude ::
  "'db redis \<Rightarrow> (string \<Rightarrow> string) \<Rightarrow> string \<Rightarrow> lease \<Rightarrow> sched_state \<Rightarrow> string \<Rightarrow> string \<Rightarrow> scheduler \<Rightarrow> 'w \<Rightarrow> 'db
    \<Rightarrow> ('db, 'w) run_result" where
  "conclude R sum256 origin l s res diag sd w db =
     (case saveOwned R sum256 origin l s db of
        (Some e, ms, db1) \<Rightarrow> ((zero_time, Some e), ms, sd, w, db1)
      | (None, ms, db1) \<Rightarrow> ((ss_next_attempt s, None), ms @ [DirectoryMetric res diag], sd, w, db1))"

text \<open>The part of \<open>runDirectory\<close> from the start of the remote operation.\<close>

definition operate ::
  "'db redis \<Rightarrow> (string \<Rightarrow> string) \<Rightarrow> ('db, 'w) moments \<Rightarrow> string \<Rightarrow> lease \<Rightarrow> 'w sched_client \<Rightarrow> sched_state \<Rightarrow> scheduler
    \<Rightarrow> 'w \<Rightarrow> 'db \<Rightarrow> ('db, 'w) run_result" where
  "operate R sum256 M origin l c s sd w db =
     (case remote_operation c s (profile_changed c s) w of (res, w1) \<Rightarrow>
      case renewLease R l (mo_renewals M) db of (lost, db1) \<Rightarrow>
        let db2 = mo_during M db1
        in if lost then ((zero_time, Some ErrStore), [DirectoryMetric ''failure'' ''lease_lost''], sd, w1, db2)
           else if mo_cancelled M then ((zero_time, Some ''context canceled''), [], sd, w1, db2)
           else case monotonicNow sd (mo_clock_done M) (ss_last_observed s) of (completedAt, sd1) \<Rightarrow>
             (case res of
                Inr r \<Rightarrow>
                  conclude R sum256 origin l
                    (applySuccess sum256 (sd_actor sd) s origin completedAt (clientProfileDigest c) r)
                    ''success'' ''none'' sd1 w1 db2
              | Inl e \<Rightarrow>
                  let s' = applyFailure sum256 (sd_actor sd) s origin completedAt e
                  in conclude R sum256 origin l s' ''failure'' (ss_diagnostic s') sd1 w1 db2))"

text \<open>The part of \<open>runDirectory\<close> that runs while it owns the lease.\<close>

definition run_owned ::
  "'db redis \<Rightarrow> (string \<Rightarrow> string) \<Rightarrow> ('db, 'w) moments \<Rightarrow> time \<Rightarrow> string \<Rightarrow> lease \<Rightarrow> scheduler \<Rightarrow> 'w \<Rightarrow> 'db
    \<Rightarrow> ('db, 'w) run_result" where
  "run_owned R sum256 M boundary origin l sd w db =
     (case LoadState R sum256 origin db of
        (Inl e, db1) \<Rightarrow> ((zero_time, Some e), [DirectoryMetric ''failure'' ''internal''], sd, w, db1)
      | (Inr s, db1) \<Rightarrow>
          (case monotonicNow sd (mo_clock_owned M) (ss_last_observed s) of (now, sd1) \<Rightarrow>
             (case mo_enabled_owned M of
                Inl e \<Rightarrow> ((zero_time, Some e), [DirectoryMetric ''failure'' ''internal''], sd1, w, db1)
              | Inr False \<Rightarrow> ((zero_time, None), [], sd1, w, db1)
              | Inr True \<Rightarrow>
                  (case mo_client M of
                     None \<Rightarrow>
                       let s' = applyFailure sum256 (sd_actor sd) s origin now ErrDirectoryResponse
                       in conclude R sum256 origin l s' ''failure'' (ss_diagnostic s') sd1 w db1
                   | Some c \<Rightarrow>
                       if not_due s now (startupReconciliationDue s boundary) (profile_changed c s)
                       then ((ss_next_attempt s, None), [], sd1, w, db1)
                       else operate R sum256 M origin l c s sd1 w db1))))"

definition runDirectory ::
  "'db redis \<Rightarrow> (string \<Rightarrow> string) \<Rightarrow> ('db, 'w) moments \<Rightarrow> time \<Rightarrow> string \<Rightarrow> scheduler \<Rightarrow> 'w \<Rightarrow> 'db
    \<Rightarrow> ('db, 'w) run_result" where
  "runDirectory R sum256 M boundary origin sd w db0 =
     (let db = mo_before M db0
      in case mo_enabled M of
           Inl e \<Rightarrow> ((zero_time, Some e), [DirectoryMetric ''failure'' ''internal''], sd, w, db)
         | Inr False \<Rightarrow> ((zero_time, None), [], sd, w, db)
         | Inr True \<Rightarrow>
             (case LoadState R sum256 origin db of
                (Inl e, db1) \<Rightarrow> ((zero_time, Some e), [DirectoryMetric ''failure'' ''internal''], sd, w, db1)
              | (Inr s, db1) \<Rightarrow>
                  (case monotonicNow sd (mo_clock M) (ss_last_observed s) of (now, sd1) \<Rightarrow>
                     let profileChanged = (case mo_preview M of
                           Some c \<Rightarrow> profile_changed c s | None \<Rightarrow> False)
                     in if not_due s now (startupReconciliationDue s boundary) profileChanged
                        then ((ss_next_attempt s, None), [], sd1, w, db1)
                        else case Acquire R sum256 (mo_token M) origin leaseTTL (mo_before_lease M db1) of
                          (Inl e, db2) \<Rightarrow> ((zero_time, Some e), [DirectoryMetric ''failure'' ''internal''], sd1, w, db2)
                        | (Inr None, db2) \<Rightarrow> ((zero_time, None), [], sd1, w, db2)
                        | (Inr (Some l), db2) \<Rightarrow>
                            (case run_owned R sum256 M boundary origin l sd1 w db2 of (res, ms, sd2, w1, db3) \<Rightarrow>
                               (res, ms, sd2, w1, snd (Release R l db3))))))"

text \<open>One pass over the directories; \<open>mo\<close> gives what each of them meets.\<close>

fun run_entries ::
  "'db redis \<Rightarrow> (string \<Rightarrow> string) \<Rightarrow> (directory \<Rightarrow> ('db, 'w) moments) \<Rightarrow> time \<Rightarrow> directory list
    \<Rightarrow> (time \<times> string option) \<Rightarrow> scheduler \<Rightarrow> 'w \<Rightarrow> 'db \<Rightarrow> ('db, 'w) run_result" where
  "run_entries R sum256 mo boundary [] acc sd w db = (acc, [], sd, w, db)"
| "run_entries R sum256 mo boundary (e # es) (earliest, first) sd w db =
     (if \<not> d_enabled e then run_entries R sum256 mo boundary es (earliest, first) sd w db
      else case runDirectory R sum256 (mo e) boundary (d_origin e) sd w db of ((nextAttempt, err), ms, sd1, w1, db1) \<Rightarrow>
        let earliest' = (if \<not> is_zero nextAttempt \<and> (is_zero earliest \<or> nextAttempt < earliest) then nextAttempt else earliest);
            first' = (if err \<noteq> None \<and> first = None then err else first)
        in case run_entries R sum256 mo boundary es (earliest', first') sd1 w1 db1 of (acc, ms', r) \<Rightarrow>
             (acc, ms @ ms', r))"

definition runCycle ::
  "'db redis \<Rightarrow> (string \<Rightarrow> string) \<Rightarrow> (directory \<Rightarrow> ('db, 'w) moments) \<Rightarrow> time \<Rightarrow> scheduler \<Rightarrow> 'w \<Rightarrow> 'db
    \<Rightarrow> ('db, 'w) run_result" where
  "runCycle R sum256 mo boundary sd w db = run_entries R sum256 mo boundary (sd_directories sd) (zero_time, None) sd w db"

definition RunOnce ::
  "'db redis \<Rightarrow> (string \<Rightarrow> string) \<Rightarrow> (directory \<Rightarrow> ('db, 'w) moments) \<Rightarrow> scheduler \<Rightarrow> 'w \<Rightarrow> 'db
    \<Rightarrow> ('db, 'w) run_result" where
  "RunOnce R sum256 mo sd w db = runCycle R sum256 mo zero_time sd w db"

text \<open>
  The loop of \<open>Run\<close> over the cycles it goes through until its context ends: \<open>cy_clock\<close> is the clock after
  the pass over the directories, and \<open>cy_cancelled\<close> says that the context ended then or during the wait. The
  result lists the delays the loop waits.
\<close>

record ('db, 'w) cycle =
  cy_moments :: "directory \<Rightarrow> ('db, 'w) moments"
  cy_clock :: time
  cy_cancelled :: bool

fun run_loop ::
  "'db redis \<Rightarrow> (string \<Rightarrow> string) \<Rightarrow> time \<Rightarrow> ('db, 'w) cycle list \<Rightarrow> scheduler \<Rightarrow> 'w \<Rightarrow> 'db
    \<Rightarrow> duration list \<times> metric list \<times> scheduler \<times> 'w \<times> 'db" where
  "run_loop R sum256 boundary [] sd w db = ([], [], sd, w, db)"
| "run_loop R sum256 boundary (cy # cys) sd w db =
     (case runCycle R sum256 (cy_moments cy) boundary sd w db of ((nextAttempt, _), ms, sd1, w1, db1) \<Rightarrow>
        if cy_cancelled cy then ([], ms, sd1, w1, db1)
        else case nextWakeDelay sd1 (cy_clock cy) nextAttempt of (delay, sd2) \<Rightarrow>
          (case run_loop R sum256 boundary cys sd2 w1 db1 of (ds, ms', r) \<Rightarrow> (delay # ds, ms @ ms', r)))"

definition Run ::
  "'db redis \<Rightarrow> (string \<Rightarrow> string) \<Rightarrow> time \<Rightarrow> ('db, 'w) cycle list \<Rightarrow> scheduler \<Rightarrow> 'w \<Rightarrow> 'db
    \<Rightarrow> duration list \<times> metric list \<times> scheduler \<times> 'w \<times> 'db" where
  "Run R sum256 started cys sd w db = run_loop R sum256 (truncate_second started) cys sd w db"

end
