(* ===== verification/Directory_Store_Facts.thy ===== *)
theory Directory_Store_Facts
  imports Directory_Store
begin

text \<open>
  The store of the scheduler implements a fenced register: a state that only the holder of a lease can
  replace. The abstract register has an owner and a state; the operations of any number of processes on
  the Redis store are operations of the register, or have no effect and do not report success.
\<close>

section \<open>What is stored\<close>

text \<open>Times are kept to the second; the first second after the epoch cannot be told from no time.\<close>

definition stored_time :: "time \<Rightarrow> time" where
  "stored_time t = (if is_zero t \<or> t div second = 0 then zero_time else t div second * second)"

definition to_seconds :: "sched_state \<Rightarrow> sched_state" where
  "to_seconds s = s\<lparr>ss_last_success := stored_time (ss_last_success s), ss_next_attempt := stored_time (ss_next_attempt s),
     ss_last_observed := stored_time (ss_last_observed s)\<rparr>"

definition storable_time :: "time \<Rightarrow> bool" where
  "storable_time t \<longleftrightarrow> is_zero t \<or> 0 \<le> t \<and> t div second < 2 ^ 63"

definition storable_times :: "sched_state \<Rightarrow> bool" where
  "storable_times s \<longleftrightarrow>
     storable_time (ss_last_success s) \<and> storable_time (ss_next_attempt s) \<and> storable_time (ss_last_observed s)"

lemma show_int_0 [simp]: "show_int 0 = ''0''"
  by (simp add: show_int_def)

lemma show_int_inject [simp]: "0 \<le> i \<Longrightarrow> 0 \<le> j \<Longrightarrow> show_int i = show_int j \<longleftrightarrow> i = j"
  by (simp add: show_int_def) (metis nat_0_le)

lemma parseTime_unixString: "storable_time t \<Longrightarrow> parseTime (unixString t) = Inr (stored_time t)"
proof (cases "is_zero t")
  case True
  then show ?thesis by (simp add: parseTime_def unixString_def stored_time_def)
next
  case False
  assume "storable_time t"
  with False have t: "0 \<le> t div second" "t div second < 2 ^ 63"
    by (auto simp: storable_time_def pos_imp_zdiv_nonneg_iff)
  show ?thesis
  proof (cases "t div second = 0")
    case True
    with False show ?thesis by (simp add: parseTime_def unixString_def stored_time_def)
  next
    case nonzero: False
    then have "show_int (t div second) \<noteq> ''0''"
      using t show_int_inject [of "t div second" 0] by simp
    with False nonzero t show ?thesis
      by (simp add: parseTime_def unixString_def stored_time_def parse_int64_show_int)
  qed
qed

lemma small_number_show: "0 \<le> n \<Longrightarrow> n \<le> bound \<Longrightarrow> bound < 256 \<Longrightarrow> small_number bound (show_int n) = Inr n"
  by (simp add: small_number_def show_int_def parse_uint_show_nat nat_less_iff)

lemma validateState_Inr:
  "\<not> isl (validateState origin s) \<longleftrightarrow> origin \<noteq> [] \<and> 0 \<le> ss_attempt s \<and> ss_attempt s \<le> maximumAttempt
     \<and> validOutcome (ss_outcome s) \<and> validDiagnostic (ss_diagnostic s)
     \<and> validProfileState (ss_profile_digest s) (ss_profile_version s)"
  by (auto simp: validateState_def)

lemma validProfileState_version: "validProfileState d v \<Longrightarrow> 0 \<le> v \<and> v \<le> 3"
  by (auto simp: validProfileState_def split: if_splits)

lemma value_of_stateArguments:
  fixes s h0 defines "h \<equiv> h0 ++ map_of (rev (zip state_fields (stateArguments s)))"
  shows "value_of h ''registered'' = (if ss_registered s then ''1'' else ''0'')"
    "value_of h ''last_success_unix'' = unixString (ss_last_success s)"
    "value_of h ''next_attempt_unix'' = unixString (ss_next_attempt s)"
    "value_of h ''last_outcome'' = ss_outcome s"
    "value_of h ''diagnostic'' = ss_diagnostic s"
    "value_of h ''attempt'' = show_int (ss_attempt s)"
    "value_of h ''last_observed_unix'' = unixString (ss_last_observed s)"
    "value_of h ''profile_digest'' = ss_profile_digest s"
    "value_of h ''profile_protocol_version'' = show_int (ss_profile_version s)"
  unfolding h_def value_of_def state_fields_def stateArguments_def by (simp_all add: map_add_def)

text \<open>What a write leaves can be read again.\<close>

lemma decode_written_state:
  assumes "\<not> isl (validateState origin s)" and "storable_times s"
  shows "decode_state (h ++ map_of (rev (zip state_fields (stateArguments s)))) = Inr (to_seconds s)"
proof -
  from assms have valid: "0 \<le> ss_attempt s" "ss_attempt s \<le> maximumAttempt" "validOutcome (ss_outcome s)"
      "validDiagnostic (ss_diagnostic s)" "validProfileState (ss_profile_digest s) (ss_profile_version s)"
    and times: "storable_time (ss_last_success s)" "storable_time (ss_next_attempt s)" "storable_time (ss_last_observed s)"
    by (simp_all add: validateState_Inr storable_times_def)
  have version: "small_number 3 (show_int (ss_profile_version s)) = Inr (ss_profile_version s)"
    using validProfileState_version [OF valid(5)] by (simp add: small_number_show)
  have attempt: "small_number maximumAttempt (show_int (ss_attempt s)) = Inr (ss_attempt s)"
    using valid by (simp add: small_number_show maximumAttempt_def)
  show ?thesis
    unfolding decode_state_def value_of_stateArguments
    by (cases s) (use valid times version attempt in \<open>simp add: parseTime_unixString to_seconds_def\<close>)
qed

section \<open>The fenced register\<close>

record fenced =
  fl_owner :: "string option"
  fl_state :: "sched_state result"

definition fenced_view :: "'db redis \<Rightarrow> (string \<Rightarrow> string) \<Rightarrow> string \<Rightarrow> 'db \<Rightarrow> fenced" where
  "fenced_view R sum256 origin db =
     (let h = r_hash R db (directoryKey sum256 origin ''state'')
      in \<lparr>fl_owner = r_str R db (directoryKey sum256 origin ''lease''),
          fl_state = (if h = Map.empty then Inr zero_state else decode_state h)\<rparr>)"

text \<open>The keys hold what their names say: the lease key no hash, the state key no string.\<close>

definition store_ok :: "'db redis \<Rightarrow> (string \<Rightarrow> string) \<Rightarrow> string \<Rightarrow> 'db \<Rightarrow> bool" where
  "store_ok R sum256 origin db \<longleftrightarrow>
     r_hash R db (directoryKey sum256 origin ''lease'') = Map.empty \<and> r_str R db (directoryKey sum256 origin ''state'') = None"

datatype store_op = AcquireOp "string result" duration | SaveOp lease sched_state | RenewOp lease duration | ReleaseOp lease

text \<open>One call of one process; the flag is what it reports.\<close>

fun store_call :: "'db redis \<Rightarrow> (string \<Rightarrow> string) \<Rightarrow> string \<Rightarrow> store_op \<Rightarrow> 'db \<Rightarrow> bool \<times> 'db" where
  "store_call R sum256 origin (AcquireOp token ttl) db =
     (case Acquire R sum256 token origin ttl db of (res, db') \<Rightarrow> (\<not> isl res \<and> projr res \<noteq> None, db'))"
| "store_call R sum256 origin (SaveOp l s) db =
     (case SaveOwned R sum256 origin l s db of (res, db') \<Rightarrow> (res = Inr True, db'))"
| "store_call R sum256 origin (RenewOp l ttl) db = (case Renew R l ttl db of (res, db') \<Rightarrow> (res = Inr True, db'))"
| "store_call R sum256 origin (ReleaseOp l) db = (case Release R l db of (res, db') \<Rightarrow> (res = Inr (), db'))"

definition owns :: "lease \<Rightarrow> fenced \<Rightarrow> bool" where
  "owns l a \<longleftrightarrow> fl_owner a = Some (ls_value l)"

fun fenced_call :: "store_op \<Rightarrow> fenced \<Rightarrow> fenced" where
  "fenced_call (AcquireOp token ttl) a =
     (case token of Inr t \<Rightarrow> if fl_owner a = None then a\<lparr>fl_owner := Some t\<rparr> else a | Inl _ \<Rightarrow> a)"
| "fenced_call (SaveOp l s) a = (if owns l a then a\<lparr>fl_state := Inr (to_seconds s)\<rparr> else a)"
| "fenced_call (RenewOp l ttl) a = a"
| "fenced_call (ReleaseOp l) a = (if owns l a then a\<lparr>fl_owner := None\<rparr> else a)"

text \<open>When a call may report success.\<close>

fun fenced_grants :: "store_op \<Rightarrow> fenced \<Rightarrow> bool" where
  "fenced_grants (AcquireOp token ttl) a \<longleftrightarrow> fl_owner a = None"
| "fenced_grants (SaveOp l s) a \<longleftrightarrow> owns l a"
| "fenced_grants (RenewOp l ttl) a \<longleftrightarrow> owns l a"
| "fenced_grants (ReleaseOp l) a \<longleftrightarrow> True"

text \<open>Leases are those of the origin, and times to save are within the range of the encoding.\<close>

fun op_for :: "(string \<Rightarrow> string) \<Rightarrow> string \<Rightarrow> store_op \<Rightarrow> bool" where
  "op_for sum256 origin (AcquireOp token ttl) \<longleftrightarrow> True"
| "op_for sum256 origin (SaveOp l s) \<longleftrightarrow> storable_times s"
| "op_for sum256 origin (RenewOp l ttl) \<longleftrightarrow> ls_key l = directoryKey sum256 origin ''lease'' \<and> (0 < ttl \<longrightarrow> millisecond \<le> ttl)"
| "op_for sum256 origin (ReleaseOp l) \<longleftrightarrow> ls_key l = directoryKey sum256 origin ''lease''"

text \<open>The leases a call presents, and the calls of any number of processes one after another.\<close>

fun op_leases :: "store_op \<Rightarrow> lease set" where
  "op_leases (AcquireOp token ttl) = {}"
| "op_leases (SaveOp l s) = {l}"
| "op_leases (RenewOp l ttl) = {l}"
| "op_leases (ReleaseOp l) = {l}"

fun store_calls :: "'db redis \<Rightarrow> (string \<Rightarrow> string) \<Rightarrow> string \<Rightarrow> store_op list \<Rightarrow> 'db \<Rightarrow> 'db" where
  "store_calls R sum256 origin [] db = db"
| "store_calls R sum256 origin (opn # ops) db = store_calls R sum256 origin ops (snd (store_call R sum256 origin opn db))"

definition implements_fencing ::
  "'db redis \<Rightarrow> (string \<Rightarrow> string) \<Rightarrow> string \<Rightarrow> store_op \<Rightarrow> 'db \<Rightarrow> bool \<Rightarrow> 'db \<Rightarrow> bool" where
  "implements_fencing R sum256 origin opn db ok db' \<longleftrightarrow>
     store_ok R sum256 origin db'
     \<and> (ok \<longrightarrow> fenced_grants opn (fenced_view R sum256 origin db))
     \<and> (fenced_view R sum256 origin db' = fenced_call opn (fenced_view R sum256 origin db)
        \<or> \<not> ok \<and> fenced_view R sum256 origin db' = fenced_view R sum256 origin db)"

lemma directoryKey_distinct [simp]:
  "directoryKey sum256 origin ''lease'' \<noteq> directoryKey sum256 origin ''state''"
  "directoryKey sum256 origin ''state'' \<noteq> directoryKey sum256 origin ''lease''"
  by (simp_all add: directoryKey_def)

context redis_server
begin

lemma frame_views:
  assumes "r_hash R d = r_hash R db" and "r_str R d = r_str R db"
  shows "fenced_view R sum256 origin d = fenced_view R sum256 origin db"
    and "store_ok R sum256 origin d = store_ok R sum256 origin db"
  using assms by (simp_all add: fenced_view_def store_ok_def)

lemma no_hkeys: "r_hash R db k = Map.empty \<Longrightarrow> r_hkeys R db k = []"
  using hkeys_iff [of "hd (r_hkeys R db k)" db k] by (cases "r_hkeys R db k") simp_all

lemma unchanged_fencing:
  assumes "store_ok R sum256 origin db" and "r_hash R db' = r_hash R db" and "r_str R db' = r_str R db"
  shows "implements_fencing R sum256 origin opn db False db'"
  using assms(1) frame_views [OF assms(2,3)] by (simp add: implements_fencing_def)

lemma write_state_views:
  assumes "r_str R db k = None"
  shows "r_str R (write_state R k s db) = r_str R db"
    and "r_hash R (write_state R k s db) = (r_hash R db)(k := r_hash R db k ++ map_of (rev (zip state_fields (stateArguments s))))"
  using assms by (simp_all add: write_state_def stateRetention_def)

lemma written_fields_not_empty: "h ++ map_of (rev (zip state_fields (stateArguments s))) \<noteq> Map.empty"
  by (simp add: state_fields_def stateArguments_def)

lemma write_state_fenced:
  assumes ok: "store_ok R sum256 origin db" and s: "\<not> isl (validateState origin s)" "storable_times s"
  defines "db' \<equiv> write_state R (directoryKey sum256 origin ''state'') s db"
  shows "store_ok R sum256 origin db'"
    and "fenced_view R sum256 origin db' = (fenced_view R sum256 origin db)\<lparr>fl_state := Inr (to_seconds s)\<rparr>"
  using ok write_state_views [of db "directoryKey sum256 origin ''state''" s] decode_written_state [OF s]
    written_fields_not_empty
  unfolding db'_def store_ok_def fenced_view_def by (simp_all add: Let_def)

lemma SaveOwned_fenced:
  assumes ok: "store_ok R sum256 origin db" and times: "storable_times s"
    and run: "SaveOwned R sum256 origin l s db = (res, db')"
  shows "implements_fencing R sum256 origin (SaveOp l s) db (res = Inr True) db'"
proof (cases "ls_key l \<noteq> directoryKey sum256 origin ''lease'' \<or> isl (validateState origin s)")
  case True
  with run ok show ?thesis by (auto simp: SaveOwned_def intro: unchanged_fencing)
next
  case False
  then have key: "ls_key l = directoryKey sum256 origin ''lease''" and valid: "\<not> isl (validateState origin s)" by auto
  from run False obtain r where cmd: "command R ''eval''
      (saveOwnedScript R (ls_key l) (directoryKey sum256 origin ''state'') (ls_value l) s) db = (r, db')"
    and res: "res = (case r of Inl _ \<Rightarrow> Inl ErrStore | Inr n \<Rightarrow> Inr (n = 1))"
    by (auto simp: SaveOwned_def split: prod.splits sum.splits)
  from cmd show ?thesis
  proof (cases rule: command_cases)
    case (idle e)
    with ok res show ?thesis by (auto intro: unchanged_fencing)
  next
    case (ran x d)
    then have okd: "store_ok R sum256 origin d" and view: "fenced_view R sum256 origin d = fenced_view R sum256 origin db"
      using ok frame_views [OF ran(2,3)] by simp_all
    then have keys: "r_hkeys R d (ls_key l) = []" "r_str R d (directoryKey sum256 origin ''state'') = None"
      by (simp_all add: store_ok_def key no_hkeys)
    show ?thesis
    proof (cases "r_str R d (ls_key l) = Some (ls_value l)")
      case True
      with ran(1) keys have x: "x = Inr 1" and db': "db' = write_state R (directoryKey sum256 origin ''state'') s d"
        by (auto simp: saveOwnedScript_def)
      have own: "owns l (fenced_view R sum256 origin db)"
        using True unfolding view [symmetric] by (simp add: owns_def fenced_view_def key Let_def)
      show ?thesis
        using write_state_fenced [OF okd valid times] own unfolding db' implements_fencing_def view by simp
    next
      case False
      with ran(1) keys have "x = Inr 0" "db' = d" by (auto simp: saveOwnedScript_def)
      then show ?thesis using ran ok res by (auto intro!: unchanged_fencing)
    qed
  qed
qed

lemma ownedScript_fenced:
  assumes ok: "store_ok R sum256 origin db" and key: "ls_key l = directoryKey sum256 origin ''lease''"
    and cmd: "command R ''eval'' (ownedScript R l f) db = (r, db')"
  obtains "r_hash R db' = r_hash R db" and "r_str R db' = r_str R db" and "r \<noteq> Inr 1"
    | d where "db' = f d" and "r_hash R d = r_hash R db" and "r_str R d = r_str R db"
      and "owns l (fenced_view R sum256 origin db)"
  using cmd
proof (cases rule: command_cases)
  case (idle e)
  then show thesis using that(1) by simp
next
  case (ran x d)
  then have keys: "r_hkeys R d (ls_key l) = []"
    using ok by (simp add: store_ok_def key no_hkeys)
  show thesis
  proof (cases "r_str R d (ls_key l) = Some (ls_value l)")
    case True
    with ran keys show thesis
      by (intro that(2) [of d]) (auto simp: ownedScript_def owns_def fenced_view_def key Let_def)
  next
    case False
    with ran keys show thesis by (intro that(1)) (auto simp: ownedScript_def)
  qed
qed

lemma Renew_fenced:
  assumes ok: "store_ok R sum256 origin db" and key: "ls_key l = directoryKey sum256 origin ''lease''"
    and ttl: "0 < ttl \<longrightarrow> millisecond \<le> ttl" and run: "Renew R l ttl db = (res, db')"
  shows "implements_fencing R sum256 origin (RenewOp l ttl) db (res = Inr True) db'"
proof (cases "ttl \<le> 0")
  case True
  with run ok show ?thesis by (auto simp: Renew_def intro: unchanged_fencing)
next
  case False
  with ttl have pos: "0 < ttl div millisecond" by (simp add: pos_imp_zdiv_pos_iff)
  from run False obtain r where
    cmd: "command R ''eval'' (ownedScript R l (r_pexpire R (ls_key l) (ttl div millisecond))) db = (r, db')"
    and res: "res = (case r of Inl _ \<Rightarrow> Inl ErrStore | Inr n \<Rightarrow> Inr (n = 1))"
    by (auto simp: Renew_def split: prod.splits sum.splits)
  from ok key cmd show ?thesis
  proof (cases rule: ownedScript_fenced)
    case 1
    then have "res \<noteq> Inr True" using res by (auto split: sum.splits)
    with 1 ok show ?thesis by (auto intro: unchanged_fencing)
  next
    case (2 d)
    then show ?thesis
      using pos ok frame_views [of db' db sum256 origin] by (simp add: implements_fencing_def)
  qed
qed

lemma Release_fenced:
  assumes ok: "store_ok R sum256 origin db" and key: "ls_key l = directoryKey sum256 origin ''lease''"
    and run: "Release R l db = (res, db')"
  shows "implements_fencing R sum256 origin (ReleaseOp l) db (res = Inr ()) db'"
proof -
  from run obtain r where cmd: "command R ''eval'' (ownedScript R l (r_del R (ls_key l))) db = (r, db')"
    by (auto simp: Release_def split: prod.splits sum.splits)
  obtain a where a: "a = fenced_view R sum256 origin db" by simp
  from cmd show ?thesis
  proof (cases rule: command_cases)
    case (idle e)
    then have "res \<noteq> Inr ()" using run cmd by (auto simp: Release_def)
    with idle ok show ?thesis by (auto intro: unchanged_fencing)
  next
    case (ran x d)
    then have okd: "store_ok R sum256 origin d" and view: "fenced_view R sum256 origin d = a"
      using ok a frame_views [OF ran(2,3)] by simp_all
    then have "r_hkeys R d (ls_key l) = []" by (simp add: store_ok_def key no_hkeys)
    with ran(1) have db': "db' = (if owns l a then r_del R (ls_key l) d else d)"
      unfolding view [symmetric] by (auto simp: ownedScript_def owns_def fenced_view_def key Let_def)
    then show ?thesis
      using okd ran ok unfolding implements_fencing_def a [symmetric]
      by (auto simp: store_ok_def fenced_view_def key Let_def view [symmetric])
  qed
qed

lemma Acquire_fenced:
  assumes ok: "store_ok R sum256 origin db" and run: "Acquire R sum256 token origin ttl db = (res, db')"
  shows "implements_fencing R sum256 origin (AcquireOp token ttl) db (\<not> isl res \<and> projr res \<noteq> None) db'"
proof (cases "\<exists>v. token = Inr v \<and> origin \<noteq> [] \<and> 0 < ttl")
  case False
  with run ok show ?thesis
    by (auto simp: Acquire_def not_less split: sum.splits if_splits intro: unchanged_fencing)
next
  case True
  then obtain v where v: "token = Inr v" "origin \<noteq> []" "0 < ttl" by blast
  let ?key = "directoryKey sum256 origin ''lease''"
  from run v obtain r where cmd: "call R ''set'' (r_setnx R ?key v (ttl_millis ttl)) db = (r, db')"
    and res: "res = (case r of Inl _ \<Rightarrow> Inl ErrStore
        | Inr got \<Rightarrow> Inr (if got then Some \<lparr>ls_key = ?key, ls_value = v\<rparr> else None))"
    by (auto simp: Acquire_def Let_def split: prod.splits sum.splits)
  have ran: "implements_fencing R sum256 origin (AcquireOp token ttl) db (\<not> isl res \<and> projr res \<noteq> None) db'"
    if d: "r_setnx R ?key v (ttl_millis ttl) d = (got, db')" "r_hash R d = r_hash R db" "r_str R d = r_str R db"
      and r: "r = Inr got \<or> (\<exists>e. r = Inl e)" for d got
  proof (cases "r_exists R d ?key")
    case True
    with d(1) have "\<not> got" "db' = d" by (simp_all add: setnx_present)
    with d ok res r show ?thesis by (auto intro!: unchanged_fencing)
  next
    case False
    have "fst (r_setnx R ?key v (ttl_millis ttl) d) \<and> r_str R (snd (r_setnx R ?key v (ttl_millis ttl) d)) = (r_str R d)(?key \<mapsto> v)
      \<and> r_hash R (snd (r_setnx R ?key v (ttl_millis ttl) d)) = r_hash R d"
      by (rule setnx_absent) (use False in \<open>simp_all add: ttl_millis_def\<close>)
    with d have got: "r_str R db' = (r_str R db)(?key \<mapsto> v)" "r_hash R db' = r_hash R db" by simp_all
    have free: "r_str R db ?key = None" using False d by (simp add: exists_iff)
    then show ?thesis
      using ok got v by (simp add: implements_fencing_def store_ok_def fenced_view_def Let_def)
  qed
  from cmd show ?thesis
  proof (cases rule: call_cases)
    case (executed x db1)
    then show ?thesis using ran by blast
  next
    case refused
    then show ?thesis using ok res by (auto intro: unchanged_fencing)
  next
    case (lost x db1)
    then show ?thesis using ran by blast
  qed
qed

lemma store_call_fenced:
  assumes "store_ok R sum256 origin db" and "op_for sum256 origin opn"
    and "store_call R sum256 origin opn db = (ok, db')"
  shows "implements_fencing R sum256 origin opn db ok db'"
proof (cases opn)
  case (AcquireOp token ttl)
  obtain res where run: "Acquire R sum256 token origin ttl db = (res, db')" and ok: "ok = (\<not> isl res \<and> projr res \<noteq> None)"
    using assms AcquireOp by (auto split: prod.splits)
  show ?thesis unfolding AcquireOp ok by (rule Acquire_fenced [OF assms(1) run])
qed (use assms in \<open>auto split: prod.splits intro: SaveOwned_fenced Renew_fenced Release_fenced\<close>)

text \<open>While one token holds the lease, calls of the others change neither the owner nor the state.\<close>

lemma stale_call:
  assumes ok: "store_ok R sum256 origin db" and form: "op_for sum256 origin opn"
    and owner: "fl_owner (fenced_view R sum256 origin db) = Some t"
    and other: "\<forall>l \<in> op_leases opn. ls_value l \<noteq> t"
  shows "fenced_view R sum256 origin (snd (store_call R sum256 origin opn db)) = fenced_view R sum256 origin db"
    and "store_ok R sum256 origin (snd (store_call R sum256 origin opn db))"
    and "fst (store_call R sum256 origin opn db) \<Longrightarrow> \<exists>l. opn = ReleaseOp l"
proof -
  obtain b db' where run: "store_call R sum256 origin opn db = (b, db')" by (cases "store_call R sum256 origin opn db")
  have fenced: "implements_fencing R sum256 origin opn db b db'" by (rule store_call_fenced [OF ok form run])
  have same: "fenced_call opn (fenced_view R sum256 origin db) = fenced_view R sum256 origin db"
    using owner other by (cases opn) (auto simp: owns_def split: sum.splits)
  from fenced same run show "fenced_view R sum256 origin (snd (store_call R sum256 origin opn db)) = fenced_view R sum256 origin db"
    and "store_ok R sum256 origin (snd (store_call R sum256 origin opn db))"
    by (auto simp: implements_fencing_def)
  assume "fst (store_call R sum256 origin opn db)"
  with fenced run owner other show "\<exists>l. opn = ReleaseOp l"
    by (cases opn) (auto simp: implements_fencing_def owns_def)
qed

lemma stale_calls:
  assumes "store_ok R sum256 origin db" and "fl_owner (fenced_view R sum256 origin db) = Some t"
    and "list_all (\<lambda>opn. op_for sum256 origin opn \<and> (\<forall>l \<in> op_leases opn. ls_value l \<noteq> t)) ops"
  shows "fenced_view R sum256 origin (store_calls R sum256 origin ops db) = fenced_view R sum256 origin db
    \<and> store_ok R sum256 origin (store_calls R sum256 origin ops db)"
  using assms
proof (induction ops arbitrary: db)
  case (Cons opn ops)
  then show ?case using stale_call(1,2) [of sum256 origin db opn t] by simp
qed simp

lemma map_of_hgetall:
  "map_of (List.map_filter (\<lambda>f. map_option (Pair f) (r_hash R db key f)) fs) f =
     (if f \<in> set fs then r_hash R db key f else None)"
  by (induction fs) (auto simp: List.map_filter_simps split: option.split)

lemma hgetall_fields:
  defines "fvs \<equiv> \<lambda>db key. List.map_filter (\<lambda>f. map_option (Pair f) (r_hash R db key f)) (r_hkeys R db key)"
  shows "map_of (fvs db key) = r_hash R db key" and "fvs db key = [] \<longleftrightarrow> r_hash R db key = Map.empty"
proof -
  show m: "map_of (fvs db key) = r_hash R db key"
    unfolding fvs_def by (rule ext) (auto simp: map_of_hgetall hkeys_iff)
  show "fvs db key = [] \<longleftrightarrow> r_hash R db key = Map.empty"
    unfolding m [symmetric] by (cases "fvs db key") auto
qed

text \<open>What \<open>LoadState\<close> returns is the state of the register, unless it fails.\<close>

lemma LoadState_view:
  assumes "store_ok R sum256 origin db" and run: "LoadState R sum256 origin db = (res, db')"
  shows "r_hash R db' = r_hash R db" and "r_str R db' = r_str R db"
    and "res = Inr s \<Longrightarrow> fl_state (fenced_view R sum256 origin db) = Inr s"
proof -
  let ?key = "directoryKey sum256 origin ''state''"
  have "r_hash R db' = r_hash R db \<and> r_str R db' = r_str R db
    \<and> (res = Inr s \<longrightarrow> fl_state (fenced_view R sum256 origin db) = Inr s)"
  proof (cases "origin = []")
    case True
    with run show ?thesis by (auto simp: LoadState_def)
  next
    case False
    with run obtain r where cmd: "hgetall R ?key db = (r, db')"
      and res: "res = (case r of Inl _ \<Rightarrow> Inl ErrStore
          | Inr fvs \<Rightarrow> if fvs = [] then Inr zero_state else decode_state (map_of fvs))"
      by (auto simp: LoadState_def split: prod.splits sum.splits)
    from cmd [unfolded hgetall_def] show ?thesis
    proof (cases rule: command_cases)
      case (idle e)
      with res show ?thesis by simp
    next
      case (ran x d)
      then have "r_str R d ?key = None" using assms(1) by (simp add: store_ok_def)
      with ran(1) obtain fvs where x: "x = Inr fvs" and d: "db' = d"
        and fvs: "map_of fvs = r_hash R d ?key" "fvs = [] \<longleftrightarrow> r_hash R d ?key = Map.empty"
        by (simp add: on_hash_def) (use hgetall_fields [of d ?key] in blast)
      show ?thesis
        using ran(2-4) res fvs unfolding x d by (auto simp: fenced_view_def Let_def)
    qed
  qed
  then show "r_hash R db' = r_hash R db" and "r_str R db' = r_str R db"
    and "res = Inr s \<Longrightarrow> fl_state (fenced_view R sum256 origin db) = Inr s" by auto
qed

end

text \<open>C4: Refinement: the lease and state operations on Redis implement a register that only the holder of the
  lease can replace. In a store whose two keys are of the right kind, one call by any process, with
  its reply possibly lost, has the effect of the same call on the abstract register or no effect at all,
  and in the second case it does not report success. A call reports success only when the register grants
  it: \<open>Acquire\<close> when there is no owner, \<open>SaveOwned\<close> and \<open>Renew\<close> when the lease presented is the owner's. A state
  that was saved is read back as it was, with its times cut to the second.\<close>

theorem lease_store_implements_fenced_register:
  assumes "redis_server R" and "store_ok R sum256 origin db" and "op_for sum256 origin opn"
    and "store_call R sum256 origin opn db = (ok, db')"
  shows "store_ok R sum256 origin db'
    \<and> (ok \<longrightarrow> fenced_grants opn (fenced_view R sum256 origin db))
    \<and> (fenced_view R sum256 origin db' = fenced_call opn (fenced_view R sum256 origin db)
       \<or> \<not> ok \<and> fenced_view R sum256 origin db' = fenced_view R sum256 origin db)"
  using redis_server.store_call_fenced [OF assms] unfolding implements_fencing_def .

text \<open>C17: Safety: a former owner cannot touch the state of its successor. While the lease key holds a token,
  every sequence of calls in which all leases presented carry other tokens (including attempts to take the
  lease, saves, renewals and releases, and calls whose reply is lost) leaves the owner and the state as they
  were, and whatever \<open>LoadState\<close> then returns is the state from before.\<close>

theorem former_owners_change_nothing:
  assumes R: "redis_server R" and ok: "store_ok R sum256 origin db"
    and owner: "r_str R db (directoryKey sum256 origin ''lease'') = Some t"
    and others: "list_all (\<lambda>opn. op_for sum256 origin opn \<and> (\<forall>l \<in> op_leases opn. ls_value l \<noteq> t)) ops"
    and load: "LoadState R sum256 origin (store_calls R sum256 origin ops db) = (Inr s, db')"
  shows "r_str R (store_calls R sum256 origin ops db) (directoryKey sum256 origin ''lease'') = Some t
    \<and> fl_state (fenced_view R sum256 origin db) = Inr s"
proof -
  have "fl_owner (fenced_view R sum256 origin db) = Some t"
    using owner by (simp add: fenced_view_def Let_def)
  note stale = redis_server.stale_calls [OF R ok this others]
  moreover have "fl_state (fenced_view R sum256 origin (store_calls R sum256 origin ops db)) = Inr s"
    by (rule redis_server.LoadState_view(3) [OF R _ load]) (use stale in simp_all)
  ultimately show ?thesis
    using owner by (auto simp: fenced_view_def Let_def)
qed

section \<open>An example\<close>

definition sample_sum256 :: "string \<Rightarrow> string" where
  "sample_sum256 s = []"

definition sample_lease :: "string \<Rightarrow> lease" where
  "sample_lease t = \<lparr>ls_key = directoryKey sample_sum256 ''https://d.ex'' ''lease'', ls_value = t\<rparr>"

definition kept_state :: sched_state where
  "kept_state = \<lparr>ss_registered = True, ss_last_success = 5 * second, ss_next_attempt = 90 * second,
     ss_outcome = ''heartbeat'', ss_diagnostic = ''none'', ss_attempt = 0, ss_last_observed = 5 * second,
     ss_profile_digest = [], ss_profile_version = 0\<rparr>"

definition owned_db :: mem where
  "owned_db = \<lparr>m_now = 0, m_trips = [], m_hashes = [], m_strs = [(ls_key (sample_lease ''new''), ''new'')], m_lens = []\<rparr>"

lemma owned_db_ok: "store_ok mem_redis sample_sum256 ''https://d.ex'' owned_db"
  by (simp add: store_ok_def owned_db_def mem_hash_def sample_lease_def)

lemma kept_state_valid: "isl (validateState ''https://d.ex'' kept_state) = False"
  by code_simp

lemma save_kept_state:
  assumes "fst (command mem_redis ''eval'' (saveOwnedScript mem_redis (ls_key (sample_lease t))
      (directoryKey sample_sum256 ''https://d.ex'' ''state'') t kept_state) db) = Inr n"
  shows "fst (store_call mem_redis sample_sum256 ''https://d.ex'' (SaveOp (sample_lease t) kept_state) db) = (n = 1)"
  using assms by (auto simp: SaveOwned_def kept_state_valid sample_lease_def split: prod.splits sum.splits)

theorem lease_store_implements_fenced_register_witness:
  "fenced_view mem_redis sample_sum256 ''https://d.ex''
     (snd (store_call mem_redis sample_sum256 ''https://d.ex'' (SaveOp (sample_lease ''new'') kept_state) owned_db))
   = \<lparr>fl_owner = Some ''new'', fl_state = Inr kept_state\<rparr>"
proof -
  let ?call = "store_call mem_redis sample_sum256 ''https://d.ex'' (SaveOp (sample_lease ''new'') kept_state) owned_db"
  have "fst (command mem_redis ''eval'' (saveOwnedScript mem_redis (ls_key (sample_lease ''new''))
      (directoryKey sample_sum256 ''https://d.ex'' ''state'') ''new'' kept_state) owned_db) = Inr 1"
    by code_simp
  then have ok: "fst ?call" by (simp only: save_kept_state)
  have view: "fenced_view mem_redis sample_sum256 ''https://d.ex'' owned_db = \<lparr>fl_owner = Some ''new'', fl_state = Inr zero_state\<rparr>"
    unfolding fenced_view_def mem_redis_simps Let_def by (simp add: owned_db_def mem_hash_def sample_lease_def)
  show ?thesis
    using lease_store_implements_fenced_register
        [OF mem.redis_server_axioms owned_db_ok, of "SaveOp (sample_lease ''new'') kept_state" "fst ?call" "snd ?call"] ok
    by (simp add: view owns_def sample_lease_def storable_times_def storable_time_def kept_state_def to_seconds_def
        stored_time_def zero_time_def)
qed

theorem former_owners_change_nothing_witness:
  "fst (LoadState mem_redis sample_sum256 ''https://d.ex''
     (store_calls mem_redis sample_sum256 ''https://d.ex''
        [SaveOp (sample_lease ''old'') kept_state, AcquireOp (Inr ''third'') minute, ReleaseOp (sample_lease ''old'')] owned_db))
   = Inr zero_state \<and> fl_state (fenced_view mem_redis sample_sum256 ''https://d.ex'' owned_db) = Inr zero_state"
proof -
  let ?ops = "[SaveOp (sample_lease ''old'') kept_state, AcquireOp (Inr ''third'') minute, ReleaseOp (sample_lease ''old'')]"
  let ?load = "LoadState mem_redis sample_sum256 ''https://d.ex'' (store_calls mem_redis sample_sum256 ''https://d.ex'' ?ops owned_db)"
  have fst: "fst ?load = Inr zero_state" by code_simp
  then have load: "?load = (Inr zero_state, snd ?load)" by (metis prod.collapse)
  show ?thesis
    using former_owners_change_nothing
        [OF mem.redis_server_axioms owned_db_ok, of "''new''" ?ops zero_state "snd ?load"] fst load
    by (simp add: owned_db_def sample_lease_def storable_times_def storable_time_def kept_state_def)
qed

end
