(* ===== verification/Directory_Client_Facts.thy ===== *)
theory Directory_Client_Facts
  imports Directory_Scheduler Directory_Store_Facts
begin

text \<open>
  What the scheduler relies on of a directory client, as the locale \<open>lifecycle_client\<close>, and the proof
  that \<open>directoryclient.Client\<close> provides it: replies are validated against the request, the delays a
  directory asks for are bounded, and the digest of the profile is one the store accepts.
\<close>

section \<open>Replies\<close>

lemma boundedRetryAfter_Inr:
  "boundedRetryAfter W c code h now = Inr d \<Longrightarrow> 0 \<le> d \<and> d \<le> MaximumRetryAfter"
  by (auto simp: boundedRetryAfter_def Let_def MaximumRetryAfter_def dest!: parse_uint_NumOk
      split: if_splits num_result.splits option.splits)

text \<open>What is known of an error that a directory reported.\<close>

definition validated_error :: "protocol_error \<Rightarrow> bool" where
  "validated_error pe \<longleftrightarrow> error_code_valid (pe_code pe) \<and> errorStatusMatches (pe_code pe) (pe_status pe)
     \<and> 0 \<le> pe_retry_after pe \<and> pe_retry_after pe \<le> MaximumRetryAfter"

lemma decodeProtocolErrorAtVersion_Protocol:
  "decodeProtocolErrorAtVersion W code h version body now = Protocol pe \<Longrightarrow> validated_error pe \<and> pe_status pe = code"
  by (auto simp: decodeProtocolErrorAtVersion_def validated_error_def Let_def
      dest: boundedRetryAfter_Inr split: sum.splits if_splits)

lemma decodeProtocolErrorAt_Protocol:
  "decodeProtocolErrorAt W code h body now = Protocol pe \<Longrightarrow> validated_error pe \<and> pe_status pe = code"
  by (auto simp: decodeProtocolErrorAt_def validated_error_def Let_def
      dest: boundedRetryAfter_Inr split: sum.splits if_splits)

text \<open>What is known of a reply that was accepted.\<close>

definition validated_response :: "('k, 'w) dir_client \<Rightarrow> operation \<Rightarrow> int \<Rightarrow> response \<Rightarrow> bool" where
  "validated_response cl op version r \<longleftrightarrow> rs_version r = version \<and> rs_operation r = op
     \<and> outcome_valid_for (rs_outcome r) op \<and> rs_actor r = cl_actor cl"

fun validated_result :: "('k, 'w) dir_client \<Rightarrow> operation \<Rightarrow> int \<Rightarrow> dir_error + response \<Rightarrow> bool" where
  "validated_result cl op version (Inr r) = validated_response cl op version r"
| "validated_result cl op version (Inl (Protocol pe)) = validated_error pe"
| "validated_result cl op version (Inl _) = True"

lemma decodeSuccessVersion_result:
  "validated_result cl op version (decodeSuccessVersion W code op (cl_actor cl) version body)"
  by (auto simp: decodeSuccessVersion_def validated_response_def split: sum.splits)

lemma decodeSuccess_result:
  "validated_result cl op ProtocolVersion (decodeSuccess W code op (cl_actor cl) body)"
  by (auto simp: decodeSuccess_def validated_response_def split: sum.splits)

lemma validated_failure: "(\<And>pe. e = Protocol pe \<Longrightarrow> validated_error pe) \<Longrightarrow> validated_result cl op version (Inl e)"
  by (cases e) auto

lemma signed_request_error: "signed_request W key params r = Inl e \<Longrightarrow> \<exists>m. e = OtherError m"
  by (auto simp: signed_request_def split: sum.splits if_splits)

lemma signWithTag_error: "signWithTag W keyID key r body tag w = (Inl e, w') \<Longrightarrow> e \<noteq> Protocol pe"
  by (auto simp: signWithTag_def Let_def dest!: signed_request_error
      split: option.splits if_splits prod.splits sum.splits)

lemma new_request_error: "new_request m u b = Inl e \<Longrightarrow> e = ErrDirectoryConfiguration"
  by (auto simp: new_request_def split: option.splits)

lemma readResponseBody_error: "readResponseBody b err = Inl e \<Longrightarrow> e \<noteq> Protocol pe"
  by (auto simp: readResponseBody_def split: sum.splits if_splits)

lemma exchange_result:
  assumes success: "\<And>code body. validated_result cl op version (success code body)"
    and failure: "\<And>code h body now pe. failure code h body now = Protocol pe \<Longrightarrow> validated_error pe"
  shows "validated_result cl op version (fst (exchange W cl path tag success failure document w))"
  unfolding exchange_def Let_def
  by (auto simp: success split: sum.splits prod.splits option.splits
      intro!: validated_failure dest: new_request_error signWithTag_error readResponseBody_error failure)

lemma send_result: "validated_result cl op ProtocolVersion (fst (send W cl op document w))"
  unfolding send_def
  by (auto intro!: exchange_result decodeSuccess_result dest: decodeProtocolErrorAt_Protocol)

lemma sendV2_result: "validated_result cl op ProtocolVersion2 (fst (sendV2 W cl op document w))"
  unfolding sendV2_def
  by (auto intro!: exchange_result decodeSuccessVersion_result dest: decodeProtocolErrorAtVersion_Protocol)

lemma sendV3_result: "validated_result cl op ProtocolVersion3 (fst (sendV3 W cl op document w))"
  unfolding sendV3_def
  by (auto intro!: exchange_result decodeSuccessVersion_result dest: decodeProtocolErrorAtVersion_Protocol)

lemmas send_results = send_result sendV2_result sendV3_result

lemma registerVersion_result: "validated_result cl OperationRegister version (fst (registerVersion W cl version w))"
  by (auto simp: registerVersion_def send_results split: prod.split)

lemma heartbeatVersion_result: "validated_result cl OperationHeartbeat version (fst (heartbeatVersion W cl version w))"
  by (auto simp: heartbeatVersion_def send_results split: prod.split)

lemma unregisterVersion_result: "validated_result cl OperationUnregister version (fst (unregisterVersion W cl version w))"
  by (auto simp: unregisterVersion_def send_results)

section \<open>Negotiation\<close>

lemma Status_error: "Status W cl w = (Inl (Protocol pe), w') \<Longrightarrow> validated_error pe"
  by (auto simp: Status_def dest: new_request_error readResponseBody_error decodeProtocolErrorAt_Protocol
      split: sum.splits prod.splits option.splits if_splits)

lemma best_version_range: "best_version vs = Some v \<Longrightarrow> v \<in> {1, 2, 3}"
  by (auto simp: best_version_def ProtocolVersion_def ProtocolVersion2_def ProtocolVersion3_def find_Some_iff)

lemma negotiatedProtocolVersion_range:
  "negotiatedProtocolVersion W cl w = (Inr v, w') \<Longrightarrow> v \<in> {1, 2, 3}"
  by (auto simp: negotiatedProtocolVersion_def ProtocolVersion_def dest!: best_version_range
      split: prod.splits sum.splits if_splits option.splits)

lemma negotiatedProtocolVersion_error:
  "negotiatedProtocolVersion W cl w = (Inl (Protocol pe), w') \<Longrightarrow> validated_error pe"
  by (auto simp: negotiatedProtocolVersion_def dest: Status_error split: prod.splits sum.splits)

text \<open>The result of a negotiated call, for the version that was negotiated.\<close>

definition negotiated_result :: "('k, 'w) dir_client \<Rightarrow> operation \<Rightarrow> dir_error + response \<Rightarrow> bool" where
  "negotiated_result cl op res \<longleftrightarrow> (\<exists>version \<in> {1, 2, 3}. validated_result cl op version res)"

lemma negotiated_call:
  assumes "\<And>version w. validated_result cl op version (fst (f version w))"
  shows "negotiated_result cl op (fst (then_dir (negotiatedProtocolVersion W cl) f w))"
proof -
  obtain res w1 where n: "negotiatedProtocolVersion W cl w = (res, w1)" by (cases "negotiatedProtocolVersion W cl w")
  show ?thesis
  proof (cases res)
    case (Inl e)
    then have "validated_result cl op 1 (Inl e)"
      using n by (intro validated_failure) (simp add: negotiatedProtocolVersion_error)
    with Inl n show ?thesis by (auto simp: then_dir_def negotiated_result_def)
  next
    case (Inr version)
    with n have "version \<in> {1, 2, 3}" by (intro negotiatedProtocolVersion_range [of W cl w version w1]) simp
    with Inr n assms [of version w1] show ?thesis by (auto simp: then_dir_def negotiated_result_def)
  qed
qed

lemma reconcile_result:
  assumes beat: "\<And>w. validated_result cl OperationHeartbeat version (fst (heartbeat w))"
    and reg: "\<And>w. validated_result cl OperationRegister version (fst (reg w))"
  shows "validated_result cl OperationHeartbeat version (fst (reconcile heartbeat reg w))"
proof -
  obtain res w1 where h: "heartbeat w = (res, w1)" by (cases "heartbeat w")
  have again: "validated_result cl OperationHeartbeat version (fst (then_dir reg (\<lambda>_. heartbeat) w1))"
  proof (cases "reg w1")
    case (Pair r w2)
    then show ?thesis
      using reg [of w1] beat [of w2] by (cases r) (auto simp: then_dir_def intro!: validated_failure)
  qed
  show ?thesis
    using beat [of w] again h by (auto simp: reconcile_def split: sum.split dir_error.split)
qed

lemma RegisterNegotiated_result: "negotiated_result cl OperationRegister (fst (RegisterNegotiated W cl w))"
  unfolding RegisterNegotiated_def by (intro negotiated_call registerVersion_result)

lemma HeartbeatReconciliation_result:
  "negotiated_result cl OperationHeartbeat (fst (HeartbeatWithRegisterReconciliationNegotiated W cl w))"
  unfolding HeartbeatWithRegisterReconciliationNegotiated_def
  by (intro negotiated_call reconcile_result heartbeatVersion_result registerVersion_result)

section \<open>The contract of the scheduler\<close>

locale lifecycle_client =
  fixes c :: "'w sched_client"
  assumes register_version: "schedulerRegister c w = (Inr r, w') \<Longrightarrow> rs_version r \<in> {1, 2, 3}"
    and register_operation: "schedulerRegister c w = (Inr r, w') \<Longrightarrow> rs_operation r = OperationRegister"
    and heartbeat_version: "schedulerHeartbeat c w = (Inr r, w') \<Longrightarrow> rs_version r \<in> {1, 2, 3}"
    and register_delay: "schedulerRegister c w = (Inl e, w') \<Longrightarrow> 0 \<le> remote_delay e \<and> remote_delay e \<le> MaximumRetryAfter"
    and heartbeat_delay: "schedulerHeartbeat c w = (Inl e, w') \<Longrightarrow> 0 \<le> remote_delay e \<and> remote_delay e \<le> MaximumRetryAfter"
    and digest_valid: "clientProfileDigest c = Some d \<Longrightarrow> v \<in> {1, 2, 3} \<Longrightarrow> validProfileState d v"
begin

lemma operation_version: "remote_operation c s changed w = (Inr r, w') \<Longrightarrow> rs_version r \<in> {1, 2, 3}"
  using register_version heartbeat_version
  unfolding remote_operation_def by (auto split: if_splits prod.splits sum.splits)

lemma operation_delay:
  "remote_operation c s changed w = (Inl e, w') \<Longrightarrow> 0 \<le> remote_delay e \<and> remote_delay e \<le> MaximumRetryAfter"
  using register_delay heartbeat_delay
  unfolding remote_operation_def by (auto split: if_splits prod.splits sum.splits)

end

lemma unhex_lower_hex: "d < 16 \<Longrightarrow> unhex (lower_hex d) = Some d"
  by (auto simp: unhex_def lower_hex_def Let_def)

lemma hex_decode_encode: "hex_decode (hex_encode s) = Some s"
proof (induction s)
  case (Cons c s)
  have "(of_char c :: nat) div 16 < 16" and "(of_char c :: nat) mod 16 < 16"
    using nat_of_char_less_256 [of c] by (auto simp: less_mult_imp_div_less)
  with Cons show ?case by (simp add: hex_encode_def unhex_lower_hex)
qed (simp add: hex_encode_def)

lemma length_hex_encode: "length (hex_encode s) = 2 * length s"
  by (induction s) (simp_all add: hex_encode_def)

lemma sha256_profile_state:
  assumes "length d = 32" and "v \<in> {1, 2, 3}" shows "validProfileState (hex_encode d) v"
proof -
  have "hex_encode d \<noteq> []" using assms length_hex_encode [of d] by auto
  with assms show ?thesis by (auto simp: validProfileState_def hex_decode_encode length_hex_encode)
qed

lemma negotiated_result_version: "negotiated_result cl op (Inr r) \<Longrightarrow> rs_version r \<in> {1, 2, 3}"
  by (auto simp: negotiated_result_def validated_response_def)

lemma negotiated_result_operation: "negotiated_result cl op (Inr r) \<Longrightarrow> rs_operation r = op"
  by (auto simp: negotiated_result_def validated_response_def)

lemma negotiated_result_delay: "negotiated_result cl op (Inl e) \<Longrightarrow> 0 \<le> remote_delay e \<and> remote_delay e \<le> MaximumRetryAfter"
  by (cases e) (auto simp: negotiated_result_def remote_delay_def validated_error_def MaximumRetryAfter_def)

text \<open>The directory client meets the contract, with SHA-256 giving 32 bytes.\<close>

lemma directory_client_contract:
  assumes "\<And>s. length (sv_sum256 W s) = 32"
  shows "lifecycle_client (directory_client W cl)"
proof
  fix w r w' assume "schedulerRegister (directory_client W cl) w = (Inr r, w')"
  then show "rs_version r \<in> {1, 2, 3}"
    using RegisterNegotiated_result [of cl W w] by (intro negotiated_result_version) (simp add: schedulerRegister_def directory_client_def)
next
  fix w r w' assume "schedulerRegister (directory_client W cl) w = (Inr r, w')"
  then show "rs_operation r = OperationRegister"
    using RegisterNegotiated_result [of cl W w]
    by (intro negotiated_result_operation) (simp add: schedulerRegister_def directory_client_def)
next
  fix w r w' assume "schedulerHeartbeat (directory_client W cl) w = (Inr r, w')"
  then show "rs_version r \<in> {1, 2, 3}"
    using HeartbeatReconciliation_result [of cl W w]
    by (intro negotiated_result_version) (simp add: schedulerHeartbeat_def directory_client_def)
next
  fix w e w' assume "schedulerRegister (directory_client W cl) w = (Inl e, w')"
  then show "0 \<le> remote_delay e \<and> remote_delay e \<le> MaximumRetryAfter"
    using RegisterNegotiated_result [of cl W w] by (simp add: schedulerRegister_def directory_client_def negotiated_result_delay)
next
  fix w e w' assume "schedulerHeartbeat (directory_client W cl) w = (Inl e, w')"
  then show "0 \<le> remote_delay e \<and> remote_delay e \<le> MaximumRetryAfter"
    using HeartbeatReconciliation_result [of cl W w]
    by (simp add: schedulerHeartbeat_def directory_client_def negotiated_result_delay)
next
  fix d v assume "clientProfileDigest (directory_client W cl) = Some d" and "v \<in> {1, 2, 3 :: int}"
  then show "validProfileState d v"
    using assms by (auto simp: clientProfileDigest_def directory_client_def ProfileDigest_def intro!: sha256_profile_state
        split: if_splits)
qed

text \<open>C15: Safety: what a directory says is checked before it counts. Once a protocol version is negotiated it is
  one of the three known ones, and whatever the directory then answers to a registration, a heartbeat (with or
  without the registration it may need) or an unregistration: a success carries this version, this operation, an
  outcome that belongs to the operation, and the relay's own actor; an error carries a code of the protocol with
  the HTTP status that belongs to it, and asks for a delay between 0 and 24 hours. Everything else is reported as
  an invalid response or a failed transport.\<close>

theorem directory_replies_are_validated:
  assumes "negotiatedProtocolVersion W cl w = (Inr version, w1)"
  shows "version \<in> {1, 2, 3}
    \<and> validated_result cl OperationRegister version (fst (RegisterNegotiated W cl w))
    \<and> validated_result cl OperationHeartbeat version (fst (HeartbeatNegotiated W cl w))
    \<and> validated_result cl OperationHeartbeat version (fst (HeartbeatWithRegisterReconciliationNegotiated W cl w))
    \<and> validated_result cl OperationUnregister version (fst (UnregisterNegotiated W cl w))"
  using negotiatedProtocolVersion_range [OF assms] assms
  by (simp add: RegisterNegotiated_def HeartbeatNegotiated_def HeartbeatWithRegisterReconciliationNegotiated_def
      UnregisterNegotiated_def then_dir_def registerVersion_result heartbeatVersion_result unregisterVersion_result
      reconcile_result)

section \<open>An example\<close>

text \<open>A world that holds the replies to come. The directory speaks protocol 1 and 2 and knows the relay.\<close>

definition json_reply :: "string \<Rightarrow> http_response" where
  "json_reply body = \<lparr>hr_status = 200, hr_header = (\<lambda>k. if k = ''Content-Type'' then [''application/json''] else []), hr_body = body,
     hr_read_error = None\<rparr>"

definition sample_json :: "string \<Rightarrow> json option" where
  "sample_json s =
     (if s = ''S'' then Some (JObj [(''schema_version'', JNum ''4''), (''lifecycle_protocol_versions'', JArr [JNum ''1'', JNum ''2'']),
        (''service'', JStr ''activity-relay-directory''), (''version'', JStr ''1.0''), (''public_base_url'', JStr ''https://d.ex'')])
      else if s = ''R'' then Some (JObj [(''protocol_version'', JNum ''2''), (''operation'', JStr ''register''),
        (''outcome'', JStr ''updated''), (''relay_actor'', JStr ''https://r.ex/actor'')])
      else None)"

definition sample_surroundings :: "(unit, unit, http_response list) surroundings" where
  "sample_surroundings = \<lparr>
     sv_do = (\<lambda>_ w. case w of [] \<Rightarrow> (None, []) | r # rs \<Rightarrow> (Some r, rs)),
     sv_now = (\<lambda>_. 5 * second), sv_nonce = (\<lambda>w. (Inr ''n'', w)),
     sv_library = \<lparr>sl_dictionary = (\<lambda>_. Inl []), sl_digest_field = (\<lambda>d. Inr d), sl_unmarshal = (\<lambda>_. Inl []), sl_find = (\<lambda>_ _. Inl []),
       sl_derive = (\<lambda>_ _. Inl []), sl_canonical = (\<lambda>_ _. Inl []), sl_verify = (\<lambda>_ _ _. Inl []), sl_sign = (\<lambda>_ _ _ _ _. Inl []),
       sl_include = (\<lambda>_ _. Inl []), sl_sign_legacy = (\<lambda>_ _ _ _ _. Inl [])\<rparr>,
     sv_derive = (\<lambda>_ _. Inr []), sv_canonical = (\<lambda>_ _. Inr []), sv_sign = (\<lambda>_ _. Inr ''s''),
     sv_include = (\<lambda>_ _ sig r. Inr (r\<lparr>hq_header := header_set ''Signature'' sig (header_set ''Signature-Input'' ''i'' (hq_header r))\<rparr>)),
     sv_key_bits = (\<lambda>_. 2048), sv_sum256 = (\<lambda>_. replicate 32 (CHR ''x'')), sv_parse = sample_json, sv_print = (\<lambda>_. ''B''),
     sv_http_time = (\<lambda>_. None), sv_mail = (\<lambda>_. None)\<rparr>"

definition sample_directory_client :: "(unit, http_response list) dir_client" where
  "sample_directory_client = projr (New sample_surroundings
     \<lparr>do_origin = ''https://d.ex'', do_actor = ''https://r.ex/actor'', do_base = ''https://r.ex'', do_profile = empty_profile,
      do_key_id = ''k'', do_key = Some (), do_http_timeout = None, do_telemetry = None\<rparr>)"

interpretation sample: lifecycle_client "directory_client sample_surroundings sample_directory_client"
  by (rule directory_client_contract) (simp add: sample_surroundings_def)

theorem directory_replies_are_validated_witness:
  "fst (negotiatedProtocolVersion sample_surroundings sample_directory_client [json_reply ''S'', json_reply ''R'']) = Inr 2
   \<and> validated_result sample_directory_client OperationRegister 2
       (fst (RegisterNegotiated sample_surroundings sample_directory_client [json_reply ''S'', json_reply ''R'']))"
proof -
  let ?n = "negotiatedProtocolVersion sample_surroundings sample_directory_client [json_reply ''S'', json_reply ''R'']"
  have version: "fst ?n = Inr 2" by code_simp
  then have "?n = (Inr 2, snd ?n)" by (metis prod.collapse)
  from directory_replies_are_validated [OF this] version show ?thesis by blast
qed

end
