(* ===== verification/Directory_Scheduler_Facts.thy ===== *)
theory Directory_Scheduler_Facts
  imports Directory_Client_Facts
begin

text \<open>
  The scheduler of directory operations: the deadlines it computes, what it saves, that it leaves a
  directory alone while another process holds its lease, and that it keeps trying. The last is proved
  for runs in which the relay is alone: Redis answers, nobody else writes, and the clock goes forward.
\<close>

section \<open>Deadlines\<close>

lemma be_uint64_nonneg: "0 \<le> be_uint64 s"
proof -
  have "0 \<le> (of_char c :: int)" for c
    by (metis of_nat_0_le_iff of_nat_of_char)
  then have "0 \<le> n \<Longrightarrow> 0 \<le> foldl (\<lambda>n c. 256 * n + of_char c) n xs" for n :: int and xs
    by (induction xs arbitrary: n) simp_all
  then show ?thesis by (simp add: be_uint64_def)
qed

lemma scaled_mod_bounds: "0 < (m :: int) \<Longrightarrow> 0 \<le> x mod m * second \<and> x mod m * second \<le> (m - 1) * second"
  using pos_mod_bound [of m x] pos_mod_sign [of m x] mult_right_mono [of "x mod m" "m - 1" second] by simp

lemma stableJitter_bounds:
  "0 \<le> stableJitter sum256 actor origin" "stableJitter sum256 actor origin \<le> MaximumStableJitter"
  using scaled_mod_bounds [of 7201 "be_uint64 (sum256 (actor @ [CHR 0x00] @ origin @ [CHR 0x00] @ ''daily''))"]
  by (simp_all add: stableJitter_def MaximumStableJitter_def)

lemma wrap64_small: "0 \<le> i \<Longrightarrow> i < 2 ^ 63 \<Longrightarrow> wrap64 i = i"
  by (simp add: wrap64_def)

lemma shifted_retry:
  assumes "1 \<le> attempt" and "attempt \<le> maximumAttempt"
  shows "wrap64 (initialRetry * 2 ^ nat (attempt - 1)) = initialRetry * 2 ^ nat (attempt - 1)"
    and "initialRetry \<le> initialRetry * 2 ^ nat (attempt - 1)"
proof -
  from assms have "nat (attempt - 1) \<le> 15" by (simp add: maximumAttempt_def)
  then have "(2 :: int) ^ nat (attempt - 1) \<le> 2 ^ 15" by (rule power_increasing) simp
  then have "(2 :: int) ^ nat (attempt - 1) \<le> 32768" by simp
  moreover have one: "(1 :: int) \<le> 2 ^ nat (attempt - 1)" by simp
  ultimately show "wrap64 (initialRetry * 2 ^ nat (attempt - 1)) = initialRetry * 2 ^ nat (attempt - 1)"
    by (intro wrap64_small) (simp_all add: initialRetry_def)
  from one show "initialRetry \<le> initialRetry * 2 ^ nat (attempt - 1)"
    by (simp add: initialRetry_def)
qed

lemma retryDelay_bounds:
  assumes "1 \<le> attempt" and "attempt \<le> maximumAttempt"
  shows "initialRetry \<le> retryDelay sum256 attempt actor origin"
    and "retryDelay sum256 attempt actor origin \<le> maximumLocalRetry"
proof -
  define shifted where "shifted = initialRetry * 2 ^ nat (attempt - 1)"
  define base where "base = (if maximumLocalRetry < shifted then maximumLocalRetry else shifted)"
  define jitter where "jitter = be_uint64 (sum256 (actor @ [CHR 0x00] @ origin @ [CHR 0x00] @ ''retry'' @ [CHR 0x00]
      @ show_int attempt)) mod (base div 5 div second + 1) * second"
  have shifted: "wrap64 (initialRetry * 2 ^ nat (attempt - 1)) = shifted" "initialRetry \<le> shifted"
    using shifted_retry [OF assms] unfolding shifted_def by auto
  have base: "initialRetry \<le> base" "base \<le> maximumLocalRetry"
    using shifted(2) unfolding base_def by (auto simp: initialRetry_def maximumLocalRetry_def)
  then have pos: "0 < base div 5" "0 \<le> base div 5 div second"
    by (simp_all add: initialRetry_def)
  have j: "0 \<le> jitter" unfolding jitter_def using scaled_mod_bounds pos(2) by simp
  have attempt: "(if attempt < 1 then 1 else attempt) = attempt" and range: "(base div 5 \<le> 0) = False"
    using assms(1) pos(1) by auto
  have "retryDelay sum256 attempt actor origin = (if maximumLocalRetry < base + jitter then maximumLocalRetry else base + jitter)"
    unfolding retryDelay_def Let_def attempt shifted(1) base_def [symmetric] range if_False jitter_def [symmetric] by (rule refl)
  then show "initialRetry \<le> retryDelay sum256 attempt actor origin"
    and "retryDelay sum256 attempt actor origin \<le> maximumLocalRetry"
    using base j by (auto simp: initialRetry_def maximumLocalRetry_def)
qed

lemma truncate_second_bounds: "truncate_second t \<le> t" "t < truncate_second t + second"
  unfolding truncate_second_def by (simp_all add: pos_mod_bound [of second t] minus_mod_eq_div_mult [symmetric])

lemma truncate_second_mono: "t \<le> t' \<Longrightarrow> truncate_second t \<le> truncate_second t'"
  unfolding truncate_second_def by (simp add: zdiv_mono1)

lemma truncate_second_idem [simp]: "truncate_second (truncate_second t) = truncate_second t"
  by (simp add: truncate_second_def)

lemma truncate_second_add: "truncate_second (t + second) = truncate_second t + second"
  unfolding truncate_second_def by (simp add: div_add_self2 distrib_right)

lemma NextHeartbeatAttempt_bounds:
  assumes "\<not> is_zero now"
  shows "truncate_second now + NominalHeartbeatInterval \<le> NextHeartbeatAttempt sum256 actor origin now"
    and "NextHeartbeatAttempt sum256 actor origin now \<le> truncate_second now + NominalHeartbeatInterval + MaximumStableJitter"
  using assms stableJitter_bounds [of sum256 actor origin] by (simp_all add: NextHeartbeatAttempt_def)

definition retryable :: "dir_error \<Rightarrow> bool" where
  "retryable e \<longleftrightarrow> fst (failure_class e) = ''retrying''"

lemma applyFailure_retry:
  assumes "retryable e" and "0 \<le> ss_attempt s" and "s' = applyFailure sum256 actor s origin now e"
  shows "1 \<le> ss_attempt s'" and "ss_attempt s' \<le> maximumAttempt"
    and "ss_next_attempt s' = now + min MaximumRetryAfter (max (retryDelay sum256 (ss_attempt s') actor origin) (remote_delay e))"
  using assms
  by (auto simp: applyFailure_def retryable_def Let_def maximumAttempt_def split: prod.splits)

lemma applyFailure_final:
  assumes "\<not> retryable e" and "s' = applyFailure sum256 actor s origin now e"
  shows "ss_attempt s' = 0" and "ss_next_attempt s' = NextHeartbeatAttempt sum256 actor origin now"
  using assms by (auto simp: applyFailure_def retryable_def Let_def split: prod.splits)


section \<open>What the scheduler saves\<close>

text \<open>Instants the model covers: after the first second of 1970 and far below the range of the encoding.\<close>

definition good_time :: "time \<Rightarrow> bool" where
  "good_time t \<longleftrightarrow> second \<le> t \<and> t < 2 ^ 62 * second"

definition sched_valid :: "string \<Rightarrow> sched_state \<Rightarrow> bool" where
  "sched_valid origin s \<longleftrightarrow> \<not> isl (validateState origin s) \<and> storable_times s"

lemma good_time_not_zero: "good_time t \<Longrightarrow> \<not> is_zero t"
  by (simp add: good_time_def zero_time_def)

lemma good_time_truncate: "good_time t \<Longrightarrow> good_time (truncate_second t)"
  using truncate_second_bounds(1) [of t] truncate_second_mono [of second t]
  by (simp add: good_time_def truncate_second_def)

lemma storable_after:
  assumes "good_time now" and "now \<le> t" and "t \<le> now + 26 * hour" shows "storable_time t"
proof -
  have "second * (t div second) \<le> t"
    using pos_mod_sign [of second t] minus_mod_eq_mult_div [of t second] by linarith
  moreover have "t < second * 2 ^ 63" using assms by (simp add: good_time_def)
  ultimately have "second * (t div second) < second * 2 ^ 63" by linarith
  then have "t div second < 2 ^ 63" by simp
  then show ?thesis using assms by (simp add: storable_time_def good_time_def)
qed

lemma failure_class_valid:
  "validOutcome (fst (failure_class e))" "validDiagnostic (snd (failure_class e))"
  by (auto simp: failure_class_def validOutcome_def validDiagnostic_def split: dir_error.split)

lemma applyFailure_valid:
  assumes s: "sched_valid origin s" and now: "good_time now" "truncate_second now = now"
    and e: "0 \<le> remote_delay e" "remote_delay e \<le> MaximumRetryAfter"
    and s': "s' = applyFailure sum256 actor s origin now e"
  shows "sched_valid origin s'" and "now \<le> ss_next_attempt s'" and "ss_next_attempt s' \<le> now + 26 * hour"
    and "ss_last_observed s' = now"
proof -
  have attempt: "0 \<le> ss_attempt s" "ss_attempt s \<le> maximumAttempt" and origin: "origin \<noteq> []"
    and prof: "validProfileState (ss_profile_digest s) (ss_profile_version s)" and past: "storable_time (ss_last_success s)"
    using s by (simp_all add: sched_valid_def validateState_Inr storable_times_def)
  have same: "ss_profile_digest s' = ss_profile_digest s" "ss_profile_version s' = ss_profile_version s"
    "ss_last_success s' = ss_last_success s" "ss_outcome s' = fst (failure_class e)" "ss_diagnostic s' = snd (failure_class e)"
    and observed: "ss_last_observed s' = now"
    unfolding s' applyFailure_def Let_def by (simp_all split: prod.split)
  have bounds: "if retryable e
    then now + max initialRetry (remote_delay e) \<le> ss_next_attempt s'
      \<and> ss_next_attempt s' \<le> now + 24 * hour \<and> 1 \<le> ss_attempt s' \<and> ss_attempt s' \<le> maximumAttempt
    else now \<le> ss_next_attempt s' \<and> ss_next_attempt s' \<le> now + 26 * hour \<and> ss_attempt s' = 0"
  proof (cases "retryable e")
    case True
    note retry = applyFailure_retry [OF True attempt(1) s']
    show ?thesis
      using True retry retryDelay_bounds [OF retry(1,2), of sum256 actor origin] e
      by (simp add: MaximumRetryAfter_def maximumLocalRetry_def initialRetry_def max_def)
  next
    case False
    note final = applyFailure_final [OF False s']
    show ?thesis
      using False final NextHeartbeatAttempt_bounds [OF good_time_not_zero [OF now(1)], of sum256 actor origin] now(2)
      by (simp add: NominalHeartbeatInterval_def MaximumStableJitter_def)
  qed
  then show deadline: "now \<le> ss_next_attempt s'" "ss_next_attempt s' \<le> now + 26 * hour"
    by (auto simp: initialRetry_def max_def split: if_splits)
  from bounds have "0 \<le> ss_attempt s'" "ss_attempt s' \<le> maximumAttempt"
    by (auto simp: maximumAttempt_def split: if_splits)
  moreover have "storable_time (ss_next_attempt s')" using now(1) deadline by (rule storable_after)
  moreover have "storable_time now" using now(1) by (rule storable_after) simp_all
  ultimately show "sched_valid origin s'" and "ss_last_observed s' = now"
    using origin prof past observed by (simp_all add: sched_valid_def validateState_Inr storable_times_def same failure_class_valid)
qed

lemma applySuccess_valid:
  assumes s: "sched_valid origin s" and now: "good_time now" "truncate_second now = now"
    and digest: "\<And>d. digest = Some d \<Longrightarrow> validProfileState d (rs_version r)"
    and s': "s' = applySuccess sum256 actor s origin now digest r"
  shows "sched_valid origin s'" and "now \<le> ss_next_attempt s'" and "ss_next_attempt s' \<le> now + 26 * hour"
    and "ss_last_observed s' = now"
proof -
  have origin: "origin \<noteq> []" and prof: "validProfileState (ss_profile_digest s) (ss_profile_version s)"
    using s by (simp_all add: sched_valid_def validateState_Inr)
  have fields: "ss_attempt s' = 0" "ss_diagnostic s' = ''none''" "ss_outcome s' \<in> {''registered'', ''heartbeat''}"
    "ss_last_success s' = now" "ss_next_attempt s' = NextHeartbeatAttempt sum256 actor origin now"
    and observed: "ss_last_observed s' = now"
    unfolding s' applySuccess_def Let_def by (simp_all split: option.split)
  have prof': "validProfileState (ss_profile_digest s') (ss_profile_version s')"
    using prof digest unfolding s' applySuccess_def Let_def by (simp split: option.split)
  show deadline: "now \<le> ss_next_attempt s'" "ss_next_attempt s' \<le> now + 26 * hour"
    using NextHeartbeatAttempt_bounds [OF good_time_not_zero [OF now(1)], of sum256 actor origin] now(2) fields(5)
    by (simp_all add: NominalHeartbeatInterval_def MaximumStableJitter_def)
  have "storable_time (ss_next_attempt s')" using now(1) deadline by (rule storable_after)
  moreover have "storable_time now" using now(1) by (rule storable_after) simp_all
  ultimately show "sched_valid origin s'" and "ss_last_observed s' = now"
    using origin prof' fields observed
    by (auto simp: sched_valid_def validateState_Inr storable_times_def validOutcome_def validDiagnostic_def maximumAttempt_def)
qed

text \<open>The state after a remote operation.\<close>

definition settled ::
  "'w sched_client \<Rightarrow> (string \<Rightarrow> string) \<Rightarrow> string \<Rightarrow> sched_state \<Rightarrow> string \<Rightarrow> time \<Rightarrow> dir_error + response \<Rightarrow> sched_state" where
  "settled c sum256 actor s origin now res =
     (case res of
        Inr r \<Rightarrow> applySuccess sum256 actor s origin now (clientProfileDigest c) r
      | Inl e \<Rightarrow> applyFailure sum256 actor s origin now e)"

context lifecycle_client
begin

text \<open>It can be saved, and its deadline is at most 26 hours away.\<close>

lemma settled_valid:
  assumes "remote_operation c s changed w = (res, w')" and "sched_valid origin s" and "good_time now" and "truncate_second now = now"
    and s': "s' = settled c sum256 actor s origin now res"
  shows "sched_valid origin s'" and "now \<le> ss_next_attempt s'" and "ss_next_attempt s' \<le> now + 26 * hour"
    and "ss_last_observed s' = now"
proof -
  have "sched_valid origin s' \<and> now \<le> ss_next_attempt s' \<and> ss_next_attempt s' \<le> now + 26 * hour \<and> ss_last_observed s' = now"
  proof (cases res)
    case (Inl e)
    with s' have "s' = applyFailure sum256 actor s origin now e" by (simp add: settled_def)
    with applyFailure_valid [OF assms(2-4) _ _ this] operation_delay assms(1) Inl show ?thesis by blast
  next
    case (Inr r)
    with s' have "s' = applySuccess sum256 actor s origin now (clientProfileDigest c) r" by (simp add: settled_def)
    with applySuccess_valid [OF assms(2-4) _ this] operation_version digest_valid assms(1) Inr show ?thesis by blast
  qed
  then show "sched_valid origin s'" and "now \<le> ss_next_attempt s'" and "ss_next_attempt s' \<le> now + 26 * hour"
    and "ss_last_observed s' = now" by auto
qed

end

section \<open>A lease held by someone else\<close>

context redis_server
begin

lemma runDirectory_lease_held:
  assumes ok: "store_ok R sum256 origin (mo_before M db)"
    and owner: "fl_owner (fenced_view R sum256 origin (mo_before M db)) = Some t"
    and calm: "\<And>d. store_ok R sum256 origin d \<Longrightarrow> store_ok R sum256 origin (mo_before_lease M d)
      \<and> fenced_view R sum256 origin (mo_before_lease M d) = fenced_view R sum256 origin d"
    and run: "runDirectory R sum256 M boundary origin sd w db = (res, ms, sd', w', db')"
  shows "w' = w \<and> fenced_view R sum256 origin db' = fenced_view R sum256 origin (mo_before M db)"
proof -
  let ?db = "mo_before M db"
  obtain loaded db1 where load: "LoadState R sum256 origin ?db = (loaded, db1)" by (cases "LoadState R sum256 origin ?db")
  note frame = frame_views [OF LoadState_view(1,2) [OF ok load]]
  define db2 where "db2 = mo_before_lease M db1"
  have ok2: "store_ok R sum256 origin db2" and view2: "fenced_view R sum256 origin db2 = fenced_view R sum256 origin ?db"
    using calm [of db1] ok unfolding db2_def frame by auto
  obtain acq db3 where acq: "Acquire R sum256 (mo_token M) origin leaseTTL db2 = (acq, db3)"
    by (cases "Acquire R sum256 (mo_token M) origin leaseTTL db2")
  have fenced: "implements_fencing R sum256 origin (AcquireOp (mo_token M) leaseTTL) db2 (\<not> isl acq \<and> projr acq \<noteq> None) db3"
    by (rule Acquire_fenced [OF ok2 acq])
  have "\<not> fenced_grants (AcquireOp (mo_token M) leaseTTL) (fenced_view R sum256 origin db2)"
    using owner unfolding view2 by simp
  with fenced have none: "isl acq \<or> acq = Inr None"
    by (cases acq) (auto simp: implements_fencing_def)
  have view3: "fenced_view R sum256 origin db3 = fenced_view R sum256 origin ?db"
    using fenced owner unfolding implements_fencing_def view2 by (auto split: sum.splits)
  show ?thesis
    using run load acq none view3 frame unfolding runDirectory_def Let_def db2_def
    by (auto split: sum.splits bool.splits prod.splits if_splits option.splits)
qed

end

text \<open>C16: Safety: mutual exclusion between the scheduler and the operator's commands. While a process holds the
  lease of a directory, a scheduler that comes to this directory sends nothing (the world is as it was) and
  leaves lease and state as they were, whatever its clock, its configuration and the network say, as long as
  nobody gives the lease back between its first look at the state and its attempt to take the lease.\<close>

theorem held_lease_keeps_scheduler_away:
  assumes "redis_server R" and "store_ok R sum256 origin (mo_before M db)"
    and "r_str R (mo_before M db) (directoryKey sum256 origin ''lease'') = Some t"
    and "\<And>d. store_ok R sum256 origin d \<Longrightarrow> store_ok R sum256 origin (mo_before_lease M d)
      \<and> fenced_view R sum256 origin (mo_before_lease M d) = fenced_view R sum256 origin d"
    and "runDirectory R sum256 M boundary origin sd w db = (res, ms, sd', w', db')"
  shows "w' = w \<and> fenced_view R sum256 origin db' = fenced_view R sum256 origin (mo_before M db)"
  using redis_server.runDirectory_lease_held [OF assms(1,2) _ assms(4,5)] assms(3)
  by (simp add: fenced_view_def Let_def)

section \<open>Runs of a relay that is alone\<close>

text \<open>Redis executes and answers every call.\<close>

definition reliable :: "'db redis \<Rightarrow> bool" where
  "reliable R \<longleftrightarrow> (\<forall>c d. fst (r_net R c d) = Executed)"

lemma reliable_call: "reliable R \<Longrightarrow> call R cmd f db = (case f (snd (r_net R cmd db)) of (x, db') \<Rightarrow> (Inr x, db'))"
  by (auto simp: call_def reliable_def split: prod.splits trip.splits) (metis fst_conv trip.distinct(1,3))+

lemma reliable_command: "reliable R \<Longrightarrow> command R cmd f db = f (snd (r_net R cmd db))"
  by (simp add: command_def reliable_call split: prod.split)

context redis_server
begin

lemma net_frame:
  "fenced_view R sum256 origin (snd (r_net R cmd db)) = fenced_view R sum256 origin db"
  "store_ok R sum256 origin (snd (r_net R cmd db)) = store_ok R sum256 origin db"
  by (rule frame_views; simp)+

lemma LoadState_reliable:
  assumes "reliable R" and ok: "store_ok R sum256 origin db" and "origin \<noteq> []"
    and state: "fl_state (fenced_view R sum256 origin db) = Inr s"
  obtains db' where "LoadState R sum256 origin db = (Inr s, db')" and "store_ok R sum256 origin db'"
    and "fenced_view R sum256 origin db' = fenced_view R sum256 origin db"
proof -
  let ?d = "snd (r_net R ''hgetall'' db)" and ?key = "directoryKey sum256 origin ''state''"
  obtain fvs where fvs: "fvs = List.map_filter (\<lambda>f. map_option (Pair f) (r_hash R ?d ?key f)) (r_hkeys R ?d ?key)" by simp
  have "r_str R ?d ?key = None" using ok by (simp add: store_ok_def)
  then have "hgetall R ?key db = (Inr fvs, ?d)"
    using assms(1) unfolding hgetall_def fvs by (simp add: reliable_command on_hash_def)
  moreover have "map_of fvs = r_hash R db ?key" "fvs = [] \<longleftrightarrow> r_hash R db ?key = Map.empty"
    using hgetall_fields [of ?d ?key] unfolding fvs by simp_all
  ultimately have "LoadState R sum256 origin db = (Inr s, ?d)"
    using assms(3) state by (simp add: LoadState_def fenced_view_def Let_def split: if_splits)
  then show thesis using that net_frame ok by blast
qed

lemma Acquire_reliable:
  assumes "reliable R" and ok: "store_ok R sum256 origin db" and "origin \<noteq> []" and "0 < ttl"
    and free: "fl_owner (fenced_view R sum256 origin db) = None"
  obtains db' where "Acquire R sum256 (Inr v) origin ttl db = (Inr (Some \<lparr>ls_key = directoryKey sum256 origin ''lease'', ls_value = v\<rparr>), db')"
    and "store_ok R sum256 origin db'" and "fenced_view R sum256 origin db' = (fenced_view R sum256 origin db)\<lparr>fl_owner := Some v\<rparr>"
proof -
  let ?d = "snd (r_net R ''set'' db)" and ?key = "directoryKey sum256 origin ''lease''"
  have "\<not> r_exists R ?d ?key"
    using ok free by (simp add: exists_iff store_ok_def fenced_view_def Let_def)
  then have "fst (r_setnx R ?key v (ttl_millis ttl) ?d)"
    using setnx_absent [of "ttl_millis ttl" ?d ?key v] by (simp add: ttl_millis_def)
  then obtain db' where "r_setnx R ?key v (ttl_millis ttl) ?d = (True, db')"
    by (cases "r_setnx R ?key v (ttl_millis ttl) ?d") simp
  then have run: "Acquire R sum256 (Inr v) origin ttl db = (Inr (Some \<lparr>ls_key = ?key, ls_value = v\<rparr>), db')"
    using assms(1,3,4) by (simp add: Acquire_def reliable_call Let_def)
  with Acquire_fenced [OF ok run] free show thesis
    by (intro that [of db']) (auto simp: implements_fencing_def)
qed

lemma SaveOwned_reliable:
  assumes "reliable R" and ok: "store_ok R sum256 origin db" and valid: "sched_valid origin s"
    and own: "owns l (fenced_view R sum256 origin db)" and key: "ls_key l = directoryKey sum256 origin ''lease''"
  obtains db' where "SaveOwned R sum256 origin l s db = (Inr True, db')" and "store_ok R sum256 origin db'"
    and "fenced_view R sum256 origin db' = (fenced_view R sum256 origin db)\<lparr>fl_state := Inr (to_seconds s)\<rparr>"
proof -
  let ?d = "snd (r_net R ''eval'' db)"
  have "r_hkeys R ?d (ls_key l) = []" "r_str R ?d (ls_key l) = Some (ls_value l)"
    "r_str R ?d (directoryKey sum256 origin ''state'') = None"
    using ok own by (simp_all add: store_ok_def owns_def fenced_view_def Let_def key no_hkeys)
  then obtain db' where run: "SaveOwned R sum256 origin l s db = (Inr True, db')"
    using assms(1) valid key by (simp add: SaveOwned_def reliable_command saveOwnedScript_def sched_valid_def)
  then show thesis
    using SaveOwned_fenced [OF ok _ run] valid own
    by (intro that [of db']) (auto simp: implements_fencing_def sched_valid_def)
qed

lemma Release_reliable:
  assumes "reliable R" and ok: "store_ok R sum256 origin db"
    and own: "owns l (fenced_view R sum256 origin db)" and key: "ls_key l = directoryKey sum256 origin ''lease''"
  obtains "store_ok R sum256 origin (snd (Release R l db))"
    and "fenced_view R sum256 origin (snd (Release R l db)) = (fenced_view R sum256 origin db)\<lparr>fl_owner := None\<rparr>"
proof -
  let ?d = "snd (r_net R ''eval'' db)"
  have "r_hkeys R ?d (ls_key l) = []" "r_str R ?d (ls_key l) = Some (ls_value l)"
    using ok own by (simp_all add: store_ok_def owns_def fenced_view_def Let_def key no_hkeys)
  then obtain db' where run: "Release R l db = (Inr (), db')"
    using assms(1) by (simp add: Release_def reliable_command ownedScript_def)
  then show thesis
    using Release_fenced [OF ok key run] own by (intro that) (auto simp: implements_fencing_def)
qed

end

text \<open>
  A reconciliation that meets nobody else: the directory is enabled, the client \<open>c\<close> can be made, no other
  process touches the database, the lease need not be renewed, and the clock goes forward.
\<close>

definition alone :: "'w sched_client \<Rightarrow> ('db, 'w) moments \<Rightarrow> bool" where
  "alone c M \<longleftrightarrow> mo_enabled M = Inr True \<and> mo_enabled_owned M = Inr True \<and> mo_client M = Some c
     \<and> (\<exists>v. mo_token M = Inr v) \<and> mo_before M = id \<and> mo_before_lease M = id \<and> mo_renewals M = [] \<and> mo_during M = id
     \<and> \<not> mo_cancelled M \<and> mo_clock M \<le> mo_clock_owned M \<and> mo_clock_owned M \<le> mo_clock_done M
     \<and> good_time (mo_clock M) \<and> good_time (mo_clock_done M)"

text \<open>Neither the scheduler nor the stored state has seen a later time, the lease is free, the state valid.\<close>

definition resting :: "'db redis \<Rightarrow> (string \<Rightarrow> string) \<Rightarrow> string \<Rightarrow> time \<Rightarrow> sched_state \<Rightarrow> scheduler \<Rightarrow> 'db \<Rightarrow> bool" where
  "resting R sum256 origin t s sd db \<longleftrightarrow>
     store_ok R sum256 origin db \<and> fenced_view R sum256 origin db = \<lparr>fl_owner = None, fl_state = Inr s\<rparr>
     \<and> sched_valid origin s \<and> ss_last_observed s \<le> truncate_second t \<and> sd_last_now sd \<le> truncate_second t"

lemma monotonicNow_forward:
  assumes "sd_last_now sd \<le> truncate_second clock" and "persisted \<le> truncate_second clock"
  shows "monotonicNow sd clock persisted = (truncate_second clock, sd\<lparr>sd_last_now := truncate_second clock\<rparr>)"
  using assms by (simp add: monotonicNow_def Let_def)

lemma stored_time_storable: "storable_time t \<Longrightarrow> storable_time (stored_time t) \<and> stored_time t \<le> t"
proof (cases "is_zero t \<or> t div second = 0")
  case True
  then show "storable_time t \<Longrightarrow> ?thesis" by (auto simp: stored_time_def storable_time_def zero_time_def)
next
  case False
  assume "storable_time t"
  with False have "0 \<le> t" "t div second < 2 ^ 63" by (simp_all add: storable_time_def)
  moreover have "t div second * second \<le> t" using truncate_second_bounds(1) [of t] by (simp add: truncate_second_def)
  ultimately show ?thesis using False by (auto simp: stored_time_def storable_time_def)
qed

lemma to_seconds_valid: "sched_valid origin s \<Longrightarrow> sched_valid origin (to_seconds s)"
  by (simp add: sched_valid_def validateState_Inr storable_times_def to_seconds_def stored_time_storable)

lemma stored_time_seconds: "good_time t \<Longrightarrow> truncate_second t = t \<Longrightarrow> stored_time t = t"
  using zdiv_mono1 [of second t second] by (auto simp: stored_time_def truncate_second_def good_time_def)

context redis_server
begin

lemma conclude_reliable:
  assumes "reliable R" and "store_ok R sum256 origin db" and "sched_valid origin s"
    and "owns l (fenced_view R sum256 origin db)" and "ls_key l = directoryKey sum256 origin ''lease''"
  obtains db' where "conclude R sum256 origin l s res diag sd w db = ((ss_next_attempt s, None), [DirectoryMetric res diag], sd, w, db')"
    and "store_ok R sum256 origin db'"
    and "fenced_view R sum256 origin db' = (fenced_view R sum256 origin db)\<lparr>fl_state := Inr (to_seconds s)\<rparr>"
proof -
  obtain db' where "SaveOwned R sum256 origin l s db = (Inr True, db')" "store_ok R sum256 origin db'"
    "fenced_view R sum256 origin db' = (fenced_view R sum256 origin db)\<lparr>fl_state := Inr (to_seconds s)\<rparr>"
    using SaveOwned_reliable [OF assms] by blast
  then show thesis by (intro that) (simp_all add: conclude_def saveOwned_def)
qed

text \<open>The part under the lease, when the directory is due.\<close>

lemma run_owned_due:
  assumes rel: "reliable R" and client: "lifecycle_client c" and M: "alone c M" and origin: "origin \<noteq> []"
    and ok: "store_ok R sum256 origin db" and own: "owns l (fenced_view R sum256 origin db)"
    and key: "ls_key l = directoryKey sum256 origin ''lease''"
    and state: "fl_state (fenced_view R sum256 origin db) = Inr s" and valid: "sched_valid origin s"
    and past: "ss_last_observed s \<le> truncate_second (mo_clock_owned M)" "sd_last_now sd \<le> truncate_second (mo_clock_owned M)"
    and due: "\<not> not_due s (truncate_second (mo_clock_owned M)) (startupReconciliationDue s boundary) (profile_changed c s)"
    and now_def: "now = truncate_second (mo_clock_done M)"
    and opn: "remote_operation c s (profile_changed c s) w = (res, w1)"
    and s': "s' = settled c sum256 (sd_actor sd) s origin now res"
  obtains ms db' where "run_owned R sum256 M boundary origin l sd w db =
      ((ss_next_attempt s', None), ms, sd\<lparr>sd_last_now := now\<rparr>, w1, db')"
    and "store_ok R sum256 origin db'"
    and "fenced_view R sum256 origin db' = (fenced_view R sum256 origin db)\<lparr>fl_state := Inr (to_seconds s')\<rparr>"
    and "sched_valid origin s'" and "ss_next_attempt s' \<le> now + 26 * hour" and "ss_last_observed s' = now"
proof -
  have now: "good_time now" "truncate_second now = now"
    using M by (simp_all add: now_def alone_def good_time_truncate)
  note settled = lifecycle_client.settled_valid [OF client opn valid now s']
  obtain db1 where load: "LoadState R sum256 origin db = (Inr s, db1)" and db1: "store_ok R sum256 origin db1"
    "fenced_view R sum256 origin db1 = fenced_view R sum256 origin db"
    using LoadState_reliable [OF rel ok origin state] by blast
  have later: "truncate_second (mo_clock_owned M) \<le> now" unfolding now_def using M by (intro truncate_second_mono) (simp add: alone_def)
  define sd1 where "sd1 = sd\<lparr>sd_last_now := truncate_second (mo_clock_owned M)\<rparr>"
  have clock: "monotonicNow sd (mo_clock_owned M) (ss_last_observed s) = (truncate_second (mo_clock_owned M), sd1)"
    "monotonicNow sd1 (mo_clock_done M) (ss_last_observed s) = (now, sd\<lparr>sd_last_now := now\<rparr>)"
    using past later unfolding sd1_def now_def by (simp_all add: monotonicNow_forward)
  have own1: "owns l (fenced_view R sum256 origin db1)" using own db1(2) by simp
  have "run_owned R sum256 M boundary origin l sd w db = operate R sum256 M origin l c s sd1 w db1"
    using load clock(1) due M by (simp add: run_owned_def alone_def)
  also have "\<dots> = (case res of
      Inr r \<Rightarrow> conclude R sum256 origin l s' ''success'' ''none'' (sd\<lparr>sd_last_now := now\<rparr>) w1 db1
    | Inl e \<Rightarrow> conclude R sum256 origin l s' ''failure'' (ss_diagnostic s') (sd\<lparr>sd_last_now := now\<rparr>) w1 db1)"
    using M clock(2) opn unfolding s' settled_def
    by (simp add: operate_def alone_def Let_def sd1_def split: sum.split)
  finally obtain rs diag where "run_owned R sum256 M boundary origin l sd w db =
      conclude R sum256 origin l s' rs diag (sd\<lparr>sd_last_now := now\<rparr>) w1 db1"
    by (cases res) auto
  then show thesis
    using conclude_reliable [OF rel db1(1) settled(1) own1 key, of rs diag "sd\<lparr>sd_last_now := now\<rparr>" w1] db1(2) settled that
    by metis
qed

text \<open>The lease is taken before and given back after the part under the lease.\<close>

lemma runDirectory_leased:
  assumes rel: "reliable R" and M: "alone c M" and origin: "origin \<noteq> []" and v: "mo_token M = Inr v"
    and rest: "resting R sum256 origin t s sd db" and t: "t \<le> mo_clock M"
    and l: "l = \<lparr>ls_key = directoryKey sum256 origin ''lease'', ls_value = v\<rparr>"
    and sd1: "sd1 = sd\<lparr>sd_last_now := truncate_second (mo_clock M)\<rparr>"
    and due: "\<not> not_due s (truncate_second (mo_clock M)) (startupReconciliationDue s boundary)
      (case mo_preview M of Some c \<Rightarrow> profile_changed c s | None \<Rightarrow> False)"
  obtains db2 where "store_ok R sum256 origin db2" and "fenced_view R sum256 origin db2 = \<lparr>fl_owner = Some v, fl_state = Inr s\<rparr>"
    and "runDirectory R sum256 M boundary origin sd w db =
      (case run_owned R sum256 M boundary origin l sd1 w db2 of (res, ms, sd2, w1, db3) \<Rightarrow> (res, ms, sd2, w1, snd (Release R l db3)))"
proof -
  have ok: "store_ok R sum256 origin db" and view: "fenced_view R sum256 origin db = \<lparr>fl_owner = None, fl_state = Inr s\<rparr>"
    using rest by (simp_all add: resting_def)
  obtain db1 where load: "LoadState R sum256 origin db = (Inr s, db1)" and db1: "store_ok R sum256 origin db1"
    "fenced_view R sum256 origin db1 = fenced_view R sum256 origin db"
    using LoadState_reliable [OF rel ok origin] view by force
  obtain db2 where acq: "Acquire R sum256 (Inr v) origin leaseTTL db1 = (Inr (Some l), db2)" and db2: "store_ok R sum256 origin db2"
    "fenced_view R sum256 origin db2 = (fenced_view R sum256 origin db1)\<lparr>fl_owner := Some v\<rparr>"
    using Acquire_reliable [OF rel db1(1) origin, of leaseTTL v] db1(2) view l by (auto simp: leaseTTL_def)
  have "truncate_second t \<le> truncate_second (mo_clock M)" using t by (rule truncate_second_mono)
  with rest have "monotonicNow sd (mo_clock M) (ss_last_observed s) = (truncate_second (mo_clock M), sd1)"
    unfolding sd1 resting_def by (simp add: monotonicNow_forward)
  with load acq due M v have "runDirectory R sum256 M boundary origin sd w db =
      (case run_owned R sum256 M boundary origin l sd1 w db2 of (res, ms, sd2, w1, db3) \<Rightarrow> (res, ms, sd2, w1, snd (Release R l db3)))"
    by (simp add: runDirectory_def alone_def)
  then show thesis using that db2 db1 view by simp
qed

lemma runDirectory_due:
  assumes rel: "reliable R" and client: "lifecycle_client c" and M: "alone c M" and origin: "origin \<noteq> []"
    and rest: "resting R sum256 origin t s sd db" and t: "t \<le> mo_clock M"
    and due: "\<not> not_due s (truncate_second (mo_clock M)) (startupReconciliationDue s boundary)
      (case mo_preview M of Some c \<Rightarrow> profile_changed c s | None \<Rightarrow> False)"
    and due': "\<not> not_due s (truncate_second (mo_clock_owned M)) (startupReconciliationDue s boundary) (profile_changed c s)"
    and now: "now = truncate_second (mo_clock_done M)"
    and opn: "remote_operation c s (profile_changed c s) w = (res, w1)"
    and s': "s' = settled c sum256 (sd_actor sd) s origin now res"
  obtains ms db' where "runDirectory R sum256 M boundary origin sd w db =
      ((ss_next_attempt s', None), ms, sd\<lparr>sd_last_now := now\<rparr>, w1, db')"
    and "resting R sum256 origin (mo_clock_done M) (to_seconds s') (sd\<lparr>sd_last_now := now\<rparr>) db'"
    and "ss_next_attempt (to_seconds s') \<le> now + 26 * hour"
proof -
  obtain v where v: "mo_token M = Inr v" using M by (auto simp: alone_def)
  define l where "l = \<lparr>ls_key = directoryKey sum256 origin ''lease'', ls_value = v\<rparr>"
  define sd1 where "sd1 = sd\<lparr>sd_last_now := truncate_second (mo_clock M)\<rparr>"
  obtain db2 where db2: "store_ok R sum256 origin db2" "fenced_view R sum256 origin db2 = \<lparr>fl_owner = Some v, fl_state = Inr s\<rparr>"
    and run: "runDirectory R sum256 M boundary origin sd w db =
      (case run_owned R sum256 M boundary origin l sd1 w db2 of (res, ms, sd2, w1, db3) \<Rightarrow> (res, ms, sd2, w1, snd (Release R l db3)))"
    using runDirectory_leased [OF rel M origin v rest t l_def sd1_def due] by blast
  have own: "owns l (fenced_view R sum256 origin db2)" and key: "ls_key l = directoryKey sum256 origin ''lease''"
    using db2 by (simp_all add: l_def owns_def)
  have times: "truncate_second t \<le> truncate_second (mo_clock_owned M)" "truncate_second (mo_clock M) \<le> truncate_second (mo_clock_owned M)"
    using t M by (auto intro!: truncate_second_mono simp: alone_def)
  have past: "ss_last_observed s \<le> truncate_second (mo_clock_owned M)" "sd_last_now sd1 \<le> truncate_second (mo_clock_owned M)"
    using rest times by (auto simp: resting_def sd1_def)
  have valid: "sched_valid origin s" using rest by (simp add: resting_def)
  have s1: "s' = settled c sum256 (sd_actor sd1) s origin now res" using s' by (simp add: sd1_def)
  obtain ms db3 where owned: "run_owned R sum256 M boundary origin l sd1 w db2 =
      ((ss_next_attempt s', None), ms, sd1\<lparr>sd_last_now := now\<rparr>, w1, db3)"
    and db3: "store_ok R sum256 origin db3"
      "fenced_view R sum256 origin db3 = (fenced_view R sum256 origin db2)\<lparr>fl_state := Inr (to_seconds s')\<rparr>"
    and settled: "sched_valid origin s'" "ss_next_attempt s' \<le> now + 26 * hour" "ss_last_observed s' = now"
    using run_owned_due [OF rel client M origin db2(1) own key _ valid past due' now opn s1] db2(2) by auto
  have own3: "owns l (fenced_view R sum256 origin db3)" using own db3(2) by (simp add: owns_def)
  have sd: "sd1\<lparr>sd_last_now := now\<rparr> = sd\<lparr>sd_last_now := now\<rparr>" by (simp add: sd1_def)
  have nowok: "good_time now" "truncate_second now = now" "truncate_second (mo_clock_done M) = now"
    using M now by (simp_all add: alone_def good_time_truncate)
  have "storable_time (ss_next_attempt s')" using settled(1) by (simp add: sched_valid_def storable_times_def)
  then have deadline: "ss_next_attempt (to_seconds s') \<le> now + 26 * hour"
    using settled(2) stored_time_storable by (fastforce simp: to_seconds_def)
  show thesis
  proof (rule Release_reliable [OF rel db3(1) own3 key])
    assume rls: "store_ok R sum256 origin (snd (Release R l db3))"
      "fenced_view R sum256 origin (snd (Release R l db3)) = (fenced_view R sum256 origin db3)\<lparr>fl_owner := None\<rparr>"
    have "resting R sum256 origin (mo_clock_done M) (to_seconds s') (sd\<lparr>sd_last_now := now\<rparr>) (snd (Release R l db3))"
      using rls db3(2) db2(2) settled(1,3) nowok
      by (simp add: resting_def to_seconds_valid) (simp add: to_seconds_def stored_time_seconds)
    with run owned sd deadline show thesis by (intro that) simp_all
  qed
qed

lemma runDirectory_idle:
  assumes rel: "reliable R" and M: "alone c M" and origin: "origin \<noteq> []"
    and rest: "resting R sum256 origin t s sd db" and t: "t \<le> mo_clock M"
    and idle: "not_due s (truncate_second (mo_clock M)) (startupReconciliationDue s boundary)
        (case mo_preview M of Some c \<Rightarrow> profile_changed c s | None \<Rightarrow> False)
      \<or> not_due s (truncate_second (mo_clock_owned M)) (startupReconciliationDue s boundary) (profile_changed c s)"
  obtains ms sd' db' where "runDirectory R sum256 M boundary origin sd w db = ((ss_next_attempt s, None), ms, sd', w, db')"
    and "resting R sum256 origin (mo_clock_done M) s sd' db'" and "sd' = sd\<lparr>sd_last_now := sd_last_now sd'\<rparr>"
    and "truncate_second (mo_clock M) < ss_next_attempt s"
proof -
  have ok: "store_ok R sum256 origin db" and view: "fenced_view R sum256 origin db = \<lparr>fl_owner = None, fl_state = Inr s\<rparr>"
    and valid: "sched_valid origin s" using rest by (simp_all add: resting_def)
  have order: "truncate_second t \<le> truncate_second (mo_clock M)" "truncate_second (mo_clock M) \<le> truncate_second (mo_clock_owned M)"
    "truncate_second (mo_clock_owned M) \<le> truncate_second (mo_clock_done M)"
    using t M by (auto intro!: truncate_second_mono simp: alone_def)
  have early: "truncate_second (mo_clock M) < ss_next_attempt s" using idle order(2) by (auto simp: not_due_def)
  show thesis
  proof (cases "not_due s (truncate_second (mo_clock M)) (startupReconciliationDue s boundary)
      (case mo_preview M of Some c \<Rightarrow> profile_changed c s | None \<Rightarrow> False)")
    case True
    obtain db1 where load: "LoadState R sum256 origin db = (Inr s, db1)" and db1: "store_ok R sum256 origin db1"
      "fenced_view R sum256 origin db1 = fenced_view R sum256 origin db"
      using LoadState_reliable [OF rel ok origin] view by force
    have "monotonicNow sd (mo_clock M) (ss_last_observed s) = (truncate_second (mo_clock M), sd\<lparr>sd_last_now := truncate_second (mo_clock M)\<rparr>)"
      using rest order(1) by (simp add: resting_def monotonicNow_forward)
    with load True M have "runDirectory R sum256 M boundary origin sd w db =
        ((ss_next_attempt s, None), [], sd\<lparr>sd_last_now := truncate_second (mo_clock M)\<rparr>, w, db1)"
      by (simp add: runDirectory_def alone_def)
    then show thesis using early db1 view valid rest order by (intro that) (auto simp: resting_def)
  next
    case False
    obtain v where v: "mo_token M = Inr v" using M by (auto simp: alone_def)
    define l where "l = \<lparr>ls_key = directoryKey sum256 origin ''lease'', ls_value = v\<rparr>"
    define sd1 where "sd1 = sd\<lparr>sd_last_now := truncate_second (mo_clock M)\<rparr>"
    obtain db2 where db2: "store_ok R sum256 origin db2" "fenced_view R sum256 origin db2 = \<lparr>fl_owner = Some v, fl_state = Inr s\<rparr>"
      and run: "runDirectory R sum256 M boundary origin sd w db =
        (case run_owned R sum256 M boundary origin l sd1 w db2 of (res, ms, sd2, w1, db3) \<Rightarrow> (res, ms, sd2, w1, snd (Release R l db3)))"
      using runDirectory_leased [OF rel M origin v rest t l_def sd1_def False] by blast
    obtain db3 where load: "LoadState R sum256 origin db2 = (Inr s, db3)" and db3: "store_ok R sum256 origin db3"
      "fenced_view R sum256 origin db3 = fenced_view R sum256 origin db2"
      using LoadState_reliable [OF rel db2(1) origin] db2(2) by force
    define sd2 where "sd2 = sd\<lparr>sd_last_now := truncate_second (mo_clock_owned M)\<rparr>"
    have "monotonicNow sd1 (mo_clock_owned M) (ss_last_observed s) = (truncate_second (mo_clock_owned M), sd2)"
      using rest order unfolding sd1_def sd2_def by (simp add: resting_def monotonicNow_forward)
    with load False idle M have "run_owned R sum256 M boundary origin l sd1 w db2 = ((ss_next_attempt s, None), [], sd2, w, db3)"
      by (simp add: run_owned_def alone_def)
    with run have run': "runDirectory R sum256 M boundary origin sd w db = ((ss_next_attempt s, None), [], sd2, w, snd (Release R l db3))"
      by simp
    have own: "owns l (fenced_view R sum256 origin db3)" and key: "ls_key l = directoryKey sum256 origin ''lease''"
      using db3 db2 by (simp_all add: l_def owns_def)
    show thesis
    proof (rule Release_reliable [OF rel db3(1) own key])
      assume "store_ok R sum256 origin (snd (Release R l db3))"
        "fenced_view R sum256 origin (snd (Release R l db3)) = (fenced_view R sum256 origin db3)\<lparr>fl_owner := None\<rparr>"
      with run' early db3 db2 valid rest order show thesis by (intro that) (auto simp: resting_def sd2_def)
    qed
  qed
qed

end

section \<open>The loop keeps trying\<close>

lemma resting_later: "resting R sum256 origin t s sd db \<Longrightarrow> t \<le> t' \<Longrightarrow> resting R sum256 origin t' s sd db"
  using truncate_second_mono [of t t'] by (auto simp: resting_def)

lemma nextWakeDelay_props:
  assumes run: "nextWakeDelay sd clock nextAttempt = (d, sd')" and rest: "resting R sum256 origin clock s sd db" and "0 \<le> clock"
  shows "second \<le> d" and "resting R sum256 origin clock s sd' db" and "sd_directories sd' = sd_directories sd"
proof -
  have "zero_time \<le> truncate_second clock"
    using truncate_second_mono [OF assms(3)] by (simp add: truncate_second_def zero_time_def)
  with rest have forward: "monotonicNow sd clock zero_time = (truncate_second clock, sd\<lparr>sd_last_now := truncate_second clock\<rparr>)"
    by (simp add: resting_def monotonicNow_forward)
  have d: "d = max second (if is_zero nextAttempt then SchedulerPollInterval
      else min SchedulerPollInterval (nextAttempt - truncate_second clock))"
    and sd': "sd' = (if is_zero nextAttempt then sd else sd\<lparr>sd_last_now := truncate_second clock\<rparr>)"
    using run by (auto simp: nextWakeDelay_def forward minimumSchedulerSleep_def SchedulerPollInterval_def split: if_splits)
  show "second \<le> d" unfolding d by simp
  show "resting R sum256 origin clock s sd' db" and "sd_directories sd' = sd_directories sd"
    using rest unfolding sd' resting_def by simp_all
qed

text \<open>
  The loop of a scheduler with one enabled directory, alone, in time with the clock: every cycle starts when
  the delay that the loop computed is over.
\<close>

fun timely :: "directory \<Rightarrow> 'w sched_client \<Rightarrow> time \<Rightarrow> duration list \<Rightarrow> ('db, 'w) cycle list \<Rightarrow> bool" where
  "timely e c t [] [] = True"
| "timely e c t (d # ds) (cy # cys) \<longleftrightarrow> alone c (cy_moments cy e) \<and> \<not> cy_cancelled cy \<and> t \<le> mo_clock (cy_moments cy e)
     \<and> mo_clock_done (cy_moments cy e) \<le> cy_clock cy \<and> timely e c (cy_clock cy + d) ds cys"
| "timely e c t _ _ = False"

text \<open>The seconds in the longest regular interval, 26 hours.\<close>

definition longest_wait :: nat where "longest_wait = 93600"

lemma remote_operation_counts:
  assumes "\<And>w. count w < count (snd (schedulerRegister c w))" and "\<And>w. count w < count (snd (schedulerHeartbeat c w))"
  shows "(count w :: nat) < count (snd (remote_operation c s changed w))"
  using assms(1) [of w] assms(2) [of w] assms(1) [of "snd (schedulerHeartbeat c w)"] assms(1) [of "snd (schedulerRegister c w)"]
  by (auto simp: remote_operation_def split: prod.split sum.split)

context redis_server
begin

text \<open>One cycle: the directory rests with its deadline, or was attempted and has a new one.\<close>

lemma cycle_alone:
  assumes rel: "reliable R" and client: "lifecycle_client c" and e: "d_enabled e" "d_origin e \<noteq> []"
    and only: "sd_directories sd = [e]" and M: "alone c (cy_moments cy e)" and t: "t \<le> mo_clock (cy_moments cy e)"
    and clock: "mo_clock_done (cy_moments cy e) \<le> cy_clock cy"
    and rest: "resting R sum256 (d_origin e) t s sd db"
    and run: "runCycle R sum256 (cy_moments cy) boundary sd w db = ((nextAttempt, err), ms, sd1, w1, db1)"
    and wake: "nextWakeDelay sd1 (cy_clock cy) nextAttempt = (d, sd2)"
  obtains s' where "resting R sum256 (d_origin e) (cy_clock cy + d) s' sd2 db1" and "sd_directories sd2 = [e]" and "second \<le> d"
    and "s' = s \<and> w1 = w \<and> truncate_second t < ss_next_attempt s
      \<or> w1 = snd (remote_operation c s (profile_changed c s) w) \<and> ss_next_attempt s' \<le> truncate_second (cy_clock cy) + 26 * hour"
proof -
  let ?M = "cy_moments cy e"
  note result = that
  have nonneg: "0 \<le> cy_clock cy" using M clock by (simp add: alone_def good_time_def)
  have order: "truncate_second t \<le> truncate_second (mo_clock ?M)" "truncate_second (mo_clock_done ?M) \<le> truncate_second (cy_clock cy)"
    using t clock by (auto intro: truncate_second_mono)
  obtain n er ms' where dir: "runDirectory R sum256 ?M boundary (d_origin e) sd w db = ((n, er), ms', sd1, w1, db1)"
    using run e only by (auto simp: runCycle_def split: prod.splits)
  have final: thesis if "resting R sum256 (d_origin e) (mo_clock_done ?M) s' sd1 db1" "sd_directories sd1 = [e]"
    "s' = s \<and> w1 = w \<and> truncate_second t < ss_next_attempt s
      \<or> w1 = snd (remote_operation c s (profile_changed c s) w) \<and> ss_next_attempt s' \<le> truncate_second (cy_clock cy) + 26 * hour" for s'
  proof -
    note props = nextWakeDelay_props [OF wake resting_later [OF that(1) clock] nonneg]
    have "resting R sum256 (d_origin e) (cy_clock cy + d) s' sd2 db1"
      by (rule resting_later [OF props(2)]) (use props(1) in simp)
    with props that show thesis by (intro result) auto
  qed
  show thesis
  proof (cases "not_due s (truncate_second (mo_clock ?M)) (startupReconciliationDue s boundary)
        (case mo_preview ?M of Some c \<Rightarrow> profile_changed c s | None \<Rightarrow> False)
      \<or> not_due s (truncate_second (mo_clock_owned ?M)) (startupReconciliationDue s boundary) (profile_changed c s)")
    case True
    then obtain ms1 sd' db' where idle: "runDirectory R sum256 ?M boundary (d_origin e) sd w db = ((ss_next_attempt s, None), ms1, sd', w, db')"
      and rest1: "resting R sum256 (d_origin e) (mo_clock_done ?M) s sd' db'" and sd': "sd' = sd\<lparr>sd_last_now := sd_last_now sd'\<rparr>"
      and early: "truncate_second (mo_clock ?M) < ss_next_attempt s"
      by (rule runDirectory_idle [OF rel M e(2) rest t])
    have "sd_directories sd' = [e]" by (subst sd') (simp add: only)
    with idle dir rest1 early order(1) show thesis by (intro final [of s]) auto
  next
    case False
    obtain res w' where opn: "remote_operation c s (profile_changed c s) w = (res, w')" by (cases "remote_operation c s (profile_changed c s) w")
    from False have "\<not> not_due s (truncate_second (mo_clock ?M)) (startupReconciliationDue s boundary)
          (case mo_preview ?M of Some c \<Rightarrow> profile_changed c s | None \<Rightarrow> False)"
      and "\<not> not_due s (truncate_second (mo_clock_owned ?M)) (startupReconciliationDue s boundary) (profile_changed c s)"
      by simp_all
    then obtain ms1 db' where due: "runDirectory R sum256 ?M boundary (d_origin e) sd w db =
        ((ss_next_attempt (settled c sum256 (sd_actor sd) s (d_origin e) (truncate_second (mo_clock_done ?M)) res), None), ms1,
          sd\<lparr>sd_last_now := truncate_second (mo_clock_done ?M)\<rparr>, w', db')"
      and rest1: "resting R sum256 (d_origin e) (mo_clock_done ?M)
        (to_seconds (settled c sum256 (sd_actor sd) s (d_origin e) (truncate_second (mo_clock_done ?M)) res))
        (sd\<lparr>sd_last_now := truncate_second (mo_clock_done ?M)\<rparr>) db'"
      and deadline: "ss_next_attempt (to_seconds (settled c sum256 (sd_actor sd) s (d_origin e) (truncate_second (mo_clock_done ?M)) res))
        \<le> truncate_second (mo_clock_done ?M) + 26 * hour"
      by (rule runDirectory_due [OF rel client M e(2) rest t _ _ refl opn refl])
    with dir order(2) only opn show thesis by (intro final) auto
  qed
qed

text \<open>Attempts are counted by \<open>count\<close>; at first the deadline is at most \<open>r\<close> seconds away.\<close>

lemma run_loop_attempts:
  assumes rel: "reliable R" and client: "lifecycle_client c" and e: "d_enabled e" "d_origin e \<noteq> []"
    and counts: "\<And>w. count w < count (snd (schedulerRegister c w))" "\<And>w. count w < count (snd (schedulerHeartbeat c w))"
    and "run_loop R sum256 boundary cys sd w db = (ds, ms, sd', w', db')" and "timely e c t ds cys"
    and "resting R sum256 (d_origin e) t s sd db" and "sd_directories sd = [e]"
    and "ss_next_attempt s \<le> truncate_second t + int r * second" and "r < longest_wait"
  shows "(count w :: nat) + (length cys + longest_wait - 1 - r) div longest_wait \<le> count w'"
  using assms(7-)
proof (induction cys arbitrary: ds ms sd w db t s r)
  case Nil
  then show ?case by (simp add: longest_wait_def)
next
  case (Cons cy cys)
  from Cons.prems(1,2) obtain d ds' where ds: "ds = d # ds'" and M: "alone c (cy_moments cy e)" and live: "\<not> cy_cancelled cy"
    and t: "t \<le> mo_clock (cy_moments cy e)" and clock: "mo_clock_done (cy_moments cy e) \<le> cy_clock cy"
    and rest_timely: "timely e c (cy_clock cy + d) ds' cys"
    by (cases ds) auto
  obtain na err ms1 sd1 w1 db1 where cycle: "runCycle R sum256 (cy_moments cy) boundary sd w db = ((na, err), ms1, sd1, w1, db1)"
    by (metis prod.exhaust)
  obtain d2 sd2 where wake: "nextWakeDelay sd1 (cy_clock cy) na = (d2, sd2)" by (cases "nextWakeDelay sd1 (cy_clock cy) na")
  from Cons.prems(1) ds live cycle wake obtain ms2 where
    loop: "run_loop R sum256 boundary cys sd2 w1 db1 = (ds', ms2, sd', w', db')" and d2: "d2 = d"
    by (auto split: prod.splits)
  obtain s' where rest: "resting R sum256 (d_origin e) (cy_clock cy + d) s' sd2 db1" and only: "sd_directories sd2 = [e]" and d: "second \<le> d"
    and outcome: "s' = s \<and> w1 = w \<and> truncate_second t < ss_next_attempt s
      \<or> w1 = snd (remote_operation c s (profile_changed c s) w) \<and> ss_next_attempt s' \<le> truncate_second (cy_clock cy) + 26 * hour"
    using cycle_alone [OF rel client e Cons.prems(4) M t clock Cons.prems(3) cycle wake [unfolded d2]] by blast
  have "t + second \<le> cy_clock cy + d" "cy_clock cy + second \<le> cy_clock cy + d"
    using t clock d M by (simp_all add: alone_def)
  then have later: "truncate_second t + second \<le> truncate_second (cy_clock cy + d)"
    "truncate_second (cy_clock cy) + second \<le> truncate_second (cy_clock cy + d)"
    using truncate_second_mono truncate_second_add by metis+
  note IH = Cons.IH [OF loop rest_timely rest only]
  from outcome show ?case
  proof
    assume idle: "s' = s \<and> w1 = w \<and> truncate_second t < ss_next_attempt s"
    with Cons.prems(5) have "0 < r" by (cases r) auto
    with idle Cons.prems(5) later(1) have "ss_next_attempt s' \<le> truncate_second (cy_clock cy + d) + int (r - 1) * second"
      by (simp add: of_nat_diff algebra_simps)
    from IH [OF this] Cons.prems(6) idle \<open>0 < r\<close> show ?thesis by simp
  next
    assume tried: "w1 = snd (remote_operation c s (profile_changed c s) w) \<and> ss_next_attempt s' \<le> truncate_second (cy_clock cy) + 26 * hour"
    then have "ss_next_attempt s' \<le> truncate_second (cy_clock cy + d) + int (longest_wait - 1) * second"
      using later(2) by (simp add: longest_wait_def)
    from IH [OF this] have "count w1 + length cys div longest_wait \<le> count w'" by (simp add: longest_wait_def)
    moreover have "count w < count w1" using tried remote_operation_counts [of count c, OF counts] by simp
    moreover have "(length (cy # cys) + longest_wait - 1 - r) div longest_wait \<le> (length cys + longest_wait) div longest_wait"
      by (rule div_le_mono) simp
    moreover have "(length cys + longest_wait) div longest_wait = length cys div longest_wait + 1"
      by (simp add: longest_wait_def)
    ultimately show ?thesis by linarith
  qed
qed

end

text \<open>C7: Liveness: the scheduler keeps trying. Take a scheduler with one enabled directory that is alone (Redis
  answers, nobody else writes, the configuration can be read, the clock goes forward and each cycle starts
  when the computed delay is over), whose stored deadline is at most \<open>r\<close> seconds away, less than 26 hours. Then
  the loop contacts the directory: once within the first \<open>r + 1\<close> cycles, and at least once in every further
  93600 cycles, whatever the directory answers. So no reply stops the scheduler and no delay starves it.\<close>

theorem scheduler_keeps_attempting:
  assumes "redis_server R" and "reliable R" and "lifecycle_client c" and "d_enabled e" and "d_origin e \<noteq> []"
    and "\<And>w. count w < count (snd (schedulerRegister c w))" and "\<And>w. count w < count (snd (schedulerHeartbeat c w))"
    and "run_loop R sum256 boundary cys sd w db = (ds, ms, sd', w', db')" and "timely e c t ds cys"
    and "resting R sum256 (d_origin e) t s sd db" and "sd_directories sd = [e]"
    and "ss_next_attempt s \<le> truncate_second t + int r * second" and "r < longest_wait"
  shows "(count w :: nat) + (length cys + longest_wait - 1 - r) div longest_wait \<le> count w'"
  by (rule redis_server.run_loop_attempts [OF assms])


section \<open>Examples\<close>

text \<open>A server without failures, and a client that counts how often it is used.\<close>

definition steady_redis :: "mem redis" where
  "steady_redis = mem_redis\<lparr>r_net := (\<lambda>_ m. (Executed, m))\<rparr>"

interpretation steady: redis_server steady_redis
  by unfold_locales (use mem.redis_server_axioms in \<open>simp_all add: steady_redis_def redis_server_def\<close>)

lemma steady_reliable: "reliable steady_redis"
  by (simp add: reliable_def steady_redis_def)

definition counting_client :: "(dir_error + response) \<Rightarrow> string option \<Rightarrow> nat sched_client" where
  "counting_client reply digest = \<lparr>sc_register = (\<lambda>n. (reply, Suc n)), sc_heartbeat = (\<lambda>n. (reply, Suc n)),
     sc_negotiated = None, sc_digest = digest\<rparr>"

lemma counting_client_contract:
  assumes "case reply of Inr r \<Rightarrow> rs_version r \<in> {1, 2, 3} \<and> rs_operation r = OperationRegister
      | Inl e \<Rightarrow> 0 \<le> remote_delay e \<and> remote_delay e \<le> MaximumRetryAfter"
    and "\<And>d v. digest = Some d \<Longrightarrow> v \<in> {1, 2, 3} \<Longrightarrow> validProfileState d v"
  shows "lifecycle_client (counting_client reply digest)"
  using assms
  by unfold_locales
     (auto simp: counting_client_def schedulerRegister_def schedulerHeartbeat_def clientProfileDigest_def split: if_splits option.splits)

definition suspended :: dir_error where
  "suspended = Protocol \<lparr>pe_status = 403, pe_code = ErrorRelaySuspended, pe_retry_after = 0\<rparr>"

interpretation refused: lifecycle_client "counting_client (Inl suspended) None"
  by (rule counting_client_contract) (simp_all add: suspended_def remote_delay_def MaximumRetryAfter_def)

definition sample_moments :: "nat sched_client \<Rightarrow> (mem, nat) moments" where
  "sample_moments c = \<lparr>mo_enabled = Inr True, mo_enabled_owned = Inr True, mo_preview = Some c, mo_client = Some c,
     mo_clock = 9 * second, mo_clock_owned = 9 * second, mo_clock_done = 9 * second, mo_token = Inr ''t'',
     mo_before = id, mo_before_lease = id, mo_renewals = [], mo_during = id, mo_cancelled = False\<rparr>"

lemma sample_moments_alone: "alone c (sample_moments c)"
  by (simp add: alone_def sample_moments_def good_time_def)

definition sample_scheduler :: scheduler where
  "sample_scheduler = \<lparr>sd_actor = ''a'', sd_directories = [\<lparr>d_origin = ''o'', d_enabled = True\<rparr>], sd_last_now = zero_time\<rparr>"

definition fresh_db :: mem where
  "fresh_db = \<lparr>m_now = 0, m_trips = [], m_hashes = [], m_strs = [], m_lens = []\<rparr>"

lemma steady_views [simp]: "r_hash steady_redis m k = map_of (mem_hash m k)" "r_str steady_redis m = map_of (m_strs m)"
  by (simp_all add: steady_redis_def)

lemma fresh_db_resting: "resting steady_redis sample_sum256 ''o'' (9 * second) zero_state sample_scheduler fresh_db"
proof -
  have "sched_valid ''o'' zero_state"
    by (simp add: sched_valid_def validateState_Inr zero_state_def validOutcome_def validDiagnostic_def validProfileState_def
        maximumAttempt_def storable_times_def storable_time_def)
  then show ?thesis
    by (simp add: resting_def store_ok_def fenced_view_def fresh_db_def mem_hash_def sample_scheduler_def zero_state_def zero_time_def
        truncate_second_def)
qed


theorem scheduler_keeps_attempting_witness:
  "(case run_loop steady_redis sample_sum256 zero_time
      [\<lparr>cy_moments = \<lambda>_. sample_moments (counting_client (Inl suspended) None), cy_clock = 9 * second, cy_cancelled = False\<rparr>]
      sample_scheduler 0 fresh_db of (ds, ms, sd', w', db') \<Rightarrow> 1 \<le> w')"
proof -
  let ?c = "counting_client (Inl suspended) None" and ?e = "\<lparr>d_origin = ''o'', d_enabled = True\<rparr>"
  let ?cy = "\<lparr>cy_moments = \<lambda>_. sample_moments ?c, cy_clock = 9 * second, cy_cancelled = False\<rparr>"
  obtain ds ms sd' w' db' where run: "run_loop steady_redis sample_sum256 zero_time [?cy] sample_scheduler 0 fresh_db = (ds, ms, sd', w', db')"
    by (rule prod_cases5)
  then obtain d where "ds = [d]" by (auto split: prod.splits)
  then have timely: "timely ?e ?c (9 * second) ds [?cy]"
    using sample_moments_alone [of ?c] by (simp add: sample_moments_def)
  have rest: "resting steady_redis sample_sum256 (d_origin ?e) (9 * second) zero_state sample_scheduler fresh_db"
    using fresh_db_resting by simp
  have "(0 :: nat) + (length [?cy] + longest_wait - 1 - 0) div longest_wait \<le> w'"
    by (rule scheduler_keeps_attempting [where count = id and e = ?e and s = zero_state, unfolded id_apply,
          OF steady.redis_server_axioms steady_reliable refused.lifecycle_client_axioms _ _ _ _ run timely rest])
       (simp_all add: counting_client_def schedulerRegister_def schedulerHeartbeat_def sample_scheduler_def
         zero_state_def zero_time_def truncate_second_def longest_wait_def)
  with run show ?thesis by (simp add: longest_wait_def)
qed

theorem held_lease_keeps_scheduler_away_witness:
  "(case runDirectory mem_redis sample_sum256 (sample_moments (counting_client (Inl suspended) None)) zero_time ''https://d.ex''
      sample_scheduler 7 owned_db of (res, ms, sd', w', db') \<Rightarrow> w' = 7)"
proof -
  let ?M = "sample_moments (counting_client (Inl suspended) None)"
  obtain res ms sd' w' db' where run: "runDirectory mem_redis sample_sum256 ?M zero_time ''https://d.ex'' sample_scheduler 7 owned_db
      = (res, ms, sd', w', db')"
    by (rule prod_cases5)
  have "w' = 7 \<and> fenced_view mem_redis sample_sum256 ''https://d.ex'' db' = fenced_view mem_redis sample_sum256 ''https://d.ex'' (mo_before ?M owned_db)"
    by (rule held_lease_keeps_scheduler_away [OF mem.redis_server_axioms _ _ _ run, of "''new''"])
       (use owned_db_ok in \<open>simp_all add: sample_moments_def owned_db_def sample_lease_def\<close>)
  with run show ?thesis by simp
qed

definition digest_of :: "char \<Rightarrow> string" where
  "digest_of c = hex_encode (replicate 32 c)"

lemma digest_of_valid: "v \<in> {1, 2, 3} \<Longrightarrow> validProfileState (digest_of c) v"
  unfolding digest_of_def by (rule sha256_profile_state) simp_all

lemma digest_of_props: "length (digest_of c) = 64" "digest_of c = digest_of d \<longleftrightarrow> c = d"
proof -
  show "length (digest_of c) = 64" by (simp add: digest_of_def length_hex_encode)
  have "digest_of c = digest_of d \<Longrightarrow> replicate 32 c = replicate 32 d"
    unfolding digest_of_def by (metis hex_decode_encode option.inject)
  then show "digest_of c = digest_of d \<longleftrightarrow> c = d" by (auto simp: replicate_eq_replicate)
qed

text \<open>A relay that the directory suspended; its deadline is 5000 seconds after the epoch.\<close>

definition suspended_state :: sched_state where
  "suspended_state = \<lparr>ss_registered = True, ss_last_success = 5 * second, ss_next_attempt = 5000 * second,
     ss_outcome = ''suspended'', ss_diagnostic = ''suspended'', ss_attempt = 0, ss_last_observed = 5 * second,
     ss_profile_digest = digest_of (CHR ''a''), ss_profile_version = 1\<rparr>"

definition suspended_db :: mem where
  "suspended_db = write_state steady_redis (directoryKey sample_sum256 ''o'' ''state'') suspended_state fresh_db"

lemma suspended_db_resting: "resting steady_redis sample_sum256 ''o'' (9 * second) suspended_state sample_scheduler suspended_db"
proof -
  have valid: "sched_valid ''o'' suspended_state"
    by (simp add: sched_valid_def validateState_Inr suspended_state_def validOutcome_def validDiagnostic_def digest_of_valid
        maximumAttempt_def storable_times_def storable_time_def)
  have same: "to_seconds suspended_state = suspended_state"
    by (simp add: to_seconds_def suspended_state_def stored_time_def zero_time_def)
  have fresh: "store_ok steady_redis sample_sum256 ''o'' fresh_db"
    "fl_owner (fenced_view steady_redis sample_sum256 ''o'' fresh_db) = None"
    using fresh_db_resting by (simp_all add: resting_def)
  have "store_ok steady_redis sample_sum256 ''o'' suspended_db"
    "fenced_view steady_redis sample_sum256 ''o'' suspended_db = \<lparr>fl_owner = None, fl_state = Inr suspended_state\<rparr>"
    using steady.write_state_fenced [OF fresh(1)] valid fresh(2) same unfolding suspended_db_def sched_valid_def by simp_all
  with valid show ?thesis
    by (simp add: resting_def) (simp add: suspended_state_def sample_scheduler_def truncate_second_def zero_time_def)
qed

interpretation renamed: lifecycle_client "counting_client (Inl suspended) (Some (digest_of (CHR ''b'')))"
  by (rule counting_client_contract) (auto simp: suspended_def remote_delay_def MaximumRetryAfter_def intro: digest_of_valid)


end
