(* ===== verification/Go_Files.thy ===== *)
theory Go_Files
  imports Prelude
begin

text \<open>
  Files as the directory configuration uses them, through Go's \<open>os\<close> and \<open>golang.org/x/sys/unix\<close>. A file
  system has names, which point to numbered nodes, and the data of the nodes. A node is a regular file or
  something else (a symbolic link, a directory, a device); symbolic links are never followed here.

  For the question what a crash leaves behind, \<open>fs_versions\<close> holds the versions of the table of names that the
  disk may still have: those since the directory was last synchronised, the newest first. A crash picks one
  of them. The data of a file that was not synchronised are anything after a crash.

  Every call can fail; the fates of the calls to come are a list of flags (\<^const>\<open>True\<close> for a failure), and an
  empty list means that nothing fails any more. \<open>sy_trace\<close> keeps the file system after every call, the latest
  first: these are the points at which the machine can stop.
\<close>

datatype node_kind = RegularFile | Symlink | DirectoryNode | OtherNode

record node =
  nd_kind :: node_kind
  nd_data :: string
  nd_synced :: bool
  nd_mode :: int
  nd_owner :: "int \<times> int"

record fs =
  fs_names :: "(string \<times> nat) list"
  fs_nodes :: "(nat \<times> node) list"
  fs_versions :: "(string \<times> nat) list list"

record sys =
  sy_fs :: fs
  sy_faults :: "bool list"
  sy_trace :: "fs list"

definition ENOENT :: string where "ENOENT = ''no such file or directory''"
definition EEXIST :: string where "EEXIST = ''file exists''"
definition EIO :: string where "EIO = ''input/output error''"

definition lookup_node :: "fs \<Rightarrow> string \<Rightarrow> nat option" where
  "lookup_node f path = map_of (fs_names f) path"

text \<open>A file by its number, as a descriptor refers to it: it stays while it is open.\<close>

definition node_of :: "fs \<Rightarrow> nat \<Rightarrow> node result" where
  "node_of f n = (case map_of (fs_nodes f) n of None \<Rightarrow> Inl EIO | Some x \<Rightarrow> Inr x)"

text \<open>A call: it fails without effect, or it has the effect \<open>eff\<close>.\<close>

definition syscall :: "(fs \<Rightarrow> 'a result \<times> fs) \<Rightarrow> sys \<Rightarrow> 'a result \<times> sys" where
  "syscall eff s =
     (case sy_faults s of
        True # fs \<Rightarrow> (Inl EIO, s\<lparr>sy_faults := fs\<rparr>)
      | False # fs \<Rightarrow> (case eff (sy_fs s) of (r, f) \<Rightarrow> (r, s\<lparr>sy_fs := f, sy_faults := fs, sy_trace := f # sy_trace s\<rparr>))
      | [] \<Rightarrow> (case eff (sy_fs s) of (r, f) \<Rightarrow> (r, s\<lparr>sy_fs := f, sy_trace := f # sy_trace s\<rparr>)))"

definition then_sys ::
  "(sys \<Rightarrow> ('e + 'a) \<times> sys) \<Rightarrow> ('a \<Rightarrow> sys \<Rightarrow> ('e + 'b) \<times> sys) \<Rightarrow> sys \<Rightarrow> ('e + 'b) \<times> sys" where
  "then_sys f g s = (case f s of (Inl e, s1) \<Rightarrow> (Inl e, s1) | (Inr x, s1) \<Rightarrow> g x s1)"

definition return_sys :: "'e + 'a \<Rightarrow> sys \<Rightarrow> ('e + 'a) \<times> sys" where
  "return_sys r s = (r, s)"

text \<open>Reports every failure as \<open>e\<close>.\<close>

definition fail_as :: "'e \<Rightarrow> (sys \<Rightarrow> ('x + 'a) \<times> sys) \<Rightarrow> sys \<Rightarrow> ('e + 'a) \<times> sys" where
  "fail_as e f s = (case f s of (Inl _, s1) \<Rightarrow> (Inl e, s1) | (Inr x, s1) \<Rightarrow> (Inr x, s1))"

text \<open>A deferred call, whose result is ignored.\<close>

definition deferring :: "(sys \<Rightarrow> 'x \<times> sys) \<Rightarrow> (sys \<Rightarrow> 'r \<times> sys) \<Rightarrow> sys \<Rightarrow> 'r \<times> sys" where
  "deferring cleanup f s = (case f s of (r, s1) \<Rightarrow> (r, snd (cleanup s1)))"

text \<open>Other processes at work.\<close>

definition meanwhile :: "(fs \<Rightarrow> fs) \<Rightarrow> sys \<Rightarrow> ('e + unit) \<times> sys" where
  "meanwhile g s = (Inr (), s\<lparr>sy_fs := g (sy_fs s), sy_trace := g (sy_fs s) # sy_trace s\<rparr>)"

section \<open>Calls\<close>

text \<open>Every change of the names is a new version that the disk may or may not have.\<close>

definition set_names :: "(string \<times> nat) list \<Rightarrow> fs \<Rightarrow> fs" where
  "set_names names f = f\<lparr>fs_names := names, fs_versions := names # fs_versions f\<rparr>"

definition fresh_node :: "fs \<Rightarrow> nat" where
  "fresh_node f = Suc (foldr max (map fst (fs_nodes f) @ map snd (fs_names f) @ concat (map (map snd) (fs_versions f))) 0)"

text \<open>\<open>open\<close> with \<open>O_CREAT|O_EXCL\<close>, as \<open>os.CreateTemp\<close> uses it: an empty file under a new name.\<close>

definition create_excl :: "string \<Rightarrow> sys \<Rightarrow> nat result \<times> sys" where
  "create_excl path = syscall (\<lambda>f.
     if lookup_node f path \<noteq> None then (Inl EEXIST, f)
     else let n = fresh_node f;
              f' = f\<lparr>fs_nodes := (n, \<lparr>nd_kind = RegularFile, nd_data = [], nd_synced = False, nd_mode = 384, nd_owner = (0, 0)\<rparr>) # fs_nodes f\<rparr>
          in (Inr n, set_names ((path, n) # fs_names f') f'))"

definition update_node :: "nat \<Rightarrow> (node \<Rightarrow> node) \<Rightarrow> fs \<Rightarrow> fs" where
  "update_node n g f = (case map_of (fs_nodes f) n of None \<Rightarrow> f | Some x \<Rightarrow> f\<lparr>fs_nodes := (n, g x) # fs_nodes f\<rparr>)"

definition write_all :: "nat \<Rightarrow> string \<Rightarrow> sys \<Rightarrow> unit result \<times> sys" where
  "write_all n body = syscall (\<lambda>f. (Inr (), update_node n (\<lambda>x. x\<lparr>nd_data := body, nd_synced := False\<rparr>) f))"

definition fchown :: "nat \<Rightarrow> int \<times> int \<Rightarrow> sys \<Rightarrow> unit result \<times> sys" where
  "fchown n who = syscall (\<lambda>f. (Inr (), update_node n (\<lambda>x. x\<lparr>nd_owner := who\<rparr>) f))"

definition fchmod :: "nat \<Rightarrow> int \<Rightarrow> sys \<Rightarrow> unit result \<times> sys" where
  "fchmod n mode = syscall (\<lambda>f. (Inr (), update_node n (\<lambda>x. x\<lparr>nd_mode := mode\<rparr>) f))"

definition fsync :: "nat \<Rightarrow> sys \<Rightarrow> unit result \<times> sys" where
  "fsync n = syscall (\<lambda>f. (Inr (), update_node n (\<lambda>x. x\<lparr>nd_synced := True\<rparr>) f))"

definition close_file :: "sys \<Rightarrow> unit result \<times> sys" where
  "close_file = syscall (\<lambda>f. (Inr (), f))"

definition remove_name :: "string \<Rightarrow> (string \<times> nat) list \<Rightarrow> (string \<times> nat) list" where
  "remove_name path names = filter (\<lambda>(p, _). p \<noteq> path) names"

definition remove_file :: "string \<Rightarrow> sys \<Rightarrow> unit result \<times> sys" where
  "remove_file path = syscall (\<lambda>f.
     if lookup_node f path = None then (Inl ENOENT, f) else (Inr (), set_names (remove_name path (fs_names f)) f))"

text \<open>\<open>rename\<close> of a file replaces the target in one step, unless the target is a directory.\<close>

definition rename_file :: "string \<Rightarrow> string \<Rightarrow> sys \<Rightarrow> unit result \<times> sys" where
  "rename_file src dst = syscall (\<lambda>f.
     case lookup_node f src of
       None \<Rightarrow> (Inl ENOENT, f)
     | Some n \<Rightarrow>
         (case Option.bind (lookup_node f dst) (map_of (fs_nodes f)) of
            Some x \<Rightarrow>
              if nd_kind x = DirectoryNode then (Inl EEXIST, f)
              else (Inr (), set_names ((dst, n) # remove_name dst (remove_name src (fs_names f))) f)
          | None \<Rightarrow> (Inr (), set_names ((dst, n) # remove_name dst (remove_name src (fs_names f))) f)))"

text \<open>Opening the directory and \<open>fsync\<close> on it: from now on the disk has these names.\<close>

definition sync_names :: "sys \<Rightarrow> unit result \<times> sys" where
  "sync_names = then_sys (syscall (\<lambda>f. (Inr (), f))) (\<lambda>_. syscall (\<lambda>f. (Inr (), f\<lparr>fs_versions := [fs_names f]\<rparr>)))"

definition lstat :: "string \<Rightarrow> sys \<Rightarrow> (nat \<times> node) result \<times> sys" where
  "lstat path = syscall (\<lambda>f.
     (case lookup_node f path of
        None \<Rightarrow> Inl ENOENT
      | Some n \<Rightarrow> bind_result (node_of f n) (\<lambda>x. Inr (n, x)), f))"

definition open_nofollow :: "string \<Rightarrow> sys \<Rightarrow> nat result \<times> sys" where
  "open_nofollow path = syscall (\<lambda>f.
     (case lookup_node f path of
        None \<Rightarrow> Inl ENOENT
      | Some n \<Rightarrow>
          bind_result (node_of f n)
            (\<lambda>x. if nd_kind x = Symlink then Inl ''too many levels of symbolic links'' else Inr n), f))"

definition fstat :: "nat \<Rightarrow> sys \<Rightarrow> node result \<times> sys" where
  "fstat n = syscall (\<lambda>f. (node_of f n, f))"

definition read_all :: "nat \<Rightarrow> sys \<Rightarrow> string result \<times> sys" where
  "read_all n = syscall (\<lambda>f. (bind_result (node_of f n) (\<lambda>x. Inr (nd_data x)), f))"

text \<open>\<open>flock\<close>: the lock is advisory, and while this call waits other processes run.\<close>

definition flock :: "(fs \<Rightarrow> fs) \<Rightarrow> sys \<Rightarrow> unit result \<times> sys" where
  "flock others = then_sys (meanwhile others) (\<lambda>_. syscall (\<lambda>f. (Inr (), f)))"

section \<open>Paths\<close>

text \<open>\<open>filepath.Clean\<close>, \<open>Dir\<close> and \<open>Base\<close>, and the names of \<open>os.CreateTemp\<close>, which end in a random number.\<close>

definition clean_step :: "bool \<Rightarrow> string list \<Rightarrow> string \<Rightarrow> string list" where
  "clean_step rooted stack seg =
     (if seg = [] \<or> seg = ''.'' then stack
      else if seg = ''..''
      then (case stack of
              [] \<Rightarrow> if rooted then [] else [seg]
            | t # ts \<Rightarrow> if t = ''..'' then seg # stack else ts)
      else seg # stack)"

definition filepath_clean :: "string \<Rightarrow> string" where
  "filepath_clean p =
     (let rooted = has_prefix p ''/'';
          out = join ''/'' (rev (foldl (clean_step rooted) [] (split_on (CHR ''/'') p)))
      in if rooted then ''/'' @ out else if out = [] then ''.'' else out)"

definition filepath_dir :: "string \<Rightarrow> string" where
  "filepath_dir p = filepath_clean (case last_cut (CHR ''/'') p of None \<Rightarrow> [] | Some (d, _) \<Rightarrow> d @ ''/'')"

definition filepath_base :: "string \<Rightarrow> string" where
  "filepath_base p =
     (let q = rev (dropWhile (\<lambda>c. c = CHR ''/'') (rev p))
      in if p = [] then ''.'' else if q = [] then ''/''
         else case last_cut (CHR ''/'') q of None \<Rightarrow> q | Some (_, b) \<Rightarrow> b)"

definition temp_name :: "string \<Rightarrow> string \<Rightarrow> nat \<Rightarrow> string" where
  "temp_name dir pattern r = dir @ (if has_suffix dir ''/'' then [] else ''/'') @ pattern @ show_nat r"

text \<open>\<open>os.CreateTemp\<close>: the attempt \<open>k\<close> uses the number \<open>rnd k\<close>, and a name in use leads to the next attempt.\<close>

function create_temp :: "(int \<Rightarrow> nat) \<Rightarrow> string \<Rightarrow> string \<Rightarrow> int \<Rightarrow> sys \<Rightarrow> (string \<times> nat) result \<times> sys" where
  "create_temp rnd dir pattern k s =
     (if 10000 \<le> k then (Inl EEXIST, s)
      else let path = temp_name dir pattern (rnd k)
           in case create_excl path s of
                (Inr n, s1) \<Rightarrow> (Inr (path, n), s1)
              | (Inl e, s1) \<Rightarrow> if e = EEXIST then create_temp rnd dir pattern (k + 1) s1 else (Inl e, s1))"
  by pat_completeness auto
termination by (relation "measure (\<lambda>(_, _, _, k, _). nat (10000 - k))") auto

declare create_temp.simps [simp del]

section \<open>Crashes\<close>

text \<open>What a crash can leave: one version of the names, and the data that were synchronised.\<close>

definition crash_names :: "fs \<Rightarrow> (string \<times> nat) list set" where
  "crash_names f = set (fs_versions f)"

definition crash_holds :: "fs \<Rightarrow> (string \<times> nat) list \<Rightarrow> string \<Rightarrow> string \<Rightarrow> bool" where
  "crash_holds f names path body =
     (case map_of names path of
        None \<Rightarrow> False
      | Some n \<Rightarrow> (case map_of (fs_nodes f) n of Some x \<Rightarrow> nd_kind x = RegularFile \<and> nd_synced x \<and> nd_data x = body | None \<Rightarrow> False))"

end
