(* ===== verification/Directory_Config.thy ===== *)
theory Directory_Config
  imports Directory_Profile Go_Files
begin

text \<open>
  The configuration that the directory commands and the directory scheduler read
  (\<open>internal/directoryconfig/config.go\<close> and \<open>profile.go\<close>). The YAML library is the parameter record
  \<open>yaml_lib\<close>: the documents its decoder returns for a text and whether it then reports the end of the input,
  \<open>yaml.Unmarshal\<close>, the decoding of a node into a bool, and the encoder. Nodes have the fields the code uses. The record
  \<open>surroundings_c\<close> adds the mail parser, \<open>models.LoadActorPrivateKey\<close>, the environment, and what other
  processes do to the files between \<open>Lstat\<close> and \<open>Open\<close>.
\<close>

datatype yaml_kind = ZeroNode | DocumentNode | SequenceNode | MappingNode | ScalarNode | AliasNode

datatype yaml_node =
  Node (yn_kind: yaml_kind) (yn_tag: string) (yn_value: string) (yn_anchor: string) (yn_line: int)
    (yn_content: "yaml_node list")

record yaml_lib =
  yl_documents :: "string \<Rightarrow> yaml_node list \<times> bool"
  yl_unmarshal :: "string \<Rightarrow> yaml_node option"
  yl_bool :: "yaml_node \<Rightarrow> bool option"
  yl_encode :: "yaml_node \<Rightarrow> string option"

datatype config_error = ErrConfiguration | ErrNotFound | ErrDirectoriesSetting | ErrIdentity

datatype source = SourceFile | SourceEnvironment

record warning =
  wn_line :: int
  wn_field :: string
  wn_message :: string

record 'k config =
  cf_source :: source
  cf_path :: string
  cf_directories :: "directory list"
  cf_profile :: relay_profile
  cf_warnings :: "warning list"
  cf_base :: string
  cf_actor :: string
  cf_key_id :: string
  cf_key :: 'k
  cf_scheduler_enabled :: bool
  cf_redis_url :: string

record 'k surroundings_c =
  ce_yaml :: yaml_lib
  ce_mail :: "string \<Rightarrow> string option"
  ce_key :: "string \<Rightarrow> 'k result"
  ce_getenv :: "string \<Rightarrow> string"
  ce_others :: "fs \<Rightarrow> fs"

definition maximumConfigBytes :: int where "maximumConfigBytes = 1048576"

section \<open>Nodes\<close>

fun mapping_keys :: "yaml_node list \<Rightarrow> string list option" where
  "mapping_keys [] = Some []"
| "mapping_keys [k] = None"
| "mapping_keys (k # v # r) =
     (if yn_kind k \<noteq> ScalarNode then None else map_option (Cons (yn_value k)) (mapping_keys r))"

fun validateNode :: "yaml_node \<Rightarrow> bool" where
  "validateNode (Node kind tag v anchor line content) \<longleftrightarrow>
     kind \<noteq> AliasNode \<and> anchor = []
     \<and> (kind = MappingNode \<longrightarrow> (case mapping_keys content of None \<Rightarrow> False | Some ks \<Rightarrow> distinct ks))
     \<and> list_all validateNode content"

fun lookup_pair :: "yaml_node list \<Rightarrow> string \<Rightarrow> yaml_node option" where
  "lookup_pair (k # v # r) name = (if yn_value k = name then Some v else lookup_pair r name)"
| "lookup_pair _ name = None"

definition mappingValue :: "yaml_node \<Rightarrow> string \<Rightarrow> yaml_node option" where
  "mappingValue m name = (if yn_kind m \<noteq> MappingNode then None else lookup_pair (yn_content m) name)"

definition is_string :: "yaml_node \<Rightarrow> bool" where
  "is_string n \<longleftrightarrow> yn_kind n = ScalarNode \<and> yn_tag n = ''!!str''"

definition is_bool :: "yaml_node \<Rightarrow> bool" where
  "is_bool n \<longleftrightarrow> yn_kind n = ScalarNode \<and> yn_tag n = ''!!bool''"

definition decodeYAML :: "yaml_lib \<Rightarrow> string \<Rightarrow> config_error + yaml_node" where
  "decodeYAML Y body =
     (case yl_documents Y body of
        ([d], True) \<Rightarrow>
          (case yn_content d of
             [root] \<Rightarrow> if yn_kind root \<noteq> MappingNode \<or> \<not> validateNode root then Inl ErrConfiguration else Inr root
           | _ \<Rightarrow> Inl ErrConfiguration)
      | _ \<Rightarrow> Inl ErrConfiguration)"

text \<open>The document of an environment variable.\<close>

definition decode_variable :: "yaml_lib \<Rightarrow> string \<Rightarrow> config_error + yaml_node" where
  "decode_variable Y v =
     (case yl_unmarshal Y v of
        None \<Rightarrow> Inl ErrConfiguration
      | Some d \<Rightarrow>
          (case yn_content d of
             [n] \<Rightarrow> if \<not> validateNode n then Inl ErrConfiguration else Inr n
           | _ \<Rightarrow> Inl ErrConfiguration))"

section \<open>Settings\<close>

definition plain_text :: "yaml_node \<Rightarrow> bool" where
  "plain_text n \<longleftrightarrow> is_string n \<and> yn_value n \<noteq> [] \<and> trim_space (yn_value n) = yn_value n"

definition scalarSetting :: "yaml_node \<Rightarrow> string \<Rightarrow> string option" where
  "scalarSetting root name =
     (case mappingValue root name of
        Some n \<Rightarrow> if plain_text n then Some (yn_value n) else None
      | None \<Rightarrow> None)"

definition boolSetting :: "yaml_lib \<Rightarrow> yaml_node \<Rightarrow> string \<Rightarrow> config_error + bool" where
  "boolSetting Y root name =
     (case mappingValue root name of
        None \<Rightarrow> Inr False
      | Some n \<Rightarrow>
          if \<not> is_bool n then Inl ErrConfiguration
          else case yl_bool Y n of None \<Rightarrow> Inl ErrConfiguration | Some b \<Rightarrow> Inr b)"

definition redis_setting :: "yaml_node \<Rightarrow> config_error + string" where
  "redis_setting root =
     (case mappingValue root ''REDIS_URL'' of
        None \<Rightarrow> Inr []
      | Some n \<Rightarrow> if plain_text n then Inr (yn_value n) else Inl ErrConfiguration)"

definition directory_entry :: "yaml_lib \<Rightarrow> yaml_node \<Rightarrow> config_error + directory" where
  "directory_entry Y item =
     (if yn_kind item \<noteq> MappingNode then Inl ErrConfiguration
      else case mappingValue item ''origin'' of
        None \<Rightarrow> Inl ErrConfiguration
      | Some origin \<Rightarrow>
          if \<not> is_string origin then Inl ErrConfiguration
          else case boolSetting Y item ''enabled'' of
            Inl e \<Rightarrow> Inl e
          | Inr enabled \<Rightarrow> Inr \<lparr>d_origin = yn_value origin, d_enabled = enabled\<rparr>)"

fun directory_entries :: "yaml_lib \<Rightarrow> yaml_node list \<Rightarrow> config_error + directory list" where
  "directory_entries Y [] = Inr []"
| "directory_entries Y (item # items) =
     (case directory_entry Y item of
        Inl e \<Rightarrow> Inl e
      | Inr d \<Rightarrow> (case directory_entries Y items of Inl e \<Rightarrow> Inl e | Inr ds \<Rightarrow> Inr (d # ds)))"

definition parseDirectorySequence :: "yaml_lib \<Rightarrow> yaml_node \<Rightarrow> config_error + directory list" where
  "parseDirectorySequence Y n =
     (if yn_kind n \<noteq> SequenceNode then Inl ErrConfiguration
      else case directory_entries Y (yn_content n) of
        Inl e \<Rightarrow> Inl e
      | Inr entries \<Rightarrow>
          (case ParseDirectories entries of Inl e \<Rightarrow> Inl ErrDirectoriesSetting | Inr ds \<Rightarrow> Inr ds))"

definition directoriesSetting :: "yaml_lib \<Rightarrow> yaml_node \<Rightarrow> config_error + directory list" where
  "directoriesSetting Y root =
     (case mappingValue root ''DIRECTORIES'' of None \<Rightarrow> Inr [] | Some n \<Rightarrow> parseDirectorySequence Y n)"

definition parseEnvironmentDirectories :: "yaml_lib \<Rightarrow> string \<Rightarrow> config_error + directory list" where
  "parseEnvironmentDirectories Y v =
     (if v = [] then Inr []
      else case decode_variable Y v of Inl e \<Rightarrow> Inl e | Inr n \<Rightarrow> parseDirectorySequence Y n)"

section \<open>The profile\<close>

definition warning_string :: "warning \<Rightarrow> string" where
  "warning_string w =
     (let pre = ''DIRECTORY_PROFILE'' @ (if wn_field w = [] then [] else ''.'' @ wn_field w)
      in if 0 < wn_line w then ''line '' @ show_int (wn_line w) @ '': '' @ pre @ '': '' @ wn_message w
         else pre @ '': '' @ wn_message w)"

definition list_keys :: "string list" where
  "list_keys = [''languages'', ''countries'', ''regions'', ''topics'']"

definition profileKeys :: "string list" where
  "profileKeys = [''participation_mode'', ''availability'', ''relay_type''] @ list_keys
     @ [''contact_fediverse'', ''contact_email'', ''contact_url'', ''participation_url'', ''notes'']"

fun decode_strings :: "yaml_node list \<Rightarrow> string list option" where
  "decode_strings [] = Some []"
| "decode_strings (n # ns) = (if is_string n then map_option (Cons (yn_value n)) (decode_strings ns) else None)"

definition decodeProfileStringList :: "yaml_node \<Rightarrow> string list option" where
  "decodeProfileStringList n = (if yn_kind n \<noteq> SequenceNode then None else decode_strings (yn_content n))"

definition set_profile_list :: "string \<Rightarrow> string list \<Rightarrow> relay_profile \<Rightarrow> relay_profile" where
  "set_profile_list field vs p =
     (if field = ''languages'' then p\<lparr>pr_languages := vs\<rparr>
      else if field = ''countries'' then p\<lparr>pr_countries := vs\<rparr>
      else if field = ''regions'' then p\<lparr>pr_regions := vs\<rparr>
      else p\<lparr>pr_topics := vs\<rparr>)"

definition set_profile_text :: "string \<Rightarrow> string \<Rightarrow> relay_profile \<Rightarrow> relay_profile" where
  "set_profile_text field v p =
     (if field = ''participation_mode'' then p\<lparr>pr_participation_mode := v\<rparr>
      else if field = ''availability'' then p\<lparr>pr_availability := v\<rparr>
      else if field = ''relay_type'' then p\<lparr>pr_relay_type := v\<rparr>
      else if field = ''contact_fediverse'' then p\<lparr>pr_contact_fediverse := v\<rparr>
      else if field = ''contact_email'' then p\<lparr>pr_contact_email := v\<rparr>
      else if field = ''contact_url'' then p\<lparr>pr_contact_url := v\<rparr>
      else if field = ''participation_url'' then p\<lparr>pr_participation_url := v\<rparr>
      else p\<lparr>pr_notes := v\<rparr>)"

text \<open>One pair of the mapping: the profile after it and the warning it causes.\<close>

definition profile_pair :: "yaml_node \<Rightarrow> yaml_node \<Rightarrow> relay_profile \<Rightarrow> relay_profile \<times> warning list" where
  "profile_pair key v raw =
     (let field = yn_value key;
          warn = (\<lambda>message. (raw, [\<lparr>wn_line = yn_line key, wn_field = field, wn_message = message\<rparr>]))
      in if field \<notin> set profileKeys then warn ''unknown optional profile key; field will be ignored''
         else if field \<in> set list_keys
         then (case decodeProfileStringList v of
                 None \<Rightarrow> warn ''must be a YAML list of strings; field will be omitted''
               | Some vs \<Rightarrow> (set_profile_list field vs raw, []))
         else if \<not> is_string v then warn ''must be a string; field will be omitted''
         else (set_profile_text field (yn_value v) raw, []))"

text \<open>The loop over the pairs; the last component gives the line of each field, the latest first.\<close>

fun profile_pairs ::
  "yaml_node list \<Rightarrow> relay_profile \<Rightarrow> warning list \<Rightarrow> (string \<times> int) list
    \<Rightarrow> relay_profile \<times> warning list \<times> (string \<times> int) list" where
  "profile_pairs (key # v # r) raw ws ls =
     (case profile_pair key v raw of (raw', ws') \<Rightarrow> profile_pairs r raw' (ws @ ws') ((yn_value key, yn_line v) # ls))"
| "profile_pairs _ raw ws ls = (raw, ws, ls)"

definition decodeProfileNode ::
  "(string \<Rightarrow> string option) \<Rightarrow> yaml_node \<Rightarrow> config_error + relay_profile \<times> warning list" where
  "decodeProfileNode mail n =
     (if yn_kind n \<noteq> MappingNode then Inl ErrConfiguration
      else case profile_pairs (yn_content n) empty_profile [] [] of (raw, ws, ls) \<Rightarrow>
        (case SanitizeRelayProfile mail raw of (normalized, pws) \<Rightarrow>
           Inr (normalized, ws @ map (\<lambda>pw.
             \<lparr>wn_line = (case map_of ls (pw_field pw) of Some l \<Rightarrow> l | None \<Rightarrow> 0),
              wn_field = pw_field pw, wn_message = pw_message pw\<rparr>) pws)))"

definition profileSetting ::
  "(string \<Rightarrow> string option) \<Rightarrow> yaml_node \<Rightarrow> config_error + relay_profile \<times> warning list" where
  "profileSetting mail root =
     (case mappingValue root ''DIRECTORY_PROFILE'' of None \<Rightarrow> Inr (empty_profile, []) | Some n \<Rightarrow> decodeProfileNode mail n)"

definition parseEnvironmentProfile ::
  "yaml_lib \<Rightarrow> (string \<Rightarrow> string option) \<Rightarrow> string \<Rightarrow> config_error + relay_profile \<times> warning list" where
  "parseEnvironmentProfile Y mail v =
     (if v = [] then Inr (empty_profile, [])
      else case decode_variable Y v of Inl e \<Rightarrow> Inl e | Inr n \<Rightarrow> decodeProfileNode mail n)"

section \<open>Loading\<close>

definition build ::
  "'k surroundings_c \<Rightarrow> source \<Rightarrow> string \<Rightarrow> string \<Rightarrow> string \<Rightarrow> directory list \<Rightarrow> relay_profile \<Rightarrow> bool \<Rightarrow> string
    \<Rightarrow> config_error + 'k config" where
  "build S src path actorPEM relayDomain directories prof schedulerEnabled redisURL =
     (if actorPEM = [] \<or> trim_space actorPEM \<noteq> actorPEM \<or> relayDomain = [] \<or> trim_space relayDomain \<noteq> relayDomain
      then Inl ErrConfiguration
      else case ParseOrigin (''https://'' @ relayDomain) of
        Inl e \<Rightarrow> Inl ErrConfiguration
      | Inr base \<Rightarrow>
          (case ce_key S actorPEM of
             Inl e \<Rightarrow> Inl ErrIdentity
           | Inr key \<Rightarrow>
               let actor = url_string base @ ''/actor''
               in Inr \<lparr>cf_source = src, cf_path = path, cf_directories = directories, cf_profile = prof, cf_warnings = [],
                    cf_base = url_string base, cf_actor = actor, cf_key_id = actor @ ''#main-key'', cf_key = key,
                    cf_scheduler_enabled = schedulerEnabled, cf_redis_url = redisURL\<rparr>))"

definition load_body :: "'k surroundings_c \<Rightarrow> string \<Rightarrow> string \<Rightarrow> config_error + 'k config" where
  "load_body S path body =
     bind_result (decodeYAML (ce_yaml S) body) (\<lambda>root.
     case scalarSetting root ''ACTOR_PEM'' of None \<Rightarrow> Inl ErrConfiguration | Some actorPEM \<Rightarrow>
     case scalarSetting root ''RELAY_DOMAIN'' of None \<Rightarrow> Inl ErrConfiguration | Some relayDomain \<Rightarrow>
     bind_result (directoriesSetting (ce_yaml S) root) (\<lambda>directories.
     bind_result (profileSetting (ce_mail S) root) (\<lambda>(prof, warnings).
     bind_result (boolSetting (ce_yaml S) root ''DIRECTORY_SCHEDULER_ENABLED'') (\<lambda>schedulerEnabled.
     bind_result (redis_setting root) (\<lambda>redisURL.
     if schedulerEnabled \<and> redisURL = [] then Inl ErrConfiguration
     else bind_result (build S SourceFile path actorPEM relayDomain directories prof schedulerEnabled redisURL)
       (\<lambda>c. Inr (c\<lparr>cf_warnings := warnings\<rparr>)))))))"

definition load_environment :: "'k surroundings_c \<Rightarrow> string \<Rightarrow> config_error + 'k config" where
  "load_environment S path =
     bind_result (parseEnvironmentDirectories (ce_yaml S) (ce_getenv S ''DIRECTORIES'')) (\<lambda>directories.
     bind_result (parseEnvironmentProfile (ce_yaml S) (ce_mail S) (ce_getenv S ''DIRECTORY_PROFILE'')) (\<lambda>(prof, warnings).
     bind_result (build S SourceEnvironment path (ce_getenv S ''ACTOR_PEM'') (ce_getenv S ''RELAY_DOMAIN'')
         directories prof False []) (\<lambda>c. Inr (c\<lparr>cf_warnings := warnings\<rparr>))))"

definition readRegularNoFollow :: "string \<Rightarrow> nat \<Rightarrow> sys \<Rightarrow> (config_error + string) \<times> sys" where
  "readRegularNoFollow path expected =
     then_sys (fail_as ErrConfiguration (open_nofollow path)) (\<lambda>n.
     then_sys (fail_as ErrConfiguration (fstat n)) (\<lambda>actual.
       if nd_kind actual \<noteq> RegularFile \<or> n \<noteq> expected \<or> maximumConfigBytes < int (length (nd_data actual))
       then return_sys (Inl ErrConfiguration)
       else then_sys (fail_as ErrConfiguration (read_all n)) (\<lambda>body.
         return_sys (if maximumConfigBytes < int (length body) then Inl ErrConfiguration else Inr body))))"

definition LoadConfig :: "'k surroundings_c \<Rightarrow> string \<Rightarrow> sys \<Rightarrow> (config_error + 'k config) \<times> sys" where
  "LoadConfig S path s =
     (if path = [] \<or> trim_space path \<noteq> path then (Inl ErrConfiguration, s)
      else case lstat path s of
        (Inr (n, info), s1) \<Rightarrow>
          if nd_kind info \<noteq> RegularFile then (Inl ErrConfiguration, s1)
          else then_sys (meanwhile (ce_others S)) (\<lambda>_. then_sys (readRegularNoFollow path n)
            (\<lambda>body. return_sys (load_body S path body))) s1
      | (Inl e, s1) \<Rightarrow> (if e = ENOENT then load_environment S path else Inl ErrConfiguration, s1))"

definition Directory :: "'k config \<Rightarrow> string \<Rightarrow> config_error + directory" where
  "Directory c origin =
     (case ParseOrigin origin of
        Inl e \<Rightarrow> Inl ErrConfiguration
      | Inr parsed \<Rightarrow>
          (case List.find (\<lambda>d. d_origin d = url_string parsed) (cf_directories c) of
             None \<Rightarrow> Inl ErrNotFound
           | Some d \<Rightarrow> Inr d))"

end
