(* ===== verification/Directory_Editor.thy ===== *)
theory Directory_Editor
  imports Directory_Config
begin

text \<open>
  The editor of the configuration file (\<open>internal/directoryconfig/editor.go\<close>): it disables or removes one entry
  of \<open>DIRECTORIES\<close> under a lock, with a backup, and replaces the file in one step. \<open>waits\<close> is what other
  processes do while an attempt waits for the lock, \<open>rnd\<close> the numbers of the names of temporary files. The hook
  that tests use to stop between the stages is a parameter too; \<open>DisableFile\<close> and \<open>RemoveFile\<close> pass none.
\<close>

datatype edit_action = DisableEntry | RemoveEntry
datatype write_stage = StagePrepared | StageBackupDurable | StageRenamed | StageDirectorySynced

type_synonym stage_hook = "(write_stage \<Rightarrow> bool) option"

record edit_moments =
  em_waits :: "nat \<Rightarrow> fs \<Rightarrow> fs"
  em_rnd :: "string \<Rightarrow> int \<Rightarrow> nat"

definition BackupSuffix :: string where "BackupSuffix = ''.activity-relay.bak''"

section \<open>Editing the tree\<close>

definition disabled :: "yaml_node \<Rightarrow> yaml_node" where
  "disabled v = Node ScalarNode ''!!bool'' ''false'' (yn_anchor v) (yn_line v) (yn_content v)"

fun update_pair :: "string \<Rightarrow> (yaml_node \<Rightarrow> yaml_node) \<Rightarrow> yaml_node list \<Rightarrow> yaml_node list" where
  "update_pair name g (k # v # r) = (if yn_value k = name then k # g v # r else k # v # update_pair name g r)"
| "update_pair name g ns = ns"

definition with_content :: "(yaml_node list \<Rightarrow> yaml_node list) \<Rightarrow> yaml_node \<Rightarrow> yaml_node" where
  "with_content g n = Node (yn_kind n) (yn_tag n) (yn_value n) (yn_anchor n) (yn_line n) (g (yn_content n))"

text \<open>\<open>setEnabled\<close> is only called with \<open>false\<close>.\<close>

definition setEnabled :: "yaml_node \<Rightarrow> yaml_node" where
  "setEnabled entry =
     (case mappingValue entry ''enabled'' of
        Some v \<Rightarrow> with_content (update_pair ''enabled'' disabled) entry
      | None \<Rightarrow> with_content (\<lambda>c. c @ [Node ScalarNode ''!!str'' ''enabled'' [] 0 [], Node ScalarNode ''!!bool'' ''false'' [] 0 []]) entry)"

definition has_origin :: "string \<Rightarrow> yaml_node \<Rightarrow> bool" where
  "has_origin origin item = (case mappingValue item ''origin'' of Some n \<Rightarrow> yn_value n = origin | None \<Rightarrow> False)"

definition split_entry :: "string \<Rightarrow> yaml_node list \<Rightarrow> (yaml_node list \<times> yaml_node \<times> yaml_node list) option" where
  "split_entry origin items =
     (case dropWhile (\<lambda>item. \<not> has_origin origin item) items of
        [] \<Rightarrow> None
      | item # after \<Rightarrow> Some (takeWhile (\<lambda>item. \<not> has_origin origin item) items, item, after))"

definition was_enabled :: "yaml_lib \<Rightarrow> yaml_node \<Rightarrow> bool" where
  "was_enabled Y item =
     (case mappingValue item ''enabled'' of None \<Rightarrow> False | Some n \<Rightarrow> (case yl_bool Y n of Some b \<Rightarrow> b | None \<Rightarrow> False))"

text \<open>The entry of an origin in a configuration, and the configuration after the action on it.\<close>

definition locate ::
  "yaml_lib \<Rightarrow> string \<Rightarrow> yaml_node \<Rightarrow> config_error + yaml_node list \<times> yaml_node \<times> yaml_node list" where
  "locate Y origin root =
     (case mappingValue root ''DIRECTORIES'' of
        None \<Rightarrow> Inl ErrNotFound
      | Some ds \<Rightarrow>
          if yn_kind ds \<noteq> SequenceNode then Inl ErrNotFound
          else case parseDirectorySequence Y ds of
            Inl e \<Rightarrow> Inl e
          | Inr _ \<Rightarrow> (case split_entry origin (yn_content ds) of None \<Rightarrow> Inl ErrNotFound | Some parts \<Rightarrow> Inr parts))"

definition edited_items :: "edit_action \<Rightarrow> yaml_node list \<times> yaml_node \<times> yaml_node list \<Rightarrow> yaml_node list" where
  "edited_items action parts =
     (case parts of (before, item, after) \<Rightarrow>
        (case action of DisableEntry \<Rightarrow> before @ setEnabled item # after | RemoveEntry \<Rightarrow> before @ after))"

definition edited_root ::
  "edit_action \<Rightarrow> yaml_node list \<times> yaml_node \<times> yaml_node list \<Rightarrow> yaml_node \<Rightarrow> yaml_node" where
  "edited_root action parts = with_content (update_pair ''DIRECTORIES'' (with_content (\<lambda>_. edited_items action parts)))"

section \<open>Files\<close>

definition unlock_file :: "sys \<Rightarrow> unit result \<times> sys" where
  "unlock_file s = close_file (snd (syscall (\<lambda>f. (Inr (), f)) s))"

definition regularFileExists :: "string \<Rightarrow> sys \<Rightarrow> bool \<times> sys" where
  "regularFileExists path s =
     (case lstat path s of (Inr (_, info), s1) \<Rightarrow> (nd_kind info = RegularFile, s1) | (Inl e, s1) \<Rightarrow> (False, s1))"

text \<open>The snapshot that a locked file of the right kind and size gives.\<close>

definition read_locked :: "nat \<Rightarrow> node \<Rightarrow> sys \<Rightarrow> (config_error + nat \<times> node \<times> string) \<times> sys" where
  "read_locked n info s =
     (if maximumConfigBytes < int (length (nd_data info)) then (Inl ErrConfiguration, snd (unlock_file s))
      else case read_all n s of
        (Inl e, s1) \<Rightarrow> (Inl ErrConfiguration, snd (unlock_file s1))
      | (Inr body, s1) \<Rightarrow>
          if maximumConfigBytes < int (length body) then (Inl ErrConfiguration, snd (unlock_file s1))
          else (Inr (n, info, body), s1))"

fun open_attempts ::
  "(nat \<Rightarrow> fs \<Rightarrow> fs) \<Rightarrow> string \<Rightarrow> nat \<Rightarrow> sys \<Rightarrow> (config_error + nat \<times> node \<times> string) \<times> sys" where
  "open_attempts waits path 0 s = (Inl ErrConfiguration, s)"
| "open_attempts waits path (Suc k) s =
     (case open_nofollow path s of
        (Inl e, s1) \<Rightarrow> (Inl ErrConfiguration, s1)
      | (Inr n, s1) \<Rightarrow>
          (case flock (waits k) s1 of
             (Inl e, s2) \<Rightarrow> (Inl ErrConfiguration, snd (close_file s2))
           | (Inr _, s2) \<Rightarrow>
               (case fstat n s2 of (opened, s3) \<Rightarrow>
                case lstat path s3 of (current, s4) \<Rightarrow>
                  (case (opened, current) of
                     (Inr info, Inr (m, there)) \<Rightarrow>
                       if nd_kind info = RegularFile \<and> nd_kind there = RegularFile \<and> n = m then read_locked n info s4
                       else open_attempts waits path k (snd (unlock_file s4))
                   | _ \<Rightarrow> open_attempts waits path k (snd (unlock_file s4))))))"

definition openLockedSnapshot ::
  "(nat \<Rightarrow> fs \<Rightarrow> fs) \<Rightarrow> string \<Rightarrow> sys \<Rightarrow> (config_error + nat \<times> node \<times> string) \<times> sys" where
  "openLockedSnapshot waits path s = open_attempts waits path 4 s"

definition fill_temp :: "nat \<Rightarrow> string \<Rightarrow> node \<Rightarrow> sys \<Rightarrow> unit result \<times> sys" where
  "fill_temp n body info =
     then_sys (write_all n body) (\<lambda>_. then_sys (fchown n (nd_owner info)) (\<lambda>_. then_sys (fchmod n (nd_mode info)) (\<lambda>_.
     then_sys (fsync n) (\<lambda>_. close_file))))"

definition writeSyncedTemp ::
  "(string \<Rightarrow> int \<Rightarrow> nat) \<Rightarrow> string \<Rightarrow> string \<Rightarrow> string \<Rightarrow> node \<Rightarrow> sys \<Rightarrow> string result \<times> sys" where
  "writeSyncedTemp rnd dir base body info =
     then_sys (create_temp (rnd base) dir (''.'' @ base @ ''.tmp-'') 0) (\<lambda>(path, n) s.
       case fill_temp n body info s of
         (Inl e, s1) \<Rightarrow> (Inl e, snd (remove_file path (snd (close_file s1))))
       | (Inr _, s1) \<Rightarrow> (Inr path, snd (close_file s1)))"

definition syncDirectory :: "sys \<Rightarrow> unit result \<times> sys" where
  "syncDirectory = sync_names"

definition runStageHook :: "stage_hook \<Rightarrow> write_stage \<Rightarrow> sys \<Rightarrow> (config_error + unit) \<times> sys" where
  "runStageHook hook stage =
     return_sys (case hook of None \<Rightarrow> Inr () | Some h \<Rightarrow> if h stage then Inl ErrConfiguration else Inr ())"

text \<open>The end of \<open>atomicReplace\<close>, from the check that the file is still the one that was read.\<close>

definition swap_in ::
  "stage_hook \<Rightarrow> string \<Rightarrow> string \<Rightarrow> nat \<Rightarrow> sys \<Rightarrow> (config_error + unit) \<times> sys" where
  "swap_in hook temp path n =
     then_sys (fail_as ErrConfiguration (lstat path)) (\<lambda>(m, current).
       if nd_kind current \<noteq> RegularFile \<or> m \<noteq> n then return_sys (Inl ErrConfiguration)
       else then_sys (fail_as ErrConfiguration (rename_file temp path)) (\<lambda>_.
         then_sys (runStageHook hook StageRenamed) (\<lambda>_.
         then_sys (fail_as ErrConfiguration syncDirectory) (\<lambda>_. runStageHook hook StageDirectorySynced))))"

text \<open>The backup: its temporary file is removed, when it still has its name, at the end of \<open>rest\<close>.\<close>

definition with_backup ::
  "(string \<Rightarrow> int \<Rightarrow> nat) \<Rightarrow> string \<Rightarrow> string \<Rightarrow> string \<Rightarrow> node \<Rightarrow> (sys \<Rightarrow> (config_error + unit) \<times> sys)
    \<Rightarrow> sys \<Rightarrow> (config_error + unit) \<times> sys" where
  "with_backup rnd dir backup original info rest =
     then_sys (fail_as ErrConfiguration (writeSyncedTemp rnd dir (filepath_base backup) original info)) (\<lambda>temp.
       deferring (remove_file temp)
         (then_sys (fail_as ErrConfiguration (rename_file temp backup)) (\<lambda>_.
          then_sys (fail_as ErrConfiguration syncDirectory) (\<lambda>_. rest))))"

definition atomicReplace ::
  "(string \<Rightarrow> int \<Rightarrow> nat) \<Rightarrow> stage_hook \<Rightarrow> string \<Rightarrow> string \<Rightarrow> string \<Rightarrow> string \<Rightarrow> nat \<times> node \<Rightarrow> bool
    \<Rightarrow> sys \<Rightarrow> (config_error + unit) \<times> sys" where
  "atomicReplace rnd hook path backup original replacement file preserveBackup =
     (let dir = filepath_dir path; info = snd file
      in then_sys (fail_as ErrConfiguration (writeSyncedTemp rnd dir (filepath_base path) replacement info)) (\<lambda>temp.
           deferring (remove_file temp)
             (then_sys (runStageHook hook StagePrepared) (\<lambda>_ s.
                let rest = then_sys (runStageHook hook StageBackupDurable) (\<lambda>_. swap_in hook temp path (fst file));
                    (keep, s1) = (if preserveBackup then regularFileExists backup s else (False, s))
                in if keep then rest s1 else with_backup rnd dir backup original info rest s1))))"

section \<open>The editor\<close>

definition replace_entry ::
  "yaml_lib \<Rightarrow> edit_moments \<Rightarrow> stage_hook \<Rightarrow> string \<Rightarrow> edit_action \<Rightarrow> bool \<Rightarrow> nat \<times> node \<Rightarrow> string
    \<Rightarrow> yaml_node list \<times> yaml_node \<times> yaml_node list \<Rightarrow> yaml_node \<Rightarrow> sys \<Rightarrow> (config_error + string) \<times> sys" where
  "replace_entry Y M hook path action preserve file original parts root =
     (case yl_encode Y (edited_root action parts root) of
        None \<Rightarrow> return_sys (Inl ErrConfiguration)
      | Some encoded \<Rightarrow>
          let backup = path @ BackupSuffix
          in then_sys (atomicReplace (em_rnd M) hook path backup original encoded file preserve)
               (\<lambda>_. return_sys (Inr backup)))"

definition edit_locked ::
  "yaml_lib \<Rightarrow> edit_moments \<Rightarrow> stage_hook \<Rightarrow> string \<Rightarrow> string \<Rightarrow> edit_action \<Rightarrow> bool \<Rightarrow> nat \<times> node \<times> string
    \<Rightarrow> sys \<Rightarrow> (config_error + string) \<times> sys" where
  "edit_locked Y M hook path origin action preserveBackup snapshot s =
     (case snapshot of (n, info, original) \<Rightarrow>
        (case bind_result (decodeYAML Y original) (\<lambda>root. bind_result (locate Y origin root) (\<lambda>parts. Inr (root, parts))) of
           Inl e \<Rightarrow> (Inl e, s)
         | Inr (root, parts) \<Rightarrow>
             let asleep = (action = DisableEntry \<and> \<not> was_enabled Y (fst (snd parts)));
                 (settled, s1) = (if asleep then regularFileExists (path @ BackupSuffix) s else (False, s))
             in if settled then (Inr (path @ BackupSuffix), s1)
                else replace_entry Y M hook path action (preserveBackup \<or> asleep) (n, info) original parts root s1))"

definition editFile ::
  "yaml_lib \<Rightarrow> edit_moments \<Rightarrow> string \<Rightarrow> string \<Rightarrow> edit_action \<Rightarrow> bool \<Rightarrow> stage_hook \<Rightarrow> sys
    \<Rightarrow> (config_error + string) \<times> sys" where
  "editFile Y M path origin action preserveBackup hook s =
     (case ParseOrigin origin of
        Inl e \<Rightarrow> (Inl ErrConfiguration, s)
      | Inr parsed \<Rightarrow>
          then_sys (openLockedSnapshot (em_waits M) path)
            (\<lambda>snapshot. deferring unlock_file (edit_locked Y M hook path (url_string parsed) action preserveBackup snapshot)) s)"

definition DisableFile :: "yaml_lib \<Rightarrow> edit_moments \<Rightarrow> string \<Rightarrow> string \<Rightarrow> sys \<Rightarrow> (config_error + string) \<times> sys" where
  "DisableFile Y M path origin = editFile Y M path origin DisableEntry False None"

definition RemoveFile :: "yaml_lib \<Rightarrow> edit_moments \<Rightarrow> string \<Rightarrow> string \<Rightarrow> sys \<Rightarrow> (config_error + string) \<times> sys" where
  "RemoveFile Y M path origin = editFile Y M path origin RemoveEntry True None"

end
