(* ===== verification/Go_Files_Facts.thy ===== *)
theory Go_Files_Facts
  imports Go_Files
begin

text \<open>
  Reasoning about programs on files. \<open>triple T P m Q E\<close> says that \<open>m\<close>, started where \<open>P\<close> holds, ends where \<open>Q\<close> (with
  its result) or, after a failure, \<open>E\<close> holds, and that every file system on the way satisfies \<open>T\<close>. The
  assertions used with it are \<open>world D C\<close>: the names in \<open>D\<close> point to the given nodes (or nowhere) in all
  versions that a crash may leave, those in \<open>C\<close> do now. The rules give the effect of each call on such a world.
\<close>

section \<open>Triples\<close>

definition triple ::
  "(fs \<Rightarrow> bool) \<Rightarrow> (fs \<Rightarrow> bool) \<Rightarrow> (sys \<Rightarrow> ('e + 'a) \<times> sys) \<Rightarrow> ('a \<Rightarrow> fs \<Rightarrow> bool) \<Rightarrow> (fs \<Rightarrow> bool) \<Rightarrow> bool" where
  "triple T P m Q E \<longleftrightarrow>
     (\<forall>s r s'. P (sy_fs s) \<and> list_all T (sy_trace s) \<and> m s = (r, s') \<longrightarrow>
        list_all T (sy_trace s') \<and> (case r of Inr x \<Rightarrow> Q x (sy_fs s') | Inl _ \<Rightarrow> E (sy_fs s')))"

lemma tripleI:
  assumes "\<And>s r s'. \<lbrakk>P (sy_fs s); list_all T (sy_trace s); m s = (r, s')\<rbrakk> \<Longrightarrow>
      list_all T (sy_trace s') \<and> (case r of Inr x \<Rightarrow> Q x (sy_fs s') | Inl _ \<Rightarrow> E (sy_fs s'))"
  shows "triple T P m Q E"
  using assms by (auto simp: triple_def)

lemma tripleD:
  assumes "triple T P m Q E" and "P (sy_fs s)" and "list_all T (sy_trace s)" and "m s = (r, s')"
  shows "list_all T (sy_trace s')" and "case r of Inr x \<Rightarrow> Q x (sy_fs s') | Inl _ \<Rightarrow> E (sy_fs s')"
  using assms unfolding triple_def by blast+

lemma triple_conseq:
  assumes "triple T P' m Q' E'" and "\<And>f. P f \<Longrightarrow> P' f" and "\<And>x f. Q' x f \<Longrightarrow> Q x f" and "\<And>f. E' f \<Longrightarrow> E f"
  shows "triple T P m Q E"
proof (rule tripleI)
  fix s r s' assume P: "P (sy_fs s)" and T: "list_all T (sy_trace s)" and run: "m s = (r, s')"
  show "list_all T (sy_trace s') \<and> (case r of Inr x \<Rightarrow> Q x (sy_fs s') | Inl _ \<Rightarrow> E (sy_fs s'))"
    using tripleD [OF assms(1) assms(2) [OF P] T run] assms(3,4) by (cases r) auto
qed

text \<open>Two ways to a precondition, and facts that do not depend on the file system.\<close>

lemma triple_pure:
  assumes "\<And>x. R x \<Longrightarrow> triple T (P x) m Q E"
  shows "triple T (\<lambda>f. \<exists>x. R x \<and> P x f) m Q E"
  using assms unfolding triple_def by blast

lemma triple_syscall:
  assumes "\<And>f r f'. P f \<Longrightarrow> eff f = (r, f') \<Longrightarrow> T f' \<and> (case r of Inr x \<Rightarrow> Q x f' | Inl _ \<Rightarrow> E f')"
    and "\<And>f. P f \<Longrightarrow> E f"
  shows "triple T P (syscall eff) Q E"
proof (rule tripleI)
  fix s r s' assume P: "P (sy_fs s)" and T: "list_all T (sy_trace s)" and run: "syscall eff s = (r, s')"
  obtain q f where eff: "eff (sy_fs s) = (q, f)" by (cases "eff (sy_fs s)")
  from run eff consider "r = Inl EIO" "sy_fs s' = sy_fs s" "sy_trace s' = sy_trace s"
    | "r = q" "sy_fs s' = f" "sy_trace s' = f # sy_trace s"
    by (auto simp: syscall_def split: list.splits bool.splits)
  then show "list_all T (sy_trace s') \<and> (case r of Inr x \<Rightarrow> Q x (sy_fs s') | Inl _ \<Rightarrow> E (sy_fs s'))"
  proof cases
    case 1
    then show ?thesis using assms(2) [OF P] T by simp
  next
    case 2
    then show ?thesis using assms(1) [OF P eff] T by (cases q) auto
  qed
qed

lemma triple_return:
  assumes "\<And>f. P f \<Longrightarrow> (case r of Inr x \<Rightarrow> Q x f | Inl _ \<Rightarrow> E f)"
  shows "triple T P (return_sys r) Q E"
  using assms by (auto simp: triple_def return_sys_def)

lemma triple_then:
  assumes "triple T P m R E" and "\<And>x. triple T (R x) (g x) Q E"
  shows "triple T P (then_sys m g) Q E"
proof (rule tripleI)
  fix s r s' assume P: "P (sy_fs s)" and T: "list_all T (sy_trace s)" and run: "then_sys m g s = (r, s')"
  obtain q s1 where m: "m s = (q, s1)" by (cases "m s")
  show "list_all T (sy_trace s') \<and> (case r of Inr x \<Rightarrow> Q x (sy_fs s') | Inl _ \<Rightarrow> E (sy_fs s'))"
  proof (cases q)
    case (Inl e)
    then show ?thesis using run m tripleD [OF assms(1) P T m] by (auto simp: then_sys_def)
  next
    case (Inr x)
    then have "g x s1 = (r, s')" and "R x (sy_fs s1)" using run m tripleD(2) [OF assms(1) P T m] by (simp_all add: then_sys_def)
    then show ?thesis using tripleD [OF assms(2)] tripleD(1) [OF assms(1) P T m] by blast
  qed
qed

lemma triple_fail_as:
  assumes "triple T P m Q E"
  shows "triple T P (fail_as e m) Q E"
proof (rule tripleI)
  fix s r s' assume P: "P (sy_fs s)" and T: "list_all T (sy_trace s)" and run: "fail_as e m s = (r, s')"
  obtain q s1 where m: "m s = (q, s1)" by (cases "m s")
  show "list_all T (sy_trace s') \<and> (case r of Inr x \<Rightarrow> Q x (sy_fs s') | Inl _ \<Rightarrow> E (sy_fs s'))"
    using tripleD [OF assms P T m] run m by (cases q) (auto simp: fail_as_def)
qed

text \<open>A deferred call keeps what the body established.\<close>

lemma triple_deferring:
  assumes "triple T P m Q E" and "\<And>x. triple T (Q x) c (\<lambda>_. Q' x) (Q' x)" and "triple T E c (\<lambda>_. E') E'"
  shows "triple T P (deferring c m) Q' E'"
proof (rule tripleI)
  fix s r s' assume P: "P (sy_fs s)" and T: "list_all T (sy_trace s)" and run: "deferring c m s = (r, s')"
  obtain q s1 where m: "m s = (q, s1)" by (cases "m s")
  obtain z s2 where c: "c s1 = (z, s2)" by (cases "c s1")
  have eq: "r = q" "s' = s2" using run m c by (simp_all add: deferring_def)
  note body = tripleD [OF assms(1) P T m]
  show "list_all T (sy_trace s') \<and> (case r of Inr x \<Rightarrow> Q' x (sy_fs s') | Inl _ \<Rightarrow> E' (sy_fs s'))"
  proof (cases q)
    case (Inl e)
    then show ?thesis using tripleD [OF assms(3) _ body(1) c] body(2) eq by (cases z) auto
  next
    case (Inr x)
    then show ?thesis using tripleD [OF assms(2) _ body(1) c] body(2) eq by (cases z) auto
  qed
qed

text \<open>The same for a call whose result is ignored in place.\<close>

lemma triple_snd:
  assumes "triple T P m (\<lambda>_. Q) Q" and "P (sy_fs s)" and "list_all T (sy_trace s)"
  shows "Q (sy_fs (snd (m s)))" and "list_all T (sy_trace (snd (m s)))"
  using tripleD [OF assms, of "fst (m s)" "snd (m s)"] by (auto split: sum.splits)

section \<open>Worlds\<close>

type_synonym binding = "string \<times> (nat \<times> node) option"

definition stored :: "fs \<Rightarrow> (nat \<times> node) option \<Rightarrow> bool" where
  "stored f l = (case l of None \<Rightarrow> True | Some (n, x) \<Rightarrow> map_of (fs_nodes f) n = Some x)"

definition world :: "binding list \<Rightarrow> binding list \<Rightarrow> fs \<Rightarrow> bool" where
  "world D C f \<longleftrightarrow> fs_names f \<in> set (fs_versions f)
     \<and> (\<forall>(p, l) \<in> set D. (\<forall>v \<in> set (fs_versions f). map_of v p = map_option fst l) \<and> stored f l)
     \<and> (\<forall>(p, l) \<in> set C. map_of (fs_names f) p = map_option fst l \<and> stored f l)"

definition numbers :: "binding list \<Rightarrow> nat set" where
  "numbers B = {n. \<exists>p x. (p, Some (n, x)) \<in> set B}"

lemma world_iff:
  "world D C f \<longleftrightarrow> fs_names f \<in> set (fs_versions f)
     \<and> (\<forall>p l v. (p, l) \<in> set D \<and> v \<in> set (fs_versions f) \<longrightarrow> map_of v p = map_option fst l)
     \<and> (\<forall>p l. (p, l) \<in> set C \<longrightarrow> map_of (fs_names f) p = map_option fst l)
     \<and> (\<forall>p l. (p, l) \<in> set D \<union> set C \<longrightarrow> stored f l)"
  unfolding world_def by auto

lemma world_durable:
  assumes "world D C f" and "(p, l) \<in> set D" and "v \<in> set (fs_versions f)"
  shows "map_of v p = map_option fst l" and "stored f l"
  using assms unfolding world_iff by blast+

lemma world_current:
  assumes "world D C f" and "(p, l) \<in> set D \<union> set C"
  shows "map_of (fs_names f) p = map_option fst l" and "stored f l"
  using assms unfolding world_iff by blast+

lemma world_sub:
  assumes "world D C f" and "set D' \<subseteq> set D" and "set C' \<subseteq> set D \<union> set C"
  shows "world D' C' f"
  using assms unfolding world_iff by (meson UnE UnI1 UnI2 subsetD)

lemma map_of_remove_name [simp]: "map_of (remove_name p ns) q = (if q = p then None else map_of ns q)"
  by (induction ns) (auto simp: remove_name_def)

lemma le_foldr_max: "x \<in> set xs \<Longrightarrow> x \<le> foldr max xs (0 :: nat)"
  by (induction xs) (auto simp: le_max_iff_disj)

lemma fresh_node_new:
  assumes "map_of (fs_nodes f) n = Some x"
  shows "n < fresh_node f"
proof -
  have "n \<in> fst ` set (fs_nodes f)" using map_of_SomeD [OF assms] by force
  then have "n \<in> set (map fst (fs_nodes f) @ map snd (fs_names f) @ concat (map (map snd) (fs_versions f)))" by simp
  from le_foldr_max [OF this] show ?thesis by (simp only: fresh_node_def less_Suc_eq_le)
qed

lemma stored_set_names [simp]: "stored (set_names names f) l = stored f l"
  by (simp add: stored_def set_names_def split: option.splits)

lemma set_names_simps [simp]:
  "fs_names (set_names names f) = names" "fs_versions (set_names names f) = names # fs_versions f"
  "fs_nodes (set_names names f) = fs_nodes f"
  by (simp_all add: set_names_def)

lemma stored_versions [simp]: "stored (f\<lparr>fs_versions := vs\<rparr>) l = stored f l"
  by (simp add: stored_def split: option.splits)

text \<open>New names and other nodes leave a world as it is.\<close>

lemma world_rename:
  assumes w: "world D C f" and same: "\<And>p l. (p, l) \<in> set D \<union> set C \<Longrightarrow> map_of names p = map_of (fs_names f) p"
  shows "world D C (set_names names f)"
proof -
  have "map_of names p = map_option fst l" if "(p, l) \<in> set D \<union> set C" for p l
    using same [OF that] world_current(1) [OF w that] by simp
  then show ?thesis using w unfolding world_iff stored_set_names by (simp add: set_names_def) blast
qed

lemma world_nodes:
  assumes w: "world D C f" and same: "\<And>n. n \<in> numbers (D @ C) \<Longrightarrow> map_of nodes n = map_of (fs_nodes f) n"
  shows "world D C (f\<lparr>fs_nodes := nodes\<rparr>)"
proof -
  have "stored (f\<lparr>fs_nodes := nodes\<rparr>) l" if "(p, l) \<in> set D \<union> set C" for p l
  proof (cases l)
    case (Some nx)
    then have "fst nx \<in> numbers (D @ C)" using that by (cases nx) (auto simp: numbers_def)
    then show ?thesis using same world_current(2) [OF w that] Some by (cases nx) (simp add: stored_def)
  qed (simp add: stored_def)
  then show ?thesis using w unfolding world_iff by simp
qed

section \<open>Calls\<close>

text \<open>A file that the program has just created: not yet part of the world.\<close>

definition holding :: "binding list \<Rightarrow> binding list \<Rightarrow> string \<Rightarrow> nat \<Rightarrow> (node \<Rightarrow> bool) \<Rightarrow> fs \<Rightarrow> bool" where
  "holding D C t n \<phi> f \<longleftrightarrow> world D C f \<and> map_of (fs_names f) t = Some n \<and> n \<notin> numbers (D @ C)
     \<and> t \<notin> fst ` (set D \<union> set C) \<and> (\<exists>x. map_of (fs_nodes f) n = Some x \<and> nd_kind x = RegularFile \<and> \<phi> x)"

definition durable :: "node \<Rightarrow> string \<Rightarrow> bool" where
  "durable x body \<longleftrightarrow> nd_kind x = RegularFile \<and> nd_synced x \<and> nd_data x = body"

lemma holding_world: "holding D C t n \<phi> f \<Longrightarrow> world D C f"
  by (simp add: holding_def)

lemma holding_mono: "holding D C t n \<phi> f \<Longrightarrow> (\<And>x. \<phi> x \<Longrightarrow> \<psi> x) \<Longrightarrow> holding D C t n \<psi> f"
  by (auto simp: holding_def)

lemma triple_read:
  assumes "\<And>f. P f \<Longrightarrow> T f \<and> E f \<and> (case r f of Inr x \<Rightarrow> Q x f | Inl _ \<Rightarrow> True)"
  shows "triple T P (syscall (\<lambda>f. (r f, f))) Q E"
  by (rule triple_syscall) (use assms in \<open>force split: sum.splits\<close>)+

lemma world_create:
  assumes "world D C f" and "lookup_node f t = None" and "(t, None) \<notin> set D \<union> set C"
    and "nd_kind x = RegularFile"
  shows "holding D C t (fresh_node f) (\<lambda>_. True)
           (set_names ((t, fresh_node f) # fs_names f) (f\<lparr>fs_nodes := (fresh_node f, x) # fs_nodes f\<rparr>))"
proof -
  have "n \<noteq> fresh_node f" if n: "n \<in> numbers (D @ C)" for n
  proof -
    obtain p y where "(p, Some (n, y)) \<in> set D \<union> set C" using n by (auto simp: numbers_def)
    from world_current(2) [OF assms(1) this] show ?thesis by (auto simp: stored_def dest: fresh_node_new)
  qed
  moreover have other: "p \<noteq> t" if "(p, l) \<in> set D \<union> set C" for p l
    using world_current(1) [OF assms(1) that] assms(2,3) that by (cases l) (auto simp: lookup_node_def)
  ultimately have "world D C (f\<lparr>fs_nodes := (fresh_node f, x) # fs_nodes f\<rparr>)" and "fresh_node f \<notin> numbers (D @ C)"
    using world_nodes [OF assms(1)] by auto
  then show ?thesis using other assms(4) by (auto simp: holding_def set_names_def [symmetric] intro!: world_rename)
    (auto simp: set_names_def)
qed

lemma create_excl_triple:
  assumes "\<And>f. world D C f \<Longrightarrow> T f" and "(t, None) \<notin> set D \<union> set C"
  shows "triple T (world D C) (create_excl t) (\<lambda>n. holding D C t n (\<lambda>_. True)) (world D C)"
  unfolding create_excl_def
  by (rule triple_syscall)
    (use world_create [OF _ _ assms(2)] assms(1) world_create [OF _ _ assms(2), THEN holding_world] in \<open>auto simp: Let_def split: if_splits\<close>)

definition temporary :: "string \<Rightarrow> bool" where
  "temporary t \<longleftrightarrow> t \<noteq> [] \<and> is_digit (last t)"

lemma temporary_temp_name: "temporary (temp_name dir pattern r)"
  using show_nat_digits [of r] show_nat_not_Nil [of r]
  by (auto simp: temporary_def temp_name_def list_all_iff)

lemma create_temp_triple:
  assumes "\<And>f. world D C f \<Longrightarrow> T f" and "\<And>p. temporary p \<Longrightarrow> (p, None) \<notin> set D \<union> set C"
  shows "triple T (world D C) (create_temp rnd dir pattern k)
    (\<lambda>(t, n) f. temporary t \<and> holding D C t n (\<lambda>_. True) f) (world D C)"
proof (rule tripleI)
  have excl: "triple T (world D C) (create_excl (temp_name d pat r))
      (\<lambda>n. holding D C (temp_name d pat r) n (\<lambda>_. True)) (world D C)" for d pat r
    by (rule create_excl_triple [OF assms(1) assms(2) [OF temporary_temp_name]])
  fix s r s'
  show "world D C (sy_fs s) \<Longrightarrow> list_all T (sy_trace s) \<Longrightarrow> create_temp rnd dir pattern k s = (r, s') \<Longrightarrow>
    list_all T (sy_trace s') \<and> (case r of Inr x \<Rightarrow> (case x of (t, n) \<Rightarrow> \<lambda>f. temporary t \<and> holding D C t n (\<lambda>_. True) f) (sy_fs s')
      | Inl _ \<Rightarrow> world D C (sy_fs s'))"
  proof (induction rnd dir pattern k s arbitrary: r s' rule: create_temp.induct)
    case (1 rnd dir pattern k s)
    obtain q s1 where call: "create_excl (temp_name dir pattern (rnd k)) s = (q, s1)" by fastforce
    note step = tripleD [OF excl 1(2,3) call]
    show ?case
    proof (cases "10000 \<le> k")
      case True
      then show ?thesis using 1 by (auto simp: create_temp.simps [of rnd dir pattern k])
    next
      case False
      then show ?thesis using 1 call step temporary_temp_name [of dir pattern "rnd k"]
        by (cases q) (auto simp: create_temp.simps [of rnd dir pattern k] split: if_splits)
    qed
  qed
qed

lemma update_node_holding:
  assumes h: "holding D C t n \<phi> f" and g: "\<And>x. \<phi> x \<Longrightarrow> \<psi> (g x)" and kind: "\<And>x. nd_kind (g x) = nd_kind x"
  shows "holding D C t n \<psi> (update_node n g f)"
proof -
  obtain x where x: "map_of (fs_nodes f) n = Some x" "nd_kind x = RegularFile" "\<phi> x" and new: "n \<notin> numbers (D @ C)"
    using h by (auto simp: holding_def)
  have "world D C (f\<lparr>fs_nodes := (n, g x) # fs_nodes f\<rparr>)"
    by (rule world_nodes [OF holding_world [OF h]]) (use new in auto)
  then show ?thesis using h x g kind by (auto simp: holding_def update_node_def)
qed

lemma update_triple:
  assumes "\<And>f. world D C f \<Longrightarrow> T f" and "\<And>x. \<phi> x \<Longrightarrow> \<psi> (g x)" and "\<And>x. nd_kind (g x) = nd_kind x"
  shows "triple T (holding D C t n \<phi>) (syscall (\<lambda>f. (Inr (), update_node n g f))) (\<lambda>_. holding D C t n \<psi>)
    (holding D C t n (\<lambda>_. True))"
proof (rule triple_syscall)
  fix f r f' assume h: "holding D C t n \<phi> f" and run: "(Inr (), update_node n g f) = (r :: unit result, f')"
  have "holding D C t n \<psi> (update_node n g f)" by (rule update_node_holding [OF h]) (use assms in auto)
  then show "T f' \<and> (case r of Inr _ \<Rightarrow> holding D C t n \<psi> f' | Inl _ \<Rightarrow> holding D C t n (\<lambda>_. True) f')"
    using run assms(1) holding_world by auto
qed (auto elim: holding_mono)

lemma close_triple: "(\<And>f. P f \<Longrightarrow> T f) \<Longrightarrow> (\<And>f. P f \<Longrightarrow> E f) \<Longrightarrow> triple T P close_file (\<lambda>_. P) E"
  unfolding close_file_def by (rule triple_read) auto

lemma remove_triple:
  assumes T: "\<And>f. world D C f \<Longrightarrow> T f" and free: "t \<notin> fst ` (set D \<union> set C)"
  shows "triple T (world D C) (remove_file t) (\<lambda>_. world D C) (world D C)"
  unfolding remove_file_def
proof (rule triple_syscall)
  fix f r f'
  assume w: "world D C f"
    and run: "(if lookup_node f t = None then (Inl ENOENT, f) else (Inr (), set_names (remove_name t (fs_names f)) f)) = (r, f')"
  have "world D C (set_names (remove_name t (fs_names f)) f)" by (rule world_rename [OF w]) (use free in force)
  then have "world D C f'" using w run by (auto split: if_splits)
  then show "T f' \<and> (case r of Inr _ \<Rightarrow> world D C f' | Inl _ \<Rightarrow> world D C f')" using T by (simp split: sum.splits)
qed

lemma world_rename_to:
  assumes w: "world D ((t, Some nx) # C) f" and free: "t \<notin> fst ` (set D \<union> set C)" "dst \<notin> fst ` (set D \<union> set C)"
  shows "world D ((dst, Some nx) # C) (set_names ((dst, fst nx) # remove_name dst (remove_name t (fs_names f))) f)"
proof -
  let ?names = "(dst, fst nx) # remove_name dst (remove_name t (fs_names f))"
  have "world D C (set_names ?names f)"
    by (rule world_rename [OF world_sub [OF w]]) (use free in force)+
  moreover have "stored f (Some nx)" by (rule world_current(2) [OF w]) auto
  ultimately show ?thesis by (auto simp: world_iff)
qed

lemma rename_triple:
  assumes T: "\<And>f. world D C f \<Longrightarrow> T f" and free: "t \<notin> fst ` (set D \<union> set C)" "dst \<notin> fst ` (set D \<union> set C)"
  shows "triple T (world D ((t, Some nx) # C)) (rename_file t dst) (\<lambda>_. world D ((dst, Some nx) # C))
    (world D ((t, Some nx) # C))"
  unfolding rename_file_def
proof (rule triple_syscall)
  fix f r f'
  assume w: "world D ((t, Some nx) # C) f"
    and run: "(case lookup_node f t of None \<Rightarrow> (Inl ENOENT, f)
        | Some n \<Rightarrow> (case Option.bind (lookup_node f dst) (map_of (fs_nodes f)) of
            Some x \<Rightarrow> if nd_kind x = DirectoryNode then (Inl EEXIST, f)
              else (Inr (), set_names ((dst, n) # remove_name dst (remove_name t (fs_names f))) f)
          | None \<Rightarrow> (Inr (), set_names ((dst, n) # remove_name dst (remove_name t (fs_names f))) f))) = (r, f')"
  have "lookup_node f t = Some (fst nx)" using world_current(1) [OF w, of t "Some nx"] by (simp add: lookup_node_def)
  then consider "isl r" "f' = f"
    | "\<not> isl r" "f' = set_names ((dst, fst nx) # remove_name dst (remove_name t (fs_names f))) f"
    using run by (auto split: option.splits if_splits)
  then have "if isl r then world D ((t, Some nx) # C) f' else world D ((dst, Some nx) # C) f'"
    by cases (use w world_rename_to [OF w free] in simp_all)
  moreover have "world D (b # C) g \<Longrightarrow> T g" for b g by (rule T, erule world_sub) auto
  ultimately show "T f' \<and> (case r of Inr _ \<Rightarrow> world D ((dst, Some nx) # C) f' | Inl _ \<Rightarrow> world D ((t, Some nx) # C) f')"
    by (cases r) auto
qed simp

lemma sync_triple:
  assumes T: "\<And>f. world D C f \<Longrightarrow> T f"
  shows "triple T (world D C) sync_names (\<lambda>_ f. world (C @ D) [] f \<and> fs_versions f = [fs_names f]) (world D C)"
  unfolding sync_names_def
proof (rule triple_then [where R = "\<lambda>_. world D C"])
  show "triple T (world D C) (syscall (\<lambda>f. (Inr (), f))) (\<lambda>_. world D C) (world D C)" by (rule triple_read) (use T in simp)
  show "triple T (world D C) (syscall (\<lambda>f. (Inr (), f\<lparr>fs_versions := [fs_names f]\<rparr>)))
      (\<lambda>_ f. world (C @ D) [] f \<and> fs_versions f = [fs_names f]) (world D C)" for x :: unit
  proof (rule triple_syscall)
    fix f r f' assume w: "world D C f" and run: "(Inr (), f\<lparr>fs_versions := [fs_names f]\<rparr>) = (r, f')"
    have "world (C @ D) [] f'" using w run world_current(1) [OF w] unfolding world_iff by auto
    moreover from this have "world D C f'" by (rule world_sub) auto
    ultimately show "T f' \<and> (case r of Inr _ \<Rightarrow> world (C @ D) [] f' \<and> fs_versions f' = [fs_names f'] | Inl _ \<Rightarrow> world D C f')"
      using T run by auto
  qed simp
qed

end
