(* ===== verification/Directory_Editor_Facts.thy ===== *)
theory Directory_Editor_Facts
  imports Directory_Editor Go_Files_Facts
begin

text \<open>
  Crash safety of the configuration editor. The record \<open>swap\<close> names one replacement: the path, the file found
  there and its node, the text that replaces it, and the texts the backup may hold. \<open>Before\<close>, \<open>Swapped\<close> and \<open>Final\<close>
  are the assertions for the three phases: the old file is at the path in every version a crash may leave, the
  new one is there in some, and in all of them.
\<close>

section \<open>Phases\<close>

record swap =
  sw_path :: string
  sw_file :: "nat \<times> node"
  sw_new :: "string option"
  sw_keeps :: "string \<Rightarrow> bool"

definition sw_backup :: "swap \<Rightarrow> string" where
  "sw_backup W = sw_path W @ BackupSuffix"

definition sw_old :: "swap \<Rightarrow> string" where
  "sw_old W = nd_data (snd (sw_file W))"

text \<open>What every point of an edit satisfies: after a crash the path holds the old text, or the new one with a backup beside it.\<close>

definition crash_safe :: "swap \<Rightarrow> fs \<Rightarrow> bool" where
  "crash_safe W f \<longleftrightarrow> (\<forall>v \<in> set (fs_versions f).
     crash_holds f v (sw_path W) (sw_old W)
     \<or> (\<exists>new b. sw_new W = Some new \<and> crash_holds f v (sw_path W) new \<and> sw_keeps W b \<and> crash_holds f v (sw_backup W) b))"

definition Before :: "swap \<Rightarrow> binding list \<Rightarrow> binding list \<Rightarrow> fs \<Rightarrow> bool" where
  "Before W D C f \<longleftrightarrow> world ((sw_path W, Some (sw_file W)) # D) C f"

definition Swapped :: "swap \<Rightarrow> fs \<Rightarrow> bool" where
  "Swapped W f \<longleftrightarrow> (\<exists>m y k z new. sw_new W = Some new \<and> durable y new \<and> durable z (nd_data z) \<and> sw_keeps W (nd_data z)
     \<and> world [(sw_backup W, Some (k, z))] [(sw_path W, Some (m, y))] f \<and> stored f (Some (sw_file W))
     \<and> (\<forall>v \<in> set (fs_versions f). map_of v (sw_path W) \<in> {Some (fst (sw_file W)), Some m}))"

definition Final :: "swap \<Rightarrow> fs \<Rightarrow> bool" where
  "Final W f \<longleftrightarrow> (\<exists>m y k z new. sw_new W = Some new \<and> durable y new \<and> durable z (nd_data z) \<and> sw_keeps W (nd_data z)
     \<and> world [(sw_path W, Some (m, y)), (sw_backup W, Some (k, z))] [] f \<and> stored f (Some (sw_file W)))"

definition sound_swap :: "swap \<Rightarrow> bool" where
  "sound_swap W \<longleftrightarrow> durable (snd (sw_file W)) (sw_old W) \<and> sw_keeps W (sw_old W)"

lemma backup_differs [simp]: "sw_backup W \<noteq> sw_path W" "sw_path W \<noteq> sw_backup W"
  by (auto simp: sw_backup_def BackupSuffix_def)

lemma backup_not_temporary: "\<not> temporary (sw_backup W)"
  by (simp add: temporary_def sw_backup_def BackupSuffix_def is_digit_def)

lemma crash_holdsI:
  assumes "map_of v p = Some n" and "stored f (Some (n, x))" and "durable x body"
  shows "crash_holds f v p body"
  using assms by (simp add: crash_holds_def stored_def durable_def)

lemma Before_safe:
  assumes "sound_swap W" and "Before W D C f"
  shows "crash_safe W f"
proof -
  obtain n x where fl: "sw_file W = (n, x)" by fastforce
  have "crash_holds f v (sw_path W) (sw_old W)" if "v \<in> set (fs_versions f)" for v
    by (rule crash_holdsI [of v _ n f x])
      (use world_durable [OF assms(2) [unfolded Before_def], of "sw_path W" "Some (sw_file W)" v] that assms(1) fl
        in \<open>auto simp: sound_swap_def\<close>)
  then show ?thesis by (simp add: crash_safe_def)
qed

lemma Swapped_safe:
  assumes "sound_swap W" and "Swapped W f"
  shows "crash_safe W f"
proof -
  obtain n x where fl: "sw_file W = (n, x)" by fastforce
  obtain m y k z new where new: "sw_new W = Some new" "durable y new" "durable z (nd_data z)" "sw_keeps W (nd_data z)"
    and w: "world [(sw_backup W, Some (k, z))] [(sw_path W, Some (m, y))] f" and old: "stored f (Some (n, x))"
    and vs: "\<And>v. v \<in> set (fs_versions f) \<Longrightarrow> map_of v (sw_path W) \<in> {Some n, Some m}"
    using assms(2) fl unfolding Swapped_def by auto
  have "stored f (Some (m, y))" and "stored f (Some (k, z))"
    using world_current(2) [OF w, of "sw_path W" "Some (m, y)"] world_current(2) [OF w, of "sw_backup W" "Some (k, z)"] by auto
  moreover have "map_of v (sw_backup W) = Some k" if "v \<in> set (fs_versions f)" for v
    using world_durable(1) [OF w _ that, of "sw_backup W" "Some (k, z)"] by simp
  ultimately show ?thesis unfolding crash_safe_def
    using vs new old assms(1) fl crash_holdsI [of _ "sw_path W" n f x] crash_holdsI [of _ "sw_path W" m f y]
      crash_holdsI [of _ "sw_backup W" k f z] unfolding sound_swap_def by fastforce
qed

text \<open>The end of an edit that succeeded, and what is left of any other.\<close>

lemma Final_holds:
  assumes "Final W f" and "v \<in> set (fs_versions f)"
  obtains new b where "sw_new W = Some new" and "crash_holds f v (sw_path W) new"
    and "sw_keeps W b" and "crash_holds f v (sw_backup W) b"
proof -
  obtain m y k z new where new: "sw_new W = Some new" "durable y new" "durable z (nd_data z)" "sw_keeps W (nd_data z)"
    and w: "world [(sw_path W, Some (m, y)), (sw_backup W, Some (k, z))] [] f"
    using assms(1) unfolding Final_def by auto
  have "crash_holds f v (sw_path W) new" "crash_holds f v (sw_backup W) (nd_data z)"
    using world_durable [OF w _ assms(2), of "sw_path W" "Some (m, y)"] world_durable [OF w _ assms(2), of "sw_backup W" "Some (k, z)"] new
    by (auto intro!: crash_holdsI)
  with new that show thesis by blast
qed

lemma Final_safe: "Final W f \<Longrightarrow> crash_safe W f"
  unfolding crash_safe_def by (meson Final_holds)

definition Open :: "swap \<Rightarrow> fs \<Rightarrow> bool" where
  "Open W f \<longleftrightarrow> Before W [] [] f \<or> Swapped W f"

lemma Before_Open: "Before W D C f \<Longrightarrow> Open W f"
  unfolding Before_def Open_def by (auto elim: world_sub)

lemma Open_safe: "sound_swap W \<Longrightarrow> Open W f \<Longrightarrow> crash_safe W f"
  using Before_safe Swapped_safe unfolding Open_def by blast

lemma remove_Open:
  assumes "sound_swap W" and "t \<noteq> sw_path W" and "t \<noteq> sw_backup W"
  shows "triple (crash_safe W) (Open W) (remove_file t) (\<lambda>_. Open W) (Open W)"
  unfolding remove_file_def
proof (rule triple_syscall)
  fix f r f'
  assume op: "Open W f"
    and run: "(if lookup_node f t = None then (Inl ENOENT, f) else (Inr (), set_names (remove_name t (fs_names f)) f)) = (r, f')"
  let ?f = "set_names (remove_name t (fs_names f)) f"
  have "Open W ?f" using op unfolding Open_def
  proof
    assume "Before W [] [] f"
    then have "Before W [] [] ?f" unfolding Before_def by (rule world_rename) (use assms(2) in auto)
    then show "Before W [] [] ?f \<or> Swapped W ?f" ..
  next
    assume sw: "Swapped W f"
    have "world [(sw_backup W, Some (k, z))] [(sw_path W, Some (m, y))] ?f"
      if "world [(sw_backup W, Some (k, z))] [(sw_path W, Some (m, y))] f" for m y k z
      using that by (rule world_rename) (use assms(2,3) in auto)
    moreover have "map_of (remove_name t (fs_names f)) (sw_path W) = Some m"
      if "world D [(sw_path W, Some (m, y))] f" for D m y
      using world_current(1) [OF that, of "sw_path W" "Some (m, y)"] assms(2) by auto
    ultimately have "Swapped W ?f" using sw unfolding Swapped_def
      by (elim exE conjE) (intro exI conjI, assumption+, auto)
    then show "Before W [] [] ?f \<or> Swapped W ?f" ..
  qed
  then have "Open W f'" using op run by (auto split: if_splits)
  then show "crash_safe W f' \<and> (case r of Inr _ \<Rightarrow> Open W f' | Inl _ \<Rightarrow> Open W f')"
    using Open_safe [OF assms(1)] by (simp split: sum.splits)
qed simp

lemma remove_Final:
  assumes "t \<noteq> sw_path W" and "t \<noteq> sw_backup W"
  shows "triple (crash_safe W) (Final W) (remove_file t) (\<lambda>_. Final W) (Final W)"
  unfolding remove_file_def
proof (rule triple_syscall)
  fix f r f'
  assume fin: "Final W f"
    and run: "(if lookup_node f t = None then (Inl ENOENT, f) else (Inr (), set_names (remove_name t (fs_names f)) f)) = (r, f')"
  have "world [(sw_path W, a), (sw_backup W, b)] [] (set_names (remove_name t (fs_names f)) f)"
    if "world [(sw_path W, a), (sw_backup W, b)] [] f" for a b
    using that by (rule world_rename) (use assms in auto)
  then have "Final W f'" using fin run unfolding Final_def by (auto split: if_splits) blast
  then show "crash_safe W f' \<and> (case r of Inr _ \<Rightarrow> Final W f' | Inl _ \<Rightarrow> Final W f')"
    using Final_safe by (simp split: sum.splits)
qed simp

section \<open>Temporary files\<close>

lemma holding_durable: "holding D C t n (\<lambda>x. nd_data x = body \<and> nd_synced x) f \<Longrightarrow> holding D C t n (\<lambda>x. durable x body) f"
  by (auto simp: holding_def durable_def)

lemma fill_temp_triple:
  assumes T: "\<And>f. world D C f \<Longrightarrow> T f"
  shows "triple T (holding D C t n (\<lambda>_. True)) (fill_temp n body info) (\<lambda>_. holding D C t n (\<lambda>x. durable x body))
    (holding D C t n (\<lambda>_. True))"
proof -
  let ?written = "\<lambda>_. holding D C t n (\<lambda>x. nd_data x = body)"
  let ?synced = "\<lambda>_. holding D C t n (\<lambda>x. nd_data x = body \<and> nd_synced x)"
  have up: "triple T (holding D C t n \<phi>) (syscall (\<lambda>f. (Inr (), update_node n g f))) (\<lambda>_. holding D C t n \<psi>)
      (holding D C t n (\<lambda>_. True))" if "\<And>x. \<phi> x \<Longrightarrow> \<psi> (g x)" "\<And>x. nd_kind (g x) = nd_kind x" for \<phi> \<psi> g
    by (rule update_triple) (use T that in auto)
  have close: "triple T (?synced ()) close_file ?synced (holding D C t n (\<lambda>_. True))"
    by (rule close_triple) (auto intro: T holding_world elim: holding_mono)
  have "triple T (holding D C t n (\<lambda>_. True)) (fill_temp n body info) ?synced (holding D C t n (\<lambda>_. True))"
    unfolding fill_temp_def write_all_def fchown_def fchmod_def fsync_def
    by (rule triple_then [where R = ?written] triple_then [where R = ?synced, OF _ close] up | simp)+
  then show ?thesis by (rule triple_conseq) (auto intro: holding_durable)
qed

text \<open>A temporary file that was written completely: where it is, and what it holds.\<close>

definition with_temp :: "binding list \<Rightarrow> binding list \<Rightarrow> string \<Rightarrow> string \<Rightarrow> fs \<Rightarrow> bool" where
  "with_temp D C body t f \<longleftrightarrow> temporary t \<and> t \<notin> fst ` (set D \<union> set C) \<and> (\<exists>n x. world D ((t, Some (n, x)) # C) f \<and> durable x body)"

lemma holding_with_temp:
  assumes "temporary t" and "holding D C t n (\<lambda>x. durable x body) f"
  shows "with_temp D C body t f"
proof -
  obtain x where "map_of (fs_nodes f) n = Some x" "durable x body" using assms(2) by (auto simp: holding_def)
  moreover from this have "world D ((t, Some (n, x)) # C) f"
    using assms(2) by (auto simp: holding_def world_iff stored_def)
  ultimately show ?thesis using assms by (auto simp: with_temp_def holding_def)
qed

lemma writeSyncedTemp_triple:
  assumes T: "\<And>f. world D C f \<Longrightarrow> T f" and free: "\<And>p. temporary p \<Longrightarrow> (p, None) \<notin> set D \<union> set C"
  shows "triple T (world D C) (writeSyncedTemp rnd dir base body info) (with_temp D C body) (world D C)"
  unfolding writeSyncedTemp_def
proof (rule triple_then [OF create_temp_triple [OF T free]])
  fix tn :: "string \<times> nat"
  obtain t n where tn: "tn = (t, n)" by fastforce
  let ?fill = "\<lambda>s. case fill_temp n body info s of
      (Inl e, s1) \<Rightarrow> (Inl e, snd (remove_file t (snd (close_file s1)))) | (Inr _, s1) \<Rightarrow> (Inr t, snd (close_file s1))"
  have "triple T (\<lambda>f. temporary t \<and> holding D C t n (\<lambda>_. True) f) ?fill (with_temp D C body) (world D C)"
  proof (rule tripleI)
    fix s r s'
    assume P: "temporary t \<and> holding D C t n (\<lambda>_. True) (sy_fs s)" and tr: "list_all T (sy_trace s)" and run: "?fill s = (r, s')"
    obtain q s1 where fill: "fill_temp n body info s = (q, s1)" by fastforce
    note filled = tripleD [OF fill_temp_triple [OF T] conjunct2 [OF P] tr fill]
    have close: "triple T (holding D C t n \<phi>) close_file (\<lambda>_. holding D C t n \<phi>) (holding D C t n \<phi>)" for \<phi>
      by (rule close_triple) (auto intro: T holding_world)
    have rm: "triple T (world D C) (remove_file t) (\<lambda>_. world D C) (world D C)"
      by (rule remove_triple [OF T]) (use P in \<open>simp_all add: holding_def\<close>)
    show "list_all T (sy_trace s') \<and> (case r of Inr x \<Rightarrow> with_temp D C body x (sy_fs s') | Inl _ \<Rightarrow> world D C (sy_fs s'))"
    proof (cases q)
      case (Inl e)
      then have "holding D C t n (\<lambda>_. True) (sy_fs s1)" using filled(2) by simp
      note shut = triple_snd [OF close this filled(1)]
      from triple_snd [OF rm holding_world [OF shut(1)] shut(2)] show ?thesis using run fill Inl by auto
    next
      case (Inr u)
      then have "holding D C t n (\<lambda>x. durable x body) (sy_fs s1)" using filled(2) by simp
      from triple_snd [OF close this filled(1)] show ?thesis using run fill Inr P holding_with_temp by auto
    qed
  qed
  then show "triple T ((case tn of (t, n) \<Rightarrow> \<lambda>f. temporary t \<and> holding D C t n (\<lambda>_. True) f))
      (case tn of (path, n) \<Rightarrow> \<lambda>s. case fill_temp n body info s of
         (Inl e, s1) \<Rightarrow> (Inl e, snd (remove_file path (snd (close_file s1)))) | (Inr _, s1) \<Rightarrow> (Inr path, snd (close_file s1)))
      (with_temp D C body) (world D C)" by (simp add: tn)
qed

section \<open>The replacement\<close>

lemma Final_Open: "Final W f \<Longrightarrow> Open W f"
  unfolding Final_def Open_def Swapped_def
  by (elim exE conjE, rule disjI2, intro exI conjI, assumption+, auto elim: world_sub dest: world_durable(1))

text \<open>The world right before the two files change places.\<close>

definition Ready :: "swap \<Rightarrow> string \<Rightarrow> fs \<Rightarrow> bool" where
  "Ready W t f \<longleftrightarrow> (\<exists>m y k z new. sw_new W = Some new \<and> durable y new \<and> durable z (nd_data z) \<and> sw_keeps W (nd_data z)
     \<and> world [(sw_path W, Some (sw_file W)), (sw_backup W, Some (k, z))] [(t, Some (m, y))] f)"

lemma ReadyI:
  assumes "sw_new W = Some new" and "durable y new" and "durable z b" and "sw_keeps W b"
    and "world [(sw_path W, Some (sw_file W)), (sw_backup W, Some (k, z))] [(t, Some (m, y))] f"
  shows "Ready W t f"
proof -
  have "nd_data z = b" using assms(3) by (simp add: durable_def)
  then show ?thesis using assms unfolding Ready_def
    by (intro exI [of _ m] exI [of _ y] exI [of _ k] exI [of _ z] exI [of _ new]) simp
qed

lemma Ready_Open: "Ready W t f \<Longrightarrow> Open W f"
  unfolding Ready_def by (auto intro: Before_Open simp: Before_def)

lemma Ready_swap:
  assumes "Ready W t f" and "t \<noteq> sw_path W" and "t \<noteq> sw_backup W"
  obtains n where "lookup_node f t = Some n"
    and "Swapped W (set_names ((sw_path W, n) # remove_name (sw_path W) (remove_name t (fs_names f))) f)"
proof -
  obtain m y k z new where new: "sw_new W = Some new" "durable y new" "durable z (nd_data z)" "sw_keeps W (nd_data z)"
    and w: "world [(sw_path W, Some (sw_file W)), (sw_backup W, Some (k, z))] [(t, Some (m, y))] f"
    using assms(1) unfolding Ready_def by auto
  let ?f = "set_names ((sw_path W, m) # remove_name (sw_path W) (remove_name t (fs_names f))) f"
  have "world [(sw_backup W, Some (k, z))] [(t, Some (m, y))] f" by (rule world_sub [OF w]) auto
  from world_rename_to [OF this, of "sw_path W"] assms(2,3)
  have "world [(sw_backup W, Some (k, z))] [(sw_path W, Some (m, y))] ?f" by simp
  moreover have "stored f (Some (sw_file W))" using world_current(2) [OF w, of "sw_path W" "Some (sw_file W)"] by simp
  moreover have "map_of v (sw_path W) = Some (fst (sw_file W))" if "v \<in> set (fs_versions f)" for v
    using world_durable(1) [OF w _ that, of "sw_path W" "Some (sw_file W)"] by simp
  ultimately have "Swapped W ?f" using new unfolding Swapped_def
    by (intro exI [of _ m] exI [of _ y] exI [of _ k] exI [of _ z] exI [of _ new]) auto
  moreover have "lookup_node f t = Some m" using world_current(1) [OF w, of t "Some (m, y)"] by (simp add: lookup_node_def)
  ultimately show thesis using that by blast
qed

lemma rename_Ready:
  assumes "sound_swap W" and "t \<noteq> sw_path W" and "t \<noteq> sw_backup W"
  shows "triple (crash_safe W) (Ready W t) (rename_file t (sw_path W)) (\<lambda>_. Swapped W) (Open W)"
  unfolding rename_file_def
proof (rule triple_syscall)
  fix f r f'
  assume ready: "Ready W t f"
    and run: "(case lookup_node f t of None \<Rightarrow> (Inl ENOENT, f)
        | Some n \<Rightarrow> (case Option.bind (lookup_node f (sw_path W)) (map_of (fs_nodes f)) of
            Some x \<Rightarrow> if nd_kind x = DirectoryNode then (Inl EEXIST, f)
              else (Inr (), set_names ((sw_path W, n) # remove_name (sw_path W) (remove_name t (fs_names f))) f)
          | None \<Rightarrow> (Inr (), set_names ((sw_path W, n) # remove_name (sw_path W) (remove_name t (fs_names f))) f))) = (r, f')"
  obtain n where n: "lookup_node f t = Some n"
    and sw: "Swapped W (set_names ((sw_path W, n) # remove_name (sw_path W) (remove_name t (fs_names f))) f)"
    using Ready_swap [OF ready assms(2,3)] by blast
  from run n consider "isl r" "f' = f"
    | "\<not> isl r" "f' = set_names ((sw_path W, n) # remove_name (sw_path W) (remove_name t (fs_names f))) f"
    by (auto split: option.splits if_splits)
  then have "if isl r then Open W f' else Swapped W f'" by cases (use Ready_Open [OF ready] sw in simp_all)
  then show "crash_safe W f' \<and> (case r of Inr _ \<Rightarrow> Swapped W f' | Inl _ \<Rightarrow> Open W f')"
    using Open_safe [OF assms(1)] Swapped_safe [OF assms(1)] by (cases r) auto
qed (rule Ready_Open)

lemma sync_Swapped:
  assumes "sound_swap W"
  shows "triple (crash_safe W) (Swapped W) syncDirectory (\<lambda>_. Final W) (Open W)"
  unfolding syncDirectory_def sync_names_def
proof (rule triple_then [where R = "\<lambda>_. Swapped W"])
  show "triple (crash_safe W) (Swapped W) (syscall (\<lambda>f. (Inr (), f))) (\<lambda>_. Swapped W) (Open W)"
    by (rule triple_read) (use Swapped_safe [OF assms] in \<open>simp add: Open_def\<close>)
  show "triple (crash_safe W) (Swapped W) (syscall (\<lambda>f. (Inr (), f\<lparr>fs_versions := [fs_names f]\<rparr>))) (\<lambda>_. Final W) (Open W)"
    for x :: unit
  proof (rule triple_syscall)
    fix f r f' assume sw: "Swapped W f" and run: "(Inr (), f\<lparr>fs_versions := [fs_names f]\<rparr>) = (r :: unit result, f')"
    have "world [(sw_path W, Some (m, y)), (sw_backup W, Some (k, z))] [] f'"
      if w: "world [(sw_backup W, Some (k, z))] [(sw_path W, Some (m, y))] f" for m y k z
      using w run world_current(1) [OF w] unfolding world_iff by auto
    then have "Final W f'" using sw run unfolding Final_def Swapped_def
      by (elim exE conjE) (intro exI conjI, assumption+, auto)
    then show "crash_safe W f' \<and> (case r of Inr _ \<Rightarrow> Final W f' | Inl _ \<Rightarrow> Open W f')" using Final_safe run by auto
  qed (simp add: Open_def)
qed

lemma hook_triple: "(\<And>f. P f \<Longrightarrow> E f) \<Longrightarrow> triple T P (runStageHook hook stage) (\<lambda>_. P) E"
  unfolding runStageHook_def by (rule triple_return) (auto split: option.splits)

lemma swap_in_triple:
  assumes "sound_swap W" and "t \<noteq> sw_path W" and "t \<noteq> sw_backup W"
  shows "triple (crash_safe W) (Ready W t) (swap_in hook t (sw_path W) n) (\<lambda>_. Final W) (Open W)"
proof -
  have safe: "Ready W t f \<Longrightarrow> crash_safe W f" for f using Open_safe [OF assms(1)] Ready_Open by blast
  have "triple (crash_safe W) (Ready W t) (lstat (sw_path W)) (\<lambda>_. Ready W t) (Open W)"
    unfolding lstat_def by (rule triple_read) (use safe Ready_Open in \<open>auto split: sum.splits\<close>)
  moreover have "triple (crash_safe W) (Ready W t)
      (then_sys (fail_as ErrConfiguration (rename_file t (sw_path W))) (\<lambda>_. then_sys (runStageHook hook StageRenamed) (\<lambda>_.
         then_sys (fail_as ErrConfiguration syncDirectory) (\<lambda>_. runStageHook hook StageDirectorySynced))))
      (\<lambda>_. Final W) (Open W)"
    by (rule triple_then [OF triple_fail_as [OF rename_Ready [OF assms]]]
          triple_then [OF hook_triple [where P = "Swapped W"]] triple_then [OF triple_fail_as [OF sync_Swapped [OF assms(1)]]]
          hook_triple [where P = "Final W"]
        | erule Final_Open | simp add: Open_def)+
  moreover have "triple (crash_safe W) (Ready W t) (return_sys (Inl ErrConfiguration)) (\<lambda>_. Final W) (Open W)"
    by (rule triple_return) (simp add: Ready_Open)
  ultimately show ?thesis unfolding swap_in_def
    by (intro triple_then [where R = "\<lambda>_. Ready W t"] triple_fail_as) (auto split: prod.splits)
qed

lemma with_temp_free: "with_temp D C body t f \<Longrightarrow> temporary t \<and> t \<notin> fst ` (set D \<union> set C)"
  by (simp add: with_temp_def)

text \<open>A deferred removal of a temporary file.\<close>

lemma deferring_remove:
  assumes "sound_swap W" and "t \<noteq> sw_path W" and "t \<noteq> sw_backup W"
    and "triple (crash_safe W) P m (\<lambda>_. Final W) (Open W)"
  shows "triple (crash_safe W) P (deferring (remove_file t) m) (\<lambda>_. Final W) (Open W)"
  by (rule triple_deferring [OF assms(4) remove_Final [OF assms(2,3)] remove_Open [OF assms(1-3)]])

text \<open>The two files that make up the backup phase: the replacement is written, the backup becomes durable.\<close>

lemma with_backup_triple:
  assumes W: "sound_swap W" "sw_new W = Some new" "durable y new" and t: "temporary t" "t \<noteq> sw_path W"
    and rest: "triple (crash_safe W) (Ready W t) rest (\<lambda>_. Final W) (Open W)"
  shows "triple (crash_safe W) (Before W [] [(t, Some (m, y))])
    (with_backup rnd dir (sw_backup W) (sw_old W) info rest) (\<lambda>_. Final W) (Open W)"
  unfolding with_backup_def
proof (rule triple_then)
  let ?D = "[(sw_path W, Some (sw_file W))]" and ?C = "[(t, Some (m, y))]"
  have t_backup: "t \<noteq> sw_backup W" using t(1) backup_not_temporary by blast
  have safe: "world (?D @ D) C f \<Longrightarrow> crash_safe W f" for D C f using Before_safe [OF W(1)] by (simp add: Before_def)
  have "triple (crash_safe W) (world ?D ?C) (writeSyncedTemp rnd dir (filepath_base (sw_backup W)) (sw_old W) info)
      (with_temp ?D ?C (sw_old W)) (world ?D ?C)"
    by (rule writeSyncedTemp_triple) (use safe [of "[]"] in auto)
  then show "triple (crash_safe W) (Before W [] ?C) (fail_as ErrConfiguration (writeSyncedTemp rnd dir (filepath_base (sw_backup W)) (sw_old W) info))
      (with_temp ?D ?C (sw_old W)) (Open W)"
    by (intro triple_fail_as, elim triple_conseq) (auto simp: Before_def intro: Before_Open)
  fix u
  let ?m = "deferring (remove_file u) (then_sys (fail_as ErrConfiguration (rename_file u (sw_backup W)))
      (\<lambda>_. then_sys (fail_as ErrConfiguration syncDirectory) (\<lambda>_. rest)))"
  have "triple (crash_safe W) (world ?D ((u, Some (k, z)) # ?C)) ?m (\<lambda>_. Final W) (Open W)"
    if u: "temporary u" "u \<notin> fst ` (set ?D \<union> set ?C)" and z: "durable z (sw_old W)" for k z
  proof (rule deferring_remove [OF W(1)])
    show "u \<noteq> sw_path W" "u \<noteq> sw_backup W" using u backup_not_temporary by auto
    have "triple (crash_safe W) (world ?D ((u, Some (k, z)) # ?C)) (rename_file u (sw_backup W))
        (\<lambda>_. world ?D ((sw_backup W, Some (k, z)) # ?C)) (world ?D ((u, Some (k, z)) # ?C))"
      by (rule rename_triple) (use u t_backup safe [of "[]"] in auto)
    moreover have "triple (crash_safe W) (world ?D ((sw_backup W, Some (k, z)) # ?C)) sync_names
        (\<lambda>_ f. world (((sw_backup W, Some (k, z)) # ?C) @ ?D) [] f \<and> fs_versions f = [fs_names f])
        (world ?D ((sw_backup W, Some (k, z)) # ?C))"
      by (rule sync_triple) (use safe [of "[]"] in auto)
    moreover have "Ready W t f" if "world (((sw_backup W, Some (k, z)) # ?C) @ ?D) [] f" for f
    proof -
      have "world [(sw_path W, Some (sw_file W)), (sw_backup W, Some (k, z))] ?C f" by (rule world_sub [OF that]) auto
      then show ?thesis using ReadyI [OF W(2,3) z] W(1) by (simp add: sound_swap_def)
    qed
    moreover have "world ?D C f \<Longrightarrow> Open W f" for C f by (rule Before_Open) (simp add: Before_def)
    ultimately show "triple (crash_safe W) (world ?D ((u, Some (k, z)) # ?C)) (then_sys (fail_as ErrConfiguration (rename_file u (sw_backup W)))
        (\<lambda>_. then_sys (fail_as ErrConfiguration syncDirectory) (\<lambda>_. rest))) (\<lambda>_. Final W) (Open W)"
      unfolding syncDirectory_def
      by (intro triple_then [where R = "\<lambda>_. world ?D ((sw_backup W, Some (k, z)) # ?C)"] triple_then [where R = "\<lambda>_. Ready W t"] triple_fail_as rest)
        (auto elim!: triple_conseq)
  qed
  then show "triple (crash_safe W) (with_temp ?D ?C (sw_old W) u) ?m (\<lambda>_. Final W) (Open W)"
    unfolding with_temp_def triple_def by blast
qed

lemma lstat_result:
  assumes "lstat p s = (r, s1)"
  shows "sy_fs s1 = sy_fs s" and "T (sy_fs s) \<Longrightarrow> list_all T (sy_trace s) \<Longrightarrow> list_all T (sy_trace s1)"
    and "r = Inr (n, x) \<Longrightarrow> lookup_node (sy_fs s) p = Some n \<and> map_of (fs_nodes (sy_fs s)) n = Some x"
  using assms by (auto simp: lstat_def syscall_def node_of_def split: list.splits bool.splits option.splits)

lemma regularFileExists_keeps:
  assumes run: "regularFileExists p s = (there, s')" and w: "world D C (sy_fs s)" and T: "T (sy_fs s)" "list_all T (sy_trace s)"
  shows "sy_fs s' = sy_fs s" and "list_all T (sy_trace s')"
    and "\<lbrakk>there; (p, l) \<in> set D \<union> set C\<rbrakk> \<Longrightarrow> \<exists>n x. l = Some (n, x) \<and> nd_kind x = RegularFile"
proof -
  obtain r s1 where call: "lstat p s = (r, s1)" by fastforce
  have eq: "s' = s1" and there: "there \<Longrightarrow> \<exists>n x. r = Inr (n, x) \<and> nd_kind x = RegularFile"
    using run call by (auto simp: regularFileExists_def split: sum.splits)
  show "sy_fs s' = sy_fs s" "list_all T (sy_trace s')" using lstat_result(1,2) [OF call] T eq by simp_all
  assume "there" and l: "(p, l) \<in> set D \<union> set C"
  then obtain n x where "r = Inr (n, x)" "nd_kind x = RegularFile" using there by blast
  with lstat_result(3) [OF call] world_current [OF w l] show "\<exists>n x. l = Some (n, x) \<and> nd_kind x = RegularFile"
    by (cases l) (auto simp: lookup_node_def stored_def)
qed

text \<open>\<open>kept\<close> is what the backup is before the edit; when it is a regular file, its text may be kept.\<close>

definition sound_backup :: "swap \<Rightarrow> (nat \<times> node) option \<Rightarrow> bool" where
  "sound_backup W kept \<longleftrightarrow>
     (\<forall>k z. kept = Some (k, z) \<and> nd_kind z = RegularFile \<longrightarrow> nd_synced z \<and> sw_keeps W (nd_data z))"

lemma backup_choice_triple:
  assumes W: "sound_swap W" "sw_new W = Some new" "durable y new" "sound_backup W kept"
    and t: "temporary t" "t \<noteq> sw_path W" and rest: "triple (crash_safe W) (Ready W t) rest (\<lambda>_. Final W) (Open W)"
  shows "triple (crash_safe W) (Before W [(sw_backup W, kept)] [(t, Some (m, y))])
    (\<lambda>s. let (keep, s1) = (if preserve then regularFileExists (sw_backup W) s else (False, s))
         in if keep then rest s1 else with_backup rnd dir (sw_backup W) (sw_old W) info rest s1) (\<lambda>_. Final W) (Open W)"
proof (rule tripleI)
  let ?D = "[(sw_path W, Some (sw_file W)), (sw_backup W, kept)]" and ?C = "[(t, Some (m, y))]"
  fix s r s'
  assume P: "Before W [(sw_backup W, kept)] ?C (sy_fs s)" and tr: "list_all (crash_safe W) (sy_trace s)"
    and run: "(let (keep, s1) = (if preserve then regularFileExists (sw_backup W) s else (False, s))
      in if keep then rest s1 else with_backup rnd dir (sw_backup W) (sw_old W) info rest s1) = (r, s')"
  obtain keep s1 where look: "(if preserve then regularFileExists (sw_backup W) s else (False, s)) = (keep, s1)" by fastforce
  have w: "world ?D ?C (sy_fs s)" using P by (simp add: Before_def)
  have same: "sy_fs s1 = sy_fs s" and tr1: "list_all (crash_safe W) (sy_trace s1)"
    and kept: "keep \<Longrightarrow> \<exists>k z. kept = Some (k, z) \<and> nd_kind z = RegularFile"
    using look tr regularFileExists_keeps [OF _ w Before_safe [OF W(1) P] tr] by (auto split: if_splits)
  show "list_all (crash_safe W) (sy_trace s') \<and> (case r of Inr _ \<Rightarrow> Final W (sy_fs s') | Inl _ \<Rightarrow> Open W (sy_fs s'))"
  proof (cases keep)
    case True
    then obtain k z where z: "kept = Some (k, z)" "durable z (nd_data z)" "sw_keeps W (nd_data z)"
      using kept W(4) by (auto simp: sound_backup_def durable_def)
    have "Ready W t (sy_fs s1)" using ReadyI [OF W(2,3) z(2,3)] w z(1) same by simp
    moreover have "rest s1 = (r, s')" using run look True by simp
    ultimately show ?thesis using tripleD [OF rest _ tr1] by blast
  next
    case False
    have "Before W [] ?C (sy_fs s1)" unfolding Before_def same by (rule world_sub [OF w]) auto
    moreover have "with_backup rnd dir (sw_backup W) (sw_old W) info rest s1 = (r, s')" using run look False by simp
    ultimately show ?thesis using tripleD [OF with_backup_triple [OF W(1-3) t rest] _ tr1] by blast
  qed
qed

lemma atomicReplace_triple:
  assumes W: "sound_swap W" "sw_new W = Some new" "sound_backup W kept"
  shows "triple (crash_safe W) (Before W [(sw_backup W, kept)] [])
    (atomicReplace rnd hook (sw_path W) (sw_backup W) (sw_old W) new (sw_file W) preserve) (\<lambda>_. Final W) (Open W)"
  unfolding atomicReplace_def Let_def
proof (rule triple_then)
  let ?D = "[(sw_path W, Some (sw_file W)), (sw_backup W, kept)]"
  have "triple (crash_safe W) (world ?D []) (writeSyncedTemp rnd (filepath_dir (sw_path W)) (filepath_base (sw_path W)) new (snd (sw_file W)))
      (with_temp ?D [] new) (world ?D [])"
    by (rule writeSyncedTemp_triple) (use backup_not_temporary Before_safe [OF W(1)] in \<open>auto simp: Before_def\<close>)
  then show "triple (crash_safe W) (Before W [(sw_backup W, kept)] [])
      (fail_as ErrConfiguration (writeSyncedTemp rnd (filepath_dir (sw_path W)) (filepath_base (sw_path W)) new (snd (sw_file W))))
      (with_temp ?D [] new) (Open W)"
    by (intro triple_fail_as, elim triple_conseq) (auto simp: Before_def intro: Before_Open)
  fix t
  let ?rest = "then_sys (runStageHook hook StageBackupDurable) (\<lambda>_. swap_in hook t (sw_path W) (fst (sw_file W)))"
  let ?choice = "\<lambda>s. case if preserve then regularFileExists (sw_backup W) s else (False, s) of (keep, s1) \<Rightarrow>
      if keep then ?rest s1
      else with_backup rnd (filepath_dir (sw_path W)) (sw_backup W) (sw_old W) (snd (sw_file W)) ?rest s1"
  let ?m = "deferring (remove_file t) (then_sys (runStageHook hook StagePrepared) (\<lambda>_. ?choice))"
  have "triple (crash_safe W) (Before W [(sw_backup W, kept)] [(t, Some (m, y))]) ?m (\<lambda>_. Final W) (Open W)"
    if t: "temporary t" "t \<notin> fst ` set ?D" and y: "durable y new" for m y
  proof (rule deferring_remove [OF W(1)])
    show t_new: "t \<noteq> sw_path W" "t \<noteq> sw_backup W" using t by auto
    have "triple (crash_safe W) (Ready W t) ?rest (\<lambda>_. Final W) (Open W)"
      by (rule triple_then [OF hook_triple swap_in_triple]) (use W(1) t_new Ready_Open in auto)
    from backup_choice_triple [OF W(1,2) y W(3) t(1) t_new(1) this, unfolded Let_def]
    show "triple (crash_safe W) (Before W [(sw_backup W, kept)] [(t, Some (m, y))])
        (then_sys (runStageHook hook StagePrepared) (\<lambda>_. ?choice)) (\<lambda>_. Final W) (Open W)"
      by (intro triple_then [OF hook_triple]) (auto intro: Before_Open)
  qed
  then show "triple (crash_safe W) (with_temp ?D [] new t) ?m (\<lambda>_. Final W) (Open W)"
    unfolding with_temp_def triple_def Before_def by auto
qed

section \<open>The snapshot\<close>

text \<open>A call that reads: the file system stays as it is.\<close>

definition reads_only :: "sys \<Rightarrow> sys \<Rightarrow> bool" where
  "reads_only s s' \<longleftrightarrow> sy_fs s' = sy_fs s \<and> set (sy_trace s') \<subseteq> insert (sy_fs s) (set (sy_trace s))"

lemma reads_only_refl [simp]: "reads_only s s"
  by (auto simp: reads_only_def)

lemma reads_only_trans: "reads_only s s1 \<Longrightarrow> reads_only s1 s2 \<Longrightarrow> reads_only s s2"
  by (auto simp: reads_only_def)

lemma read_result:
  assumes "syscall (\<lambda>f. (q f, f)) s = (r, s1)"
  shows "reads_only s s1" and "r = Inr x \<Longrightarrow> q (sy_fs s) = Inr x"
  using assms by (auto simp: syscall_def reads_only_def split: list.splits bool.splits)

lemma lstat_reads: "lstat p s = (r, s1) \<Longrightarrow> reads_only s s1"
  unfolding lstat_def by (rule read_result(1))

lemma unlock_reads: "reads_only s (snd (unlock_file s))"
proof -
  have step: "reads_only s (snd (syscall (\<lambda>f. (q f, f)) s))" for q :: "fs \<Rightarrow> unit result" and s
    by (rule read_result(1) [OF prod.collapse [symmetric]])
  show ?thesis unfolding unlock_file_def close_file_def by (rule reads_only_trans [OF step step])
qed

lemma flock_reads:
  assumes "flock (\<lambda>f. f) s = (r, s1)"
  shows "reads_only s s1"
  using assms by (auto simp: flock_def then_sys_def meanwhile_def syscall_def reads_only_def split: list.splits bool.splits)

definition snapshot_of :: "fs \<Rightarrow> string \<Rightarrow> nat \<times> node \<times> string \<Rightarrow> bool" where
  "snapshot_of f path snap \<longleftrightarrow> (case snap of (n, info, body) \<Rightarrow>
     lookup_node f path = Some n \<and> map_of (fs_nodes f) n = Some info \<and> nd_kind info = RegularFile \<and> body = nd_data info)"

lemma read_locked_reads:
  assumes "read_locked n info s = (r, s')" and "lookup_node (sy_fs s) path = Some n" and "map_of (fs_nodes (sy_fs s)) n = Some info"
    and "nd_kind info = RegularFile"
  shows "reads_only s s'" and "r = Inr snap \<Longrightarrow> snapshot_of (sy_fs s) path snap"
proof -
  obtain q s1 where rd: "read_all n s = (q, s1)" by fastforce
  note r1 = read_result [OF rd [unfolded read_all_def]]
  have "s' \<in> {snd (unlock_file s), snd (unlock_file s1), s1}"
    using assms(1) rd by (auto simp: read_locked_def split: if_splits sum.splits)
  then show "reads_only s s'"
    using unlock_reads [of s] reads_only_trans [OF r1(1) unlock_reads] r1(1) by auto
  assume "r = Inr snap"
  then obtain body where "q = Inr body" "snap = (n, info, body)"
    using assms(1) rd by (auto simp: read_locked_def split: if_splits sum.splits)
  then show "snapshot_of (sy_fs s) path snap" using r1(2) assms(2-4) by (simp add: snapshot_of_def node_of_def)
qed

lemma open_attempts_reads:
  assumes "open_attempts (\<lambda>_ f. f) path k s = (r, s')"
  shows "reads_only s s' \<and> (\<forall>snap. r = Inr snap \<longrightarrow> snapshot_of (sy_fs s) path snap)"
  using assms
proof (induction k arbitrary: s)
  case 0
  then show ?case by auto
next
  case (Suc k)
  obtain q1 s1 where c1: "open_nofollow path s = (q1, s1)" by fastforce
  note r1 = read_result(1) [OF c1 [unfolded open_nofollow_def]]
  show ?case
  proof (cases q1)
    case (Inl e)
    then show ?thesis using Suc.prems c1 r1 by auto
  next
    case (Inr n)
    obtain q2 s2 where c2: "flock (\<lambda>f. f) s1 = (q2, s2)" by fastforce
    obtain q3 s3 where c3: "fstat n s2 = (q3, s3)" by fastforce
    obtain q4 s4 where c4: "lstat path s3 = (q4, s4)" by fastforce
    note r2 = reads_only_trans [OF r1 flock_reads [OF c2]]
    note r3 = reads_only_trans [OF r2 read_result(1) [OF c3 [unfolded fstat_def]]]
    note r4 = reads_only_trans [OF r3 lstat_reads [OF c4]]
    note to_end = reads_only_trans [OF r4 unlock_reads]
    have close: "reads_only s (snd (close_file s2))"
      unfolding close_file_def by (rule reads_only_trans [OF r2 read_result(1) [OF prod.collapse [symmetric]]])
    have again: ?thesis if "open_attempts (\<lambda>_ f. f) path k (snd (unlock_file s4)) = (r, s')"
    proof -
      have "sy_fs (snd (unlock_file s4)) = sy_fs s" using to_end by (simp add: reads_only_def)
      with Suc.IH [OF that] show ?thesis using reads_only_trans [OF to_end] by simp
    qed
    have found: ?thesis if "q3 = Inr info" "q4 = Inr (n, there)" "nd_kind info = RegularFile" "read_locked n info s4 = (r, s')" for info there
    proof -
      have fs: "sy_fs s4 = sy_fs s" "sy_fs s3 = sy_fs s" "sy_fs s2 = sy_fs s" using r4 r3 r2 by (simp_all add: reads_only_def)
      have "node_of (sy_fs s2) n = Inr info" using read_result(2) [OF c3 [unfolded fstat_def]] that(1) by simp
      moreover have "lookup_node (sy_fs s3) path = Some n" using lstat_result(3) [OF c4] that(2) by blast
      ultimately have "lookup_node (sy_fs s4) path = Some n" "map_of (fs_nodes (sy_fs s4)) n = Some info"
        using fs by (simp_all add: node_of_def split: option.splits)
      from read_locked_reads [OF that(4) this that(3)] show ?thesis using reads_only_trans [OF r4] fs by simp
    qed
    show ?thesis
    proof (cases q2)
      case (Inl e)
      then show ?thesis using Suc.prems c1 c2 Inr close by auto
    next
      case ok: (Inr u)
      have "open_attempts (\<lambda>_ f. f) path k (snd (unlock_file s4)) = (r, s')
        \<or> (\<exists>info there. q3 = Inr info \<and> q4 = Inr (n, there) \<and> nd_kind info = RegularFile \<and> read_locked n info s4 = (r, s'))"
        using Suc.prems by (simp add: c1 c2 c3 c4 Inr ok split: sum.splits prod.splits if_splits)
      then show ?thesis using again found by blast
    qed
  qed
qed

section \<open>The editor\<close>

text \<open>What the editor finds in a text, and the text it replaces it by.\<close>

definition find_target ::
  "yaml_lib \<Rightarrow> string \<Rightarrow> string \<Rightarrow> config_error + yaml_node \<times> yaml_node list \<times> yaml_node \<times> yaml_node list" where
  "find_target Y origin body =
     bind_result (decodeYAML Y body) (\<lambda>root. bind_result (locate Y origin root) (\<lambda>parts. Inr (root, parts)))"

definition edit_text :: "yaml_lib \<Rightarrow> edit_action \<Rightarrow> string \<Rightarrow> string \<Rightarrow> string option" where
  "edit_text Y action origin body =
     (case find_target Y origin body of Inl _ \<Rightarrow> None | Inr (root, parts) \<Rightarrow> yl_encode Y (edited_root action parts root))"

definition already_disabled :: "yaml_lib \<Rightarrow> string \<Rightarrow> string \<Rightarrow> bool" where
  "already_disabled Y origin body =
     (case find_target Y origin body of Inl _ \<Rightarrow> False | Inr (root, before, item, after) \<Rightarrow> \<not> was_enabled Y item)"

lemma edit_locked_triple:
  assumes W: "sound_swap W" "sound_backup W kept" "sw_new W = edit_text Y action origin (sw_old W)"
  shows "triple (crash_safe W) (Before W [(sw_backup W, kept)] [])
    (edit_locked Y M hook (sw_path W) origin action preserve (fst (sw_file W), snd (sw_file W), sw_old W))
    (\<lambda>_ f. Final W f \<or> (action = DisableEntry \<and> already_disabled Y origin (sw_old W) \<and> Before W [] [] f)) (Open W)"
    (is "triple _ ?P ?m ?Q _")
proof (rule tripleI)
  fix s r s'
  assume P: "?P (sy_fs s)" and tr: "list_all (crash_safe W) (sy_trace s)" and run: "?m s = (r, s')"
  show "list_all (crash_safe W) (sy_trace s') \<and> (case r of Inr x \<Rightarrow> ?Q x (sy_fs s') | Inl _ \<Rightarrow> Open W (sy_fs s'))"
  proof (cases "find_target Y origin (sw_old W)")
    case (Inl e)
    then show ?thesis using run tr P by (auto simp: edit_locked_def find_target_def intro: Before_Open)
  next
    case (Inr rp)
    obtain root parts where rp: "rp = (root, parts)" by (rule prod.exhaust)
    obtain before item after where parts: "parts = (before, item, after)" by (cases parts) auto
    define asleep where "asleep \<longleftrightarrow> action = DisableEntry \<and> \<not> was_enabled Y item"
    obtain there s1 where look: "(if asleep then regularFileExists (sw_backup W) s else (False, s)) = (there, s1)" by fastforce
    have same: "sy_fs s1 = sy_fs s" and tr1: "list_all (crash_safe W) (sy_trace s1)"
      using look tr regularFileExists_keeps [OF _ P [unfolded Before_def] Before_safe [OF W(1) P] tr] by (auto split: if_splits)
    have step: "(if there then (Inr (sw_backup W), s1)
        else replace_entry Y M hook (sw_path W) action (preserve \<or> asleep) (sw_file W) (sw_old W) parts root s1) = (r, s')"
      using run look [unfolded sw_backup_def] Inr rp parts
      by (simp add: edit_locked_def find_target_def [symmetric] asleep_def [symmetric] sw_backup_def split: if_splits)
    show ?thesis
    proof (cases "there")
      case True
      then have "asleep" using look by (auto split: if_splits)
      moreover have "Before W [] [] (sy_fs s1)" using P same unfolding Before_def by (auto elim: world_sub)
      ultimately show ?thesis using step True tr1 Inr rp parts by (auto simp: already_disabled_def asleep_def)
    next
      case False
      have P1: "?P (sy_fs s1)" using P same by simp
      show ?thesis
      proof (cases "yl_encode Y (edited_root action parts root)")
        case None
        then show ?thesis using step False tr1 P1 by (auto simp: replace_entry_def return_sys_def intro: Before_Open)
      next
        case (Some new)
        then have new: "sw_new W = Some new" using W(3) Inr rp by (simp add: edit_text_def)
        have "triple (crash_safe W) ?P (then_sys (atomicReplace (em_rnd M) hook (sw_path W) (sw_backup W) (sw_old W) new (sw_file W) (preserve \<or> asleep))
            (\<lambda>_. return_sys (Inr (sw_backup W)))) (\<lambda>_. Final W) (Open W)"
          by (rule triple_then [OF atomicReplace_triple [OF W(1) new W(2)] triple_return]) simp
        from tripleD [OF this P1 tr1, of r s'] step False Some show ?thesis
          by (cases r) (auto simp: replace_entry_def sw_backup_def Let_def)
      qed
    qed
  qed
qed

text \<open>A file system whose names and files are all on the disk.\<close>

definition at_rest :: "fs \<Rightarrow> bool" where
  "at_rest f \<longleftrightarrow> fs_versions f = [fs_names f]
     \<and> list_all (\<lambda>(p, n). case map_of (fs_nodes f) n of Some x \<Rightarrow> nd_kind x = RegularFile \<longrightarrow> nd_synced x | None \<Rightarrow> False) (fs_names f)"

lemma at_rest_node:
  assumes "at_rest f" and "map_of (fs_names f) p = Some n"
  obtains x where "map_of (fs_nodes f) n = Some x" and "nd_kind x = RegularFile \<Longrightarrow> nd_synced x"
  using assms map_of_SomeD [OF assms(2)] unfolding at_rest_def list_all_iff
  by (cases "map_of (fs_nodes f) n") fastforce+

definition bound_at :: "fs \<Rightarrow> string \<Rightarrow> (nat \<times> node) option" where
  "bound_at f p = Option.bind (lookup_node f p) (\<lambda>n. map_option (Pair n) (map_of (fs_nodes f) n))"

lemma at_rest_bound:
  assumes "at_rest f"
  shows "map_of (fs_names f) p = map_option fst (bound_at f p)" and "stored f (bound_at f p)"
    and "bound_at f p = Some (n, x) \<Longrightarrow> nd_kind x = RegularFile \<Longrightarrow> crash_holds f (fs_names f) p (nd_data x) \<and> nd_synced x"
proof -
  show "map_of (fs_names f) p = map_option fst (bound_at f p)" "stored f (bound_at f p)"
    by (cases "map_of (fs_names f) p"; auto simp: bound_at_def lookup_node_def stored_def elim: at_rest_node [OF assms])+
  assume "bound_at f p = Some (n, x)" "nd_kind x = RegularFile"
  then show "crash_holds f (fs_names f) p (nd_data x) \<and> nd_synced x"
    by (cases "map_of (fs_names f) p") (auto simp: bound_at_def lookup_node_def crash_holds_def elim: at_rest_node [OF assms])
qed

definition the_swap :: "yaml_lib \<Rightarrow> edit_action \<Rightarrow> string \<Rightarrow> fs \<Rightarrow> string \<Rightarrow> nat \<times> node \<Rightarrow> swap" where
  "the_swap Y action origin f path fl =
     \<lparr>sw_path = path, sw_file = fl, sw_new = edit_text Y action origin (nd_data (snd fl)),
      sw_keeps = (\<lambda>b. b = nd_data (snd fl) \<or> crash_holds f (fs_names f) (path @ BackupSuffix) b)\<rparr>"

lemma the_swap_sound:
  assumes "at_rest f" and "bound_at f path = Some fl" and "nd_kind (snd fl) = RegularFile"
  shows "sound_swap (the_swap Y action origin f path fl)"
    and "sound_backup (the_swap Y action origin f path fl) (bound_at f (path @ BackupSuffix))"
    and "Before (the_swap Y action origin f path fl) [(path @ BackupSuffix, bound_at f (path @ BackupSuffix))] [] f"
proof -
  obtain n x where fl: "fl = (n, x)" by fastforce
  show "sound_swap (the_swap Y action origin f path fl)"
    using at_rest_bound(3) [OF assms(1), of path n x] assms(2,3) fl
    by (simp add: sound_swap_def durable_def the_swap_def sw_old_def)
  show "sound_backup (the_swap Y action origin f path fl) (bound_at f (path @ BackupSuffix))"
    using at_rest_bound(3) [OF assms(1), of "path @ BackupSuffix"] by (auto simp: sound_backup_def the_swap_def)
  have "fs_versions f = [fs_names f]" using assms(1) by (simp add: at_rest_def)
  then show "Before (the_swap Y action origin f path fl) [(path @ BackupSuffix, bound_at f (path @ BackupSuffix))] [] f"
    using at_rest_bound(1,2) [OF assms(1), of path] at_rest_bound(1,2) [OF assms(1), of "path @ BackupSuffix"] assms(2)
    unfolding Before_def world_iff by (auto simp: the_swap_def)
qed

lemma editFile_phases:
  assumes rest: "at_rest f0" and fl: "bound_at f0 path = Some fl" "nd_kind (snd fl) = RegularFile"
    and parsed: "ParseOrigin origin = Inr u"
    and alone: "em_waits M = (\<lambda>_ f. f)"
    and run: "editFile Y M path origin action preserve hook \<lparr>sy_fs = f0, sy_faults = faults, sy_trace = [f0]\<rparr> = (res, s')"
  defines "W \<equiv> the_swap Y action (url_string u) f0 path fl"
  shows "list_all (crash_safe W) (sy_trace s')"
    and "res = Inr b \<Longrightarrow> Final W (sy_fs s')
      \<or> (action = DisableEntry \<and> already_disabled Y (url_string u) (sw_old W) \<and> Before W [] [] (sy_fs s'))"
proof -
  let ?s = "\<lparr>sy_fs = f0, sy_faults = faults, sy_trace = [f0]\<rparr>"
  let ?locked = "edit_locked Y M hook path (url_string u) action preserve"
  note sound = the_swap_sound [OF rest fl, of Y action "url_string u", folded W_def]
  have W: "sw_path W = path" "sw_backup W = path @ BackupSuffix" "sw_file W = fl" "sw_old W = nd_data (snd fl)"
    "sw_new W = edit_text Y action (url_string u) (sw_old W)"
    by (simp_all add: W_def the_swap_def sw_backup_def sw_old_def)
  have safe: "crash_safe W f0" by (rule Before_safe [OF sound(1,3)])
  obtain q s1 where snap: "openLockedSnapshot (em_waits M) path ?s = (q, s1)" by fastforce
  note opened = open_attempts_reads [OF snap [unfolded openLockedSnapshot_def alone]]
  have fs1: "sy_fs s1 = f0" and tr1: "list_all (crash_safe W) (sy_trace s1)"
    using opened safe by (auto simp: reads_only_def list_all_iff)
  let ?Q = "\<lambda>f. Final W f \<or> (action = DisableEntry \<and> already_disabled Y (url_string u) (sw_old W) \<and> Before W [] [] f)"
  have "list_all (crash_safe W) (sy_trace s') \<and> (\<forall>b. res = Inr b \<longrightarrow> ?Q (sy_fs s'))"
  proof (cases q)
    case (Inl e)
    then show ?thesis using run parsed snap tr1 by (auto simp: editFile_def then_sys_def)
  next
    case (Inr sn)
    have "snapshot_of f0 path sn" using opened Inr by simp
    then have sn: "sn = (fst fl, snd fl, nd_data (snd fl))"
      using fl(1) by (cases sn) (auto simp: snapshot_of_def bound_at_def)
    obtain r s2 where body: "?locked sn s1 = (r, s2)" by fastforce
    have fin: "res = r" "s' = snd (unlock_file s2)" using run parsed snap Inr body by (auto simp: editFile_def then_sys_def deferring_def)
    have "list_all (crash_safe W) (sy_trace s2)" "case r of Inr _ \<Rightarrow> ?Q (sy_fs s2) | Inl _ \<Rightarrow> Open W (sy_fs s2)"
      using tripleD [OF edit_locked_triple [OF sound(1), of "bound_at f0 (path @ BackupSuffix)" Y action "url_string u" M hook preserve] _ tr1, of r s2]
        sound(2,3) W sn body fs1 by simp_all
    moreover from this have "crash_safe W (sy_fs s2)"
      using Open_safe [OF sound(1)] Final_safe Before_safe [OF sound(1)] by (auto split: sum.splits)
    ultimately show ?thesis using unlock_reads [of s2] fin by (auto simp: reads_only_def list_all_iff split: sum.splits)
  qed
  then show "list_all (crash_safe W) (sy_trace s')" and "res = Inr b \<Longrightarrow> ?Q (sy_fs s')" by auto
qed

text \<open>C0: Safety: an edit of the configuration survives a crash at any point. Start from a file system at rest, with a
  regular file at the path, and let any of the system calls fail. In every file system the editor goes through,
  and for every state of the directory that a crash there can leave on the disk, the path holds the complete old
  text, or the complete new text with a backup beside it; the backup holds the old text, or what it held before.
  When the editor reports success, the new text is what every crash leaves, unless the entry was disabled and
  backed up already and there was nothing to write.\<close>

theorem interrupted_edit_keeps_old_or_new:
  assumes "at_rest f0" and "bound_at f0 path = Some (n, x)" and "nd_kind x = RegularFile" and "old = nd_data x"
    and "ParseOrigin origin = Inr u" and "em_waits M = (\<lambda>_ f. f)"
    and "editFile Y M path origin action preserve hook \<lparr>sy_fs = f0, sy_faults = faults, sy_trace = [f0]\<rparr> = (res, s')"
  shows "(\<forall>f \<in> set (sy_trace s'). \<forall>v \<in> crash_names f. crash_holds f v path old
      \<or> (\<exists>new b. edit_text Y action (url_string u) old = Some new \<and> crash_holds f v path new
           \<and> crash_holds f v (path @ BackupSuffix) b \<and> (b = old \<or> crash_holds f0 (fs_names f0) (path @ BackupSuffix) b)))
    \<and> (\<forall>b. res = Inr b \<longrightarrow> (\<forall>v \<in> crash_names (sy_fs s').
      (\<exists>new. edit_text Y action (url_string u) old = Some new \<and> crash_holds (sy_fs s') v path new)
      \<or> (action = DisableEntry \<and> already_disabled Y (url_string u) old \<and> crash_holds (sy_fs s') v path old)))"
proof -
  define W where "W = the_swap Y action (url_string u) f0 path (n, x)"
  have W: "sw_path W = path" "sw_backup W = path @ BackupSuffix" "sw_old W = old" "sw_new W = edit_text Y action (url_string u) old"
    "sw_keeps W b \<longleftrightarrow> b = old \<or> crash_holds f0 (fs_names f0) (path @ BackupSuffix) b" for b
    using assms(4) by (simp_all add: W_def the_swap_def sw_backup_def sw_old_def)
  note phases = editFile_phases [OF assms(1,2) _ assms(5-7), folded W_def]
  have trace: "list_all (crash_safe W) (sy_trace s')" using phases(1) assms(3) by simp
  have sound: "sound_swap W" using the_swap_sound(1) [OF assms(1,2)] assms(3) by (simp add: W_def)
  have old: "crash_holds f v path old" if "Before W [] [] f" "v \<in> set (fs_versions f)" for f v
    using world_durable [OF that(1) [unfolded Before_def], of path "Some (sw_file W)" v] that(2) sound W assms(3,4)
    by (cases "sw_file W") (auto simp: sound_swap_def crash_holds_def stored_def durable_def)
  have "\<forall>v \<in> crash_names (sy_fs s').
      (\<exists>new. edit_text Y action (url_string u) old = Some new \<and> crash_holds (sy_fs s') v path new)
      \<or> (action = DisableEntry \<and> already_disabled Y (url_string u) old \<and> crash_holds (sy_fs s') v path old)"
    if "res = Inr b" for b
    using phases(2) [OF _ that] assms(3) old Final_holds [of W "sy_fs s'"] W unfolding crash_names_def by (metis snd_conv)
  moreover have "\<forall>f \<in> set (sy_trace s'). \<forall>v \<in> crash_names f. crash_holds f v path old
      \<or> (\<exists>new b. edit_text Y action (url_string u) old = Some new \<and> crash_holds f v path new
           \<and> crash_holds f v (path @ BackupSuffix) b \<and> (b = old \<or> crash_holds f0 (fs_names f0) (path @ BackupSuffix) b))"
    using trace W unfolding list_all_iff crash_safe_def crash_names_def by metis
  ultimately show ?thesis by blast
qed

text \<open>C0: Error: a retry after a failed synchronisation reports success without it. When the file at the path says that
  the entry is disabled and there is a backup, \<open>DisableFile\<close> returns at once and changes nothing. So a state of the
  directory in which the path still holds the earlier text, which the first attempt left on the disk when its
  last \<open>fsync\<close> failed, stays possible: after a crash the entry can be enabled again although the command went on
  to unregister the relay.\<close>

theorem retried_disable_is_not_durable:
  assumes "bound_at f path = Some (n, x)" and "nd_kind x = RegularFile" and "int (length (nd_data x)) \<le> maximumConfigBytes"
    and "ParseOrigin origin = Inr u" and "already_disabled Y (url_string u) (nd_data x)"
    and "bound_at f (path @ BackupSuffix) = Some (k, z)" and "nd_kind z = RegularFile"
    and "em_waits M = (\<lambda>_ f. f)" and "v \<in> crash_names f" and "crash_holds f v path old"
  shows "\<exists>s'. DisableFile Y M path origin \<lparr>sy_fs = f, sy_faults = [], sy_trace = tr\<rparr> = (Inr (path @ BackupSuffix), s')
    \<and> sy_fs s' = f \<and> v \<in> crash_names (sy_fs s') \<and> crash_holds (sy_fs s') v path old"
proof -
  obtain root before item after where target: "find_target Y (url_string u) (nd_data x) = Inr (root, before, item, after)"
    and off: "\<not> was_enabled Y item"
    using assms(5) by (auto simp: already_disabled_def split: sum.splits)
  have look: "lookup_node f path = Some n" "map_of (fs_nodes f) n = Some x" "lookup_node f (path @ BackupSuffix) = Some k"
    "map_of (fs_nodes f) k = Some z"
    using assms(1,6) by (auto simp: bound_at_def split: option.splits bind_splits)
  have call: "syscall eff \<lparr>sy_fs = g, sy_faults = [], sy_trace = tr\<rparr>
      = (case eff g of (r, g') \<Rightarrow> (r, \<lparr>sy_fs = g', sy_faults = [], sy_trace = g' # tr\<rparr>))"
    for eff :: "fs \<Rightarrow> 'z result \<times> fs" and g tr by (simp add: syscall_def)
  note calls = lstat_def open_nofollow_def fstat_def read_all_def flock_def meanwhile_def then_sys_def node_of_def
    close_file_def unlock_file_def deferring_def
  have "openLockedSnapshot (em_waits M) path \<lparr>sy_fs = f, sy_faults = [], sy_trace = tr\<rparr>
      = (Inr (n, x, nd_data x), \<lparr>sy_fs = f, sy_faults = [], sy_trace = f # f # f # f # f # f # tr\<rparr>)"
    using look assms(2,3,8)
    by (simp add: openLockedSnapshot_def numeral_eq_Suc read_locked_def calls call)
  then show ?thesis using look assms(4,7,9,10) target off
    by (simp add: DisableFile_def editFile_def then_sys_def deferring_def edit_locked_def find_target_def [symmetric]
        regularFileExists_def calls call)
qed

section \<open>An example\<close>

text \<open>A YAML library for three texts: a configuration with one directory, enabled or disabled, and one without.\<close>

definition sample_scalar :: "string \<Rightarrow> string \<Rightarrow> yaml_node" where
  "sample_scalar tag v = Node ScalarNode tag v [] 0 []"

definition sample_root :: "string list \<Rightarrow> yaml_node" where
  "sample_root flags = Node MappingNode ''!!map'' [] [] 0
     [sample_scalar ''!!str'' ''DIRECTORIES'', Node SequenceNode ''!!seq'' [] [] 0 (map (\<lambda>flag.
        Node MappingNode ''!!map'' [] [] 0 [sample_scalar ''!!str'' ''origin'', sample_scalar ''!!str'' ''https://d.ex'',
          sample_scalar ''!!str'' ''enabled'', sample_scalar ''!!bool'' flag]) flags)]"

definition sample_flags :: "string \<Rightarrow> string list option" where
  "sample_flags body = (if body = ''on'' then Some [''true''] else if body = ''off'' then Some [''false'']
     else if body = ''none'' then Some [] else None)"

definition sample_yaml :: yaml_lib where
  "sample_yaml = \<lparr>yl_documents = (\<lambda>body. case sample_flags body of
       Some flags \<Rightarrow> ([Node DocumentNode [] [] [] 0 [sample_root flags]], True) | None \<Rightarrow> ([], False)),
     yl_unmarshal = (\<lambda>_. None),
     yl_bool = (\<lambda>n. if yn_value n = ''true'' then Some True else if yn_value n = ''false'' then Some False else None),
     yl_encode = (\<lambda>n. List.find (\<lambda>body. map_option sample_root (sample_flags body) = Some n) [''on'', ''off'', ''none''])\<rparr>"

definition sample_node :: "string \<Rightarrow> node" where
  "sample_node body = \<lparr>nd_kind = RegularFile, nd_data = body, nd_synced = True, nd_mode = 420, nd_owner = (0, 0)\<rparr>"

definition sample_fs :: fs where
  "sample_fs = \<lparr>fs_names = [(''c'', 1)], fs_nodes = [(1, sample_node ''on'')], fs_versions = [[(''c'', 1)]]\<rparr>"

definition sample_edit :: edit_moments where
  "sample_edit = \<lparr>em_waits = (\<lambda>_ f. f), em_rnd = (\<lambda>_ _. 7)\<rparr>"

definition sample_disable :: "bool list \<Rightarrow> fs \<Rightarrow> (config_error + string) \<times> sys" where
  "sample_disable faults f = DisableFile sample_yaml sample_edit ''c'' ''https://d.ex'' \<lparr>sy_fs = f, sy_faults = faults, sy_trace = [f]\<rparr>"

lemma sample_disable_run: "sample_disable faults f = editFile sample_yaml sample_edit ''c'' ''https://d.ex'' DisableEntry False None
    \<lparr>sy_fs = f, sy_faults = faults, sy_trace = [f]\<rparr>"
  by (simp add: sample_disable_def DisableFile_def)

definition sample_origin :: url where
  "sample_origin = (case ParseOrigin ''https://d.ex'' of Inr u \<Rightarrow> u | Inl _ \<Rightarrow> empty_url)"

lemma sample_origin_parsed: "ParseOrigin ''https://d.ex'' = Inr sample_origin" "url_string sample_origin = ''https://d.ex''"
  by code_simp+

theorem interrupted_edit_keeps_old_or_new_witness:
  "fst (sample_disable [] sample_fs) = Inr (''c'' @ BackupSuffix)
   \<and> (\<forall>f \<in> set (sy_trace (snd (sample_disable [] sample_fs))). \<forall>v \<in> crash_names f. crash_holds f v ''c'' ''on''
      \<or> crash_holds f v ''c'' ''off'' \<and> crash_holds f v (''c'' @ BackupSuffix) ''on'')
   \<and> (\<forall>v \<in> crash_names (sy_fs (snd (sample_disable [] sample_fs))). crash_holds (sy_fs (snd (sample_disable [] sample_fs))) v ''c'' ''off'')"
proof -
  have start: "at_rest sample_fs" "bound_at sample_fs ''c'' = Some (1, sample_node ''on'')" "nd_kind (sample_node ''on'') = RegularFile"
    "''on'' = nd_data (sample_node ''on'')" "map_of (fs_names sample_fs) (''c'' @ BackupSuffix) = None" by code_simp+
  have alone: "em_waits sample_edit = (\<lambda>_ f. f)" by (simp add: sample_edit_def)
  have off: "edit_text sample_yaml DisableEntry ''https://d.ex'' ''on'' = Some ''off''"
    "already_disabled sample_yaml ''https://d.ex'' ''on'' = False" "fst (sample_disable [] sample_fs) = Inr (''c'' @ BackupSuffix)"
    by code_simp+
  have run: "editFile sample_yaml sample_edit ''c'' ''https://d.ex'' DisableEntry False None
      \<lparr>sy_fs = sample_fs, sy_faults = [], sy_trace = [sample_fs]\<rparr> = (Inr (''c'' @ BackupSuffix), snd (sample_disable [] sample_fs))"
    using off(3) by (metis sample_disable_run prod.collapse)
  have none: "\<not> crash_holds sample_fs (fs_names sample_fs) (''c'' @ BackupSuffix) b" for b
    using start(5) by (simp add: crash_holds_def)
  show ?thesis
    using interrupted_edit_keeps_old_or_new [OF start(1-4) sample_origin_parsed(1) alone run] off none sample_origin_parsed(2)
    by auto
qed

text \<open>The first attempt loses its last \<open>fsync\<close>, the second one reports success, and a crash brings the enabled entry back.\<close>

definition failed_once :: fs where
  "failed_once = sy_fs (snd (sample_disable (replicate 25 False @ [True]) sample_fs))"

theorem retried_disable_is_not_durable_witness:
  "fst (sample_disable (replicate 25 False @ [True]) sample_fs) = Inl ErrConfiguration
   \<and> fst (sample_disable [] failed_once) = Inr (''c'' @ BackupSuffix)
   \<and> (\<exists>v \<in> crash_names (sy_fs (snd (sample_disable [] failed_once))).
        crash_holds (sy_fs (snd (sample_disable [] failed_once))) v ''c'' ''on'')"
proof -
  have first: "fst (sample_disable (replicate 25 False @ [True]) sample_fs) = Inl ErrConfiguration" by code_simp
  have state: "bound_at failed_once ''c'' = Some (2, sample_node ''off'')" "nd_kind (sample_node ''off'') = RegularFile"
    "int (length (nd_data (sample_node ''off''))) \<le> maximumConfigBytes"
    "already_disabled sample_yaml (url_string sample_origin) (nd_data (sample_node ''off''))"
    "bound_at failed_once (''c'' @ BackupSuffix) = Some (3, sample_node ''on'')" "nd_kind (sample_node ''on'') = RegularFile"
    by code_simp+
  have alone: "em_waits sample_edit = (\<lambda>_ f. f)" by (simp add: sample_edit_def)
  have versions: "fs_versions failed_once ! 1 \<in> set (fs_versions failed_once)"
    "crash_holds failed_once (fs_versions failed_once ! 1) ''c'' ''on''" by code_simp+
  have "fs_versions failed_once ! 1 \<in> crash_names failed_once" using versions(1) by (simp add: crash_names_def)
  from retried_disable_is_not_durable [OF state(1-3) sample_origin_parsed(1) state(4-6) alone this versions(2), of "[failed_once]"]
  show ?thesis using first by (auto simp: sample_disable_def)
qed

end
