(* ===== verification/Spec2Isabelle.thy ===== *)
theory Spec2Isabelle
  imports Capability_Store Observability Delivery_Facts Announce_Facts Decode_Facts Directory_Scheduler_Facts Directory_Editor_Facts
begin
end
